(* ===== verification/Unity_Prelude.thy ===== *)
theory Unity_Prelude
  imports Main "HOL-Library.Word"
begin

text \<open>
  Shared vocabulary of the development: the machine types of the Unity test framework on the
  LP64 little-endian target (AArch64: 32-bit \<^verbatim>\<open>int\<close>, 64-bit \<^verbatim>\<open>long\<close> and pointers, unsigned
  \<^verbatim>\<open>char\<close>), C strings, and the reference notions of decimal and hexadecimal numerals and of
  printable characters against which the printing routines are verified.

  A C string pointer (\<^verbatim>\<open>const char *\<close>) is a value of type \<open>cstr\<close>: \<^term>\<open>None\<close> is the null
  pointer and \<^term>\<open>Some s\<close> points to the characters \<open>s\<close>, followed by a terminating NUL. A NUL
  inside \<open>s\<close> ends the C string there, and the readers of the development honour that.
\<close>

unbundle bit_operations_syntax

section \<open>Types\<close>

type_synonym UNITY_UINT8 = "8 word"
type_synonym UNITY_UINT16 = "16 word"
type_synonym UNITY_UINT32 = "32 word"
type_synonym UNITY_UINT = "64 word"
type_synonym UNITY_INT = "64 word"
type_synonym UNITY_LINE_TYPE = "64 word"
type_synonym UNITY_COUNTER_TYPE = "64 word"
type_synonym cstr = "string option"

text \<open>The C string in a buffer ends before the first NUL.\<close>

abbreviation NUL :: char where "NUL \<equiv> CHR 0x00"

definition c_chars :: "string \<Rightarrow> string" where
  "c_chars s = takeWhile (\<lambda>c. c \<noteq> NUL) s"

named_theorems unity_defs \<open>definitions that open an operation up to its control flow\<close>

section \<open>Lists\<close>

lemma find_map: "find P (map f xs) = map_option f (find (P \<circ> f) xs)"
  by (induction xs) auto

lemma find_upt_Suc:
  "find P [0..<Suc n] = (if P 0 then Some 0 else map_option Suc (find (\<lambda>i. P (Suc i)) [0..<n]))"
proof -
  have "[0..<Suc n] = 0 # map Suc [0..<n]"
    by (simp add: map_Suc_upt upt_conv_Cons del: upt_Suc)
  then show ?thesis by (simp add: find_map comp_def del: upt_Suc)
qed

lemma find_upt_SomeD: "find P [0..<n] = Some i \<Longrightarrow> i < n \<and> P i"
  by (auto simp: find_Some_iff)

lemma find_upt_first:
  assumes "i < n" "\<not> P i" "\<forall>j < i. P j"
  shows "find (\<lambda>j. \<not> P j) [0..<n] = Some i"
proof -
  have "[0..<n] = [0..<i] @ i # [Suc i..<n]"
    using assms(1) upt_add_eq_append [of 0 i "n - i"] by (simp add: upt_conv_Cons)
  moreover have "find (\<lambda>j. \<not> P j) (xs @ i # ys) = Some i" if "\<forall>j \<in> set xs. P j" for xs ys
    using that assms(2) by (induction xs) auto
  ultimately show ?thesis using assms(3) by auto
qed

lemma find_upt_None_iff: "find P [0..<n] = None \<longleftrightarrow> (\<forall>i<n. \<not> P i)"
  by (auto simp: find_None_iff)

section \<open>Words\<close>

lemma index_word: "i < unat num \<Longrightarrow> num - word_of_nat (unat num - Suc i) - 1 = word_of_nat i"
  for num :: "32 word"
  by simp


lemma unat_less_2_64: "unat (w :: 64 word) < 2 ^ 64"
  using unsigned_less [of w] by simp

lemma unat_less_2_32: "unat (w :: 32 word) < 2 ^ 32"
  using unsigned_less [of w] by simp

lemma sint_scast_64:
  assumes "LENGTH('a) \<le> 64"
  shows "sint (scast (u :: 'a::len word) :: 64 word) = sint u"
proof -
  have "(2 :: int) ^ (LENGTH('a) - Suc 0) \<le> 2 ^ 63" using assms by (intro power_increasing) simp_all
  with sint_greater_eq [of u] sint_less [of u]
  have "- (2 ^ 63) \<le> sint u" "sint u < 2 ^ 63" by linarith+
  then show ?thesis by (simp add: signed_scast_eq signed_take_bit_int_eq_self)
qed

lemma scast_64_eq_iff:
  "LENGTH('a) \<le> 64 \<Longrightarrow> (scast (u :: 'a::len word) :: 64 word) = scast v \<longleftrightarrow> u = v"
  by (metis sint_scast_64 signed_word_eqI)

lemma uint_ucast_64:
  assumes "LENGTH('a) \<le> 64"
  shows "uint (ucast (u :: 'a::len word) :: 64 word) = uint u"
proof -
  have "(2 :: int) ^ LENGTH('a) \<le> 2 ^ 64" using assms by (intro power_increasing) simp_all
  with uint_bounded [of u] have "uint u < 2 ^ 64" by linarith
  then show ?thesis by (simp add: unsigned_ucast_eq take_bit_int_eq_self)
qed

lemma ucast_64_eq_iff:
  "LENGTH('a) \<le> 64 \<Longrightarrow> (ucast (u :: 'a::len word) :: 64 word) = ucast v \<longleftrightarrow> u = v"
  by (metis uint_ucast_64 unsigned_word_eqI)

lemma word_of_int_eq_mod:
  "(word_of_int x :: 'a::len word) = word_of_int y \<longleftrightarrow> x mod 2 ^ LENGTH('a) = y mod 2 ^ LENGTH('a)"
  by (simp add: word_of_int_eq_iff take_bit_eq_mod)

lemma sint_word_of_int_fits:
  "- (2 ^ (LENGTH('a) - 1)) \<le> x \<Longrightarrow> x < 2 ^ (LENGTH('a) - 1) \<Longrightarrow> sint (word_of_int x :: 'a::len word) = x"
  by (simp add: sint_sbintrunc' signed_take_bit_int_eq_self)

lemma word_of_nat_inj_less:
  "a < 2 ^ LENGTH('a) \<Longrightarrow> b < 2 ^ LENGTH('a) \<Longrightarrow>
   (word_of_nat a :: 'a::len word) = word_of_nat b \<longleftrightarrow> a = b"
  by (simp add: word_of_nat_eq_iff take_bit_nat_eq_self)

lemma unat_mod_ucast: "unat (y :: 64 word) mod 2 ^ LENGTH('a) = unat (ucast y :: 'a::len word)"
  by (simp add: unsigned_ucast_eq take_bit_eq_mod)

lemma low_bits_scast:
  assumes "LENGTH('a) \<le> 64"
  shows "unat (scast (u :: 'a::len word) :: 64 word) mod 2 ^ LENGTH('a) = unat u"
proof -
  have "min (LENGTH('a) - Suc 0) n = n" if "n < LENGTH('a)" for n using that by simp
  then have "(ucast (scast u :: 64 word) :: 'a word) = u"
    using assms by (intro bit_word_eqI) (simp add: bit_simps)
  then show ?thesis by (simp add: unat_mod_ucast)
qed

lemma low_bits_ucast:
  assumes "LENGTH('a) \<le> 64"
  shows "unat (ucast (u :: 'a::len word) :: 64 word) mod 2 ^ LENGTH('a) = unat u"
proof -
  have "(ucast (ucast u :: 64 word) :: 'a word) = u"
    using assms by (intro bit_word_eqI) (auto simp: bit_simps)
  then show ?thesis by (simp add: unat_mod_ucast)
qed

lemma unat_word_of_int: "unat (word_of_int x :: 'a::len word) = nat (x mod 2 ^ LENGTH('a))"
  by (simp add: unat_eq_nat_uint uint_word_of_int)

lemma low_bits_cast:
  assumes "LENGTH('a) \<le> 64"
  shows "unat (scast (word_of_int x :: 'a::len word) :: 64 word) mod 2 ^ LENGTH('a) = nat (x mod 2 ^ LENGTH('a))"
    and "unat (ucast (word_of_int x :: 'a::len word) :: 64 word) mod 2 ^ LENGTH('a) = nat (x mod 2 ^ LENGTH('a))"
  using assms by (simp_all only: low_bits_scast low_bits_ucast unat_word_of_int)

lemma ucast_word_of_nat_32 [simp]: "(ucast (word_of_nat n :: 64 word) :: 32 word) = word_of_nat n"
  by (rule bit_word_eqI) (simp add: bit_simps)

lemma unat_plus_one_less: "(r :: 'a::len word) < c \<Longrightarrow> unat (r + 1) = unat r + 1"
proof -
  assume "r < c"
  moreover have "unat c < 2 ^ LENGTH('a)" by (rule unsigned_less)
  ultimately have "unat r + 1 < 2 ^ LENGTH('a)"
    unfolding word_less_nat_alt by linarith
  then show ?thesis by (simp add: unat_word_ariths)
qed

lemma sint_64_bounds: "- (2 ^ 63) \<le> sint (w :: 64 word)" "sint (w :: 64 word) < 2 ^ 63"
  using sint_greater_eq [of w] sint_less [of w] by simp_all

lemma uint_sint_64: "uint (w :: 64 word) = sint w mod 2 ^ 64"
  by (simp add: uint_sint take_bit_eq_mod)

lemma uint_sint_8: "uint (w :: 8 word) = sint w mod 256"
  by (simp add: uint_sint take_bit_eq_mod)

lemma mod_sign_extend:
  fixes s h N :: int
  assumes "- h \<le> s" "s < h" "2 * h \<le> N"
  shows "s mod N = (if s mod (2 * h) < h then s mod (2 * h) else N - 2 * h + s mod (2 * h))"
proof (cases "s < 0")
  case True
  have "(s + 2 * h) mod (2 * h) = s + 2 * h" "(s + N) mod N = s + N"
    using True assms by (intro mod_pos_pos_trivial; linarith)+
  then have "s mod (2 * h) = s + 2 * h" "s mod N = s + N" by simp_all
  then show ?thesis using assms(1) by simp
next
  case False
  then have "s mod (2 * h) = s" "s mod N = s"
    using assms by (intro mod_pos_pos_trivial; linarith)+
  then show ?thesis using assms(2) by simp
qed

lemma uint_scast_8:
  fixes b :: "8 word"
  shows "uint (scast b :: 64 word) = (if uint b < 128 then uint b else 18446744073709551360 + uint b)"
proof -
  have "uint (scast b :: 64 word) = sint b mod 18446744073709551616"
    using uint_sint_64 [of "scast b"] by (simp add: sint_scast_64)
  then show ?thesis
    using mod_sign_extend [of 128 "sint b" 18446744073709551616] sint_greater_eq [of b] sint_less [of b]
    by (simp add: uint_sint_8)
qed

lemma uint_scast_32:
  fixes b :: "32 word"
  shows "uint (scast b :: 64 word) = (if uint b < 2147483648 then uint b else 18446744069414584320 + uint b)"
proof -
  have "uint (scast b :: 64 word) = sint b mod 18446744073709551616"
    using uint_sint_64 [of "scast b"] by (simp add: sint_scast_64)
  moreover have "uint b = sint b mod 4294967296" by (simp add: uint_sint take_bit_eq_mod)
  ultimately show ?thesis
    using mod_sign_extend [of 2147483648 "sint b" 18446744073709551616] sint_greater_eq [of b] sint_less [of b]
    by simp
qed

lemma unat_scast_32:
  assumes "v < 4294967296"
  shows "unat (scast (word_of_nat v :: 32 word) :: 64 word) = (if 2147483648 \<le> v then v + 18446744069414584320 else v)"
proof -
  have "uint (word_of_nat v :: 32 word) = int v" using assms by (simp add: unsigned_of_nat take_bit_nat_eq_self)
  then have "uint (scast (word_of_nat v :: 32 word) :: 64 word) = (if v < 2147483648 then int v else 18446744069414584320 + int v)"
    using uint_scast_32 [of "word_of_nat v"] by simp
  then show ?thesis by (simp add: unat_eq_nat_uint nat_add_distrib split: if_splits)
qed

lemma unat_scast_masked:
  assumes "LENGTH('b::len) < 64"
  shows "unat ((scast (x :: 'b word) :: 64 word) AND (push_bit LENGTH('b) 1 - 1)) = unat x"
proof -
  have "(scast x :: 64 word) AND (push_bit LENGTH('b) 1 - 1) = take_bit LENGTH('b) (scast x)"
    by (simp add: take_bit_eq_mask mask_eq_exp_minus_1 push_bit_eq_mult)
  then have "unat ((scast x :: 64 word) AND (push_bit LENGTH('b) 1 - 1)) = unat (scast x :: 64 word) mod 2 ^ LENGTH('b)"
    by (simp only: unsigned_take_bit_eq) (simp only: take_bit_eq_mod)
  then show ?thesis using low_bits_scast [of x] assms by simp
qed


lemma unat_sint_nonneg: "0 \<le> sint (w :: 64 word) \<Longrightarrow> unat w = nat (sint w)"
  using sint_64_bounds [of w] by (simp add: unat_eq_nat_uint uint_sint_64)

lemma unat_uminus_sint: "sint (w :: 64 word) < 0 \<Longrightarrow> unat (- w) = nat (- sint w)"
proof -
  assume neg: "sint w < 0"
  have "uint (- w) = (- sint w) mod 2 ^ 64"
    using uint_word_ariths(4) [of w] by (simp only: uint_sint_64 [of w]) (simp add: mod_minus_eq)
  also have "\<dots> = - sint w"
    using neg sint_64_bounds [of w] by simp
  finally show ?thesis by (simp add: unat_eq_nat_uint)
qed

lemma bit_probe: "2 ^ i AND w \<noteq> 0 \<longleftrightarrow> bit (w :: 64 word) i"
  using and_exp_eq_0_iff_not_bit [of w i] by (simp add: and.commute)

lemma drop_bit_one_exp: "Suc k < 64 \<Longrightarrow> drop_bit 1 (2 ^ Suc k :: 64 word) = 2 ^ k"
  by (subst drop_bit_exp_eq) simp

lemma div_gt_9_iff: "0 < (d::nat) \<Longrightarrow> 9 < n div d \<longleftrightarrow> 10 * d \<le> n"
  using less_eq_div_iff_mult_less_eq [of d 10 n] by (simp add: Suc_le_eq [symmetric])


section \<open>Characters and numerals\<close>

text \<open>\<open>out_char\<close> is what \<^verbatim>\<open>putchar\<close> writes for an integer, \<open>char_val\<close> the promoted value of a
  \<^verbatim>\<open>char\<close>.\<close>

definition out_char :: "UNITY_UINT \<Rightarrow> char" where
  "out_char x = char_of (unat x)"

definition char_val :: "char \<Rightarrow> UNITY_UINT" where
  "char_val c = word_of_nat (of_char c)"

lemma unat_char_val [simp]: "unat (char_val c) = of_char c"
proof -
  have "(of_char c :: nat) < 18446744073709551616"
    using nat_of_char_less_256 [of c] by linarith
  then show ?thesis by (simp add: char_val_def unat_of_nat)
qed

lemma out_char_val [simp]: "out_char (char_val c) = c"
  by (simp add: out_char_def)

subsection \<open>Decimal numerals\<close>

definition dec_digit :: "nat \<Rightarrow> char" where
  "dec_digit d = char_of (48 + d)"

fun dec_string :: "nat \<Rightarrow> string" where
  "dec_string n = (if n < 10 then [dec_digit n] else dec_string (n div 10) @ [dec_digit (n mod 10)])"

declare dec_string.simps [simp del]

fun dec_value_from :: "nat \<Rightarrow> string \<Rightarrow> nat" where
  "dec_value_from acc [] = acc"
| "dec_value_from acc (c # cs) = dec_value_from (acc * 10 + (of_char c - 48)) cs"

abbreviation dec_value :: "string \<Rightarrow> nat" where
  "dec_value s \<equiv> dec_value_from 0 s"

definition is_dec_digit :: "char \<Rightarrow> bool" where
  "is_dec_digit c \<longleftrightarrow> 48 \<le> (of_char c :: nat) \<and> (of_char c :: nat) \<le> 57"

lemma of_char_dec_digit [simp]: "d < 10 \<Longrightarrow> of_char (dec_digit d) = (48 + d :: nat)"
  by (simp add: dec_digit_def)

lemma is_dec_digit_dec_digit [simp]: "d < 10 \<Longrightarrow> is_dec_digit (dec_digit d)"
  by (simp add: is_dec_digit_def)

lemma dec_value_from_append:
  "dec_value_from acc (s @ t) = dec_value_from (dec_value_from acc s) t"
  by (induction s arbitrary: acc) auto

lemma dec_string_nonempty [simp]: "dec_string n \<noteq> []"
  by (subst dec_string.simps) simp

lemma dec_value_dec_string [simp]: "dec_value (dec_string n) = n"
proof (induction n rule: dec_string.induct)
  case (1 n)
  then show ?case
    by (subst dec_string.simps) (auto simp: dec_value_from_append)
qed

lemma dec_string_digits: "c \<in> set (dec_string n) \<Longrightarrow> is_dec_digit c"
proof (induction n rule: dec_string.induct)
  case (1 n)
  then show ?case
    by (subst (asm) dec_string.simps) (auto split: if_splits)
qed

lemma dec_string_no_leading_zero: "0 < n \<Longrightarrow> hd (dec_string n) \<noteq> CHR ''0''"
proof (induction n rule: dec_string.induct)
  case (1 n)
  show ?case
  proof (cases "n < 10")
    case True
    have "of_char (dec_digit n) \<noteq> (of_char CHR ''0'' :: nat)"
      using True \<open>0 < n\<close> by simp
    then have "dec_digit n \<noteq> CHR ''0''" by auto
    with True show ?thesis by (simp add: dec_string.simps [of n])
  next
    case False
    then show ?thesis
      using 1 by (simp add: dec_string.simps [of n] hd_append)
  qed
qed

text \<open>The \<open>k + 1\<close> last decimal digits of \<open>n\<close>, with leading zeros.\<close>

fun dec_fixed :: "nat \<Rightarrow> nat \<Rightarrow> string" where
  "dec_fixed n 0 = [dec_digit (n mod 10)]"
| "dec_fixed n (Suc k) = dec_digit (n div 10 ^ Suc k mod 10) # dec_fixed n k"

lemma dec_fixed_snoc: "dec_fixed n (Suc k) = dec_fixed (n div 10) k @ [dec_digit (n mod 10)]"
proof (induction k)
  case 0 show ?case by simp
next
  case (Suc k)
  have "dec_fixed n (Suc (Suc k)) = dec_digit (n div 10 ^ Suc (Suc k) mod 10) # dec_fixed n (Suc k)"
    by simp
  also have "n div 10 ^ Suc (Suc k) = n div 10 div 10 ^ Suc k"
    by (simp only: power_Suc [of 10 "Suc k"] div_mult2_eq)
  finally show ?case unfolding Suc.IH by simp
qed

lemma dec_fixed_eq_dec_string:
  "(k = 0 \<or> 10 ^ k \<le> n) \<Longrightarrow> n < 10 ^ Suc k \<Longrightarrow> dec_fixed n k = dec_string n"
proof (induction k arbitrary: n)
  case 0
  then show ?case by (simp add: dec_string.simps [of n])
next
  case (Suc k)
  then have "10 ^ k \<le> n div 10" "n div 10 < 10 ^ Suc k" "\<not> n < 10"
    by (simp_all add: less_eq_div_iff_mult_less_eq less_mult_imp_div_less mult.commute)
       (use order.trans [of "10" "10 * 10 ^ k" n] in simp)
  then have "dec_fixed (n div 10) k = dec_string (n div 10)" using Suc.IH by blast
  with \<open>\<not> n < 10\<close> show ?case
    by (simp only: dec_fixed_snoc dec_string.simps [of n] if_False)
qed

lemma out_char_dec: "unat d < 10 \<Longrightarrow> out_char (48 + d) = dec_digit (unat d)"
proof -
  assume "unat d < 10"
  then have "unat (48 + d) = 48 + unat d"
    by (simp add: unat_word_ariths)
  then show ?thesis by (simp add: out_char_def dec_digit_def)
qed


subsection \<open>Hexadecimal numerals\<close>

definition hex_digit :: "nat \<Rightarrow> char" where
  "hex_digit d = (if d < 10 then char_of (48 + d) else char_of (55 + d))"

fun hex_digit_value :: "char \<Rightarrow> nat" where
  "hex_digit_value c = (if is_dec_digit c then of_char c - 48 else of_char c - 55)"

fun hex_value_from :: "nat \<Rightarrow> string \<Rightarrow> nat" where
  "hex_value_from acc [] = acc"
| "hex_value_from acc (c # cs) = hex_value_from (acc * 16 + hex_digit_value c) cs"

abbreviation hex_value :: "string \<Rightarrow> nat" where
  "hex_value s \<equiv> hex_value_from 0 s"

lemma hex_digit_value_hex_digit [simp]: "d < 16 \<Longrightarrow> hex_digit_value (hex_digit d) = d"
  by (auto simp: hex_digit_def is_dec_digit_def)

fun hex_fixed :: "nat \<Rightarrow> nat \<Rightarrow> string" where
  "hex_fixed n 0 = []"
| "hex_fixed n (Suc k) = hex_digit (n div 16 ^ k mod 16) # hex_fixed n k"

lemma length_hex_fixed [simp]: "length (hex_fixed n k) = k"
  by (induction k) auto

lemma hex_value_from_hex_fixed: "hex_value_from acc (hex_fixed n k) = acc * 16 ^ k + n mod 16 ^ k"
proof (induction k arbitrary: acc)
  case 0
  show ?case by simp
next
  case (Suc k)
  have "n mod 16 ^ Suc k = 16 ^ k * (n div 16 ^ k mod 16) + n mod 16 ^ k"
    using mod_mult2_eq [of n "16 ^ k" 16] by (simp add: mult.commute)
  then show ?case by (simp add: Suc.IH algebra_simps del: hex_digit_value.simps)
qed


subsection \<open>Printable characters\<close>

definition is_print :: "char \<Rightarrow> bool" where
  "is_print c \<longleftrightarrow> 32 \<le> (of_char c :: nat) \<and> (of_char c :: nat) \<le> 126"

lemma is_print_hex_digit [simp]: "d < 16 \<Longrightarrow> is_print (hex_digit d)"
  by (auto simp: hex_digit_def is_print_def)

lemma is_print_hex_fixed: "c \<in> set (hex_fixed n k) \<Longrightarrow> is_print c"
  by (induction k) auto

lemma is_print_dec_digit: "is_dec_digit c \<Longrightarrow> is_print c"
  by (auto simp: is_dec_digit_def is_print_def)

end
