(* ===== verification/Unity_Output.thy ===== *)
theory Unity_Output
  imports Unity_Prelude
begin

text \<open>
  The pretty printers of \<^verbatim>\<open>src/unity/unity.c\<close> (\<^verbatim>\<open>UnityPrintChar\<close> to \<^verbatim>\<open>UnityPrintMask\<close>) and the
  display styles of \<^verbatim>\<open>src/unity/unity_internals.h\<close>. Every printer is the function from its
  arguments to the characters it hands to \<^verbatim>\<open>UNITY_OUTPUT_CHAR\<close>, in order.
\<close>

section \<open>Display styles\<close>

definition UNITY_DISPLAY_RANGE_INT :: UNITY_UINT32 where "UNITY_DISPLAY_RANGE_INT = 0x10"
definition UNITY_DISPLAY_RANGE_UINT :: UNITY_UINT32 where "UNITY_DISPLAY_RANGE_UINT = 0x20"
definition UNITY_DISPLAY_RANGE_HEX :: UNITY_UINT32 where "UNITY_DISPLAY_RANGE_HEX = 0x40"
definition UNITY_DISPLAY_RANGE_CHAR :: UNITY_UINT32 where "UNITY_DISPLAY_RANGE_CHAR = 0x80"

datatype UNITY_DISPLAY_STYLE_T =
    UNITY_DISPLAY_STYLE_INT | UNITY_DISPLAY_STYLE_INT8 | UNITY_DISPLAY_STYLE_INT16
  | UNITY_DISPLAY_STYLE_INT32 | UNITY_DISPLAY_STYLE_INT64
  | UNITY_DISPLAY_STYLE_UINT | UNITY_DISPLAY_STYLE_UINT8 | UNITY_DISPLAY_STYLE_UINT16
  | UNITY_DISPLAY_STYLE_UINT32 | UNITY_DISPLAY_STYLE_UINT64
  | UNITY_DISPLAY_STYLE_HEX8 | UNITY_DISPLAY_STYLE_HEX16 | UNITY_DISPLAY_STYLE_HEX32
  | UNITY_DISPLAY_STYLE_HEX64
  | UNITY_DISPLAY_STYLE_CHAR | UNITY_DISPLAY_STYLE_UNKNOWN

definition UNITY_INT_WIDTH :: nat where "UNITY_INT_WIDTH = 32"

fun style_val :: "UNITY_DISPLAY_STYLE_T \<Rightarrow> UNITY_UINT32" where
  "style_val UNITY_DISPLAY_STYLE_INT = word_of_nat (UNITY_INT_WIDTH div 8) + UNITY_DISPLAY_RANGE_INT"
| "style_val UNITY_DISPLAY_STYLE_INT8 = 1 + UNITY_DISPLAY_RANGE_INT"
| "style_val UNITY_DISPLAY_STYLE_INT16 = 2 + UNITY_DISPLAY_RANGE_INT"
| "style_val UNITY_DISPLAY_STYLE_INT32 = 4 + UNITY_DISPLAY_RANGE_INT"
| "style_val UNITY_DISPLAY_STYLE_INT64 = 8 + UNITY_DISPLAY_RANGE_INT"
| "style_val UNITY_DISPLAY_STYLE_UINT = word_of_nat (UNITY_INT_WIDTH div 8) + UNITY_DISPLAY_RANGE_UINT"
| "style_val UNITY_DISPLAY_STYLE_UINT8 = 1 + UNITY_DISPLAY_RANGE_UINT"
| "style_val UNITY_DISPLAY_STYLE_UINT16 = 2 + UNITY_DISPLAY_RANGE_UINT"
| "style_val UNITY_DISPLAY_STYLE_UINT32 = 4 + UNITY_DISPLAY_RANGE_UINT"
| "style_val UNITY_DISPLAY_STYLE_UINT64 = 8 + UNITY_DISPLAY_RANGE_UINT"
| "style_val UNITY_DISPLAY_STYLE_HEX8 = 1 + UNITY_DISPLAY_RANGE_HEX"
| "style_val UNITY_DISPLAY_STYLE_HEX16 = 2 + UNITY_DISPLAY_RANGE_HEX"
| "style_val UNITY_DISPLAY_STYLE_HEX32 = 4 + UNITY_DISPLAY_RANGE_HEX"
| "style_val UNITY_DISPLAY_STYLE_HEX64 = 8 + UNITY_DISPLAY_RANGE_HEX"
| "style_val UNITY_DISPLAY_STYLE_CHAR = 1 + UNITY_DISPLAY_RANGE_CHAR + UNITY_DISPLAY_RANGE_INT"
| "style_val UNITY_DISPLAY_STYLE_UNKNOWN = 1 + UNITY_DISPLAY_RANGE_CHAR + UNITY_DISPLAY_RANGE_INT + 1"

definition UNITY_MAX_NIBBLES :: nat where "UNITY_MAX_NIBBLES = 16"

fun UnityPrintNumberHex_loop :: "UNITY_UINT \<Rightarrow> nat \<Rightarrow> string" where
  "UnityPrintNumberHex_loop number 0 = []"
| "UnityPrintNumberHex_loop number (Suc nibbles) =
     (let nibble = (ucast (drop_bit (nibbles * 4) number) :: 32 word) AND 0x0F
      in (if nibble \<le> 9 then char_of (unat (48 + nibble)) else char_of (unat (65 - 10 + nibble)))
           # UnityPrintNumberHex_loop number nibbles)"

definition UnityPrintNumberHex :: "UNITY_UINT \<Rightarrow> UNITY_UINT8 \<Rightarrow> string" where
  "UnityPrintNumberHex number nibbles_to_print =
     (let nibbles = (if unat nibbles_to_print > UNITY_MAX_NIBBLES then UNITY_MAX_NIBBLES
                     else unat nibbles_to_print)
      in UnityPrintNumberHex_loop number nibbles)"

definition UnityPrintChar :: "char \<Rightarrow> string" where
  "UnityPrintChar c =
     (if char_val c \<le> 126 \<and> char_val c \<ge> 32 then [c]
      else if char_val c = 13 then [CHR 0x5C, CHR ''r'']
      else if char_val c = 10 then [CHR 0x5C, CHR ''n'']
      else [CHR 0x5C, CHR ''x''] @ UnityPrintNumberHex (char_val c) 2)"

fun UnityPrint_loop :: "string \<Rightarrow> string" where
  "UnityPrint_loop [] = []"
| "UnityPrint_loop (c # pch) = (if c = CHR 0x00 then [] else UnityPrintChar c @ UnityPrint_loop pch)"

definition UnityPrint :: "cstr \<Rightarrow> string" where
  "UnityPrint s = (case s of None \<Rightarrow> [] | Some pch \<Rightarrow> UnityPrint_loop pch)"

fun UnityPrintLen_loop :: "string \<Rightarrow> UNITY_UINT32 \<Rightarrow> UNITY_UINT32 \<Rightarrow> string" where
  "UnityPrintLen_loop [] i len = []"
| "UnityPrintLen_loop (c # pch) i len =
     (if c \<noteq> CHR 0x00 \<and> i < len then
        (if char_val c \<le> 126 \<and> char_val c \<ge> 32 then [c]
         else if char_val c = 13 then [CHR 0x5C, CHR ''r'']
         else if char_val c = 10 then [CHR 0x5C, CHR ''n'']
         else [CHR 0x5C, CHR ''x''] @ UnityPrintNumberHex (char_val c) 2)
        @ UnityPrintLen_loop pch (i + 1) len
      else [])"

definition UnityPrintLen :: "cstr \<Rightarrow> UNITY_UINT32 \<Rightarrow> string" where
  "UnityPrintLen s len = (case s of None \<Rightarrow> [] | Some pch \<Rightarrow> UnityPrintLen_loop pch 0 len)"

function UnityPrintNumberUnsigned_divisor :: "UNITY_UINT \<Rightarrow> UNITY_UINT \<Rightarrow> UNITY_UINT" where
  "UnityPrintNumberUnsigned_divisor number divisor =
     (if number div divisor > 9 then UnityPrintNumberUnsigned_divisor number (divisor * 10)
      else divisor)"
  by pat_completeness auto
termination
proof (relation "measure (\<lambda>(number, divisor). unat number - unat divisor)", goal_cases)
  case 1
  show ?case by simp
next
  case (2 number divisor)
  then have gt: "9 < unat number div unat divisor"
    by (simp add: word_less_nat_alt unat_div)
  then have pos: "0 < unat divisor" by (cases "unat divisor") auto
  from gt have le: "10 * unat divisor \<le> unat number"
    using pos less_eq_div_iff_mult_less_eq [of "unat divisor" 10 "unat number"] by simp
  moreover have "unat number < 2 ^ 64" using unsigned_less [of number] by simp
  ultimately have "unat (divisor * 10) = unat divisor * 10"
    by (simp add: unat_word_ariths)
  with le pos show ?case by simp
qed

declare UnityPrintNumberUnsigned_divisor.simps [simp del]

function UnityPrintNumberUnsigned_digits :: "UNITY_UINT \<Rightarrow> UNITY_UINT \<Rightarrow> string" where
  "UnityPrintNumberUnsigned_digits number divisor =
     out_char (48 + number div divisor mod 10) #
       (if divisor div 10 > 0 then UnityPrintNumberUnsigned_digits number (divisor div 10) else [])"
  by pat_completeness auto
termination
proof (relation "measure (\<lambda>(number, divisor). unat divisor)", goal_cases)
  case 1
  show ?case by simp
next
  case (2 number divisor)
  then have "0 < unat divisor div 10"
    by (simp add: word_less_nat_alt unat_div)
  then have "unat divisor div 10 < unat divisor" by simp
  then show ?case by (simp add: unat_div)
qed

declare UnityPrintNumberUnsigned_digits.simps [simp del]

definition UnityPrintNumberUnsigned :: "UNITY_UINT \<Rightarrow> string" where
  "UnityPrintNumberUnsigned number =
     UnityPrintNumberUnsigned_digits number (UnityPrintNumberUnsigned_divisor number 1)"

definition UnityPrintNumber :: "UNITY_INT \<Rightarrow> string" where
  "UnityPrintNumber number_to_print =
     (if sint number_to_print < 0
      then ''-'' @ UnityPrintNumberUnsigned (NOT number_to_print + 1)
      else UnityPrintNumberUnsigned number_to_print)"

definition UnityPrintNumberByStyle :: "UNITY_INT \<Rightarrow> UNITY_DISPLAY_STYLE_T \<Rightarrow> string" where
  "UnityPrintNumberByStyle number style =
     (if style_val style AND UNITY_DISPLAY_RANGE_INT = UNITY_DISPLAY_RANGE_INT then
        (if style_val style = style_val UNITY_DISPLAY_STYLE_CHAR then
           [CHR 0x27] @
           (if sint number \<le> 126 \<and> sint number \<ge> 32 then [out_char number]
            else if sint number = 13 then [CHR 0x5C, CHR ''r'']
            else if sint number = 10 then [CHR 0x5C, CHR ''n'']
            else [CHR 0x5C, CHR ''x''] @ UnityPrintNumberHex number 2)
           @ [CHR 0x27]
         else UnityPrintNumber number)
      else if style_val style AND UNITY_DISPLAY_RANGE_UINT = UNITY_DISPLAY_RANGE_UINT then
        UnityPrintNumberUnsigned number
      else ''0x'' @ UnityPrintNumberHex number (ucast ((style_val style AND 0xF) * 2)))"

fun UnityPrintMask_loop :: "nat \<Rightarrow> UNITY_UINT \<Rightarrow> UNITY_UINT \<Rightarrow> UNITY_UINT \<Rightarrow> string" where
  "UnityPrintMask_loop 0 current_bit msk number = []"
| "UnityPrintMask_loop (Suc i) current_bit msk number =
     (if current_bit AND msk \<noteq> 0 then
        (if current_bit AND number \<noteq> 0 then CHR ''1'' else CHR ''0'')
      else CHR ''X'') # UnityPrintMask_loop i (drop_bit 1 current_bit) msk number"

definition UnityPrintMask :: "UNITY_UINT \<Rightarrow> UNITY_UINT \<Rightarrow> string" where
  "UnityPrintMask msk number =
     UnityPrintMask_loop UNITY_INT_WIDTH (push_bit (UNITY_INT_WIDTH - 1) 1) msk number"


section \<open>Decimal output\<close>

lemma UnityPrintNumberUnsigned_divisor_power:
  assumes "unat divisor = 10 ^ j" and "j = 0 \<or> 10 ^ j \<le> unat number"
  shows "\<exists>k. unat (UnityPrintNumberUnsigned_divisor number divisor) = 10 ^ k \<and>
             (k = 0 \<or> 10 ^ k \<le> unat number) \<and> unat number < 10 ^ Suc k"
  using assms
proof (induction number divisor arbitrary: j rule: UnityPrintNumberUnsigned_divisor.induct)
  case (1 number divisor)
  have guard: "number div divisor > 9 \<longleftrightarrow> 10 ^ Suc j \<le> unat number"
    using div_gt_9_iff [of "unat divisor" "unat number"] "1.prems"
    by (simp add: word_less_nat_alt unat_div)
  show ?case
  proof (cases "number div divisor > 9")
    case True
    then have le: "10 ^ Suc j \<le> unat number" using guard by simp
    then have "(10::nat) ^ Suc j < 2 ^ 64"
      using unat_less_2_64 [of number] by (rule le_less_trans)
    then have "unat (divisor * 10) = 10 ^ Suc j"
      using "1.prems" by (simp add: unat_word_ariths mult.commute)
    from "1.IH" [OF True this] le
    show ?thesis by (simp add: UnityPrintNumberUnsigned_divisor.simps [of number divisor] True)
  next
    case False
    then show ?thesis
      using "1.prems" guard
      by (intro exI [of _ j]) (simp add: UnityPrintNumberUnsigned_divisor.simps [of number divisor])
  qed
qed

lemma UnityPrintNumberUnsigned_digits_fixed:
  "unat divisor = 10 ^ k \<Longrightarrow> UnityPrintNumberUnsigned_digits number divisor = dec_fixed (unat number) k"
proof (induction k arbitrary: divisor)
  case 0
  then have "divisor = 1" by (metis power_0 unsigned_1 unsigned_word_eqI)
  then show ?case
    by (simp add: UnityPrintNumberUnsigned_digits.simps [of number 1] out_char_dec unat_mod
        word_less_nat_alt unat_div)
next
  case (Suc k)
  have u: "unat (divisor div 10) = 10 ^ k" using Suc.prems by (simp add: unat_div)
  then have pos: "divisor div 10 > 0" by (simp add: word_less_nat_alt)
  have "out_char (48 + number div divisor mod 10) = dec_digit (unat number div 10 ^ Suc k mod 10)"
    using Suc.prems by (subst out_char_dec) (simp_all add: unat_mod unat_div)
  then show ?case
    using Suc.IH [OF u] pos by (simp add: UnityPrintNumberUnsigned_digits.simps [of number divisor])
qed

lemma UnityPrintNumberUnsigned_dec:
  "UnityPrintNumberUnsigned number = dec_string (unat number)"
proof -
  obtain k where k: "unat (UnityPrintNumberUnsigned_divisor number 1) = 10 ^ k"
      "k = 0 \<or> 10 ^ k \<le> unat number" "unat number < 10 ^ Suc k"
    using UnityPrintNumberUnsigned_divisor_power [of 1 0 number] by auto
  from UnityPrintNumberUnsigned_digits_fixed [OF k(1)] dec_fixed_eq_dec_string [OF k(2,3)]
  show ?thesis by (simp add: UnityPrintNumberUnsigned_def)
qed

lemma UnityPrintNumber_dec:
  "UnityPrintNumber n = (if sint n < 0 then ''-'' @ dec_string (nat (- sint n)) else dec_string (nat (sint n)))"
  by (simp add: UnityPrintNumber_def UnityPrintNumberUnsigned_dec unat_uminus_sint unat_sint_nonneg
      flip: minus_eq_not_plus_1)


section \<open>Hexadecimal output\<close>

lemma hex_nibble:
  "unat ((ucast (drop_bit (k * 4) (n :: 64 word)) :: 32 word) AND 0x0F) = unat n div 16 ^ k mod 16"
proof -
  have "(ucast (drop_bit (k * 4) n) :: 32 word) AND 0x0F = take_bit 4 (ucast (drop_bit (k * 4) n))"
    by (simp add: take_bit_eq_mask mask_eq_exp_minus_1)
  also have "unat \<dots> = take_bit 4 (drop_bit (k * 4) (unat n))"
    by (simp add: unsigned_take_bit_eq unsigned_ucast_eq unsigned_drop_bit_eq
        take_bit_nat_eq_self [OF unat_less_2_64])
  also have "\<dots> = unat n div 16 ^ k mod 16"
    by (simp add: take_bit_eq_mod drop_bit_eq_div power_mult mult.commute [of k])
  finally show ?thesis .
qed

lemma UnityPrintNumberHex_loop_fixed: "UnityPrintNumberHex_loop n k = hex_fixed (unat n) k"
proof (induction k)
  case 0
  show ?case by simp
next
  case (Suc k)
  let ?nib = "(ucast (drop_bit (k * 4) n) :: 32 word) AND 0x0F"
  have u: "unat ?nib = unat n div 16 ^ k mod 16" by (rule hex_nibble)
  then have lt: "unat ?nib < 16" by simp
  have "unat (48 + ?nib) = 48 + unat ?nib" "unat (65 - 10 + ?nib) = 55 + unat ?nib"
    using lt by (simp_all add: unat_word_ariths)
  moreover have "?nib \<le> 9 \<longleftrightarrow> unat ?nib < 10"
    by (auto simp: word_le_nat_alt)
  ultimately show ?case
    unfolding UnityPrintNumberHex_loop.simps Let_def Suc.IH hex_fixed.simps hex_digit_def u by simp
qed

lemma UnityPrintNumberHex_fixed:
  "UnityPrintNumberHex n k = hex_fixed (unat n) (min (unat k) 16)"
  by (simp add: UnityPrintNumberHex_def UNITY_MAX_NIBBLES_def UnityPrintNumberHex_loop_fixed min_def)


section \<open>Escaping\<close>

lemma char_val_print: "char_val c \<le> 126 \<and> char_val c \<ge> 32 \<longleftrightarrow> is_print c"
  by (auto simp: is_print_def word_le_nat_alt)

lemma UnityPrintChar_print: "d \<in> set (UnityPrintChar c) \<Longrightarrow> is_print d"
  unfolding UnityPrintChar_def char_val_print UnityPrintNumberHex_fixed
  by (auto split: if_splits dest: is_print_hex_fixed simp: is_print_def)

lemma UnityPrintChar_id: "is_print c \<Longrightarrow> UnityPrintChar c = [c]"
  unfolding UnityPrintChar_def char_val_print by simp

lemma UnityPrint_loop_print: "d \<in> set (UnityPrint_loop s) \<Longrightarrow> is_print d"
  by (induction s) (auto split: if_splits dest: UnityPrintChar_print)

lemma UnityPrint_loop_id: "\<forall>c \<in> set s. is_print c \<Longrightarrow> UnityPrint_loop s = s"
  by (induction s) (auto simp: UnityPrintChar_id is_print_def)

lemma UnityPrintLen_loop_take:
  "length s + unat i < 2 ^ 32 \<Longrightarrow>
   UnityPrintLen_loop s i len = UnityPrint_loop (take (unat len - unat i) s)"
proof (induction s arbitrary: i)
  case Nil
  show ?case by simp
next
  case (Cons c s)
  have ui: "unat (i + 1) = Suc (unat i)"
    using Cons.prems by (simp add: unat_word_ariths)
  with Cons have IH: "UnityPrintLen_loop s (i + 1) len = UnityPrint_loop (take (unat len - Suc (unat i)) s)"
    by simp
  show ?case
  proof (cases "i < len")
    case True
    then obtain k where "unat len - unat i = Suc k"
      by (metis Suc_diff_Suc word_less_nat_alt)
    then have "unat len - Suc (unat i) = k" by simp
    with True IH \<open>unat len - unat i = Suc k\<close> show ?thesis
      by (simp add: UnityPrintChar_def [symmetric])
  next
    case False
    then have "unat len - unat i = 0" by (simp add: word_less_nat_alt)
    with False show ?thesis by simp
  qed
qed


section \<open>Bit masks\<close>

lemma UnityPrintMask_loop_bits:
  "k < 64 \<Longrightarrow> UnityPrintMask_loop (Suc k) (2 ^ k) m n =
     map (\<lambda>i. if bit m i then (if bit n i then CHR ''1'' else CHR ''0'') else CHR ''X'') (rev [0..<Suc k])"
proof (induction k)
  case 0
  show ?case using bit_probe [of 0] by simp
next
  case (Suc k)
  show ?case
    unfolding UnityPrintMask_loop.simps(2) [of "Suc k"] drop_bit_one_exp [OF Suc.prems] bit_probe
    using Suc.IH Suc.prems by simp
qed

lemma UnityPrintMask_bits:
  "UnityPrintMask m n =
     map (\<lambda>i. if bit m i then (if bit n i then CHR ''1'' else CHR ''0'') else CHR ''X'') (rev [0..<32])"
  using UnityPrintMask_loop_bits [of 31 m n] by (simp add: UnityPrintMask_def UNITY_INT_WIDTH_def)

section \<open>Properties\<close>

text \<open>The number a decimal numeral with an optional minus sign denotes.\<close>

definition signed_value :: "string \<Rightarrow> int" where
  "signed_value s = (if hd s = CHR ''-'' then - int (dec_value (tl s)) else int (dec_value s))"

lemma dec_string_head_digit: "is_dec_digit (hd (dec_string n))"
proof -
  have "dec_string n \<noteq> []" by (subst dec_string.simps) simp
  then show ?thesis using dec_string_digits [of "hd (dec_string n)" n] by simp
qed

lemma is_dec_digit_not_minus: "is_dec_digit c \<Longrightarrow> c \<noteq> CHR ''-''"
  by (auto simp: is_dec_digit_def)

text \<open>C10: \<^verbatim>\<open>UnityPrintNumberUnsigned\<close> prints every 64-bit unsigned number as its canonical decimal numeral:
  digits only, whose value is the number, and with a leading zero only for zero itself.\<close>

theorem UnityPrintNumberUnsigned_roundtrip:
  "list_all is_dec_digit (UnityPrintNumberUnsigned number) \<and>
   dec_value (UnityPrintNumberUnsigned number) = unat number \<and>
   (hd (UnityPrintNumberUnsigned number) = CHR ''0'' \<longleftrightarrow> number = 0)"
proof -
  have "dec_string 0 = ''0''" by code_simp
  then have "hd (dec_string (unat number)) = CHR ''0'' \<longleftrightarrow> number = 0"
    using dec_string_no_leading_zero [of "unat number"] by (cases "number = 0") (auto simp: unat_gt_0)
  then show ?thesis
    by (auto simp: UnityPrintNumberUnsigned_dec list_all_iff dest: dec_string_digits)
qed

text \<open>C9: \<^verbatim>\<open>UnityPrintNumber\<close> prints every 64-bit signed number, the smallest one included, so that reading
  the numeral back gives the number.\<close>

theorem UnityPrintNumber_roundtrip: "signed_value (UnityPrintNumber number) = sint number"
  using is_dec_digit_not_minus [OF dec_string_head_digit]
  by (simp add: UnityPrintNumber_dec signed_value_def)

text \<open>C22: \<^verbatim>\<open>UnityPrintNumberHex\<close> prints exactly the requested number of nibbles, at most 16, and they denote
  the low bits of the number.\<close>

theorem UnityPrintNumberHex_roundtrip:
  "length (UnityPrintNumberHex number nibbles) = min (unat nibbles) 16 \<and>
   hex_value (UnityPrintNumberHex number nibbles) = unat number mod 16 ^ min (unat nibbles) 16"
  by (simp add: UnityPrintNumberHex_fixed hex_value_from_hex_fixed)

text \<open>C23: \<^verbatim>\<open>UnityPrint\<close> never emits a control character or a byte above 126, whatever string it is
  given.\<close>

theorem UnityPrint_printable: "list_all is_print (UnityPrint s)"
  by (cases s) (auto simp: UnityPrint_def list_all_iff dest: UnityPrint_loop_print)

text \<open>C24: \<^verbatim>\<open>UnityPrintLen\<close> prints what \<^verbatim>\<open>UnityPrint\<close> prints of the first \<open>len\<close> characters.\<close>

theorem UnityPrintLen_prefix:
  "length s < 2 ^ 32 \<Longrightarrow> UnityPrintLen (Some s) len = UnityPrint (Some (take (unat len) s))"
  by (simp add: UnityPrintLen_def UnityPrint_def UnityPrintLen_loop_take)

theorem UnityPrintLen_prefix_witness:
  "length ''overlong'' < 2 ^ 32 \<and> UnityPrintLen (Some ''overlong'') 4 = ''over''"
proof -
  have "length ''overlong'' < 2 ^ 32" by simp
  moreover have "UnityPrint (Some (take (unat (4 :: 32 word)) ''overlong'')) = ''over''" by code_simp
  ultimately show ?thesis using UnityPrintLen_prefix [of "''overlong''" 4] by simp
qed

text \<open>C28: \<^verbatim>\<open>UnityPrintMask\<close> prints the low 32 bits, the highest first: \<^verbatim>\<open>X\<close> where the mask is clear, else the
  bit of the number. The numbers are 64 bits wide, so masks that select only bits above 31 print 32
  times \<^verbatim>\<open>X\<close> whatever the numbers are.\<close>

theorem UnityPrintMask_low_half:
  "UnityPrintMask msk number =
     map (\<lambda>i. if bit msk i then (if bit number i then CHR ''1'' else CHR ''0'') else CHR ''X'') (rev [0..<32]) \<and>
   UnityPrintMask (push_bit 32 msk) number = replicate 32 (CHR ''X'')"
proof -
  have "map (\<lambda>i. if bit (push_bit 32 msk) i then c i else CHR ''X'') (rev [0..<32]) =
      map (\<lambda>i. CHR ''X'') (rev [0..<32])" for c
    by (rule map_cong) (auto simp: bit_push_bit_iff)
  then show ?thesis unfolding UnityPrintMask_bits by (simp add: map_replicate_const)
qed

end
