(* ===== verification/Unity_State.thy ===== *)
theory Unity_State
  imports Unity_Output
begin

text \<open>
  The global state of the Unity framework (\<^verbatim>\<open>struct UNITY_STORAGE_T Unity\<close> of
  \<^verbatim>\<open>src/unity/unity_internals.h\<close>), the reporting helpers every assertion shares
  (\<^verbatim>\<open>UnityTestResultsBegin\<close>, \<^verbatim>\<open>UnityTestResultsFailBegin\<close>, \<^verbatim>\<open>UnityAddMsgIfSpecified\<close>), the control
  macros \<^verbatim>\<open>RETURN_IF_FAIL_OR_IGNORE\<close>, \<^verbatim>\<open>UNITY_FAIL_AND_BAIL\<close> and \<^verbatim>\<open>TEST_PROTECT\<close>, and the contract every
  assertion function of the framework keeps, as the locale \<open>unity_assertion\<close>.

  \<^verbatim>\<open>TEST_ABORT()\<close> is a \<^verbatim>\<open>longjmp\<close> to the frame that the latest \<^verbatim>\<open>TEST_PROTECT()\<close> recorded, so an
  operation that may abort returns a value of type \<open>flow\<close> beside the new state.
\<close>

section \<open>The Unity storage and the world\<close>

record UNITY_STORAGE_T =
  TestFile :: cstr
  CurrentTestName :: cstr
  CurrentDetail1 :: cstr
  CurrentDetail2 :: cstr
  CurrentTestLineNumber :: UNITY_LINE_TYPE
  CurrentAssertionLineNumber :: UNITY_LINE_TYPE
  NumberOfTests :: UNITY_COUNTER_TYPE
  TestFailures :: UNITY_COUNTER_TYPE
  TestIgnores :: UNITY_COUNTER_TYPE
  CurrentTestFailed :: UNITY_COUNTER_TYPE
  CurrentTestIgnored :: UNITY_COUNTER_TYPE

text \<open>The world adds the characters written so far and the byte-addressed memory that the array
  and memory assertions read.\<close>

record unity_world = UNITY_STORAGE_T +
  stdout :: string
  memory :: "64 word \<Rightarrow> 8 word"

datatype flow = Returned | Aborted

type_synonym 'a unity_act = "'a unity_world_scheme \<Rightarrow> flow \<times> 'a unity_world_scheme"

text \<open>The zero-initialised globals of a fresh program, over an all-zero memory.\<close>

definition Unity :: unity_world where
  "Unity = \<lparr>TestFile = None, CurrentTestName = None, CurrentDetail1 = None, CurrentDetail2 = None,
     CurrentTestLineNumber = 0, CurrentAssertionLineNumber = 0, NumberOfTests = 0, TestFailures = 0,
     TestIgnores = 0, CurrentTestFailed = 0, CurrentTestIgnored = 0, stdout = [], memory = (\<lambda>_. 0)\<rparr>"

section \<open>Fixed strings\<close>

definition UnityStrOk :: string where "UnityStrOk = ''OK''"
definition UnityStrPass :: string where "UnityStrPass = ''PASS''"
definition UnityStrFail :: string where "UnityStrFail = ''FAIL''"
definition UnityStrIgnore :: string where "UnityStrIgnore = ''IGNORE''"
definition UnityStrNull :: string where "UnityStrNull = ''NULL''"
definition UnityStrSpacer :: string where "UnityStrSpacer = ''. ''"
definition UnityStrExpected :: string where "UnityStrExpected = '' Expected ''"
definition UnityStrWas :: string where "UnityStrWas = '' Was ''"
definition UnityStrGt :: string where "UnityStrGt = '' to be greater than ''"
definition UnityStrLt :: string where "UnityStrLt = '' to be less than ''"
definition UnityStrOrEqual :: string where "UnityStrOrEqual = ''or equal to ''"
definition UnityStrNotEqual :: string where "UnityStrNotEqual = '' to be not equal to ''"
definition UnityStrElement :: string where "UnityStrElement = '' Element ''"
definition UnityStrByte :: string where "UnityStrByte = '' Byte ''"
definition UnityStrMemory :: string where "UnityStrMemory = '' Memory Mismatch.''"
definition UnityStrDelta :: string where "UnityStrDelta = '' Values Not Within Delta ''"
definition UnityStrPointless :: string where
  "UnityStrPointless = '' You Asked Me To Compare Nothing, Which Was Pointless.''"
definition UnityStrNullPointerForExpected :: string where
  "UnityStrNullPointerForExpected = '' Expected pointer to be NULL''"
definition UnityStrNullPointerForActual :: string where
  "UnityStrNullPointerForActual = '' Actual pointer was NULL''"
definition UnityStrBreaker :: string where "UnityStrBreaker = ''-----------------------''"
definition UnityStrResultsTests :: string where "UnityStrResultsTests = '' Tests ''"
definition UnityStrResultsFailures :: string where "UnityStrResultsFailures = '' Failures ''"
definition UnityStrResultsIgnored :: string where "UnityStrResultsIgnored = '' Ignored ''"
definition UnityStrDetail1Name :: string where "UnityStrDetail1Name = ''Function ''"
definition UnityStrDetail2Name :: string where "UnityStrDetail2Name = '' Argument ''"

section \<open>Output and reporting\<close>

definition puts :: "string \<Rightarrow> 'a unity_world_scheme \<Rightarrow> 'a unity_world_scheme" where
  "puts s w = w\<lparr>stdout := stdout w @ s\<rparr>"

definition UNITY_PRINT_EOL :: "'a unity_world_scheme \<Rightarrow> 'a unity_world_scheme" where
  "UNITY_PRINT_EOL w = puts [CHR 0x0A] w"

definition UnityTestResultsBegin :: "cstr \<Rightarrow> UNITY_LINE_TYPE \<Rightarrow> string" where
  "UnityTestResultsBegin file line =
     UnityPrint (Some ''ASSERTION '') @ UnityPrint file @ '':'' @ UnityPrintNumber line @ '':''"

definition UnityTestResultsFailBegin ::
  "UNITY_LINE_TYPE \<Rightarrow> 'a unity_world_scheme \<Rightarrow> 'a unity_world_scheme" where
  "UnityTestResultsFailBegin line w =
     (let w = w\<lparr>CurrentAssertionLineNumber := line\<rparr>;
          w = puts (UnityTestResultsBegin (TestFile w) line) w;
          w = puts (UnityPrint (Some UnityStrFail)) w
      in puts '':'' w)"

definition UnityAddMsgIfSpecified ::
  "cstr \<Rightarrow> 'a unity_world_scheme \<Rightarrow> 'a unity_world_scheme" where
  "UnityAddMsgIfSpecified msg w =
     (if msg \<noteq> None then
        (let w = puts (UnityPrint (Some UnityStrSpacer)) w;
             w = (if CurrentDetail1 w \<noteq> None then
                    (let w = puts (UnityPrint (Some UnityStrDetail1Name)) w;
                         w = puts (UnityPrint (CurrentDetail1 w)) w;
                         w = (if CurrentDetail2 w \<noteq> None then
                                puts (UnityPrint (CurrentDetail2 w))
                                  (puts (UnityPrint (Some UnityStrDetail2Name)) w)
                              else w)
                     in puts (UnityPrint (Some UnityStrSpacer)) w)
                  else w)
         in puts (UnityPrint msg) w)
      else w)"

definition UnityPrintExpectedAndActualStrings :: "cstr \<Rightarrow> cstr \<Rightarrow> string" where
  "UnityPrintExpectedAndActualStrings expected actual =
     UnityPrint (Some UnityStrExpected) @
     (if expected \<noteq> None then [CHR 0x27] @ UnityPrint expected @ [CHR 0x27]
      else UnityPrint (Some UnityStrNull)) @
     UnityPrint (Some UnityStrWas) @
     (if actual \<noteq> None then [CHR 0x27] @ UnityPrint actual @ [CHR 0x27]
      else UnityPrint (Some UnityStrNull))"

definition UnityPrintExpectedAndActualStringsLen :: "cstr \<Rightarrow> cstr \<Rightarrow> UNITY_UINT32 \<Rightarrow> string" where
  "UnityPrintExpectedAndActualStringsLen expected actual len =
     UnityPrint (Some UnityStrExpected) @
     (if expected \<noteq> None then [CHR 0x27] @ UnityPrintLen expected len @ [CHR 0x27]
      else UnityPrint (Some UnityStrNull)) @
     UnityPrint (Some UnityStrWas) @
     (if actual \<noteq> None then [CHR 0x27] @ UnityPrintLen actual len @ [CHR 0x27]
      else UnityPrint (Some UnityStrNull))"

section \<open>Control flow of assertions\<close>

definition test_pending :: "'a unity_world_scheme \<Rightarrow> bool" where
  "test_pending w \<longleftrightarrow> CurrentTestFailed w \<noteq> 0 \<or> CurrentTestIgnored w \<noteq> 0"

definition RETURN_IF_FAIL_OR_IGNORE :: "'a unity_act \<Rightarrow> 'a unity_act" where
  "RETURN_IF_FAIL_OR_IGNORE rest w = (if test_pending w then (Aborted, w) else rest w)"

definition UNITY_FAIL_AND_BAIL :: "'a unity_act" where
  "UNITY_FAIL_AND_BAIL w = (Aborted, w\<lparr>CurrentTestFailed := 1\<rparr>)"

definition UNITY_IGNORE_AND_BAIL :: "'a unity_act" where
  "UNITY_IGNORE_AND_BAIL w = (Aborted, w\<lparr>CurrentTestIgnored := 1\<rparr>)"

text \<open>\<^verbatim>\<open>if (TEST_PROTECT()) { body }\<close>: an abort inside the body lands after the statement.\<close>

definition TEST_PROTECT :: "'a unity_act \<Rightarrow> 'a unity_world_scheme \<Rightarrow> 'a unity_world_scheme" where
  "TEST_PROTECT body w = snd (body w)"

text \<open>A statement sequence of calls that may abort.\<close>

fun run_calls :: "'a unity_act list \<Rightarrow> 'a unity_act" where
  "run_calls [] w = (Returned, w)"
| "run_calls (f # fs) w =
     (case f w of (Returned, w') \<Rightarrow> run_calls fs w' | (Aborted, w') \<Rightarrow> (Aborted, w'))"

section \<open>Reports in closed form\<close>

text \<open>The text that \<^const>\<open>UnityAddMsgIfSpecified\<close> appends, and the state after a failed assertion
  with report \<open>txt\<close>: one line \<^verbatim>\<open>ASSERTION file:line:FAILtxt\<close>, the assertion line recorded and the
  current test marked as failed.\<close>

definition msg_text :: "cstr \<Rightarrow> 'a unity_world_scheme \<Rightarrow> string" where
  "msg_text msg w = (case msg of None \<Rightarrow> [] | Some m \<Rightarrow>
     UnityStrSpacer @
     (case CurrentDetail1 w of None \<Rightarrow> [] | Some d1 \<Rightarrow>
        UnityStrDetail1Name @ UnityPrint (Some d1) @
        (case CurrentDetail2 w of None \<Rightarrow> []
         | Some d2 \<Rightarrow> UnityStrDetail2Name @ UnityPrint (Some d2)) @
        UnityStrSpacer) @
     UnityPrint (Some m))"

definition fail_line :: "UNITY_LINE_TYPE \<Rightarrow> string \<Rightarrow> 'a unity_world_scheme \<Rightarrow> string" where
  "fail_line line txt w =
     ''ASSERTION '' @ UnityPrint (TestFile w) @ '':'' @ UnityPrintNumber line @ '':FAIL'' @ txt @ [CHR 0x0A]"

definition failed_with ::
  "UNITY_LINE_TYPE \<Rightarrow> string \<Rightarrow> 'a unity_world_scheme \<Rightarrow> 'a unity_world_scheme" where
  "failed_with line txt w =
     w\<lparr>CurrentAssertionLineNumber := line, CurrentTestFailed := 1, stdout := stdout w @ fail_line line txt w\<rparr>"

lemma UnityPrint_literal: "\<forall>c \<in> set s. is_print c \<Longrightarrow> UnityPrint (Some s) = s"
  by (simp add: UnityPrint_def UnityPrint_loop_id)

lemmas UnityStr_defs =
  UnityStrOk_def UnityStrPass_def UnityStrFail_def UnityStrIgnore_def UnityStrNull_def
  UnityStrSpacer_def UnityStrExpected_def UnityStrWas_def UnityStrGt_def UnityStrLt_def
  UnityStrOrEqual_def UnityStrNotEqual_def UnityStrElement_def UnityStrByte_def UnityStrMemory_def
  UnityStrDelta_def UnityStrPointless_def UnityStrNullPointerForExpected_def
  UnityStrNullPointerForActual_def UnityStrBreaker_def UnityStrResultsTests_def
  UnityStrResultsFailures_def UnityStrResultsIgnored_def UnityStrDetail1Name_def
  UnityStrDetail2Name_def

lemma UnityPrint_UnityStr [simp]:
  "UnityPrint (Some UnityStrOk) = UnityStrOk"
  "UnityPrint (Some UnityStrPass) = UnityStrPass"
  "UnityPrint (Some UnityStrFail) = UnityStrFail"
  "UnityPrint (Some UnityStrIgnore) = UnityStrIgnore"
  "UnityPrint (Some UnityStrNull) = UnityStrNull"
  "UnityPrint (Some UnityStrSpacer) = UnityStrSpacer"
  "UnityPrint (Some UnityStrExpected) = UnityStrExpected"
  "UnityPrint (Some UnityStrWas) = UnityStrWas"
  "UnityPrint (Some UnityStrGt) = UnityStrGt"
  "UnityPrint (Some UnityStrLt) = UnityStrLt"
  "UnityPrint (Some UnityStrOrEqual) = UnityStrOrEqual"
  "UnityPrint (Some UnityStrNotEqual) = UnityStrNotEqual"
  "UnityPrint (Some UnityStrElement) = UnityStrElement"
  "UnityPrint (Some UnityStrByte) = UnityStrByte"
  "UnityPrint (Some UnityStrMemory) = UnityStrMemory"
  "UnityPrint (Some UnityStrDelta) = UnityStrDelta"
  "UnityPrint (Some UnityStrPointless) = UnityStrPointless"
  "UnityPrint (Some UnityStrNullPointerForExpected) = UnityStrNullPointerForExpected"
  "UnityPrint (Some UnityStrNullPointerForActual) = UnityStrNullPointerForActual"
  "UnityPrint (Some UnityStrBreaker) = UnityStrBreaker"
  "UnityPrint (Some UnityStrResultsTests) = UnityStrResultsTests"
  "UnityPrint (Some UnityStrResultsFailures) = UnityStrResultsFailures"
  "UnityPrint (Some UnityStrResultsIgnored) = UnityStrResultsIgnored"
  "UnityPrint (Some UnityStrDetail1Name) = UnityStrDetail1Name"
  "UnityPrint (Some UnityStrDetail2Name) = UnityStrDetail2Name"
  by (rule UnityPrint_literal, simp add: UnityStr_defs is_print_def)+

lemma UnityPrint_None [simp]: "UnityPrint None = []"
  by (simp add: UnityPrint_def)

lemma UnityPrint_assertion [simp]: "UnityPrint (Some ''ASSERTION '') = ''ASSERTION ''"
  by (rule UnityPrint_literal) (simp add: is_print_def)

lemma puts_frame [simp]:
  "TestFile (puts s w) = TestFile w" "CurrentTestName (puts s w) = CurrentTestName w"
  "CurrentDetail1 (puts s w) = CurrentDetail1 w" "CurrentDetail2 (puts s w) = CurrentDetail2 w"
  "CurrentTestLineNumber (puts s w) = CurrentTestLineNumber w"
  "CurrentAssertionLineNumber (puts s w) = CurrentAssertionLineNumber w"
  "NumberOfTests (puts s w) = NumberOfTests w" "TestFailures (puts s w) = TestFailures w"
  "TestIgnores (puts s w) = TestIgnores w" "CurrentTestFailed (puts s w) = CurrentTestFailed w"
  "CurrentTestIgnored (puts s w) = CurrentTestIgnored w" "memory (puts s w) = memory w"
  by (simp_all add: puts_def)

lemma UNITY_PRINT_EOL_puts: "UNITY_PRINT_EOL w = puts [CHR 0x0A] w"
  by (simp add: UNITY_PRINT_EOL_def)

lemma puts_puts [simp]: "puts t (puts s w) = puts (s @ t) w"
  by (simp add: puts_def)

lemma UnityAddMsgIfSpecified_text: "UnityAddMsgIfSpecified msg w = puts (msg_text msg w) w"
  by (cases msg; cases "CurrentDetail1 w"; cases "CurrentDetail2 w")
     (simp_all add: UnityAddMsgIfSpecified_def msg_text_def puts_def Let_def)

lemma msg_text_frame [simp]:
  "msg_text msg (puts s w) = msg_text msg w"
  "msg_text msg (w\<lparr>CurrentAssertionLineNumber := l\<rparr>) = msg_text msg w"
  "msg_text msg (w\<lparr>CurrentTestFailed := f\<rparr>) = msg_text msg w"
  by (simp_all add: msg_text_def puts_def split: option.split)

text \<open>The common tail of every failing assertion.\<close>

lemma UnityTestResultsFailBegin_eq:
  "UnityTestResultsFailBegin line w =
     puts (''ASSERTION '' @ UnityPrint (TestFile w) @ '':'' @ UnityPrintNumber line @ '':FAIL:'')
       (w\<lparr>CurrentAssertionLineNumber := line\<rparr>)"
  by (simp add: UnityTestResultsFailBegin_def UnityTestResultsBegin_def Let_def)
     (simp add: UnityStrFail_def)

lemma fail_and_bail_report:
  "UNITY_FAIL_AND_BAIL (UNITY_PRINT_EOL (UnityAddMsgIfSpecified msg (puts txt
      (UnityTestResultsFailBegin line w)))) = (Aborted, failed_with line ('':'' @ txt @ msg_text msg w) w)"
  by (simp add: UnityAddMsgIfSpecified_text UnityTestResultsFailBegin_eq)
     (simp add: UNITY_FAIL_AND_BAIL_def UNITY_PRINT_EOL_def failed_with_def fail_line_def puts_def)

lemma test_pending_failed_with [simp]: "test_pending (failed_with line txt w)"
  by (simp add: test_pending_def failed_with_def)

lemma failed_with_twice [simp]: "failed_with line txt (w\<lparr>CurrentTestFailed := f\<rparr>) = failed_with line txt w"
  by (simp add: failed_with_def fail_line_def)

lemma RETURN_IF_FAIL_OR_IGNORE_pending [simp]:
  "test_pending w \<Longrightarrow> RETURN_IF_FAIL_OR_IGNORE rest w = (Aborted, w)"
  by (simp add: RETURN_IF_FAIL_OR_IGNORE_def)

lemma RETURN_IF_FAIL_OR_IGNORE_running [simp]:
  "\<not> test_pending w \<Longrightarrow> RETURN_IF_FAIL_OR_IGNORE rest w = rest w"
  by (simp add: RETURN_IF_FAIL_OR_IGNORE_def)

section \<open>The assertion contract\<close>

text \<open>
  What a test relies on when it makes a check with arguments \<open>p\<close> on source line \<open>line\<close>: in a test that
  has already failed or is ignored the check changes nothing; when the condition holds the check
  returns and changes nothing; otherwise it reports one line, marks the test as failed and aborts.
\<close>

locale unity_check =
  fixes call :: "'p \<Rightarrow> UNITY_LINE_TYPE \<Rightarrow> 'a unity_act"
    and holds :: "'p \<Rightarrow> 'a unity_world_scheme \<Rightarrow> bool"
    and report :: "'p \<Rightarrow> 'a unity_world_scheme \<Rightarrow> string"
  assumes call_pending_frame: "test_pending w \<Longrightarrow> snd (call p line w) = w"
    and call_pass: "\<not> test_pending w \<Longrightarrow> holds p w \<Longrightarrow> call p line w = (Returned, w)"
    and call_fail: "\<not> test_pending w \<Longrightarrow> \<not> holds p w \<Longrightarrow>
      call p line w = (Aborted, failed_with line (report p w) w)"
begin

text \<open>A run of assertions is decided by the first one that does not hold.\<close>

lemma run_calls_find:
  assumes "\<not> test_pending w"
  shows "run_calls (map (\<lambda>(p, line). call p line) ps) w =
    (case find (\<lambda>(p, line). \<not> holds p w) ps of
       None \<Rightarrow> (Returned, w)
     | Some (p, line) \<Rightarrow> (Aborted, failed_with line (report p w) w))"
proof (induction ps)
  case Nil
  show ?case by simp
next
  case (Cons pl ps)
  obtain p line where pl: "pl = (p, line)" by (cases pl)
  show ?case
  proof (cases "holds p w")
    case True
    with Cons assms show ?thesis by (simp add: pl call_pass)
  next
    case False
    with assms show ?thesis by (simp add: pl call_fail)
  qed
qed

lemma run_calls_returns_iff:
  assumes "\<not> test_pending w"
  shows "fst (run_calls (map (\<lambda>(p, line). call p line) ps) w) = Returned \<longleftrightarrow>
         (\<forall>(p, line) \<in> set ps. holds p w)"
proof (cases "find (\<lambda>(p, line). \<not> holds p w) ps")
  case None
  then have "\<forall>(p, line) \<in> set ps. holds p w"
    using find_None_iff [of "\<lambda>(p, line). \<not> holds p w" ps] by auto
  with None show ?thesis by (simp add: run_calls_find [OF assms])
next
  case (Some pl)
  obtain p line where pl: "pl = (p, line)" by (cases pl)
  from Some have "(p, line) \<in> set ps \<and> \<not> holds p w"
    unfolding pl find_Some_iff by (metis (mono_tags, lifting) case_prod_conv nth_mem)
  with Some show ?thesis by (auto simp: run_calls_find [OF assms] pl)
qed

lemma run_calls_pending_frame:
  "test_pending w \<Longrightarrow> snd (run_calls (map (\<lambda>(p, line). call p line) ps) w) = w"
proof (induction ps)
  case (Cons pl ps)
  obtain p line where pl: "pl = (p, line)" by (cases pl)
  show ?case
    using Cons call_pending_frame [of w p line] by (auto simp: pl split: prod.split flow.split)
qed simp

lemma call_state: "snd (call p line w) = w \<or> snd (call p line w) = failed_with line (report p w) w"
  by (cases "test_pending w"; cases "holds p w") (simp_all add: call_pending_frame call_pass call_fail)

text \<open>No run of checks changes the counters, the test file or the memory.\<close>

lemma call_frame:
  "CurrentTestIgnored (snd (call p line w)) = CurrentTestIgnored w \<and>
   TestFile (snd (call p line w)) = TestFile w \<and>
   NumberOfTests (snd (call p line w)) = NumberOfTests w \<and>
   TestFailures (snd (call p line w)) = TestFailures w \<and>
   TestIgnores (snd (call p line w)) = TestIgnores w \<and>
   memory (snd (call p line w)) = memory w"
  by (cases "test_pending w"; cases "holds p w")
     (simp_all add: call_pending_frame call_pass call_fail failed_with_def)

end

text \<open>
  The assertion functions themselves test \<^verbatim>\<open>RETURN_IF_FAIL_OR_IGNORE\<close> first, so in such a test they
  abort whatever their condition.
\<close>

locale unity_assertion = unity_check +
  assumes call_pending_abort: "test_pending w \<Longrightarrow> fst (call p line w) = Aborted"
begin

lemma call_pending: "test_pending w \<Longrightarrow> call p line w = (Aborted, w)"
  by (metis call_pending_abort call_pending_frame prod.collapse)

lemma returns_iff: "fst (call p line w) = Returned \<longleftrightarrow> \<not> test_pending w \<and> holds p w"
  using call_pending [of w p line] call_pass [of w p line] call_fail [of w p line]
  by (cases "test_pending w"; cases "holds p w") simp_all

lemma run_calls_pending:
  "test_pending w \<Longrightarrow> ps \<noteq> [] \<Longrightarrow>
   run_calls (map (\<lambda>(p, line). call p line) ps) w = (Aborted, w)"
  by (cases ps) (auto simp: call_pending)

end

text \<open>Some assertions are described by a verdict: \<^term>\<open>None\<close> when the condition holds, else the text
  of the report.\<close>

definition verdict_outcome :: "UNITY_LINE_TYPE \<Rightarrow> string option \<Rightarrow> 'a unity_act" where
  "verdict_outcome line v w =
     (case v of None \<Rightarrow> (Returned, w) | Some txt \<Rightarrow> (Aborted, failed_with line txt w))"

text \<open>Any assertion with a verdict function keeps the contract.\<close>

lemma unity_assertion_verdictI:
  assumes "\<And>p line w. test_pending w \<Longrightarrow> call p line w = (Aborted, w)"
    and "\<And>p line w. \<not> test_pending w \<Longrightarrow> call p line w = verdict_outcome line (v p w) w"
  shows "unity_assertion call (\<lambda>p w. v p w = None) (\<lambda>p w. the (v p w))"
  by unfold_locales (auto simp: assms verdict_outcome_def)

end
