(* ===== verification/Unity_Options.thy ===== *)
theory Unity_Options
  imports Unity_State "HOL-Library.Sublist" "HOL-Library.Monad_Syntax"
begin

text \<open>
  The command line filters of \<^verbatim>\<open>src/unity/unity.c\<close> (compiled under \<^verbatim>\<open>UNITY_USE_COMMAND_LINE_ARGS\<close>):
  \<^verbatim>\<open>UnityParseOptions\<close>, \<^verbatim>\<open>IsStringInBiggerString\<close>, \<^verbatim>\<open>UnityStringArgumentMatches\<close> and \<^verbatim>\<open>UnityTestMatches\<close>.
  A \<^verbatim>\<open>char *\<close> that moves inside one string is the suffix it points to; the empty list is the terminating
  NUL. Reading or stepping beyond the NUL, and dereferencing NULL, is the value None.
\<close>

section \<open>Options\<close>

record unity_options_world = unity_world +
  UnityOptionIncludeNamed :: cstr
  UnityOptionExcludeNamed :: cstr
  UnityVerbosity :: "32 word"

definition char_at :: "string \<Rightarrow> nat \<Rightarrow> char" where
  "char_at s i = (if i < length s then s ! i else CHR 0x00)"

fun UnityParseOptions_loop ::
  "string list \<Rightarrow> 'a unity_options_world_scheme \<Rightarrow> 32 word \<times> 'a unity_options_world_scheme" where
  "UnityParseOptions_loop [] w = (0, w)"
| "UnityParseOptions_loop (arg # rest) w =
     (if char_at arg 0 = CHR ''-'' then
        (if char_at arg 1 = CHR ''l'' then (-1, w)
         else if char_at arg 1 = CHR ''n'' \<or> char_at arg 1 = CHR ''f'' then
           (if char_at arg 2 = CHR ''='' then
              UnityParseOptions_loop rest (w\<lparr>UnityOptionIncludeNamed := Some (drop 3 arg)\<rparr>)
            else (case rest of
                named # rest' \<Rightarrow> UnityParseOptions_loop rest' (w\<lparr>UnityOptionIncludeNamed := Some named\<rparr>)
              | [] \<Rightarrow>
                (1, UNITY_PRINT_EOL (puts (UnityPrint
                      (Some ''ERROR: No Test String to Include Matches For'')) w))))
         else if char_at arg 1 = CHR ''q'' then UnityParseOptions_loop rest (w\<lparr>UnityVerbosity := 0\<rparr>)
         else if char_at arg 1 = CHR ''v'' then UnityParseOptions_loop rest (w\<lparr>UnityVerbosity := 2\<rparr>)
         else if char_at arg 1 = CHR ''x'' then
           (if char_at arg 2 = CHR ''='' then
              UnityParseOptions_loop rest (w\<lparr>UnityOptionExcludeNamed := Some (drop 3 arg)\<rparr>)
            else (case rest of
                named # rest' \<Rightarrow> UnityParseOptions_loop rest' (w\<lparr>UnityOptionExcludeNamed := Some named\<rparr>)
              | [] \<Rightarrow>
                (1, UNITY_PRINT_EOL (puts (UnityPrint
                      (Some ''ERROR: No Test String to Exclude Matches For'')) w))))
         else
           (1, UNITY_PRINT_EOL (puts [char_at arg 1]
                 (puts (UnityPrint (Some ''ERROR: Unknown Option '')) w))))
      else UnityParseOptions_loop rest w)"

text \<open>The loop starts at \<^verbatim>\<open>argv[1]\<close>.\<close>

definition UnityParseOptions ::
  "string list \<Rightarrow> 'a unity_options_world_scheme \<Rightarrow> 32 word \<times> 'a unity_options_world_scheme" where
  "UnityParseOptions argv w =
     UnityParseOptions_loop (drop 1 argv)
       (w\<lparr>UnityOptionIncludeNamed := None, UnityOptionExcludeNamed := None\<rparr>)"

section \<open>Matching a test against a filter\<close>

text \<open>
  The inner loop compares from one position of the long string: \<open>Some r\<close> when the function returns
  \<open>r\<close> there, None when the bytes stop matching first.
\<close>

fun IsStringInBiggerString_inner :: "string \<Rightarrow> string \<Rightarrow> 32 word option" where
  "IsStringInBiggerString_inner (l # lptr) (s # sptr) =
     (if l \<noteq> CHR 0x00 \<and> s \<noteq> CHR 0x00 \<and> l = s then
        (let c = char_at sptr 0 in
         if c = CHR ''*'' then Some 1
         else if c = CHR '','' then Some 1
         else if c = CHR 0x22 then Some 1
         else if c = CHR 0x27 then Some 1
         else if c = CHR '':'' then Some 2
         else if c = CHR 0x00 then Some 1
         else IsStringInBiggerString_inner lptr sptr)
      else None)"
| "IsStringInBiggerString_inner _ _ = None"

fun IsStringInBiggerString_loop :: "string \<Rightarrow> string \<Rightarrow> 32 word" where
  "IsStringInBiggerString_loop [] shortstring = 0"
| "IsStringInBiggerString_loop (l # lnext) shortstring =
     (if l = CHR 0x00 then 0
      else (case IsStringInBiggerString_inner (l # lnext) shortstring of
              Some r \<Rightarrow> r
            | None \<Rightarrow> IsStringInBiggerString_loop lnext shortstring))"

definition IsStringInBiggerString :: "cstr \<Rightarrow> string \<Rightarrow> 32 word option" where
  "IsStringInBiggerString longstring shortstring =
     (if char_at shortstring 0 = CHR ''*'' then Some 1
      else map_option (\<lambda>l. IsStringInBiggerString_loop l shortstring) longstring)"

text \<open>The \<^verbatim>\<open>do ... while\<close> loop that looks for the end of one partial, stepping before it tests.\<close>

fun partial_end :: "string \<Rightarrow> string option \<Rightarrow> (string \<times> string option) option" where
  "partial_end [] ptrf = None"
| "partial_end (_ # ptr2) ptrf =
     (let ptrf = (if char_at ptr2 0 = CHR '':'' \<and> char_at ptr2 1 \<noteq> CHR 0x00 then Some (tl ptr2) else ptrf)
      in if char_at ptr2 0 \<in> {CHR 0x00, CHR 0x27, CHR 0x22, CHR '',''} then Some (ptr2, ptrf)
         else partial_end ptr2 ptrf)"

definition is_separator :: "char \<Rightarrow> bool" where
  "is_separator c \<longleftrightarrow> c \<in> {CHR '':'', CHR 0x27, CHR 0x22, CHR '',''}"

definition skip_quote :: "string \<Rightarrow> string" where
  "skip_quote ptr1 = (if char_at ptr1 0 = CHR 0x22 \<or> char_at ptr1 0 = CHR 0x27 then tl ptr1 else ptr1)"

lemma partial_end_length: "partial_end p f = Some (q, g) \<Longrightarrow> length q < length p"
  by (induction p f rule: partial_end.induct) (auto simp: Let_def split: if_splits)

lemma partial_end_skip_length:
  "partial_end (skip_quote p) f = Some (q, g) \<Longrightarrow> length (dropWhile is_separator q) < length p"
  using partial_end_length [of "skip_quote p" f q g] length_dropWhile_le [of is_separator q]
  by (auto simp: skip_quote_def split: if_splits)

text \<open>One test: its file and name (\<open>TestFile\<close>, \<open>CurrentTestName\<close>) against one partial.\<close>

definition partial_matches :: "cstr \<Rightarrow> cstr \<Rightarrow> string \<Rightarrow> string option \<Rightarrow> bool option" where
  "partial_matches file name ptr1 ptrf =
     do {
       retval \<leftarrow> IsStringInBiggerString file ptr1;
       if retval = 1 then Some True
       else do {
         after_file \<leftarrow>
           (case ptrf of
              Some f \<Rightarrow> if retval = 2 then IsStringInBiggerString name f else Some 0
            | None \<Rightarrow> Some 0);
         if after_file \<noteq> 0 then Some True
         else do {
           named \<leftarrow> IsStringInBiggerString name ptr1;
           Some (named = 1)
         }
       }
     }"

function UnityStringArgumentMatches_loop :: "cstr \<Rightarrow> cstr \<Rightarrow> string \<Rightarrow> 32 word option" where
  "UnityStringArgumentMatches_loop file name ptr1 =
     (if char_at ptr1 0 = CHR 0x00 then Some 0
      else (case partial_end (skip_quote ptr1) None of
              None \<Rightarrow> None
            | Some (ptr2, ptrf) \<Rightarrow>
                (case partial_matches file name (skip_quote ptr1) ptrf of
                   None \<Rightarrow> None
                 | Some True \<Rightarrow> Some 1
                 | Some False \<Rightarrow> UnityStringArgumentMatches_loop file name (dropWhile is_separator ptr2))))"
  by auto
termination
  by (relation "measure (\<lambda>(_, _, ptr1). length ptr1)") (auto dest: partial_end_skip_length)

declare UnityStringArgumentMatches_loop.simps [simp del]

definition UnityStringArgumentMatches :: "string \<Rightarrow> 'a unity_world_scheme \<Rightarrow> 32 word option" where
  "UnityStringArgumentMatches str w =
     UnityStringArgumentMatches_loop (TestFile w) (CurrentTestName w) str"

definition UnityTestMatches :: "'a unity_options_world_scheme \<Rightarrow> 32 word option" where
  "UnityTestMatches w =
     (case (case UnityOptionIncludeNamed w of
              Some named \<Rightarrow> UnityStringArgumentMatches named w
            | None \<Rightarrow> Some 1) of
        None \<Rightarrow> None
      | Some retval \<Rightarrow>
          (case UnityOptionExcludeNamed w of
             None \<Rightarrow> Some retval
           | Some named \<Rightarrow>
               (case UnityStringArgumentMatches named w of
                  None \<Rightarrow> None
                | Some excluded \<Rightarrow> Some (if excluded \<noteq> 0 then 0 else retval))))"

section \<open>What the matcher decides\<close>

text \<open>
  A filter entry ends at a wildcard, comma, quote, colon or the end of the string; its first
  character is never an end.
\<close>

definition is_entry_end :: "char \<Rightarrow> bool" where
  "is_entry_end c \<longleftrightarrow> c \<in> {CHR ''*'', CHR '','', CHR 0x22, CHR 0x27, CHR '':'', CHR 0x00}"

definition entry_key :: "string \<Rightarrow> string" where
  "entry_key s = take 1 s @ takeWhile (\<lambda>c. \<not> is_entry_end c) (drop 1 s)"

definition entry_code :: "string \<Rightarrow> 32 word" where
  "entry_code s = (if char_at s (length (entry_key s)) = CHR '':'' then 2 else 1)"

lemma char_at_simps [simp]:
  "char_at [] i = CHR 0x00" "char_at (c # s) 0 = c" "char_at (c # s) (Suc i) = char_at s i"
  by (simp_all add: char_at_def)

lemma entry_key_Cons_end:
  "is_entry_end (char_at s 0) \<Longrightarrow> entry_key (c # s) = [c]"
  by (cases s) (simp_all add: entry_key_def)

lemma entry_key_Cons_more:
  "\<not> is_entry_end (char_at s 0) \<Longrightarrow> entry_key (c # s) = c # entry_key s"
  by (cases s) (simp_all add: entry_key_def is_entry_end_def)

lemma IsStringInBiggerString_inner_prefix:
  "IsStringInBiggerString_inner l s =
     (if char_at s 0 \<noteq> CHR 0x00 \<and> prefix (entry_key s) (c_chars l) then Some (entry_code s) else None)"
proof (induction l s rule: IsStringInBiggerString_inner.induct)
  case (1 l lptr s sptr)
  show ?case
  proof (cases "is_entry_end (char_at sptr 0)")
    case True
    then show ?thesis
      by (auto simp: entry_key_Cons_end entry_code_def c_chars_def Let_def is_entry_end_def)
  next
    case False
    then have "char_at sptr 0 \<noteq> CHR 0x00" by (simp add: is_entry_end_def)
    with False 1 show ?thesis
      by (auto simp: entry_key_Cons_more entry_code_def c_chars_def Let_def is_entry_end_def)
  qed
qed (auto simp: entry_key_def c_chars_def split: list.splits)

lemma IsStringInBiggerString_loop_sublist:
  "IsStringInBiggerString_loop l s =
     (if char_at s 0 \<noteq> CHR 0x00 \<and> sublist (entry_key s) (c_chars l) then entry_code s else 0)"
proof (induction l s rule: IsStringInBiggerString_loop.induct)
  case (1 s)
  then show ?case by (cases s) (auto simp: entry_key_def c_chars_def)
next
  case (2 l lnext s)
  show ?case
  proof (cases "l = CHR 0x00")
    case True
    then show ?thesis by (cases s) (auto simp: entry_key_def c_chars_def)
  next
    case False
    then have "c_chars (l # lnext) = l # c_chars lnext" by (simp add: c_chars_def)
    with False 2 show ?thesis
      by (simp add: IsStringInBiggerString_inner_prefix sublist_Cons_right)
  qed
qed

lemma entry_code_not_0 [simp]: "entry_code s \<noteq> 0" "entry_code s = 1 \<or> entry_code s = 2"
  by (simp_all add: entry_code_def)

lemma partial_end_None_iff: "partial_end p f = None \<longleftrightarrow> p = []"
  by (induction p f rule: partial_end.induct) (auto simp: Let_def)

text \<open>After the first partial no partial starts with a quote, so no later step leaves the string.\<close>

lemma dropWhile_separator_head:
  "\<not> is_separator (char_at (dropWhile is_separator q) 0)"
  by (induction q) (auto simp: is_separator_def)

lemma partial_matches_Some: "\<exists>b. partial_matches (Some file) (Some name) p f = Some b"
  by (auto simp: partial_matches_def IsStringInBiggerString_def split: option.split)

lemma UnityStringArgumentMatches_loop_returns:
  "\<not> is_separator (char_at p 0) \<Longrightarrow>
   \<exists>r. UnityStringArgumentMatches_loop (Some file) (Some name) p = Some r"
proof (induction p rule: length_induct)
  case (1 p)
  show ?case
  proof (cases "char_at p 0 = CHR 0x00")
    case True
    then show ?thesis by (simp add: UnityStringArgumentMatches_loop.simps)
  next
    case False
    have skip: "skip_quote p = p"
      using 1 by (simp add: skip_quote_def is_separator_def)
    from False have "p \<noteq> []" by auto
    then obtain q g where q: "partial_end p None = Some (q, g)"
      by (metis partial_end_None_iff not_None_eq prod.exhaust)
    moreover obtain r where
      "UnityStringArgumentMatches_loop (Some file) (Some name) (dropWhile is_separator q) = Some r"
      using 1 dropWhile_separator_head partial_end_skip_length [of p None q g] q
      by (auto simp: skip)
    moreover obtain b where "partial_matches (Some file) (Some name) p g = Some b"
      using partial_matches_Some by blast
    ultimately show ?thesis
      by (cases b) (simp_all add: UnityStringArgumentMatches_loop.simps [of _ _ p] skip)
  qed
qed

lemma UnityStringArgumentMatches_overread:
  assumes "CHR 0x00 \<notin> set str"
  shows "UnityStringArgumentMatches_loop (Some file) (Some name) str = None \<longleftrightarrow>
    str = [CHR 0x22] \<or> str = [CHR 0x27]"
proof (cases "skip_quote str = []")
  case True
  then consider "str = []" | "str = [CHR 0x22]" | "str = [CHR 0x27]"
    by (cases str) (auto simp: skip_quote_def split: if_splits)
  then show ?thesis
    by cases (simp_all add: UnityStringArgumentMatches_loop.simps skip_quote_def)
next
  case False
  then obtain q g where q: "partial_end (skip_quote str) None = Some (q, g)"
    by (metis partial_end_None_iff not_None_eq prod.exhaust)
  obtain r where
    "UnityStringArgumentMatches_loop (Some file) (Some name) (dropWhile is_separator q) = Some r"
    using UnityStringArgumentMatches_loop_returns dropWhile_separator_head by blast
  moreover obtain b where "partial_matches (Some file) (Some name) (skip_quote str) g = Some b"
    using partial_matches_Some by blast
  ultimately have "UnityStringArgumentMatches_loop (Some file) (Some name) str \<noteq> None"
    using q by (cases b) (simp_all add: UnityStringArgumentMatches_loop.simps [of _ _ str])
  with False show ?thesis by (auto simp: skip_quote_def)
qed

text \<open>A comma-separated list of plain entries.\<close>

definition plain_entry :: "string \<Rightarrow> bool" where
  "plain_entry k \<longleftrightarrow> k \<noteq> [] \<and> list_all (\<lambda>c. \<not> is_entry_end c) k"

fun comma_list :: "string list \<Rightarrow> string" where
  "comma_list [] = []"
| "comma_list [k] = k"
| "comma_list (k # ks) = k @ '','' @ comma_list ks"

definition comma_tail :: "string list \<Rightarrow> string" where
  "comma_tail ks = (if ks = [] then [] else '','' @ comma_list ks)"

lemma comma_list_Cons: "comma_list (k # ks) = k @ comma_tail ks"
  by (cases ks) (simp_all add: comma_tail_def)

lemma plain_entry_head:
  assumes "plain_entry k"
  obtains c k' where "k = c # k'" "\<not> is_entry_end c"
  using assms by (cases k) (auto simp: plain_entry_def)

lemma partial_end_plain:
  "list_all (\<lambda>c. \<not> is_entry_end c) k \<Longrightarrow> partial_end (c # k @ comma_tail ks) f = Some (comma_tail ks, f)"
  by (induction k arbitrary: c) (auto simp: comma_tail_def is_entry_end_def)

lemma is_entry_end_comma: "is_entry_end (CHR '','')"
  by (simp add: is_entry_end_def)

lemma entry_key_plain: "plain_entry k \<Longrightarrow> entry_key (k @ comma_tail ks) = k"
  using is_entry_end_comma
  by (cases k) (auto simp: plain_entry_def entry_key_def comma_tail_def list_all_iff takeWhile_append)

lemma entry_code_plain: "plain_entry k \<Longrightarrow> entry_code (k @ comma_tail ks) = 1"
  using entry_key_plain [of k ks] by (auto simp: entry_code_def char_at_def comma_tail_def nth_append)

lemma comma_tail_skip:
  "list_all plain_entry ks \<Longrightarrow> dropWhile is_separator (comma_tail ks) = comma_list ks"
  by (cases ks)
     (auto simp: comma_tail_def comma_list_Cons is_separator_def is_entry_end_def elim!: plain_entry_head)

lemma partial_matches_plain:
  assumes "plain_entry k"
  shows "partial_matches (Some file) (Some name) (k @ comma_tail ks) None =
    Some (sublist k (c_chars file) \<or> sublist k (c_chars name))"
proof -
  from assms have "char_at (k @ comma_tail ks) 0 \<noteq> CHR 0x00" "char_at (k @ comma_tail ks) 0 \<noteq> CHR ''*''"
    by (auto elim!: plain_entry_head simp: is_entry_end_def)
  with assms show ?thesis
    by (simp add: partial_matches_def IsStringInBiggerString_def IsStringInBiggerString_loop_sublist
      entry_key_plain entry_code_plain)
qed

lemma UnityStringArgumentMatches_plain:
  "list_all plain_entry ks \<Longrightarrow>
   UnityStringArgumentMatches_loop (Some file) (Some name) (comma_list ks) =
     Some (if list_ex (\<lambda>k. sublist k (c_chars file) \<or> sublist k (c_chars name)) ks then 1 else 0)"
proof (induction ks)
  case Nil
  then show ?case by (simp add: UnityStringArgumentMatches_loop.simps)
next
  case (Cons k ks)
  then have k: "plain_entry k" and ks: "list_all plain_entry ks" by simp_all
  from k obtain c k' where ck: "k = c # k'" "\<not> is_entry_end c" by (rule plain_entry_head)
  then have skip: "skip_quote (k @ comma_tail ks) = k @ comma_tail ks"
    and start: "char_at (k @ comma_tail ks) 0 \<noteq> CHR 0x00"
    by (simp_all add: skip_quote_def is_entry_end_def)
  have "partial_end (k @ comma_tail ks) None = Some (comma_tail ks, None)"
    using k partial_end_plain [of k' c ks None] by (simp add: ck plain_entry_def)
  with skip start Cons.IH ks show ?case
    by (simp add: comma_list_Cons UnityStringArgumentMatches_loop.simps [of _ _ "k @ comma_tail ks"]
      partial_matches_plain [OF k] comma_tail_skip [OF ks] split: bool.split)
qed

section \<open>Properties\<close>

text \<open>C19: A filter that is a comma-separated list of plain entries (no wildcard, quote, colon or comma
  inside) selects exactly the tests whose file name or test name contains one of the entries.\<close>

theorem UnityTestMatches_comma_list:
  assumes "list_all plain_entry entries" and "UnityOptionIncludeNamed w = Some (comma_list entries)"
    and "UnityOptionExcludeNamed w = None" and "TestFile w = Some tfile" and "CurrentTestName w = Some name"
  shows "UnityTestMatches w =
    Some (if list_ex (\<lambda>k. sublist k (c_chars tfile) \<or> sublist k (c_chars name)) entries then 1 else 0)"
  using assms by (simp add: UnityTestMatches_def UnityStringArgumentMatches_def UnityStringArgumentMatches_plain)

definition options_example :: unity_options_world where
  "options_example = unity_world.extend (Unity\<lparr>TestFile := Some ''test_string.c'', CurrentTestName := Some ''strlen''\<rparr>)
     (unity_options_world.fields (Some ''memcpy,len'') None 1)"

theorem UnityTestMatches_comma_list_witness: "UnityTestMatches options_example = Some 1"
proof -
  have "list_all plain_entry [''memcpy'', ''len'']" by code_simp
  moreover have "comma_list [''memcpy'', ''len''] = ''memcpy,len''" by simp
  moreover have "list_ex (\<lambda>k. sublist k (c_chars ''test_string.c'') \<or> sublist k (c_chars ''strlen''))
      [''memcpy'', ''len'']" by code_simp
  ultimately show ?thesis
    using UnityTestMatches_comma_list [of "[''memcpy'', ''len'']" options_example "''test_string.c''" "''strlen''"]
    by (simp add: options_example_def unity_world.defs unity_options_world.defs Unity_def)
qed

text \<open>C20: Matching a filter string against a test reads beyond the end of the string exactly when the
  string is a single quote character; for every other string it returns.\<close>

theorem UnityStringArgumentMatches_reads_in_bounds:
  assumes "CHR 0x00 \<notin> set str" and "TestFile w = Some tfile" and "CurrentTestName w = Some name"
  shows "UnityStringArgumentMatches str w = None \<longleftrightarrow> str = [CHR 0x22] \<or> str = [CHR 0x27]"
  using UnityStringArgumentMatches_overread [OF assms(1)] assms by (simp add: UnityStringArgumentMatches_def)

theorem UnityStringArgumentMatches_reads_in_bounds_witness:
  "UnityStringArgumentMatches [CHR 0x22]
     (Unity\<lparr>TestFile := Some ''test_string.c'', CurrentTestName := Some ''strlen''\<rparr>) = None"
  using UnityStringArgumentMatches_reads_in_bounds [of "[CHR 0x22]"
    "Unity\<lparr>TestFile := Some ''test_string.c'', CurrentTestName := Some ''strlen''\<rparr>" "''test_string.c''" "''strlen''"]
  by simp

end
