(* ===== verification/Unity_Control.thy ===== *)
theory Unity_Control
  imports Unity_State
begin

text \<open>
  The control functions of \<^verbatim>\<open>src/unity/unity.c\<close>: \<^verbatim>\<open>UnityFail\<close>, \<^verbatim>\<open>UnityIgnore\<close>, \<^verbatim>\<open>UnityMessage\<close>, the plain test
  runner \<^verbatim>\<open>UnityDefaultTestRun\<close> with \<^verbatim>\<open>UnityConcludeTest\<close>, and \<^verbatim>\<open>UnityBegin\<close> / \<^verbatim>\<open>UnityEnd\<close>. Counters are
  64-bit and wrap, as \<^verbatim>\<open>UNITY_COUNTER_TYPE\<close> does.
\<close>

section \<open>Failing, ignoring, informing\<close>

definition UNITY_CLR_DETAILS :: "'a unity_world_scheme \<Rightarrow> 'a unity_world_scheme" where
  "UNITY_CLR_DETAILS w = w\<lparr>CurrentDetail1 := None, CurrentDetail2 := None\<rparr>"

definition UnityFail :: "cstr \<Rightarrow> UNITY_LINE_TYPE \<Rightarrow> 'a unity_act" where
  "UnityFail msg line = RETURN_IF_FAIL_OR_IGNORE (\<lambda>w.
     (let w = w\<lparr>CurrentAssertionLineNumber := line\<rparr>;
          w = puts (UnityTestResultsBegin (TestFile w) line) w;
          w = puts (UnityPrint (Some UnityStrFail)) w;
          w = (case msg of None \<Rightarrow> w | Some m \<Rightarrow>
                (let w = puts '':'' w;
                     w = (if CurrentDetail1 w \<noteq> None then
                            (let w = puts (UnityPrint (Some UnityStrDetail1Name)) w;
                                 w = puts (UnityPrint (CurrentDetail1 w)) w;
                                 w = (if CurrentDetail2 w \<noteq> None then
                                        puts (UnityPrint (CurrentDetail2 w))
                                          (puts (UnityPrint (Some UnityStrDetail2Name)) w)
                                      else w)
                             in puts (UnityPrint (Some UnityStrSpacer)) w)
                          else w);
                     w = (if (case m of [] \<Rightarrow> CHR 0x00 | c # _ \<Rightarrow> c) \<noteq> CHR '' '' then puts '' '' w else w)
                 in puts (UnityPrint msg) w));
          w = UNITY_PRINT_EOL w
      in UNITY_FAIL_AND_BAIL w))"

definition UnityIgnore :: "cstr \<Rightarrow> UNITY_LINE_TYPE \<Rightarrow> 'a unity_act" where
  "UnityIgnore msg line = RETURN_IF_FAIL_OR_IGNORE (\<lambda>w.
     (let w = puts (UnityTestResultsBegin (TestFile w) line) w;
          w = puts (UnityPrint (Some UnityStrIgnore)) w;
          w = (if msg \<noteq> None then puts (UnityPrint msg) (puts '': '' w) else w);
          w = UNITY_PRINT_EOL w
      in UNITY_IGNORE_AND_BAIL w))"

definition UnityMessage :: "cstr \<Rightarrow> UNITY_LINE_TYPE \<Rightarrow> 'a unity_world_scheme \<Rightarrow> 'a unity_world_scheme" where
  "UnityMessage msg line w =
     (let w = puts (UnityTestResultsBegin (TestFile w) line) w;
          w = puts (UnityPrint (Some ''INFO'')) w;
          w = (if msg \<noteq> None then puts (UnityPrint msg) (puts '': '' w) else w)
      in UNITY_PRINT_EOL w)"

section \<open>The plain runner\<close>

definition UnityConcludeTest :: "'a unity_world_scheme \<Rightarrow> 'a unity_world_scheme" where
  "UnityConcludeTest w =
     (let w = (if CurrentTestIgnored w \<noteq> 0 then w\<lparr>TestIgnores := TestIgnores w + 1\<rparr>
               else if CurrentTestFailed w = 0 then
                 puts (UnityPrint (Some UnityStrPass))
                   (puts (UnityTestResultsBegin (TestFile w) (CurrentTestLineNumber w)) w)
               else w\<lparr>TestFailures := TestFailures w + 1\<rparr>);
          w = w\<lparr>CurrentTestFailed := 0\<rparr>;
          w = w\<lparr>CurrentTestIgnored := 0\<rparr>
      in UNITY_PRINT_EOL w)"

definition UnityDefaultTestRun ::
  "'a unity_act \<Rightarrow> 'a unity_act \<Rightarrow> 'a unity_act \<Rightarrow> cstr \<Rightarrow> 32 word \<Rightarrow>
   'a unity_world_scheme \<Rightarrow> 'a unity_world_scheme" where
  "UnityDefaultTestRun setUp tearDown func FuncName FuncLineNum w =
     (let w = w\<lparr>CurrentTestName := FuncName\<rparr>;
          w = w\<lparr>CurrentTestLineNumber := scast FuncLineNum\<rparr>;
          w = w\<lparr>NumberOfTests := NumberOfTests w + 1\<rparr>;
          w = UNITY_CLR_DETAILS w;
          w = TEST_PROTECT (run_calls [setUp, func]) w;
          w = TEST_PROTECT tearDown w
      in UnityConcludeTest w)"

definition UnitySetTestFile :: "cstr \<Rightarrow> 'a unity_world_scheme \<Rightarrow> 'a unity_world_scheme" where
  "UnitySetTestFile filename w = w\<lparr>TestFile := filename\<rparr>"

definition UnityBegin :: "cstr \<Rightarrow> 'a unity_world_scheme \<Rightarrow> 'a unity_world_scheme" where
  "UnityBegin filename w =
     UNITY_CLR_DETAILS (w\<lparr>TestFile := filename, CurrentTestName := None, CurrentTestLineNumber := 0,
       NumberOfTests := 0, TestFailures := 0, TestIgnores := 0,
       CurrentTestFailed := 0, CurrentTestIgnored := 0\<rparr>)"

definition UnityEnd :: "'a unity_world_scheme \<Rightarrow> 32 word \<times> 'a unity_world_scheme" where
  "UnityEnd w =
     (let w = UNITY_PRINT_EOL w;
          w = puts (UnityPrint (Some UnityStrBreaker)) w;
          w = UNITY_PRINT_EOL w;
          w = puts (UnityPrintNumber (NumberOfTests w)) w;
          w = puts (UnityPrint (Some UnityStrResultsTests)) w;
          w = puts (UnityPrintNumber (TestFailures w)) w;
          w = puts (UnityPrint (Some UnityStrResultsFailures)) w;
          w = puts (UnityPrintNumber (TestIgnores w)) w;
          w = puts (UnityPrint (Some UnityStrResultsIgnored)) w;
          w = UNITY_PRINT_EOL w;
          w = (if TestFailures w = 0 then puts (UnityPrint (Some UnityStrOk)) w
               else puts (UnityPrint (Some UnityStrFail)) w);
          w = UNITY_PRINT_EOL w
      in (ucast (TestFailures w), w))"

section \<open>Closed forms\<close>

definition details_text :: "'a unity_world_scheme \<Rightarrow> string" where
  "details_text w =
     (case CurrentDetail1 w of None \<Rightarrow> [] | Some d1 \<Rightarrow>
        UnityStrDetail1Name @ UnityPrint (Some d1) @
        (case CurrentDetail2 w of None \<Rightarrow> []
         | Some d2 \<Rightarrow> UnityStrDetail2Name @ UnityPrint (Some d2)) @
        UnityStrSpacer)"

definition fail_report :: "cstr \<Rightarrow> 'a unity_world_scheme \<Rightarrow> string" where
  "fail_report msg w = (case msg of None \<Rightarrow> [] | Some m \<Rightarrow>
     '':'' @ details_text w @
     (if (case m of [] \<Rightarrow> CHR 0x00 | c # _ \<Rightarrow> c) \<noteq> CHR '' '' then '' '' else []) @ UnityPrint msg)"

lemma UnityFail_outcome:
  "\<not> test_pending w \<Longrightarrow> UnityFail msg line w = (Aborted, failed_with line (fail_report msg w) w)"
  by (cases msg; cases "CurrentDetail1 w"; cases "CurrentDetail2 w")
     (simp_all add: UnityFail_def Let_def fail_report_def details_text_def UNITY_FAIL_AND_BAIL_def
      UNITY_PRINT_EOL_def failed_with_def fail_line_def UnityTestResultsBegin_def puts_def,
      simp_all add: UnityStrFail_def)

text \<open>\<^verbatim>\<open>UNITY_TEST_ASSERT(condition, line, message)\<close> evaluates the condition and fails unless it holds.\<close>

definition UNITY_TEST_ASSERT :: "bool \<Rightarrow> UNITY_LINE_TYPE \<Rightarrow> cstr \<Rightarrow> 'a unity_act" where
  "UNITY_TEST_ASSERT condition line message w =
     (if condition then (Returned, w) else UnityFail message line w)"

text \<open>The final report.\<close>

definition summary_text :: "UNITY_COUNTER_TYPE \<Rightarrow> UNITY_COUNTER_TYPE \<Rightarrow> UNITY_COUNTER_TYPE \<Rightarrow> string" where
  "summary_text tests failures ignores = [CHR 0x0A] @ UnityStrBreaker @ [CHR 0x0A] @
     UnityPrintNumber tests @ '' Tests '' @ UnityPrintNumber failures @ '' Failures '' @
     UnityPrintNumber ignores @ '' Ignored '' @ [CHR 0x0A] @
     (if failures = 0 then ''OK'' else ''FAIL'') @ [CHR 0x0A]"

definition end_text :: "'a unity_world_scheme \<Rightarrow> string" where
  "end_text w = summary_text (NumberOfTests w) (TestFailures w) (TestIgnores w)"

lemma UnityEnd_eq: "UnityEnd w = (ucast (TestFailures w), w\<lparr>stdout := stdout w @ end_text w\<rparr>)"
proof -
  have "UnityEnd w = (ucast (TestFailures w), puts (end_text w) w)"
    by (simp add: UnityEnd_def Let_def UNITY_PRINT_EOL_puts end_text_def summary_text_def)
       (simp add: UnityStrResultsTests_def UnityStrResultsFailures_def UnityStrResultsIgnored_def
         UnityStrOk_def UnityStrFail_def)
  then show ?thesis by (simp add: puts_def)
qed

interpretation test_assert: unity_check
  "\<lambda>(condition, msg) line. UNITY_TEST_ASSERT condition line msg"
  "\<lambda>(condition, msg) w. condition"
  "\<lambda>(condition, msg) w. fail_report msg w"
  by unfold_locales (auto simp: UNITY_TEST_ASSERT_def UnityFail_outcome split: prod.splits,
    simp add: UnityFail_def)

interpretation unity_fail: unity_assertion
  "UnityFail" "\<lambda>msg w. False" "fail_report"
  by unfold_locales (auto simp: UnityFail_outcome, simp_all add: UnityFail_def)

end
