(* ===== verification/Unity_Numbers.thy ===== *)
theory Unity_Numbers
  imports Unity_State
begin

text \<open>
  The scalar assertions of \<^verbatim>\<open>src/unity/unity.c\<close>: \<^verbatim>\<open>UnityAssertBits\<close>, \<^verbatim>\<open>UnityAssertEqualNumber\<close>,
  \<^verbatim>\<open>UnityAssertGreaterOrLessOrEqualNumber\<close> and \<^verbatim>\<open>UnityAssertNumbersWithin\<close>. Each one is an instance of the
  contract \<open>unity_assertion\<close>, with the condition it decides stated over the mathematical integers.
\<close>

section \<open>The code\<close>

datatype UNITY_COMPARISON_T =
    UNITY_WITHIN | UNITY_EQUAL_TO | UNITY_GREATER_THAN | UNITY_GREATER_OR_EQUAL
  | UNITY_SMALLER_THAN | UNITY_SMALLER_OR_EQUAL | UNITY_NOT_EQUAL | UNITY_UNKNOWN

fun compare_val :: "UNITY_COMPARISON_T \<Rightarrow> UNITY_UINT32" where
  "compare_val UNITY_WITHIN = 0x0"
| "compare_val UNITY_EQUAL_TO = 0x1"
| "compare_val UNITY_GREATER_THAN = 0x2"
| "compare_val UNITY_GREATER_OR_EQUAL = 0x2 + 0x1"
| "compare_val UNITY_SMALLER_THAN = 0x4"
| "compare_val UNITY_SMALLER_OR_EQUAL = 0x4 + 0x1"
| "compare_val UNITY_NOT_EQUAL = 0x0"
| "compare_val UNITY_UNKNOWN = 0x0 + 1"

definition UnityAssertBits ::
  "UNITY_INT \<Rightarrow> UNITY_INT \<Rightarrow> UNITY_INT \<Rightarrow> cstr \<Rightarrow> UNITY_LINE_TYPE \<Rightarrow> 'a unity_act" where
  "UnityAssertBits msk expected actual msg lineNumber = RETURN_IF_FAIL_OR_IGNORE (\<lambda>w.
     if msk AND expected \<noteq> msk AND actual then
       (let w = UnityTestResultsFailBegin lineNumber w;
            w = puts (UnityPrint (Some UnityStrExpected)) w;
            w = puts (UnityPrintMask msk expected) w;
            w = puts (UnityPrint (Some UnityStrWas)) w;
            w = puts (UnityPrintMask msk actual) w;
            w = UnityAddMsgIfSpecified msg w;
            w = UNITY_PRINT_EOL w
        in UNITY_FAIL_AND_BAIL w)
     else (Returned, w))"

definition UnityAssertEqualNumber ::
  "UNITY_INT \<Rightarrow> UNITY_INT \<Rightarrow> cstr \<Rightarrow> UNITY_LINE_TYPE \<Rightarrow> UNITY_DISPLAY_STYLE_T \<Rightarrow> 'a unity_act" where
  "UnityAssertEqualNumber expected actual msg lineNumber style = RETURN_IF_FAIL_OR_IGNORE (\<lambda>w.
     if expected \<noteq> actual then
       (let w = UnityTestResultsFailBegin lineNumber w;
            w = puts (UnityPrint (Some UnityStrExpected)) w;
            w = puts (UnityPrintNumberByStyle expected style) w;
            w = puts (UnityPrint (Some UnityStrWas)) w;
            w = puts (UnityPrintNumberByStyle actual style) w;
            w = UnityAddMsgIfSpecified msg w;
            w = UNITY_PRINT_EOL w
        in UNITY_FAIL_AND_BAIL w)
     else (Returned, w))"

definition UnityAssertGreaterOrLessOrEqualNumber ::
  "UNITY_INT \<Rightarrow> UNITY_INT \<Rightarrow> UNITY_COMPARISON_T \<Rightarrow> cstr \<Rightarrow> UNITY_LINE_TYPE \<Rightarrow>
   UNITY_DISPLAY_STYLE_T \<Rightarrow> 'a unity_act" where
  "UnityAssertGreaterOrLessOrEqualNumber threshold actual compare msg lineNumber style =
   RETURN_IF_FAIL_OR_IGNORE (\<lambda>w.
     if threshold = actual \<and> compare_val compare AND compare_val UNITY_EQUAL_TO \<noteq> 0 then (Returned, w)
     else
       (let failed = (threshold = actual);
            failed =
              (if style_val style AND UNITY_DISPLAY_RANGE_INT = UNITY_DISPLAY_RANGE_INT then
                 (let failed = (if sint actual > sint threshold \<and>
                                   compare_val compare AND compare_val UNITY_SMALLER_THAN \<noteq> 0
                                then True else failed)
                  in (if sint actual < sint threshold \<and>
                         compare_val compare AND compare_val UNITY_GREATER_THAN \<noteq> 0
                      then True else failed))
               else
                 (let failed = (if actual > threshold \<and>
                                   compare_val compare AND compare_val UNITY_SMALLER_THAN \<noteq> 0
                                then True else failed)
                  in (if actual < threshold \<and>
                         compare_val compare AND compare_val UNITY_GREATER_THAN \<noteq> 0
                      then True else failed)))
        in if failed then
             (let w = UnityTestResultsFailBegin lineNumber w;
                  w = puts (UnityPrint (Some UnityStrExpected)) w;
                  w = puts (UnityPrintNumberByStyle actual style) w;
                  w = (if compare_val compare AND compare_val UNITY_GREATER_THAN \<noteq> 0
                       then puts (UnityPrint (Some UnityStrGt)) w else w);
                  w = (if compare_val compare AND compare_val UNITY_SMALLER_THAN \<noteq> 0
                       then puts (UnityPrint (Some UnityStrLt)) w else w);
                  w = (if compare_val compare AND compare_val UNITY_EQUAL_TO \<noteq> 0
                       then puts (UnityPrint (Some UnityStrOrEqual)) w else w);
                  w = (if compare_val compare = compare_val UNITY_NOT_EQUAL
                       then puts (UnityPrint (Some UnityStrNotEqual)) w else w);
                  w = puts (UnityPrintNumberByStyle threshold style) w;
                  w = UnityAddMsgIfSpecified msg w;
                  w = UNITY_PRINT_EOL w
              in UNITY_FAIL_AND_BAIL w)
           else (Returned, w)))"

definition UnityAssertNumbersWithin ::
  "UNITY_UINT \<Rightarrow> UNITY_INT \<Rightarrow> UNITY_INT \<Rightarrow> cstr \<Rightarrow> UNITY_LINE_TYPE \<Rightarrow>
   UNITY_DISPLAY_STYLE_T \<Rightarrow> 'a unity_act" where
  "UnityAssertNumbersWithin delta expected actual msg lineNumber style =
   RETURN_IF_FAIL_OR_IGNORE (\<lambda>w.
     (let w = (if style_val style AND UNITY_DISPLAY_RANGE_INT = UNITY_DISPLAY_RANGE_INT then
                 (if sint actual > sint expected
                  then w\<lparr>CurrentTestFailed := of_bool (actual - expected > delta)\<rparr>
                  else w\<lparr>CurrentTestFailed := of_bool (expected - actual > delta)\<rparr>)
               else
                 (if actual > expected
                  then w\<lparr>CurrentTestFailed := of_bool (actual - expected > delta)\<rparr>
                  else w\<lparr>CurrentTestFailed := of_bool (expected - actual > delta)\<rparr>))
      in if CurrentTestFailed w \<noteq> 0 then
           (let w = UnityTestResultsFailBegin lineNumber w;
                w = puts (UnityPrint (Some UnityStrDelta)) w;
                w = puts (UnityPrintNumberByStyle delta style) w;
                w = puts (UnityPrint (Some UnityStrExpected)) w;
                w = puts (UnityPrintNumberByStyle expected style) w;
                w = puts (UnityPrint (Some UnityStrWas)) w;
                w = puts (UnityPrintNumberByStyle actual style) w;
                w = UnityAddMsgIfSpecified msg w;
                w = UNITY_PRINT_EOL w
            in UNITY_FAIL_AND_BAIL w)
         else (Returned, w)))"

section \<open>Conditions over the integers\<close>

text \<open>The number an argument stands for under a display style.\<close>

definition style_signed :: "UNITY_DISPLAY_STYLE_T \<Rightarrow> bool" where
  "style_signed style \<longleftrightarrow> style_val style AND UNITY_DISPLAY_RANGE_INT = UNITY_DISPLAY_RANGE_INT"

definition style_int :: "UNITY_DISPLAY_STYLE_T \<Rightarrow> UNITY_INT \<Rightarrow> int" where
  "style_int style x = (if style_signed style then sint x else uint x)"

fun compare_holds :: "UNITY_COMPARISON_T \<Rightarrow> int \<Rightarrow> int \<Rightarrow> bool" where
  "compare_holds UNITY_GREATER_THAN threshold actual \<longleftrightarrow> threshold < actual"
| "compare_holds UNITY_GREATER_OR_EQUAL threshold actual \<longleftrightarrow> threshold \<le> actual"
| "compare_holds UNITY_SMALLER_THAN threshold actual \<longleftrightarrow> actual < threshold"
| "compare_holds UNITY_SMALLER_OR_EQUAL threshold actual \<longleftrightarrow> actual \<le> threshold"
| "compare_holds UNITY_NOT_EQUAL threshold actual \<longleftrightarrow> threshold \<noteq> actual"
| "compare_holds UNITY_WITHIN threshold actual \<longleftrightarrow> threshold \<noteq> actual"
| "compare_holds UNITY_EQUAL_TO threshold actual \<longleftrightarrow> True"
| "compare_holds UNITY_UNKNOWN threshold actual \<longleftrightarrow> True"

fun compare_text :: "UNITY_COMPARISON_T \<Rightarrow> string" where
  "compare_text UNITY_GREATER_THAN = UnityStrGt"
| "compare_text UNITY_GREATER_OR_EQUAL = UnityStrGt @ UnityStrOrEqual"
| "compare_text UNITY_SMALLER_THAN = UnityStrLt"
| "compare_text UNITY_SMALLER_OR_EQUAL = UnityStrLt @ UnityStrOrEqual"
| "compare_text UNITY_NOT_EQUAL = UnityStrNotEqual"
| "compare_text UNITY_WITHIN = UnityStrNotEqual"
| "compare_text UNITY_EQUAL_TO = UnityStrOrEqual"
| "compare_text UNITY_UNKNOWN = UnityStrOrEqual"

definition style_within :: "UNITY_DISPLAY_STYLE_T \<Rightarrow> UNITY_UINT \<Rightarrow> UNITY_INT \<Rightarrow> UNITY_INT \<Rightarrow> bool" where
  "style_within style delta expected actual \<longleftrightarrow>
     \<bar>style_int style actual - style_int style expected\<bar> \<le> uint delta"

lemma style_int_eq_iff: "style_int style x = style_int style y \<longleftrightarrow> x = y"
  by (auto simp: style_int_def intro: signed_word_eqI unsigned_word_eqI)

lemma compare_val_bits [simp]:
  "compare_val c AND compare_val UNITY_EQUAL_TO \<noteq> 0 \<longleftrightarrow>
     c \<in> {UNITY_EQUAL_TO, UNITY_GREATER_OR_EQUAL, UNITY_SMALLER_OR_EQUAL, UNITY_UNKNOWN}"
  "compare_val c AND compare_val UNITY_SMALLER_THAN \<noteq> 0 \<longleftrightarrow>
     c \<in> {UNITY_SMALLER_THAN, UNITY_SMALLER_OR_EQUAL}"
  "compare_val c AND compare_val UNITY_GREATER_THAN \<noteq> 0 \<longleftrightarrow>
     c \<in> {UNITY_GREATER_THAN, UNITY_GREATER_OR_EQUAL}"
  "compare_val c = compare_val UNITY_NOT_EQUAL \<longleftrightarrow> c \<in> {UNITY_NOT_EQUAL, UNITY_WITHIN}"
  by (cases c; simp)+

section \<open>Every scalar assertion keeps the contract\<close>

text \<open>Reports in closed form.\<close>

definition bits_report where
  "bits_report msk expected actual msg w =
     '':'' @ UnityStrExpected @ UnityPrintMask msk expected @ UnityStrWas @ UnityPrintMask msk actual @ msg_text msg w"

definition equal_report where
  "equal_report expected actual msg style w =
     '':'' @ UnityStrExpected @ UnityPrintNumberByStyle expected style @ UnityStrWas @
     UnityPrintNumberByStyle actual style @ msg_text msg w"

definition compare_report where
  "compare_report threshold actual compare msg style w =
     '':'' @ UnityStrExpected @ UnityPrintNumberByStyle actual style @ compare_text compare @
     UnityPrintNumberByStyle threshold style @ msg_text msg w"

definition within_report where
  "within_report delta expected actual msg style w =
     '':'' @ UnityStrDelta @ UnityPrintNumberByStyle delta style @ UnityStrExpected @
     UnityPrintNumberByStyle expected style @ UnityStrWas @ UnityPrintNumberByStyle actual style @
     msg_text msg w"

lemma UnityAssertBits_cases:
  "\<not> test_pending w \<Longrightarrow> UnityAssertBits msk expected actual msg line w =
     (if msk AND expected = msk AND actual then (Returned, w)
      else (Aborted, failed_with line (bits_report msk expected actual msg w) w))"
  by (simp add: UnityAssertBits_def Let_def fail_and_bail_report bits_report_def)

lemma UnityAssertEqualNumber_cases:
  "\<not> test_pending w \<Longrightarrow> UnityAssertEqualNumber expected actual msg line style w =
     (if expected = actual then (Returned, w)
      else (Aborted, failed_with line (equal_report expected actual msg style w) w))"
  by (simp add: UnityAssertEqualNumber_def Let_def fail_and_bail_report equal_report_def)

lemma UnityAssertGreaterOrLessOrEqualNumber_cases:
  "\<not> test_pending w \<Longrightarrow>
   UnityAssertGreaterOrLessOrEqualNumber threshold actual compare msg line style w =
     (if compare_holds compare (style_int style threshold) (style_int style actual) then (Returned, w)
      else (Aborted, failed_with line (compare_report threshold actual compare msg style w) w))"
  unfolding UnityAssertGreaterOrLessOrEqualNumber_def compare_val_bits
    style_signed_def [symmetric] word_less_def
  using style_int_eq_iff [of style threshold actual]
  by (cases compare; cases "style_signed style")
     (auto simp: Let_def fail_and_bail_report compare_report_def style_int_def)

text \<open>The unsigned difference of the larger and the smaller number is exact, although the
  subtraction itself is modulo \<open>2 ^ 64\<close>.\<close>

lemma word_sub_exact_uint: "uint a \<ge> uint b \<Longrightarrow> uint (a - b :: 64 word) = uint a - uint b"
proof -
  assume "uint a \<ge> uint b"
  moreover have "uint a < 2 ^ 64" using uint_bounded [of a] by simp
  then have "uint a - uint b < 2 ^ 64" using uint_ge_0 [of b] by linarith
  ultimately show ?thesis by (simp add: uint_word_ariths)
qed

lemma word_sub_exact_sint: "sint a \<ge> sint b \<Longrightarrow> uint (a - b :: 64 word) = sint a - sint b"
proof -
  assume "sint a \<ge> sint b"
  moreover have "sint a - sint b < 2 ^ 64"
    using sint_64_bounds [of a] sint_64_bounds [of b] by simp
  ultimately have "(sint a - sint b) mod 2 ^ 64 = sint a - sint b"
    by simp
  moreover have "uint (a - b) = (sint a mod 2 ^ 64 - sint b mod 2 ^ 64) mod 2 ^ 64"
    using uint_word_ariths(2) [of a b] by (simp only: uint_sint_64 [of a] uint_sint_64 [of b]) simp
  ultimately show ?thesis by (simp only: mod_diff_eq)
qed

lemma within_iff:
  "style_within style delta expected actual \<longleftrightarrow>
     (if style_int style actual > style_int style expected then \<not> actual - expected > delta
      else \<not> expected - actual > delta)"
  by (auto simp: style_within_def style_int_def word_less_def not_less
        word_sub_exact_sint word_sub_exact_uint)

lemma UnityAssertNumbersWithin_cases:
  "\<not> test_pending w \<Longrightarrow>
   UnityAssertNumbersWithin delta expected actual msg line style w =
     (if style_within style delta expected actual then (Returned, w)
      else (Aborted, failed_with line (within_report delta expected actual msg style w) w))"
  unfolding UnityAssertNumbersWithin_def style_signed_def [symmetric] within_iff
  by (auto simp: Let_def fail_and_bail_report within_report_def style_int_def word_less_def
      test_pending_def failed_with_def fail_line_def)

interpretation bits: unity_assertion
  "\<lambda>(msk, expected, actual, msg) line. UnityAssertBits msk expected actual msg line"
  "\<lambda>(msk, expected, actual, msg) w. msk AND expected = msk AND actual"
  "\<lambda>(msk, expected, actual, msg) w. bits_report msk expected actual msg w"
  by unfold_locales
     (auto simp: UnityAssertBits_cases split: prod.splits, simp_all add: UnityAssertBits_def)

interpretation equal_number: unity_assertion
  "\<lambda>(expected, actual, msg, style) line. UnityAssertEqualNumber expected actual msg line style"
  "\<lambda>(expected, actual, msg, style) w. expected = actual"
  "\<lambda>(expected, actual, msg, style) w. equal_report expected actual msg style w"
  by unfold_locales
     (auto simp: UnityAssertEqualNumber_cases split: prod.splits, simp_all add: UnityAssertEqualNumber_def)

interpretation compare_number: unity_assertion
  "\<lambda>(threshold, actual, compare, msg, style) line.
     UnityAssertGreaterOrLessOrEqualNumber threshold actual compare msg line style"
  "\<lambda>(threshold, actual, compare, msg, style) w.
     compare_holds compare (style_int style threshold) (style_int style actual)"
  "\<lambda>(threshold, actual, compare, msg, style) w. compare_report threshold actual compare msg style w"
  by unfold_locales
     (auto simp: UnityAssertGreaterOrLessOrEqualNumber_cases split: prod.splits,
      simp_all add: UnityAssertGreaterOrLessOrEqualNumber_def)

interpretation numbers_within: unity_assertion
  "\<lambda>(delta, expected, actual, msg, style) line.
     UnityAssertNumbersWithin delta expected actual msg line style"
  "\<lambda>(delta, expected, actual, msg, style) w. style_within style delta expected actual"
  "\<lambda>(delta, expected, actual, msg, style) w. within_report delta expected actual msg style w"
  by unfold_locales
     (auto simp: UnityAssertNumbersWithin_cases split: prod.splits,
      simp_all add: UnityAssertNumbersWithin_def)

end
