(* ===== verification/Unity_Arrays.thy ===== *)
theory Unity_Arrays
  imports Unity_Numbers
begin

text \<open>
  The assertions of \<^verbatim>\<open>src/unity/unity.c\<close> over integer arrays and raw memory:
  \<^verbatim>\<open>UnityAssertEqualIntArray\<close>, \<^verbatim>\<open>UnityAssertNumbersArrayWithin\<close>, \<^verbatim>\<open>UnityAssertEqualMemory\<close> and the one-element
  buffer \<^verbatim>\<open>UnityNumToPtr\<close>. A \<^verbatim>\<open>UNITY_INTERNAL_PTR\<close> is an address of the byte memory of the world, with
  \<open>0\<close> for \<^verbatim>\<open>NULL\<close>; multi-byte elements are little-endian and sign-extended to \<^verbatim>\<open>UNITY_INT\<close>, as the
  \<^verbatim>\<open>UNITY_INT8/16/32/64\<close> loads of the code do.
\<close>

section \<open>Memory\<close>

type_synonym ptr = "64 word"
type_synonym mem = "64 word \<Rightarrow> 8 word"

abbreviation NULL :: ptr where "NULL \<equiv> 0"

fun load_le :: "nat \<Rightarrow> mem \<Rightarrow> ptr \<Rightarrow> nat" where
  "load_le 0 m p = 0"
| "load_le (Suc n) m p = unat (m p) + 256 * load_le n m (p + 1)"

fun store_le :: "nat \<Rightarrow> nat \<Rightarrow> ptr \<Rightarrow> mem \<Rightarrow> mem" where
  "store_le 0 v p m = m"
| "store_le (Suc n) v p m = store_le n (v div 256) (p + 1) (m(p := word_of_nat v))"

definition load_INT8 :: "mem \<Rightarrow> ptr \<Rightarrow> UNITY_INT" where
  "load_INT8 m p = scast (word_of_nat (load_le 1 m p) :: 8 word)"

definition load_INT16 :: "mem \<Rightarrow> ptr \<Rightarrow> UNITY_INT" where
  "load_INT16 m p = scast (word_of_nat (load_le 2 m p) :: 16 word)"

definition load_INT32 :: "mem \<Rightarrow> ptr \<Rightarrow> UNITY_INT" where
  "load_INT32 m p = scast (word_of_nat (load_le 4 m p) :: 32 word)"

definition load_INT64 :: "mem \<Rightarrow> ptr \<Rightarrow> UNITY_INT" where
  "load_INT64 m p = word_of_nat (load_le 8 m p)"

text \<open>The \<^verbatim>\<open>switch (length)\<close> of the array loops: the value of one element, the pointer increment and
  the element length it settles on (every length but 1, 2 and 8 is read as 4).\<close>

definition load_element :: "UNITY_UINT32 \<Rightarrow> mem \<Rightarrow> ptr \<Rightarrow> UNITY_INT" where
  "load_element len m p =
     (if len = 1 then load_INT8 m p
      else if len = 2 then load_INT16 m p
      else if len = 8 then load_INT64 m p
      else load_INT32 m p)"

definition element_length :: "UNITY_UINT32 \<Rightarrow> UNITY_UINT32" where
  "element_length len = (if len = 1 then 1 else if len = 2 then 2 else if len = 8 then 8 else 4)"

section \<open>Null and pointless comparisons\<close>

datatype UNITY_FLAGS_T = UNITY_ARRAY_TO_VAL | UNITY_ARRAY_TO_ARRAY | UNITY_ARRAY_UNKNOWN

definition UnityIsOneArrayNull ::
  "ptr \<Rightarrow> ptr \<Rightarrow> UNITY_LINE_TYPE \<Rightarrow> cstr \<Rightarrow> 'a unity_world_scheme \<Rightarrow> bool \<times> 'a unity_world_scheme" where
  "UnityIsOneArrayNull expected actual lineNumber msg w =
     (if expected = actual then (False, w)
      else if expected = NULL then
        (let w = UnityTestResultsFailBegin lineNumber w;
             w = puts (UnityPrint (Some UnityStrNullPointerForExpected)) w
         in (True, UnityAddMsgIfSpecified msg w))
      else if actual = NULL then
        (let w = UnityTestResultsFailBegin lineNumber w;
             w = puts (UnityPrint (Some UnityStrNullPointerForActual)) w
         in (True, UnityAddMsgIfSpecified msg w))
      else (False, w))"

definition UnityPrintPointlessAndBail :: "UNITY_LINE_TYPE \<Rightarrow> cstr \<Rightarrow> 'a unity_act" where
  "UnityPrintPointlessAndBail lineNumber msg w =
     (let w = UnityTestResultsFailBegin lineNumber w;
          w = puts (UnityPrint (Some UnityStrPointless)) w;
          w = UnityAddMsgIfSpecified msg w;
          w = UNITY_PRINT_EOL w
      in UNITY_FAIL_AND_BAIL w)"

section \<open>Integer arrays\<close>

text \<open>The sign-extension fix-up before a mismatch is printed.\<close>

definition strip_sign_extension :: "UNITY_DISPLAY_STYLE_T \<Rightarrow> UNITY_UINT32 \<Rightarrow> UNITY_INT \<Rightarrow> UNITY_INT" where
  "strip_sign_extension style len val =
     (if style_val style AND UNITY_DISPLAY_RANGE_UINT \<noteq> 0 \<and> unat len < UNITY_INT_WIDTH div 8
      then val AND (push_bit (8 * unat len) 1 - 1)
      else val)"

fun UnityAssertEqualIntArray_loop ::
  "nat \<Rightarrow> ptr \<Rightarrow> ptr \<Rightarrow> UNITY_UINT32 \<Rightarrow> UNITY_UINT32 \<Rightarrow> cstr \<Rightarrow> UNITY_LINE_TYPE \<Rightarrow>
   UNITY_DISPLAY_STYLE_T \<Rightarrow> UNITY_FLAGS_T \<Rightarrow> 'a unity_act" where
  "UnityAssertEqualIntArray_loop 0 expected actual len num_elements msg lineNumber style flags w =
     (Returned, w)"
| "UnityAssertEqualIntArray_loop (Suc elements) expected actual len num_elements msg lineNumber style flags w =
     (let expect_val = load_element len (memory w) expected;
          actual_val = load_element len (memory w) actual;
          increment = ucast (element_length len);
          len = element_length len
      in if expect_val \<noteq> actual_val then
           (let expect_val = strip_sign_extension style len expect_val;
                actual_val = strip_sign_extension style len actual_val;
                w = UnityTestResultsFailBegin lineNumber w;
                w = puts (UnityPrint (Some UnityStrElement)) w;
                w = puts (UnityPrintNumberUnsigned (ucast (num_elements - word_of_nat elements - 1))) w;
                w = puts (UnityPrint (Some UnityStrExpected)) w;
                w = puts (UnityPrintNumberByStyle expect_val style) w;
                w = puts (UnityPrint (Some UnityStrWas)) w;
                w = puts (UnityPrintNumberByStyle actual_val style) w;
                w = UnityAddMsgIfSpecified msg w;
                w = UNITY_PRINT_EOL w
            in UNITY_FAIL_AND_BAIL w)
         else UnityAssertEqualIntArray_loop elements
                (if flags = UNITY_ARRAY_TO_ARRAY then expected + increment else expected)
                (actual + increment) len num_elements msg lineNumber style flags w)"

definition UnityAssertEqualIntArray ::
  "ptr \<Rightarrow> ptr \<Rightarrow> UNITY_UINT32 \<Rightarrow> cstr \<Rightarrow> UNITY_LINE_TYPE \<Rightarrow> UNITY_DISPLAY_STYLE_T \<Rightarrow>
   UNITY_FLAGS_T \<Rightarrow> 'a unity_act" where
  "UnityAssertEqualIntArray expected actual num_elements msg lineNumber style flags =
   RETURN_IF_FAIL_OR_IGNORE (\<lambda>w.
     if num_elements = 0 then UnityPrintPointlessAndBail lineNumber msg w
     else if expected = actual then (Returned, w)
     else (case UnityIsOneArrayNull expected actual lineNumber msg w of
             (True, w) \<Rightarrow> UNITY_FAIL_AND_BAIL (UNITY_PRINT_EOL w)
           | (False, w) \<Rightarrow> UnityAssertEqualIntArray_loop (unat num_elements) expected actual
                            (style_val style AND 0xF) num_elements msg lineNumber style flags w))"

fun UnityAssertNumbersArrayWithin_loop ::
  "nat \<Rightarrow> UNITY_UINT \<Rightarrow> ptr \<Rightarrow> ptr \<Rightarrow> UNITY_UINT32 \<Rightarrow> UNITY_UINT32 \<Rightarrow> cstr \<Rightarrow> UNITY_LINE_TYPE \<Rightarrow>
   UNITY_DISPLAY_STYLE_T \<Rightarrow> UNITY_FLAGS_T \<Rightarrow> 'a unity_act" where
  "UnityAssertNumbersArrayWithin_loop 0 delta expected actual len num_elements msg lineNumber style flags w =
     (Returned, w)"
| "UnityAssertNumbersArrayWithin_loop (Suc elements) delta expected actual len num_elements msg lineNumber style flags w =
     (let expect_val = load_element len (memory w) expected;
          actual_val = load_element len (memory w) actual;
          increment = ucast (element_length len);
          len = element_length len;
          w = (if style_val style AND UNITY_DISPLAY_RANGE_INT = UNITY_DISPLAY_RANGE_INT then
                 (if sint actual_val > sint expect_val
                  then w\<lparr>CurrentTestFailed := of_bool (actual_val - expect_val > delta)\<rparr>
                  else w\<lparr>CurrentTestFailed := of_bool (expect_val - actual_val > delta)\<rparr>)
               else
                 (if actual_val > expect_val
                  then w\<lparr>CurrentTestFailed := of_bool (actual_val - expect_val > delta)\<rparr>
                  else w\<lparr>CurrentTestFailed := of_bool (expect_val - actual_val > delta)\<rparr>))
      in if CurrentTestFailed w \<noteq> 0 then
           (let expect_val = strip_sign_extension style len expect_val;
                actual_val = strip_sign_extension style len actual_val;
                w = UnityTestResultsFailBegin lineNumber w;
                w = puts (UnityPrint (Some UnityStrDelta)) w;
                w = puts (UnityPrintNumberByStyle delta style) w;
                w = puts (UnityPrint (Some UnityStrElement)) w;
                w = puts (UnityPrintNumberUnsigned (ucast (num_elements - word_of_nat elements - 1))) w;
                w = puts (UnityPrint (Some UnityStrExpected)) w;
                w = puts (UnityPrintNumberByStyle expect_val style) w;
                w = puts (UnityPrint (Some UnityStrWas)) w;
                w = puts (UnityPrintNumberByStyle actual_val style) w;
                w = UnityAddMsgIfSpecified msg w;
                w = UNITY_PRINT_EOL w
            in UNITY_FAIL_AND_BAIL w)
         else UnityAssertNumbersArrayWithin_loop elements delta
                (if flags = UNITY_ARRAY_TO_ARRAY then expected + increment else expected)
                (actual + increment) len num_elements msg lineNumber style flags w)"

definition UnityAssertNumbersArrayWithin ::
  "UNITY_UINT \<Rightarrow> ptr \<Rightarrow> ptr \<Rightarrow> UNITY_UINT32 \<Rightarrow> cstr \<Rightarrow> UNITY_LINE_TYPE \<Rightarrow>
   UNITY_DISPLAY_STYLE_T \<Rightarrow> UNITY_FLAGS_T \<Rightarrow> 'a unity_act" where
  "UnityAssertNumbersArrayWithin delta expected actual num_elements msg lineNumber style flags =
   RETURN_IF_FAIL_OR_IGNORE (\<lambda>w.
     if num_elements = 0 then UnityPrintPointlessAndBail lineNumber msg w
     else if expected = actual then (Returned, w)
     else (case UnityIsOneArrayNull expected actual lineNumber msg w of
             (True, w) \<Rightarrow> UNITY_FAIL_AND_BAIL (UNITY_PRINT_EOL w)
           | (False, w) \<Rightarrow> UnityAssertNumbersArrayWithin_loop (unat num_elements) delta expected actual
                            (style_val style AND 0xF) num_elements msg lineNumber style flags w))"

section \<open>Raw memory\<close>

text \<open>The inner byte loop either fails or yields the advanced pointers.\<close>

fun UnityAssertEqualMemory_bytes ::
  "nat \<Rightarrow> ptr \<Rightarrow> ptr \<Rightarrow> UNITY_UINT32 \<Rightarrow> UNITY_UINT32 \<Rightarrow> nat \<Rightarrow> cstr \<Rightarrow> UNITY_LINE_TYPE \<Rightarrow>
   'a unity_world_scheme \<Rightarrow> (flow \<times> 'a unity_world_scheme) + ptr \<times> ptr" where
  "UnityAssertEqualMemory_bytes 0 ptr_exp ptr_act len num_elements elements msg lineNumber w =
     Inr (ptr_exp, ptr_act)"
| "UnityAssertEqualMemory_bytes (Suc bytes) ptr_exp ptr_act len num_elements elements msg lineNumber w =
     (if memory w ptr_exp \<noteq> memory w ptr_act then
        (let e = memory w ptr_exp;
             a = memory w ptr_act;
             w = UnityTestResultsFailBegin lineNumber w;
             w = puts (UnityPrint (Some UnityStrMemory)) w;
             w = (if num_elements > 1 then
                    puts (UnityPrintNumberUnsigned (ucast (num_elements - word_of_nat elements - 1)))
                      (puts (UnityPrint (Some UnityStrElement)) w)
                  else w);
             w = puts (UnityPrint (Some UnityStrByte)) w;
             w = puts (UnityPrintNumberUnsigned (ucast (len - word_of_nat bytes - 1))) w;
             w = puts (UnityPrint (Some UnityStrExpected)) w;
             w = puts (UnityPrintNumberByStyle (ucast e) UNITY_DISPLAY_STYLE_HEX8) w;
             w = puts (UnityPrint (Some UnityStrWas)) w;
             w = puts (UnityPrintNumberByStyle (ucast a) UNITY_DISPLAY_STYLE_HEX8) w;
             w = UnityAddMsgIfSpecified msg w;
             w = UNITY_PRINT_EOL w
         in Inl (UNITY_FAIL_AND_BAIL w))
      else UnityAssertEqualMemory_bytes bytes (ptr_exp + 1) (ptr_act + 1) len num_elements elements msg
             lineNumber w)"

fun UnityAssertEqualMemory_loop ::
  "nat \<Rightarrow> ptr \<Rightarrow> ptr \<Rightarrow> ptr \<Rightarrow> UNITY_UINT32 \<Rightarrow> UNITY_UINT32 \<Rightarrow> cstr \<Rightarrow> UNITY_LINE_TYPE \<Rightarrow>
   UNITY_FLAGS_T \<Rightarrow> 'a unity_act" where
  "UnityAssertEqualMemory_loop 0 expected ptr_exp ptr_act len num_elements msg lineNumber flags w =
     (Returned, w)"
| "UnityAssertEqualMemory_loop (Suc elements) expected ptr_exp ptr_act len num_elements msg lineNumber flags w =
     (case UnityAssertEqualMemory_bytes (unat len) ptr_exp ptr_act len num_elements elements msg
             lineNumber w of
        Inl r \<Rightarrow> r
      | Inr (ptr_exp, ptr_act) \<Rightarrow>
          UnityAssertEqualMemory_loop elements expected
            (if flags = UNITY_ARRAY_TO_VAL then expected else ptr_exp) ptr_act len num_elements msg
            lineNumber flags w)"

definition UnityAssertEqualMemory ::
  "ptr \<Rightarrow> ptr \<Rightarrow> UNITY_UINT32 \<Rightarrow> UNITY_UINT32 \<Rightarrow> cstr \<Rightarrow> UNITY_LINE_TYPE \<Rightarrow> UNITY_FLAGS_T \<Rightarrow>
   'a unity_act" where
  "UnityAssertEqualMemory expected actual len num_elements msg lineNumber flags =
   RETURN_IF_FAIL_OR_IGNORE (\<lambda>w.
     if num_elements = 0 \<or> len = 0 then UnityPrintPointlessAndBail lineNumber msg w
     else if expected = actual then (Returned, w)
     else (case UnityIsOneArrayNull expected actual lineNumber msg w of
             (True, w) \<Rightarrow> UNITY_FAIL_AND_BAIL (UNITY_PRINT_EOL w)
           | (False, w) \<Rightarrow> UnityAssertEqualMemory_loop (unat num_elements) expected expected actual
                            len num_elements msg lineNumber flags w))"

section \<open>The one-element comparison buffer\<close>

text \<open>\<^verbatim>\<open>UnityQuickCompare\<close> is a static union at some address \<open>qc\<close>; all members share that address.\<close>

definition UnityNumToPtr ::
  "ptr \<Rightarrow> UNITY_INT \<Rightarrow> UNITY_UINT8 \<Rightarrow> 'a unity_world_scheme \<Rightarrow> ptr \<times> 'a unity_world_scheme" where
  "UnityNumToPtr qc num sz w =
     (if sz = 1 then (qc, w\<lparr>memory := store_le 1 (unat num) qc (memory w)\<rparr>)
      else if sz = 2 then (qc, w\<lparr>memory := store_le 2 (unat num) qc (memory w)\<rparr>)
      else if sz = 8 then (qc, w\<lparr>memory := store_le 8 (unat num) qc (memory w)\<rparr>)
      else (qc, w\<lparr>memory := store_le 4 (unat num) qc (memory w)\<rparr>))"

section \<open>Memory\<close>

text \<open>What a store leaves at every address, and that storing back what was loaded restores the memory.\<close>

lemma store_le_apply:
  "n \<le> 2 ^ 64 \<Longrightarrow>
   store_le n v p m a = (if unat (a - p) < n then word_of_nat (v div 256 ^ unat (a - p)) else m a)"
proof (induction n arbitrary: v p m)
  case (Suc n)
  show ?case
  proof (cases "a = p")
    case True
    have "unat (a - (p + 1)) = 2 ^ 64 - 1"
      using True by (simp add: unsigned_minus_1_eq_mask mask_eq_exp_minus_1)
    with Suc True show ?thesis by simp
  next
    case False
    then obtain k where k: "unat (a - p) = Suc k" by (metis not0_implies_Suc unat_eq_0 right_minus_eq)
    then have "unat ((a - p) - 1) = k" using False by (subst unat_minus_one) simp_all
    then have "unat (a - (p + 1)) = k" by (simp add: algebra_simps)
    with Suc False k show ?thesis by (simp add: div_mult2_eq)
  qed
qed simp

lemma load_le_byte:
  "i < n \<Longrightarrow> word_of_nat (load_le n m p div 256 ^ i) = m (p + word_of_nat i)"
proof (induction n arbitrary: i p)
  case (Suc n)
  show ?case
  proof (cases i)
    case 0
    have e: "(256 :: 8 word) = 0" by simp
    have "256 * b = 0" for b :: "8 word" unfolding e by simp
    then show ?thesis by (simp add: 0)
  next
    case (Suc j)
    have "unat (m p) < 256" using unsigned_less [of "m p"] by simp
    then have "(unat (m p) + 256 * load_le n m (p + 1)) div 256 ^ i = load_le n m (p + 1) div 256 ^ j"
      by (simp add: Suc div_mult2_eq)
    with Suc.IH [of j "p + 1"] Suc.prems Suc show ?thesis by (simp add: algebra_simps)
  qed
qed simp

lemma load_le_less: "load_le n m p < 256 ^ n"
proof (induction n arbitrary: p)
  case (Suc n)
  have "unat (m p) < 256" using unsigned_less [of "m p"] by simp
  then show ?case using Suc [of "p + 1"] by simp
qed simp

lemma store_le_restore:
  assumes "n \<le> 2 ^ 64"
  shows "store_le n (load_le n m p) p (store_le n v p m) = m"
proof
  fix a
  have "word_of_nat (load_le n m p div 256 ^ unat (a - p)) = m a" if "unat (a - p) < n"
    using load_le_byte [OF that, of m p] by simp
  then show "store_le n (load_le n m p) p (store_le n v p m) a = m a"
    by (simp add: store_le_apply [OF assms])
qed
lemma load_le_store_le:
  "n \<le> 2 ^ 64 \<Longrightarrow> load_le n (store_le n v p m) p = v mod 256 ^ n"
proof (induction n arbitrary: v p m)
  case (Suc n)
  have "unat (p - (p + 1)) = 2 ^ 64 - 1"
    by (simp add: unsigned_minus_1_eq_mask mask_eq_exp_minus_1)
  with Suc.prems have "store_le n (v div 256) (p + 1) (m(p := word_of_nat v)) p = word_of_nat v"
    by (simp add: store_le_apply)
  moreover have "unat (word_of_nat v :: 8 word) = v mod 256" by (simp add: unat_of_nat)
  ultimately show ?case
    using Suc mod_mult2_eq [of v 256 "256 ^ n"] by simp
qed simp

lemma load_le_cong:
  "(\<And>i. i < n \<Longrightarrow> m (p + word_of_nat i) = m' (p + word_of_nat i)) \<Longrightarrow> load_le n m p = load_le n m' p"
proof (induction n arbitrary: p)
  case (Suc n)
  have "load_le n m (p + 1) = load_le n m' (p + 1)"
  proof (rule Suc.IH)
    fix i assume "i < n"
    with Suc.prems [of "Suc i"] show "m (p + 1 + word_of_nat i) = m' (p + 1 + word_of_nat i)"
      by (simp add: algebra_simps)
  qed
  with Suc.prems [of 0] show ?case by simp
qed simp

lemma load_element_eq_iff:
  "load_element len m p = load_element len m' q \<longleftrightarrow>
     load_le (unat (element_length len)) m p = load_le (unat (element_length len)) m' q"
  using load_le_less [of 1 m p] load_le_less [of 1 m' q] load_le_less [of 2 m p] load_le_less [of 2 m' q]
    load_le_less [of 4 m p] load_le_less [of 4 m' q] load_le_less [of 8 m p] load_le_less [of 8 m' q]
  by (simp add: load_element_def element_length_def load_INT8_def load_INT16_def load_INT32_def
      load_INT64_def scast_64_eq_iff word_of_nat_inj_less del: load_le.simps One_nat_def)

section \<open>The loops as searches for the first mismatch\<close>

text \<open>The address of element \<open>i\<close> on a side whose pointer moves or stays.\<close>

lemma load_element_length [simp]: "load_element (element_length len) = load_element len"
  by (auto simp: load_element_def element_length_def fun_eq_iff)

lemma element_length_idem [simp]: "element_length (element_length len) = element_length len"
  by (simp add: element_length_def)

definition elem_at :: "bool \<Rightarrow> UNITY_UINT32 \<Rightarrow> ptr \<Rightarrow> nat \<Rightarrow> ptr" where
  "elem_at moves len p i = (if moves then p + word_of_nat i * ucast (element_length len) else p)"

lemma elem_at_0 [simp]: "elem_at moves len p 0 = p"
  by (simp add: elem_at_def)

lemma elem_at_Suc:
  "elem_at moves len (if moves then p + ucast (element_length len) else p) i = elem_at moves len p (Suc i)"
  by (simp add: elem_at_def algebra_simps)

lemma elem_at_length [simp]: "elem_at moves (element_length len) = elem_at moves len"
  by (simp add: elem_at_def fun_eq_iff)

text \<open>The report on one element.\<close>

definition array_elem_text where
  "array_elem_text len (idx :: UNITY_UINT32) expect_val actual_val msg style w =
     UnityStrElement @ UnityPrintNumberUnsigned (ucast idx) @ UnityStrExpected @
     UnityPrintNumberByStyle (strip_sign_extension style (element_length len) expect_val) style @ UnityStrWas @
     UnityPrintNumberByStyle (strip_sign_extension style (element_length len) actual_val) style @ msg_text msg w"

definition array_elem_report where
  "array_elem_report len idx expect_val actual_val msg style w =
     '':'' @ array_elem_text len idx expect_val actual_val msg style w"

lemma array_elem_text_length [simp]: "array_elem_text (element_length len) = array_elem_text len"
  by (simp add: array_elem_text_def fun_eq_iff)

lemma array_elem_report_length [simp]: "array_elem_report (element_length len) = array_elem_report len"
  by (simp add: array_elem_report_def fun_eq_iff)

lemma UnityAssertEqualIntArray_loop_find:
  "UnityAssertEqualIntArray_loop n e a len num msg line style flags w =
     (case find (\<lambda>i. load_element len (memory w) (elem_at (flags = UNITY_ARRAY_TO_ARRAY) len e i) \<noteq>
                     load_element len (memory w) (elem_at True len a i)) [0..<n] of
        None \<Rightarrow> (Returned, w)
      | Some i \<Rightarrow> (Aborted, failed_with line
           (array_elem_report len (num - word_of_nat (n - Suc i) - 1)
              (load_element len (memory w) (elem_at (flags = UNITY_ARRAY_TO_ARRAY) len e i))
              (load_element len (memory w) (elem_at True len a i)) msg style w) w))"
proof (induction n arbitrary: e a len)
  case 0
  show ?case by simp
next
  case (Suc n)
  let ?arr = "flags = UNITY_ARRAY_TO_ARRAY"
  show ?case
  proof (cases "load_element len (memory w) e = load_element len (memory w) a")
    case False
    then show ?thesis
      by (simp add: find_upt_Suc Let_def fail_and_bail_report array_elem_report_def
          array_elem_text_def del: upt_Suc)
  next
    case True
    have "elem_at True len (a + ucast (element_length len)) i = elem_at True len a (Suc i)" for i
      using elem_at_Suc [of True len a i] by simp
    with True show ?thesis
      by (simp add: Suc.IH find_upt_Suc Let_def elem_at_Suc option.case_eq_if option.map_sel del: upt_Suc)
  qed
qed


definition within_elem_report where
  "within_elem_report len delta (idx :: UNITY_UINT32) expect_val actual_val msg style w =
     '':'' @ UnityStrDelta @ UnityPrintNumberByStyle delta style @ array_elem_text len idx expect_val actual_val msg style w"

lemma within_elem_report_length [simp]: "within_elem_report (element_length len) = within_elem_report len"
  by (simp add: within_elem_report_def fun_eq_iff)

lemma UnityAssertNumbersArrayWithin_loop_find:
  "\<not> test_pending w \<Longrightarrow>
   UnityAssertNumbersArrayWithin_loop n delta e a len num msg line style flags w =
     (case find (\<lambda>i. \<not> style_within style delta
                     (load_element len (memory w) (elem_at (flags = UNITY_ARRAY_TO_ARRAY) len e i))
                     (load_element len (memory w) (elem_at True len a i))) [0..<n] of
        None \<Rightarrow> (Returned, w)
      | Some i \<Rightarrow> (Aborted, failed_with line
           (within_elem_report len delta (num - word_of_nat (n - Suc i) - 1)
              (load_element len (memory w) (elem_at (flags = UNITY_ARRAY_TO_ARRAY) len e i))
              (load_element len (memory w) (elem_at True len a i)) msg style w) w))"
proof (induction n arbitrary: e a len)
  case 0
  show ?case by simp
next
  case (Suc n)
  let ?arr = "flags = UNITY_ARRAY_TO_ARRAY"
  let ?e = "load_element len (memory w) e" and ?a = "load_element len (memory w) a"
  have step: "elem_at True len (a + ucast (element_length len)) i = elem_at True len a (Suc i)" for i
    using elem_at_Suc [of True len a i] by simp
  have w0: "w\<lparr>CurrentTestFailed := 0\<rparr> = w"
    using Suc.prems by (simp add: test_pending_def)
  have upd: "(if style_signed style then
                 (if sint ?a > sint ?e then w\<lparr>CurrentTestFailed := of_bool (?a - ?e > delta)\<rparr>
                  else w\<lparr>CurrentTestFailed := of_bool (?e - ?a > delta)\<rparr>)
               else
                 (if ?a > ?e then w\<lparr>CurrentTestFailed := of_bool (?a - ?e > delta)\<rparr>
                  else w\<lparr>CurrentTestFailed := of_bool (?e - ?a > delta)\<rparr>)) =
             (if style_within style delta ?e ?a then w else w\<lparr>CurrentTestFailed := 1\<rparr>)"
    by (auto simp: within_iff style_int_def word_less_def w0)
  show ?case
  proof (cases "style_within style delta ?e ?a")
    case False
    then show ?thesis
      by (simp add: find_upt_Suc Let_def upd style_signed_def [symmetric] fail_and_bail_report
          within_elem_report_def array_elem_text_def del: upt_Suc)
  next
    case True
    with Suc.prems show ?thesis
      by (simp add: Suc.IH find_upt_Suc Let_def upd style_signed_def [symmetric] step elem_at_Suc
          test_pending_def option.case_eq_if option.map_sel del: upt_Suc)
  qed
qed


text \<open>Bytes and blocks of the memory comparison.\<close>

definition memory_report where
  "memory_report len num (idx :: UNITY_UINT32) (byte :: UNITY_UINT32) (e :: 8 word) (a :: 8 word) msg w =
     '':'' @ UnityStrMemory @
     (if num > (1 :: UNITY_UINT32) then UnityStrElement @ UnityPrintNumberUnsigned (ucast idx) else []) @
     UnityStrByte @ UnityPrintNumberUnsigned (ucast byte) @
     UnityStrExpected @ UnityPrintNumberByStyle (ucast e) UNITY_DISPLAY_STYLE_HEX8 @
     UnityStrWas @ UnityPrintNumberByStyle (ucast a) UNITY_DISPLAY_STYLE_HEX8 @ msg_text msg w"

definition first_diff :: "mem \<Rightarrow> nat \<Rightarrow> ptr \<Rightarrow> ptr \<Rightarrow> nat option" where
  "first_diff m n e a = find (\<lambda>i. m (e + word_of_nat i) \<noteq> m (a + word_of_nat i)) [0..<n]"

lemma first_diff_Suc:
  "first_diff m (Suc n) e a = (if m e \<noteq> m a then Some 0 else map_option Suc (first_diff m n (e + 1) (a + 1)))"
  by (simp add: first_diff_def find_upt_Suc algebra_simps del: upt_Suc)

lemma UnityAssertEqualMemory_bytes_find:
  "UnityAssertEqualMemory_bytes n e a len num elements msg line w =
     (case first_diff (memory w) n e a of
        None \<Rightarrow> Inr (e + word_of_nat n, a + word_of_nat n)
      | Some i \<Rightarrow> Inl (Aborted, failed_with line
           (memory_report len num (num - word_of_nat elements - 1) (len - word_of_nat (n - Suc i) - 1)
              (memory w (e + word_of_nat i)) (memory w (a + word_of_nat i)) msg w) w))"
proof (induction n arbitrary: e a)
  case 0
  show ?case by (simp add: first_diff_def)
next
  case (Suc n)
  show ?case
  proof (cases "memory w e = memory w a")
    case False
    then show ?thesis
      by (simp add: first_diff_Suc Let_def fail_and_bail_report memory_report_def)
  next
    case True
    then show ?thesis
      by (simp add: Suc.IH first_diff_Suc option.case_eq_if option.map_sel algebra_simps)
  qed
qed

definition block_at :: "bool \<Rightarrow> UNITY_UINT32 \<Rightarrow> ptr \<Rightarrow> nat \<Rightarrow> ptr" where
  "block_at moves len p i = (if moves then p + word_of_nat i * ucast len else p)"

lemma block_at_0 [simp]: "block_at moves len p 0 = p"
  by (simp add: block_at_def)

lemma block_at_Suc:
  "block_at moves len (if moves then p + ucast len else p) i = block_at moves len p (Suc i)"
  by (simp add: block_at_def algebra_simps)

lemma UnityAssertEqualMemory_loop_find:
  "(flags = UNITY_ARRAY_TO_VAL \<longrightarrow> e = expected) \<Longrightarrow>
   UnityAssertEqualMemory_loop n expected e a len num msg line flags w =
     (case find (\<lambda>k. first_diff (memory w) (unat len) (block_at (flags \<noteq> UNITY_ARRAY_TO_VAL) len e k)
                       (block_at True len a k) \<noteq> None) [0..<n] of
        None \<Rightarrow> (Returned, w)
      | Some k \<Rightarrow>
          let eb = block_at (flags \<noteq> UNITY_ARRAY_TO_VAL) len e k;
              ab = block_at True len a k;
              i = the (first_diff (memory w) (unat len) eb ab)
          in (Aborted, failed_with line
               (memory_report len num (num - word_of_nat (n - Suc k) - 1)
                 (len - word_of_nat (unat len - Suc i) - 1)
                 (memory w (eb + word_of_nat i)) (memory w (ab + word_of_nat i)) msg w) w))"
proof (induction n arbitrary: e a)
  case 0
  show ?case by simp
next
  case (Suc n)
  let ?mv = "flags \<noteq> UNITY_ARRAY_TO_VAL"
  show ?case
  proof (cases "first_diff (memory w) (unat len) e a")
    case (Some i)
    then show ?thesis
      by (simp add: UnityAssertEqualMemory_bytes_find find_upt_Suc Let_def del: upt_Suc)
  next
    case None
    have adv: "p + word_of_nat (unat len) = p + ucast len" for p :: "64 word"
      by simp
    have step: "block_at True len (a + ucast len) i = block_at True len a (Suc i)" for i
      using block_at_Suc [of True len a i] by simp
    have step_e: "block_at ?mv len (if flags = UNITY_ARRAY_TO_VAL then expected else e + ucast len) i =
        block_at ?mv len e (Suc i)" for i
      using block_at_Suc [of ?mv len e i] Suc.prems by (auto split: if_splits)
    have prem: "flags = UNITY_ARRAY_TO_VAL \<longrightarrow>
        (if flags = UNITY_ARRAY_TO_VAL then expected else e + ucast len) = expected"
      by simp
    show ?thesis
      using None Suc.IH [OF prem, of "a + ucast len"]
      by (simp add: UnityAssertEqualMemory_bytes_find find_upt_Suc adv step step_e Let_def
          option.case_eq_if option.map_sel del: upt_Suc)
  qed
qed


section \<open>Verdicts\<close>

definition null_text :: "ptr \<Rightarrow> string" where
  "null_text expected =
     (if expected = NULL then UnityStrNullPointerForExpected else UnityStrNullPointerForActual)"

text \<open>The prologue shared by the array assertions.\<close>

lemma array_prologue:
  "(if pointless then UnityPrintPointlessAndBail line msg w
    else if e = a then (Returned, w)
    else (case UnityIsOneArrayNull e a line msg w of
            (True, w) \<Rightarrow> UNITY_FAIL_AND_BAIL (UNITY_PRINT_EOL w)
          | (False, w) \<Rightarrow> rest w)) =
   (if pointless then (Aborted, failed_with line ('':'' @ UnityStrPointless @ msg_text msg w) w)
    else if e = a then (Returned, w)
    else if e = NULL \<or> a = NULL then (Aborted, failed_with line ('':'' @ null_text e @ msg_text msg w) w)
    else rest w)"
  by (simp add: UnityPrintPointlessAndBail_def UnityIsOneArrayNull_def Let_def fail_and_bail_report
      null_text_def)

definition array_verdict :: "bool \<Rightarrow> ptr \<Rightarrow> ptr \<Rightarrow> cstr \<Rightarrow> string option \<Rightarrow> 'a unity_world_scheme \<Rightarrow> string option" where
  "array_verdict pointless e a msg elements w =
     (if pointless then Some ('':'' @ UnityStrPointless @ msg_text msg w)
      else if e = a then None
      else if e = NULL \<or> a = NULL then Some ('':'' @ null_text e @ msg_text msg w)
      else elements)"

text \<open>The element the loop meets at index \<open>i\<close> on either side.\<close>

definition expected_elem where
  "expected_elem style flags m e i =
     load_element (style_val style AND 0xF) m
       (elem_at (flags = UNITY_ARRAY_TO_ARRAY) (style_val style AND 0xF) e i)"

definition actual_elem where
  "actual_elem style m a i =
     load_element (style_val style AND 0xF) m (elem_at True (style_val style AND 0xF) a i)"

definition elements_verdict where
  "elements_verdict ok rep n =
     map_option rep (find (\<lambda>i. \<not> ok i) [0..<n])"

lemma elements_verdict_None: "elements_verdict ok rep n = None \<longleftrightarrow> (\<forall>i<n. ok i)"
  by (auto simp: elements_verdict_def find_upt_None_iff)

definition int_array_verdict where
  "int_array_verdict e a num msg style flags w =
     array_verdict (num = (0 :: UNITY_UINT32)) e a msg
       (elements_verdict
          (\<lambda>i. expected_elem style flags (memory w) e i = actual_elem style (memory w) a i)
          (\<lambda>i. array_elem_report (style_val style AND 0xF) (word_of_nat i)
                 (expected_elem style flags (memory w) e i) (actual_elem style (memory w) a i) msg style w)
          (unat num)) w"

lemma UnityAssertEqualIntArray_verdict:
  "\<not> test_pending w \<Longrightarrow> UnityAssertEqualIntArray e a num msg line style flags w =
     verdict_outcome line (int_array_verdict e a num msg style flags w) w"
  unfolding UnityAssertEqualIntArray_def int_array_verdict_def
  by (auto simp: array_prologue array_verdict_def verdict_outcome_def
      UnityAssertEqualIntArray_loop_find expected_elem_def actual_elem_def elements_verdict_def
      index_word split: option.split dest: find_upt_SomeD)

definition within_array_verdict where
  "within_array_verdict delta e a num msg style flags w =
     array_verdict (num = (0 :: UNITY_UINT32)) e a msg
       (elements_verdict
          (\<lambda>i. style_within style delta (expected_elem style flags (memory w) e i) (actual_elem style (memory w) a i))
          (\<lambda>i. within_elem_report (style_val style AND 0xF) delta (word_of_nat i)
                 (expected_elem style flags (memory w) e i) (actual_elem style (memory w) a i) msg style w)
          (unat num)) w"

lemma UnityAssertNumbersArrayWithin_verdict:
  "\<not> test_pending w \<Longrightarrow> UnityAssertNumbersArrayWithin delta e a num msg line style flags w =
     verdict_outcome line (within_array_verdict delta e a num msg style flags w) w"
  unfolding UnityAssertNumbersArrayWithin_def within_array_verdict_def
  by (auto simp: array_prologue array_verdict_def verdict_outcome_def
      UnityAssertNumbersArrayWithin_loop_find expected_elem_def actual_elem_def elements_verdict_def
      index_word split: option.split dest: find_upt_SomeD)

definition blocks_differ where
  "blocks_differ flags m len e a k =
     first_diff m (unat len) (block_at (flags \<noteq> UNITY_ARRAY_TO_VAL) len e k) (block_at True len a k)"

definition block_report where
  "block_report len num flags e a msg w k =
     (let eb = block_at (flags \<noteq> UNITY_ARRAY_TO_VAL) len e k;
          ab = block_at True len a k;
          i = the (blocks_differ flags (memory w) len e a k)
      in memory_report len num (word_of_nat k) (word_of_nat i)
           (memory w (eb + word_of_nat i)) (memory w (ab + word_of_nat i)) msg w)"

definition memory_verdict where
  "memory_verdict e a len num msg flags w =
     array_verdict (num = (0 :: UNITY_UINT32) \<or> len = 0) e a msg
       (elements_verdict (\<lambda>k. blocks_differ flags (memory w) len e a k = None)
          (block_report len num flags e a msg w) (unat num)) w"

lemma first_diff_SomeD:
  "first_diff m n e a = Some i \<Longrightarrow> i < n \<and> m (e + word_of_nat i) \<noteq> m (a + word_of_nat i)"
  unfolding first_diff_def by (drule find_upt_SomeD) simp

lemma UnityAssertEqualMemory_loop_verdict:
  "UnityAssertEqualMemory_loop (unat num) e e a len num msg line flags w =
     verdict_outcome line
       (elements_verdict (\<lambda>k. blocks_differ flags (memory w) len e a k = None)
          (block_report len num flags e a msg w) (unat num)) w"
proof (cases "find (\<lambda>k. blocks_differ flags (memory w) len e a k \<noteq> None) [0..<unat num]")
  case None
  then show ?thesis
    by (simp add: UnityAssertEqualMemory_loop_find elements_verdict_def verdict_outcome_def blocks_differ_def)
next
  case (Some k)
  then obtain i where k: "k < unat num" and i: "blocks_differ flags (memory w) len e a k = Some i"
    by (auto dest: find_upt_SomeD)
  from i have "i < unat len"
    unfolding blocks_differ_def by (auto dest: first_diff_SomeD)
  with Some k i show ?thesis
    by (simp add: UnityAssertEqualMemory_loop_find elements_verdict_def verdict_outcome_def
        blocks_differ_def block_report_def Let_def index_word)
qed

lemma UnityAssertEqualMemory_verdict:
  "\<not> test_pending w \<Longrightarrow> UnityAssertEqualMemory e a len num msg line flags w =
     verdict_outcome line (memory_verdict e a len num msg flags w) w"
  unfolding UnityAssertEqualMemory_def memory_verdict_def
  by (simp add: array_prologue array_verdict_def UnityAssertEqualMemory_loop_verdict)
     (simp add: verdict_outcome_def)


section \<open>The array and memory assertions keep the contract\<close>

interpretation int_array: unity_assertion
  "\<lambda>(e, a, num, msg, style, flags) line. UnityAssertEqualIntArray e a num msg line style flags"
  "\<lambda>p w. (case p of (e, a, num, msg, style, flags) \<Rightarrow> int_array_verdict e a num msg style flags) w = None"
  "\<lambda>p w. the ((case p of (e, a, num, msg, style, flags) \<Rightarrow> int_array_verdict e a num msg style flags) w)"
  by (rule unity_assertion_verdictI)
     (auto simp: UnityAssertEqualIntArray_verdict, simp add: UnityAssertEqualIntArray_def)

interpretation numbers_array_within: unity_assertion
  "\<lambda>(delta, e, a, num, msg, style, flags) line.
     UnityAssertNumbersArrayWithin delta e a num msg line style flags"
  "\<lambda>p w. (case p of (delta, e, a, num, msg, style, flags) \<Rightarrow>
     within_array_verdict delta e a num msg style flags) w = None"
  "\<lambda>p w. the ((case p of (delta, e, a, num, msg, style, flags) \<Rightarrow>
     within_array_verdict delta e a num msg style flags) w)"
  by (rule unity_assertion_verdictI)
     (auto simp: UnityAssertNumbersArrayWithin_verdict, simp add: UnityAssertNumbersArrayWithin_def)

interpretation equal_memory: unity_assertion
  "\<lambda>(e, a, len, num, msg, flags) line. UnityAssertEqualMemory e a len num msg line flags"
  "\<lambda>p w. (case p of (e, a, len, num, msg, flags) \<Rightarrow> memory_verdict e a len num msg flags) w = None"
  "\<lambda>p w. the ((case p of (e, a, len, num, msg, flags) \<Rightarrow> memory_verdict e a len num msg flags) w)"
  by (rule unity_assertion_verdictI)
     (auto simp: UnityAssertEqualMemory_verdict, simp add: UnityAssertEqualMemory_def)

lemma int_array_verdict_None:
  "int_array_verdict e a num msg style flags w = None \<longleftrightarrow>
     num \<noteq> 0 \<and> (e = a \<or> e \<noteq> NULL \<and> a \<noteq> NULL \<and>
       (\<forall>i < unat num. expected_elem style flags (memory w) e i = actual_elem style (memory w) a i))"
  by (auto simp: int_array_verdict_def array_verdict_def elements_verdict_None)

lemma within_array_verdict_None:
  "within_array_verdict delta e a num msg style flags w = None \<longleftrightarrow>
     num \<noteq> 0 \<and> (e = a \<or> e \<noteq> NULL \<and> a \<noteq> NULL \<and>
       (\<forall>i < unat num. style_within style delta
          (expected_elem style flags (memory w) e i) (actual_elem style (memory w) a i)))"
  by (auto simp: within_array_verdict_def array_verdict_def elements_verdict_None)

lemma first_diff_None: "first_diff m n e a = None \<longleftrightarrow> (\<forall>i<n. m (e + word_of_nat i) = m (a + word_of_nat i))"
  by (simp add: first_diff_def find_upt_None_iff)

lemma memory_verdict_None:
  "memory_verdict e a len num msg flags w = None \<longleftrightarrow>
     num \<noteq> 0 \<and> len \<noteq> 0 \<and> (e = a \<or> e \<noteq> NULL \<and> a \<noteq> NULL \<and>
       (\<forall>k < unat num. \<forall>i < unat len.
          memory w (block_at (flags \<noteq> UNITY_ARRAY_TO_VAL) len e k + word_of_nat i) =
          memory w (block_at True len a k + word_of_nat i)))"
  by (auto simp: memory_verdict_def array_verdict_def elements_verdict_None blocks_differ_def first_diff_None)

text \<open>Elements as unsigned numbers of their own width: the size of the C type a suffix stands for. The
  enumerator \<^verbatim>\<open>UNITY_DISPLAY_STYLE_UNKNOWN\<close> stands for no type; its number ends with the digit 2.\<close>

fun style_bytes :: "UNITY_DISPLAY_STYLE_T \<Rightarrow> nat" where
  "style_bytes UNITY_DISPLAY_STYLE_INT = 4"
| "style_bytes UNITY_DISPLAY_STYLE_INT8 = 1"
| "style_bytes UNITY_DISPLAY_STYLE_INT16 = 2"
| "style_bytes UNITY_DISPLAY_STYLE_INT32 = 4"
| "style_bytes UNITY_DISPLAY_STYLE_INT64 = 8"
| "style_bytes UNITY_DISPLAY_STYLE_UINT = 4"
| "style_bytes UNITY_DISPLAY_STYLE_UINT8 = 1"
| "style_bytes UNITY_DISPLAY_STYLE_UINT16 = 2"
| "style_bytes UNITY_DISPLAY_STYLE_UINT32 = 4"
| "style_bytes UNITY_DISPLAY_STYLE_UINT64 = 8"
| "style_bytes UNITY_DISPLAY_STYLE_HEX8 = 1"
| "style_bytes UNITY_DISPLAY_STYLE_HEX16 = 2"
| "style_bytes UNITY_DISPLAY_STYLE_HEX32 = 4"
| "style_bytes UNITY_DISPLAY_STYLE_HEX64 = 8"
| "style_bytes UNITY_DISPLAY_STYLE_CHAR = 1"
| "style_bytes UNITY_DISPLAY_STYLE_UNKNOWN = 2"

definition array_elem :: "mem \<Rightarrow> UNITY_DISPLAY_STYLE_T \<Rightarrow> ptr \<Rightarrow> nat \<Rightarrow> nat" where
  "array_elem m style p i = load_le (style_bytes style) m (p + word_of_nat (i * style_bytes style))"

text \<open>The switch over the low digit of the style number selects that size.\<close>

lemma element_length_style: "unat (element_length (style_val style AND 0xF)) = style_bytes style"
  by (induction style) code_simp+

lemma style_bytes_word: "ucast (element_length (style_val style AND 0xF)) = (word_of_nat (style_bytes style) :: 64 word)"
  by (simp flip: element_length_style)

lemma array_elem_eq_iff:
  "expected_elem style UNITY_ARRAY_TO_ARRAY m e i = actual_elem style m a i \<longleftrightarrow>
     array_elem m style e i = array_elem m style a i"
  by (simp add: expected_elem_def actual_elem_def load_element_eq_iff array_elem_def elem_at_def
      style_bytes_word element_length_style)

lemma array_elem_val_eq_iff:
  "expected_elem style UNITY_ARRAY_TO_VAL m e i = actual_elem style m a i \<longleftrightarrow>
     array_elem m style e 0 = array_elem m style a i"
  by (simp add: expected_elem_def actual_elem_def load_element_eq_iff array_elem_def elem_at_def
      style_bytes_word element_length_style)

end
