(* ===== verification/Unity_Fixture.thy ===== *)
theory Unity_Fixture
  imports Unity_Control Unity_Arrays "HOL-Library.Sublist"
begin

text \<open>
  The fixture add-on (\<^verbatim>\<open>src/unity/unity_fixture.c\<close> and \<^verbatim>\<open>src/unity/unity_fixture_internals.h\<close>): command line
  options, test selection, the fixture runner, ignored tests, automatic pointer restoration and
  \<^verbatim>\<open>UnityMain\<close>. Every test program of the repository that uses Unity is driven by this component.

  The world is extended with \<^verbatim>\<open>UnityFixture\<close> and with \<^verbatim>\<open>pointer_store\<close> / \<^verbatim>\<open>pointer_index\<close>. Set-up, body and
  tear-down of a test are arguments: state transformers that may abort.
\<close>

section \<open>State\<close>

record unity_fixture_world = unity_world +
  Verbose :: "32 word"
  Silent :: "32 word"
  RepeatCount :: "32 word"
  NameFilter :: cstr
  GroupFilter :: cstr
  pointer_store :: "(ptr \<times> 64 word) list"
  pointer_index :: int

type_synonym 'a fixture_state = "'a unity_fixture_world_scheme"
type_synonym 'a fixture_act = "'a unity_fixture_world_scheme \<Rightarrow> flow \<times> 'a unity_fixture_world_scheme"

definition UNITY_MAX_POINTERS :: int where
  "UNITY_MAX_POINTERS = 5"

section \<open>Selection\<close>

text \<open>\<^verbatim>\<open>strstr\<close> of the C library: the suffix of \<open>s\<close> at the first occurrence of \<open>t\<close>.\<close>

fun strstr_from :: "string \<Rightarrow> string \<Rightarrow> string option" where
  "strstr_from [] t = (if t = [] then Some [] else None)"
| "strstr_from (c # s) t = (if prefix t (c # s) then Some (c # s) else strstr_from s t)"

definition strstr :: "string \<Rightarrow> string \<Rightarrow> string option" where
  "strstr s t = strstr_from (c_chars s) (c_chars t)"

definition selected :: "cstr \<Rightarrow> string \<Rightarrow> bool" where
  "selected filter_str name =
     (case filter_str of None \<Rightarrow> True | Some f \<Rightarrow> strstr name f \<noteq> None)"

definition testSelected :: "string \<Rightarrow> 'a fixture_state \<Rightarrow> bool" where
  "testSelected test w = selected (NameFilter w) test"

definition groupSelected :: "string \<Rightarrow> 'a fixture_state \<Rightarrow> bool" where
  "groupSelected grp w = selected (GroupFilter w) grp"

section \<open>Automatic pointer restoration\<close>

text \<open>\<^verbatim>\<open>*p = v\<close> for a pointer-sized object.\<close>

definition store_ptr :: "ptr \<Rightarrow> 64 word \<Rightarrow> 'a fixture_state \<Rightarrow> 'a fixture_state" where
  "store_ptr p v w = w\<lparr>memory := store_le 8 (unat v) p (memory w)\<rparr>"

definition UnityPointer_Init :: "'a fixture_state \<Rightarrow> 'a fixture_state" where
  "UnityPointer_Init w = w\<lparr>pointer_index := 0\<rparr>"

definition UnityPointer_Set :: "ptr \<Rightarrow> 64 word \<Rightarrow> UNITY_LINE_TYPE \<Rightarrow> 'a fixture_act" where
  "UnityPointer_Set pointer newValue line w =
     (if pointer_index w \<ge> UNITY_MAX_POINTERS then UnityFail (Some ''Too many pointers set'') line w
      else
        (let w = w\<lparr>pointer_store := (pointer_store w)
                     [nat (pointer_index w) := (pointer, load_INT64 (memory w) pointer)]\<rparr>;
             w = store_ptr pointer newValue w;
             w = w\<lparr>pointer_index := pointer_index w + 1\<rparr>
         in (Returned, w)))"

function UnityPointer_UndoAllSets :: "'a fixture_state \<Rightarrow> 'a fixture_state" where
  "UnityPointer_UndoAllSets w =
     (if pointer_index w > 0 then
        (let w = w\<lparr>pointer_index := pointer_index w - 1\<rparr>;
             (pointer, old_value) = pointer_store w ! nat (pointer_index w)
         in UnityPointer_UndoAllSets (store_ptr pointer old_value w))
      else w)"
  by auto
termination
  by (relation "measure (\<lambda>w. nat (pointer_index w))") (auto simp: store_ptr_def)

declare UnityPointer_UndoAllSets.simps [simp del]

section \<open>The fixture runner\<close>

definition UnityConcludeFixtureTest :: "'a fixture_state \<Rightarrow> 'a fixture_state" where
  "UnityConcludeFixtureTest w =
     (let w = puts (UnityPrint (CurrentTestName w)) w;
          w = puts (UnityPrint (Some '' '')) w;
          w = (if CurrentTestIgnored w \<noteq> 0 then
                 (puts (UnityPrint (Some UnityStrIgnore)) w)\<lparr>TestIgnores := TestIgnores w + 1\<rparr>
               else if CurrentTestFailed w = 0 then
                 (if Verbose w \<noteq> 0 then puts (UnityPrint (Some UnityStrPass)) w else w)
               else
                 (let w = puts (UnityPrint (Some UnityStrFail)) w;
                      w = puts (UnityPrint (Some '' at '')) w;
                      w = puts (UnityPrint (TestFile w)) w;
                      w = puts '':'' w;
                      w = puts (UnityPrintNumber (CurrentAssertionLineNumber w)) w
                  in w\<lparr>TestFailures := TestFailures w + 1\<rparr>));
          w = UNITY_PRINT_EOL w;
          w = w\<lparr>CurrentTestFailed := 0\<rparr>
      in w\<lparr>CurrentTestIgnored := 0\<rparr>)"

definition UnityTestRunner ::
  "'a fixture_act \<Rightarrow> 'a fixture_act \<Rightarrow> 'a fixture_act \<Rightarrow> string \<Rightarrow> string \<Rightarrow> string \<Rightarrow> cstr \<Rightarrow> 32 word \<Rightarrow>
   'a fixture_state \<Rightarrow> 'a fixture_state" where
  "UnityTestRunner setUp testBody teardown printableName grp name fname line w =
     (if testSelected name w \<and> groupSelected grp w then
        (let w = w\<lparr>TestFile := fname\<rparr>;
             w = w\<lparr>CurrentTestName := Some printableName\<rparr>;
             w = w\<lparr>CurrentTestLineNumber := ucast line\<rparr>;
             w = w\<lparr>NumberOfTests := NumberOfTests w + 1\<rparr>;
             w = UnityPointer_Init w;
             w = TEST_PROTECT (run_calls [setUp, testBody]) w;
             w = TEST_PROTECT teardown w;
             w = TEST_PROTECT (\<lambda>w. (Returned, UnityPointer_UndoAllSets w)) w
         in UnityConcludeFixtureTest w)
      else w)"

definition UnityIgnoreTest :: "string \<Rightarrow> string \<Rightarrow> string \<Rightarrow> 'a fixture_state \<Rightarrow> 'a fixture_state" where
  "UnityIgnoreTest printableName grp name w =
     (if testSelected name w \<and> groupSelected grp w then
        (let w = w\<lparr>NumberOfTests := NumberOfTests w + 1\<rparr>;
             w = w\<lparr>TestIgnores := TestIgnores w + 1\<rparr>
         in if Verbose w \<noteq> 0 then
              (let w = puts (UnityPrint (Some printableName)) w;
                   w = puts (UnityPrint (Some '' '')) w;
                   w = puts (UnityPrint (Some UnityStrIgnore)) w
               in UNITY_PRINT_EOL w)
            else if Silent w \<noteq> 0 then w
            else puts ''!'' w)
      else w)"

section \<open>Command line and main\<close>

definition strcmp_eq :: "string \<Rightarrow> string \<Rightarrow> bool" where
  "strcmp_eq s t \<longleftrightarrow> c_chars s = c_chars t"

text \<open>The digit loop of \<^verbatim>\<open>-r NUMBER\<close>, on the unsigned 32-bit repeat count.\<close>

fun repeat_digits :: "32 word \<Rightarrow> string \<Rightarrow> 32 word" where
  "repeat_digits n [] = n"
| "repeat_digits n (c # s) =
     (if is_dec_digit c then repeat_digits (n * 10 + (word_of_nat (of_char c) - 48)) s else n)"

text \<open>The help text; each entry is one \<^verbatim>\<open>UnityPrint\<close> followed by \<^verbatim>\<open>UNITY_PRINT_EOL\<close>.\<close>

definition usage_lines :: "string list" where
  "usage_lines =
     [''Runs a series of unit tests.'', [],
      ''When no flag is specified, all tests are run.'', [],
      ''Optional flags:'',
      ''  -v          Verbose output: show all tests executed even if they pass'',
      ''  -s          Silent mode: minimal output showing only test failures'',
      ''  -g NAME     Only run tests in groups that contain the string NAME'',
      ''  -n NAME     Only run tests whose name contains the string NAME'',
      ''  -r NUMBER   Repeatedly run all tests NUMBER times'',
      ''  -h, --help  Display this help message'', [],
      ''More information about Unity: https://www.throwtheswitch.org/unity'']"

definition print_usage :: "'a fixture_state \<Rightarrow> 'a fixture_state" where
  "print_usage w = fold (\<lambda>l w. UNITY_PRINT_EOL (puts (UnityPrint (Some l)) w)) usage_lines w"

fun UnityGetCommandLineOptions_loop ::
  "string list \<Rightarrow> 'a fixture_state \<Rightarrow> 32 word \<times> 'a fixture_state" where
  "UnityGetCommandLineOptions_loop [] w = (0, w)"
| "UnityGetCommandLineOptions_loop (arg # rest) w =
     (if strcmp_eq arg ''-h'' \<or> strcmp_eq arg ''--help'' then (1, print_usage w)
      else if strcmp_eq arg ''-v'' then UnityGetCommandLineOptions_loop rest (w\<lparr>Verbose := 1\<rparr>)
      else if strcmp_eq arg ''-s'' then UnityGetCommandLineOptions_loop rest (w\<lparr>Silent := 1\<rparr>)
      else if strcmp_eq arg ''-g'' then
        (case rest of [] \<Rightarrow> (1, w)
         | g # rest' \<Rightarrow> UnityGetCommandLineOptions_loop rest' (w\<lparr>GroupFilter := Some g\<rparr>))
      else if strcmp_eq arg ''-n'' then
        (case rest of [] \<Rightarrow> (1, w)
         | n # rest' \<Rightarrow> UnityGetCommandLineOptions_loop rest' (w\<lparr>NameFilter := Some n\<rparr>))
      else if strcmp_eq arg ''-r'' then
        (case rest of [] \<Rightarrow> UnityGetCommandLineOptions_loop [] (w\<lparr>RepeatCount := 2\<rparr>)
         | n # rest' \<Rightarrow>
             (if n \<noteq> [] \<and> is_dec_digit (hd n) then
                UnityGetCommandLineOptions_loop rest' (w\<lparr>RepeatCount := repeat_digits 0 n\<rparr>)
              else UnityGetCommandLineOptions_loop (n # rest') (w\<lparr>RepeatCount := 2\<rparr>)))
      else UnityGetCommandLineOptions_loop rest w)"

definition UnityGetCommandLineOptions :: "string list \<Rightarrow> 'a fixture_state \<Rightarrow> 32 word \<times> 'a fixture_state" where
  "UnityGetCommandLineOptions argv w =
     (let w = w\<lparr>Verbose := 0\<rparr>; w = w\<lparr>Silent := 0\<rparr>; w = w\<lparr>GroupFilter := None\<rparr>;
          w = w\<lparr>NameFilter := None\<rparr>; w = w\<lparr>RepeatCount := 1\<rparr>
      in if length argv = 1 then (0, w) else UnityGetCommandLineOptions_loop (drop 1 argv) w)"

definition announceTestRun :: "32 word \<Rightarrow> 'a fixture_state \<Rightarrow> 'a fixture_state" where
  "announceTestRun runNumber w =
     (let w = puts (UnityPrint (Some ''Unity test run '')) w;
          w = puts (UnityPrintNumberUnsigned (ucast (runNumber + 1))) w;
          w = puts (UnityPrint (Some '' of '')) w;
          w = puts (UnityPrintNumberUnsigned (ucast (RepeatCount w))) w
      in UNITY_PRINT_EOL w)"

text \<open>\<^verbatim>\<open>argv[i]\<close>, with the null pointer that C guarantees at \<^verbatim>\<open>argv[argc]\<close>.\<close>

definition argv_at :: "string list \<Rightarrow> nat \<Rightarrow> cstr" where
  "argv_at argv i = (if i < length argv then Some (argv ! i) else None)"

text \<open>The repeat loop reads \<^verbatim>\<open>UnityFixture.RepeatCount\<close> again in every round, and its counter is below it,
  so the increment never wraps.\<close>

function UnityMain_loop ::
  "cstr \<Rightarrow> ('a fixture_state \<Rightarrow> 'a fixture_state) \<Rightarrow> 32 word \<Rightarrow> 'a fixture_state \<Rightarrow> 'a fixture_state" where
  "UnityMain_loop prog runAllTests r w =
     (if r < RepeatCount w then
        UnityMain_loop prog runAllTests (r + 1)
          (snd (UnityEnd (runAllTests (announceTestRun r (UnityBegin prog w)))))
      else w)"
  by auto
termination
proof (relation "measure (\<lambda>(_, _, r, _). 2 ^ 32 - unat r)", goal_cases)
  case (2 prog runAllTests r w)
  then have "unat (r + 1) = unat r + 1" by (rule unat_plus_one_less)
  then show ?case
    using unat_less_2_32 [of r] by simp
qed simp

declare UnityMain_loop.simps [simp del]

definition UnityMain ::
  "string list \<Rightarrow> ('a fixture_state \<Rightarrow> 'a fixture_state) \<Rightarrow> 'a fixture_state \<Rightarrow> 32 word \<times> 'a fixture_state" where
  "UnityMain argv runAllTests w =
     (let (result, w) = UnityGetCommandLineOptions argv w
      in if result \<noteq> 0 then (result, w)
         else
           (let w = w\<lparr>Verbose := 1\<rparr>;
                w = UnityMain_loop (argv_at argv 0) runAllTests 0 w
            in (ucast (TestFailures w), w)))"

section \<open>Pointer restoration\<close>

definition pointers_ok :: "'a fixture_state \<Rightarrow> bool" where
  "pointers_ok w \<longleftrightarrow> int (length (pointer_store w)) = UNITY_MAX_POINTERS \<and>
     0 \<le> pointer_index w \<and> pointer_index w \<le> UNITY_MAX_POINTERS"

text \<open>The recorded pairs, undone from the latest to the first.\<close>

definition undo_pairs :: "(ptr \<times> 64 word) list \<Rightarrow> mem \<Rightarrow> mem" where
  "undo_pairs ps m = foldr (\<lambda>(p, v) m. store_le 8 (unat v) p m) ps m"

definition restored_memory :: "'a fixture_state \<Rightarrow> mem" where
  "restored_memory w = undo_pairs (take (nat (pointer_index w)) (pointer_store w)) (memory w)"

lemma UnityPointer_UndoAllSets_eq:
  "pointers_ok w \<Longrightarrow>
   UnityPointer_UndoAllSets w = w\<lparr>memory := restored_memory w, pointer_index := 0\<rparr>"
proof (induction w rule: UnityPointer_UndoAllSets.induct)
  case (1 w)
  show ?case
  proof (cases "pointer_index w > 0")
    case True
    define k where "k = nat (pointer_index w - 1)"
    obtain p v where pv: "pointer_store w ! k = (p, v)" by (cases "pointer_store w ! k")
    have k: "nat (pointer_index w) = Suc k" "k < length (pointer_store w)"
      using True 1 by (auto simp: k_def pointers_ok_def)
    have "pointers_ok (store_ptr p v (w\<lparr>pointer_index := pointer_index w - 1\<rparr>))"
      using True 1 by (auto simp: store_ptr_def pointers_ok_def)
    then have "UnityPointer_UndoAllSets (store_ptr p v (w\<lparr>pointer_index := pointer_index w - 1\<rparr>)) =
        w\<lparr>memory := undo_pairs (take k (pointer_store w)) (store_le 8 (unat v) p (memory w)),
          pointer_index := 0\<rparr>"
      using True 1 pv by (simp add: k_def [symmetric] restored_memory_def store_ptr_def)
    moreover have "take (Suc k) (pointer_store w) = take k (pointer_store w) @ [(p, v)]"
      using k pv by (simp add: take_Suc_conv_app_nth)
    ultimately show ?thesis
      using True pv by (subst UnityPointer_UndoAllSets.simps)
        (simp add: k_def [symmetric] restored_memory_def k undo_pairs_def)
  next
    case False
    with 1 show ?thesis
      by (subst UnityPointer_UndoAllSets.simps) (simp add: pointers_ok_def restored_memory_def undo_pairs_def)
  qed
qed

lemma UnityPointer_Set_full:
  "pointer_index w \<ge> UNITY_MAX_POINTERS \<Longrightarrow>
   UnityPointer_Set p v line w = UnityFail (Some ''Too many pointers set'') line w"
  by (simp add: UnityPointer_Set_def)

lemma UnityPointer_Set_stores:
  "pointer_index w < UNITY_MAX_POINTERS \<Longrightarrow>
   UnityPointer_Set p v line w = (Returned, w\<lparr>
     memory := store_le 8 (unat v) p (memory w),
     pointer_store := (pointer_store w)[nat (pointer_index w) := (p, load_INT64 (memory w) p)],
     pointer_index := pointer_index w + 1\<rparr>)"
  by (simp add: UnityPointer_Set_def store_ptr_def Let_def)

lemma unat_load_INT64: "unat (load_INT64 m p) = load_le 8 m p"
  using load_le_less [of 8 m p] by (simp add: load_INT64_def unat_of_nat)

text \<open>What the framework relies on from the code of a test (set-up, body, tear-down and whatever they
  call): it leaves the counters, the file name, the options and every memory cell that no
  \<^verbatim>\<open>UT_PTR_SET\<close> recorded as they are, and records pointers within the store.\<close>

definition same_run :: "'a fixture_state \<Rightarrow> 'a fixture_state \<Rightarrow> bool" where
  "same_run w w' \<longleftrightarrow>
     NumberOfTests w' = NumberOfTests w \<and> TestFailures w' = TestFailures w \<and>
     TestIgnores w' = TestIgnores w \<and> TestFile w' = TestFile w \<and>
     CurrentTestName w' = CurrentTestName w \<and> Verbose w' = Verbose w \<and> Silent w' = Silent w \<and>
     RepeatCount w' = RepeatCount w \<and> NameFilter w' = NameFilter w \<and> GroupFilter w' = GroupFilter w \<and>
     pointers_ok w' \<and> restored_memory w' = restored_memory w"

locale fixture_code =
  fixes code :: "'a fixture_act"
  assumes code_same_run: "pointers_ok w \<Longrightarrow> same_run w (snd (code w))"

lemma fixture_code_UnityFail: "fixture_code (UnityFail msg line)"
proof
  fix w :: "'a fixture_state"
  assume "pointers_ok w"
  then show "same_run w (snd (UnityFail msg line w))"
    by (cases "test_pending w")
       (auto simp: unity_fail.call_pending UnityFail_outcome same_run_def failed_with_def
          pointers_ok_def restored_memory_def)
qed

lemma fixture_code_UnityPointer_Set: "fixture_code (UnityPointer_Set p v line)"
proof
  fix w :: "'a fixture_state"
  assume ok: "pointers_ok w"
  show "same_run w (snd (UnityPointer_Set p v line w))"
  proof (cases "pointer_index w < UNITY_MAX_POINTERS")
    case True
    define k where "k = nat (pointer_index w)"
    have "k < length (pointer_store w)" "nat (pointer_index w + 1) = Suc k"
      using True ok by (auto simp: k_def pointers_ok_def)
    then have "take (nat (pointer_index w + 1)) ((pointer_store w)[k := q]) = take k (pointer_store w) @ [q]" for q
      by (simp add: take_Suc_conv_app_nth)
    then show ?thesis
      using True ok
      by (simp add: UnityPointer_Set_stores same_run_def pointers_ok_def restored_memory_def
        k_def [symmetric] undo_pairs_def unat_load_INT64 store_le_restore)
  next
    case False
    then show ?thesis
      using fixture_code.code_same_run [OF fixture_code_UnityFail] ok by (simp add: UnityPointer_Set_full)
  qed
qed

interpretation pointer_set: fixture_code "UnityPointer_Set p v line" for p v line
  by (rule fixture_code_UnityPointer_Set)

lemma same_run_refl: "pointers_ok w \<Longrightarrow> same_run w w"
  by (simp add: same_run_def)

lemma same_run_trans: "same_run w w' \<Longrightarrow> same_run w' w'' \<Longrightarrow> same_run w w''"
  by (simp add: same_run_def)

lemma same_run_ok: "same_run w w' \<Longrightarrow> pointers_ok w'"
  by (simp add: same_run_def)

lemma fixture_code_run_calls:
  "(\<And>f. f \<in> set fs \<Longrightarrow> fixture_code f) \<Longrightarrow> fixture_code (run_calls fs)"
proof (induction fs)
  case Nil
  show ?case by unfold_locales (simp add: same_run_refl)
next
  case (Cons f fs)
  then have f: "fixture_code f" and fs: "fixture_code (run_calls fs)" by simp_all
  show ?case
  proof
    fix w :: "'a fixture_state"
    assume ok: "pointers_ok w"
    have step: "same_run w (snd (f w))" by (rule fixture_code.code_same_run [OF f ok])
    moreover have "same_run (snd (f w)) (snd (run_calls fs (snd (f w))))"
      by (rule fixture_code.code_same_run [OF fs same_run_ok [OF step]])
    ultimately show "same_run w (snd (run_calls (f # fs) w))"
      by (auto split: prod.split flow.split intro: same_run_trans)
  qed
qed

section \<open>What one test does to the run\<close>

datatype test_outcome = Passed | Failed UNITY_LINE_TYPE | Ignored

definition outcome_of :: "'a fixture_state \<Rightarrow> test_outcome" where
  "outcome_of w =
     (if CurrentTestIgnored w \<noteq> 0 then Ignored
      else if CurrentTestFailed w = 0 then Passed
      else Failed (CurrentAssertionLineNumber w))"

definition outcome_text :: "cstr \<Rightarrow> bool \<Rightarrow> test_outcome \<Rightarrow> string" where
  "outcome_text fname verb out =
     (case out of Ignored \<Rightarrow> ''IGNORE''
      | Passed \<Rightarrow> if verb then ''PASS'' else []
      | Failed line \<Rightarrow> ''FAIL at '' @ UnityPrint fname @ '':'' @ UnityPrintNumber line)"

lemma UnityPrint_space [simp]: "UnityPrint (Some '' '') = '' ''"
  and UnityPrint_at [simp]: "UnityPrint (Some '' at '') = '' at ''"
  by code_simp+

lemma UnityConcludeFixtureTest_eq:
  "UnityConcludeFixtureTest w =
     w\<lparr>stdout := stdout w @ UnityPrint (CurrentTestName w) @ '' '' @
         outcome_text (TestFile w) (Verbose w \<noteq> 0) (outcome_of w) @ [CHR 0x0A],
       TestFailures := TestFailures w + (case outcome_of w of Failed _ \<Rightarrow> 1 | _ \<Rightarrow> 0),
       TestIgnores := TestIgnores w + (if outcome_of w = Ignored then 1 else 0),
       CurrentTestFailed := 0, CurrentTestIgnored := 0\<rparr>"
  by (simp add: UnityConcludeFixtureTest_def Let_def outcome_of_def outcome_text_def puts_def
      UNITY_PRINT_EOL_def)
     (simp add: UnityStr_defs)

text \<open>The state in which the body of a test starts, and the state its tear-down leaves.\<close>

definition test_start :: "string \<Rightarrow> cstr \<Rightarrow> 32 word \<Rightarrow> 'a fixture_state \<Rightarrow> 'a fixture_state" where
  "test_start printableName fname line w =
     w\<lparr>TestFile := fname, CurrentTestName := Some printableName, CurrentTestLineNumber := ucast line,
       NumberOfTests := NumberOfTests w + 1, pointer_index := 0\<rparr>"

definition test_end ::
  "'a fixture_act \<Rightarrow> 'a fixture_act \<Rightarrow> 'a fixture_act \<Rightarrow> 'a fixture_state \<Rightarrow> 'a fixture_state" where
  "test_end setUp testBody teardown w = snd (teardown (snd (run_calls [setUp, testBody] w)))"

locale fixture_test =
  set_up: fixture_code setUp + test_body: fixture_code testBody + tear_down: fixture_code teardown
  for setUp :: "'a fixture_act" and testBody :: "'a fixture_act" and teardown :: "'a fixture_act"
begin

lemma test_end_same_run: "pointers_ok w \<Longrightarrow> same_run w (test_end setUp testBody teardown w)"
proof -
  assume ok: "pointers_ok w"
  have "fixture_code (run_calls [setUp, testBody])"
    by (rule fixture_code_run_calls) (auto simp: set_up.fixture_code_axioms test_body.fixture_code_axioms)
  then have body: "same_run w (snd (run_calls [setUp, testBody] w))"
    using ok by (rule fixture_code.code_same_run)
  then show ?thesis
    unfolding test_end_def by (blast intro: same_run_trans tear_down.code_same_run same_run_ok)
qed

lemma runner_effect:
  fixes printableName :: string and fname :: cstr and line :: "32 word"
  assumes "pointers_ok w" and "testSelected name w" and "groupSelected grp w"
  defines "fin \<equiv> test_end setUp testBody teardown (test_start printableName fname line w)"
  shows "UnityTestRunner setUp testBody teardown printableName grp name fname line w =
    fin\<lparr>memory := memory w, pointer_index := 0,
      stdout := stdout fin @ UnityPrint (Some printableName) @ '' '' @
        outcome_text fname (Verbose w \<noteq> 0) (outcome_of fin) @ [CHR 0x0A],
      TestFailures := TestFailures w + (case outcome_of fin of Failed _ \<Rightarrow> 1 | _ \<Rightarrow> 0),
      TestIgnores := TestIgnores w + (if outcome_of fin = Ignored then 1 else 0),
      CurrentTestFailed := 0, CurrentTestIgnored := 0\<rparr>"
proof -
  let ?s = "test_start printableName fname line w"
  have "pointers_ok ?s" using assms by (simp add: test_start_def pointers_ok_def UNITY_MAX_POINTERS_def)
  then have same: "same_run ?s fin" unfolding fin_def by (rule test_end_same_run)
  have mem: "restored_memory ?s = memory w" by (simp add: test_start_def restored_memory_def undo_pairs_def)
  have "UnityTestRunner setUp testBody teardown printableName grp name fname line w =
      UnityConcludeFixtureTest (UnityPointer_UndoAllSets fin)"
    using assms by (simp add: UnityTestRunner_def Let_def TEST_PROTECT_def fin_def test_end_def
      test_start_def UnityPointer_Init_def)
  also have "UnityPointer_UndoAllSets fin = fin\<lparr>memory := memory w, pointer_index := 0\<rparr>"
    using same mem by (simp add: UnityPointer_UndoAllSets_eq same_run_ok same_run_def)
  finally show ?thesis
    using same by (simp add: UnityConcludeFixtureTest_eq same_run_def test_start_def outcome_of_def)
qed

end

section \<open>Properties\<close>

lemma strstr_from_sublist: "strstr_from s t \<noteq> None \<longleftrightarrow> sublist t s"
  by (induction s t rule: strstr_from.induct) (auto simp: sublist_Cons_right)

text \<open>C21: A test is selected by \<^verbatim>\<open>-n\<close> and \<^verbatim>\<open>-g\<close> exactly when its name and its group contain the given strings;
  without a filter every test is selected.\<close>

theorem selection_substring:
  "testSelected test w = (case NameFilter w of None \<Rightarrow> True | Some f \<Rightarrow> sublist (c_chars f) (c_chars test)) \<and>
   groupSelected grp w = (case GroupFilter w of None \<Rightarrow> True | Some f \<Rightarrow> sublist (c_chars f) (c_chars grp))"
  using strstr_from_sublist
  by (auto simp: testSelected_def groupSelected_def selected_def strstr_def split: option.split)

text \<open>The command line options and the arguments that spell them.\<close>

datatype fixture_option = Opt_Verbose | Opt_Silent | Opt_Group string | Opt_Name string | Opt_Repeat nat

fun option_args :: "fixture_option \<Rightarrow> string list" where
  "option_args Opt_Verbose = [''-v'']"
| "option_args Opt_Silent = [''-s'']"
| "option_args (Opt_Group g) = [''-g'', g]"
| "option_args (Opt_Name n) = [''-n'', n]"
| "option_args (Opt_Repeat n) = [''-r'', dec_string n]"

fun apply_option :: "fixture_option \<Rightarrow> 'a fixture_state \<Rightarrow> 'a fixture_state" where
  "apply_option Opt_Verbose w = w\<lparr>Verbose := 1\<rparr>"
| "apply_option Opt_Silent w = w\<lparr>Silent := 1\<rparr>"
| "apply_option (Opt_Group g) w = w\<lparr>GroupFilter := Some g\<rparr>"
| "apply_option (Opt_Name n) w = w\<lparr>NameFilter := Some n\<rparr>"
| "apply_option (Opt_Repeat n) w = w\<lparr>RepeatCount := word_of_nat n\<rparr>"

definition default_options :: "'a fixture_state \<Rightarrow> 'a fixture_state" where
  "default_options w =
     w\<lparr>Verbose := 0, Silent := 0, GroupFilter := None, NameFilter := None, RepeatCount := 1\<rparr>"

lemma repeat_digits_value:
  "(\<And>c. c \<in> set s \<Longrightarrow> is_dec_digit c) \<Longrightarrow> repeat_digits (word_of_nat n) s = word_of_nat (dec_value_from n s)"
proof (induction s arbitrary: n)
  case (Cons c s)
  then have c: "is_dec_digit c" by simp
  then have "(word_of_nat (of_char c) - 48 :: 32 word) = word_of_nat (of_char c - 48)"
    by (simp add: is_dec_digit_def)
  then have "word_of_nat n * 10 + (word_of_nat (of_char c) - 48) = (word_of_nat (n * 10 + (of_char c - 48)) :: 32 word)"
    by simp
  with Cons.IH [of "n * 10 + (of_char c - 48)"] Cons.prems c show ?case by simp
qed simp

lemma repeat_digits_dec_string: "repeat_digits 0 (dec_string n) = word_of_nat n"
  using repeat_digits_value [of "dec_string n" 0] dec_string_digits dec_value_dec_string [of n] by simp

lemma strcmp_eq_simps [simp]:
  "strcmp_eq ''-v'' ''-v''" "strcmp_eq ''-s'' ''-s''" "strcmp_eq ''-g'' ''-g''" "strcmp_eq ''-n'' ''-n''"
  "strcmp_eq ''-r'' ''-r''"
  "\<not> strcmp_eq ''-v'' ''-h''" "\<not> strcmp_eq ''-v'' ''--help''"
  "\<not> strcmp_eq ''-s'' ''-h''" "\<not> strcmp_eq ''-s'' ''--help''" "\<not> strcmp_eq ''-s'' ''-v''"
  "\<not> strcmp_eq ''-g'' ''-h''" "\<not> strcmp_eq ''-g'' ''--help''" "\<not> strcmp_eq ''-g'' ''-v''"
  "\<not> strcmp_eq ''-g'' ''-s''"
  "\<not> strcmp_eq ''-n'' ''-h''" "\<not> strcmp_eq ''-n'' ''--help''" "\<not> strcmp_eq ''-n'' ''-v''"
  "\<not> strcmp_eq ''-n'' ''-s''" "\<not> strcmp_eq ''-n'' ''-g''"
  "\<not> strcmp_eq ''-r'' ''-h''" "\<not> strcmp_eq ''-r'' ''--help''" "\<not> strcmp_eq ''-r'' ''-v''"
  "\<not> strcmp_eq ''-r'' ''-s''" "\<not> strcmp_eq ''-r'' ''-g''" "\<not> strcmp_eq ''-r'' ''-n''"
  by (simp_all add: strcmp_eq_def c_chars_def)

lemma option_args_not_Nil [simp]: "option_args opt \<noteq> []"
  by (cases opt) simp_all

lemma options_loop_render:
  "UnityGetCommandLineOptions_loop (concat (map option_args os)) w = (0, fold apply_option os w)"
proof (induction os arbitrary: w)
  case (Cons opt os)
  show ?case
  proof (cases opt)
    case (Opt_Repeat n)
    have "dec_string n \<noteq> []" by (subst dec_string.simps) simp
    then show ?thesis
      using Cons dec_string_head_digit [of n] by (simp add: Opt_Repeat repeat_digits_dec_string)
  qed (use Cons in simp_all)
qed simp

text \<open>C16: The command line parser of the fixture reads back every list of options that is spelled out as
  arguments: later options override earlier ones, the arguments of \<^verbatim>\<open>-g\<close> and \<^verbatim>\<open>-n\<close> are taken literally, and
  the number of \<^verbatim>\<open>-r\<close> is taken modulo \<open>2 ^ 32\<close>.\<close>

theorem UnityGetCommandLineOptions_roundtrip:
  "UnityGetCommandLineOptions (prog # concat (map option_args os)) w =
     (0, fold apply_option os (default_options w))"
  by (cases os) (auto simp: UnityGetCommandLineOptions_def default_options_def Let_def
    options_loop_render [of "_ # _", simplified])

definition pointer_sets :: "(ptr \<times> 64 word \<times> UNITY_LINE_TYPE) list \<Rightarrow> 'a fixture_act" where
  "pointer_sets ps = run_calls (map (\<lambda>(p, v, line). UnityPointer_Set p v line) ps)"

lemma fixture_code_pointer_sets: "fixture_code (pointer_sets ps)"
  unfolding pointer_sets_def by (rule fixture_code_run_calls) (auto simp: fixture_code_UnityPointer_Set)

text \<open>C4: Whatever pointers a test sets with \<^verbatim>\<open>UT_PTR_SET\<close> in its set-up, body and tear-down (the same one
  several times, overlapping ones, or more than the store holds, which fails the test), the runner
  restores the memory to what it was before the test.\<close>

theorem UnityTestRunner_restores_memory:
  assumes "pointers_ok w"
  shows "memory (UnityTestRunner (pointer_sets ps) (pointer_sets qs) (pointer_sets rs)
    printableName grp name fname line w) = memory w"
proof (cases "testSelected name w \<and> groupSelected grp w")
  case True
  have "fixture_test (pointer_sets ps) (pointer_sets qs) (pointer_sets rs)"
    by (simp add: fixture_test_def fixture_code_pointer_sets)
  from fixture_test.runner_effect [OF this assms] True show ?thesis by simp
next
  case False
  then show ?thesis by (auto simp: UnityTestRunner_def)
qed

definition Fixture :: unity_fixture_world where
  "Fixture = unity_world.extend Unity
     (unity_fixture_world.fields 1 0 1 None None (replicate 5 (0, 0)) 0)"

lemma Fixture_simps [simp]:
  "pointers_ok Fixture" "Verbose Fixture = 1" "NameFilter Fixture = None" "GroupFilter Fixture = None"
  "\<not> test_pending Fixture" "memory Fixture = (\<lambda>_. 0)" "RepeatCount Fixture = 1" "stdout Fixture = []"
  by (simp_all add: Fixture_def pointers_ok_def UNITY_MAX_POINTERS_def test_pending_def Unity_def
    unity_world.defs unity_fixture_world.defs)

theorem UnityTestRunner_restores_memory_witness:
  "memory (UnityTestRunner (pointer_sets [(64, 1, 7), (64, 2, 8)]) (pointer_sets [(68, 3, 9)]) (pointer_sets [])
     ''TEST(g, n)'' ''g'' ''n'' (Some ''f.c'') 3 Fixture) = (\<lambda>_. 0)"
  using UnityTestRunner_restores_memory [of Fixture "[(64, 1, 7), (64, 2, 8)]" "[(68, 3, 9)]" "[]"
    "''TEST(g, n)''" "''g''" "''n''" "Some ''f.c''" 3] by simp

end
