(* ===== verification/Unity_Strings.thy ===== *)
theory Unity_Strings
  imports Unity_Arrays
begin

text \<open>
  The string assertions of \<^verbatim>\<open>src/unity/unity.c\<close>: \<^verbatim>\<open>UnityAssertEqualString\<close>, \<^verbatim>\<open>UnityAssertEqualStringLen\<close> and
  \<^verbatim>\<open>UnityAssertEqualStringArray\<close>. The index \<^verbatim>\<open>i\<close> of the comparison loops walks both strings in step, so
  the loops are recursions over the two character lists, whose ends stand for the terminating NUL
  (strings of fewer than \<open>2 ^ 32\<close> characters, the range of \<^verbatim>\<open>UNITY_UINT32 i\<close>).
\<close>

section \<open>The comparison loops\<close>

fun strings_differ :: "string \<Rightarrow> string \<Rightarrow> bool" where
  "strings_differ [] [] = False"
| "strings_differ (e # es) [] = (if e = NUL then False else True)"
| "strings_differ [] (a # as) = (if a = NUL then False else True)"
| "strings_differ (e # es) (a # as) =
     (if e = NUL \<and> a = NUL then False
      else if e \<noteq> a then True
      else strings_differ es as)"

fun strings_differ_len :: "UNITY_UINT32 \<Rightarrow> UNITY_UINT32 \<Rightarrow> string \<Rightarrow> string \<Rightarrow> bool" where
  "strings_differ_len i len [] [] = False"
| "strings_differ_len i len (e # es) [] = (if i < len \<and> e \<noteq> NUL then True else False)"
| "strings_differ_len i len [] (a # as) = (if i < len \<and> a \<noteq> NUL then True else False)"
| "strings_differ_len i len (e # es) (a # as) =
     (if i < len \<and> (e \<noteq> NUL \<or> a \<noteq> NUL) then
        (if e \<noteq> a then True else strings_differ_len (i + 1) len es as)
      else False)"

section \<open>The assertions\<close>

definition UnityAssertEqualString ::
  "cstr \<Rightarrow> cstr \<Rightarrow> cstr \<Rightarrow> UNITY_LINE_TYPE \<Rightarrow> 'a unity_act" where
  "UnityAssertEqualString expected actual msg lineNumber = RETURN_IF_FAIL_OR_IGNORE (\<lambda>w.
     (let w = (case (expected, actual) of
                 (Some e, Some a) \<Rightarrow> if strings_differ e a then w\<lparr>CurrentTestFailed := 1\<rparr> else w
               | _ \<Rightarrow> if expected \<noteq> actual then w\<lparr>CurrentTestFailed := 1\<rparr> else w)
      in if CurrentTestFailed w \<noteq> 0 then
           (let w = UnityTestResultsFailBegin lineNumber w;
                w = puts (UnityPrintExpectedAndActualStrings expected actual) w;
                w = UnityAddMsgIfSpecified msg w;
                w = UNITY_PRINT_EOL w
            in UNITY_FAIL_AND_BAIL w)
         else (Returned, w)))"

definition UnityAssertEqualStringLen ::
  "cstr \<Rightarrow> cstr \<Rightarrow> UNITY_UINT32 \<Rightarrow> cstr \<Rightarrow> UNITY_LINE_TYPE \<Rightarrow> 'a unity_act" where
  "UnityAssertEqualStringLen expected actual len msg lineNumber = RETURN_IF_FAIL_OR_IGNORE (\<lambda>w.
     (let w = (case (expected, actual) of
                 (Some e, Some a) \<Rightarrow>
                   if strings_differ_len 0 len e a then w\<lparr>CurrentTestFailed := 1\<rparr> else w
               | _ \<Rightarrow> if expected \<noteq> actual then w\<lparr>CurrentTestFailed := 1\<rparr> else w)
      in if CurrentTestFailed w \<noteq> 0 then
           (let w = UnityTestResultsFailBegin lineNumber w;
                w = puts (UnityPrintExpectedAndActualStringsLen expected actual len) w;
                w = UnityAddMsgIfSpecified msg w;
                w = UNITY_PRINT_EOL w
            in UNITY_FAIL_AND_BAIL w)
         else (Returned, w)))"

text \<open>An array of strings is an array of pointers in memory; \<open>str\<close> gives the characters a non-null
  \<^verbatim>\<open>char *\<close> points to. With \<^const>\<open>UNITY_ARRAY_TO_ARRAY\<close> the expected side is such an array too,
  otherwise it is one string.\<close>

definition str_ptr :: "(ptr \<Rightarrow> string) \<Rightarrow> ptr \<Rightarrow> cstr" where
  "str_ptr str p = (if p = NULL then None else Some (str p))"

fun UnityAssertEqualStringArray_loop ::
  "nat \<Rightarrow> UNITY_UINT32 \<Rightarrow> (ptr \<Rightarrow> string) \<Rightarrow> ptr \<Rightarrow> ptr \<Rightarrow> UNITY_UINT32 \<Rightarrow> cstr \<Rightarrow> UNITY_LINE_TYPE \<Rightarrow>
   UNITY_FLAGS_T \<Rightarrow> 'a unity_act" where
  "UnityAssertEqualStringArray_loop 0 j str expected actual num_elements msg lineNumber flags w =
     (Returned, w)"
| "UnityAssertEqualStringArray_loop (Suc left) j str expected actual num_elements msg lineNumber flags w =
     (let act = load_INT64 (memory w) (actual + 8 * ucast j);
          expd = (if flags = UNITY_ARRAY_TO_ARRAY then load_INT64 (memory w) (expected + 8 * ucast j)
                  else expected);
          w = (if expd \<noteq> NULL \<and> act \<noteq> NULL then
                 (if strings_differ (str expd) (str act) then w\<lparr>CurrentTestFailed := 1\<rparr> else w)
               else if expd \<noteq> act then w\<lparr>CurrentTestFailed := 1\<rparr> else w)
      in if CurrentTestFailed w \<noteq> 0 then
           (let w = UnityTestResultsFailBegin lineNumber w;
                w = (if num_elements > 1 then
                       puts (UnityPrintNumberUnsigned (ucast j)) (puts (UnityPrint (Some UnityStrElement)) w)
                     else w);
                w = puts (UnityPrintExpectedAndActualStrings (str_ptr str expd) (str_ptr str act)) w;
                w = UnityAddMsgIfSpecified msg w;
                w = UNITY_PRINT_EOL w
            in UNITY_FAIL_AND_BAIL w)
         else UnityAssertEqualStringArray_loop left (j + 1) str expected actual num_elements msg
                lineNumber flags w)"

definition UnityAssertEqualStringArray ::
  "(ptr \<Rightarrow> string) \<Rightarrow> ptr \<Rightarrow> ptr \<Rightarrow> UNITY_UINT32 \<Rightarrow> cstr \<Rightarrow> UNITY_LINE_TYPE \<Rightarrow> UNITY_FLAGS_T \<Rightarrow>
   'a unity_act" where
  "UnityAssertEqualStringArray str expected actual num_elements msg lineNumber flags =
   RETURN_IF_FAIL_OR_IGNORE (\<lambda>w.
     if num_elements = 0 then UnityPrintPointlessAndBail lineNumber msg w
     else if expected = actual then (Returned, w)
     else (case UnityIsOneArrayNull expected actual lineNumber msg w of
             (True, w) \<Rightarrow> UNITY_FAIL_AND_BAIL (UNITY_PRINT_EOL w)
           | (False, w) \<Rightarrow> UnityAssertEqualStringArray_loop (unat num_elements) 0 str expected actual
                            num_elements msg lineNumber flags w))"

section \<open>What the loops compare\<close>

lemma strings_differ_iff: "strings_differ e a \<longleftrightarrow> c_chars e \<noteq> c_chars a"
  by (induction e a rule: strings_differ.induct) (auto simp: c_chars_def)

lemma strings_differ_len_iff:
  "max (length e) (length a) + unat i < 2 ^ 32 \<Longrightarrow>
   strings_differ_len i len e a \<longleftrightarrow>
     take (unat len - unat i) (c_chars e) \<noteq> take (unat len - unat i) (c_chars a)"
proof (induction i len e a rule: strings_differ_len.induct)
  case (4 i len e es a as)
  have ui: "unat (i + 1) = Suc (unat i)"
    using "4.prems" by (simp add: unat_word_ariths)
  show ?case
  proof (cases "i < len")
    case True
    then obtain k where k: "unat len - unat i = Suc k"
      by (metis Suc_diff_Suc word_less_nat_alt)
    then have "unat len - unat (i + 1) = k" by (simp add: ui)
    with "4.IH" True "4.prems" k show ?thesis
      by (auto simp: c_chars_def ui)
  next
    case False
    then show ?thesis by (simp add: word_less_nat_alt)
  qed
qed (auto simp: c_chars_def word_less_nat_alt)

section \<open>The string assertions keep the contract\<close>

definition cstr_equal :: "cstr \<Rightarrow> cstr \<Rightarrow> bool" where
  "cstr_equal expected actual \<longleftrightarrow> map_option c_chars expected = map_option c_chars actual"

definition strings_report where
  "strings_report expected actual msg w =
     '':'' @ UnityPrintExpectedAndActualStrings expected actual @ msg_text msg w"

lemma UnityAssertEqualString_cases:
  "\<not> test_pending w \<Longrightarrow> UnityAssertEqualString expected actual msg line w =
     (if cstr_equal expected actual then (Returned, w)
      else (Aborted, failed_with line (strings_report expected actual msg w) w))"
  by (cases expected; cases actual)
     (simp_all add: UnityAssertEqualString_def cstr_equal_def strings_report_def strings_differ_iff Let_def
      fail_and_bail_report test_pending_def)

interpretation equal_string: unity_assertion
  "\<lambda>(expected, actual, msg) line. UnityAssertEqualString expected actual msg line"
  "\<lambda>(expected, actual, msg) w. cstr_equal expected actual"
  "\<lambda>(expected, actual, msg) w. strings_report expected actual msg w"
  by unfold_locales
     (auto simp: UnityAssertEqualString_cases split: prod.splits, simp_all add: UnityAssertEqualString_def)

definition cstr_equal_len :: "UNITY_UINT32 \<Rightarrow> cstr \<Rightarrow> cstr \<Rightarrow> bool" where
  "cstr_equal_len len expected actual \<longleftrightarrow>
     (case (expected, actual) of
        (Some e, Some a) \<Rightarrow> \<not> strings_differ_len 0 len e a
      | _ \<Rightarrow> expected = actual)"

definition strings_len_report where
  "strings_len_report expected actual len msg w =
     '':'' @ UnityPrintExpectedAndActualStringsLen expected actual len @ msg_text msg w"

lemma UnityAssertEqualStringLen_cases:
  "\<not> test_pending w \<Longrightarrow> UnityAssertEqualStringLen expected actual len msg line w =
     (if cstr_equal_len len expected actual then (Returned, w)
      else (Aborted, failed_with line (strings_len_report expected actual len msg w) w))"
  by (cases expected; cases actual)
     (simp_all add: UnityAssertEqualStringLen_def cstr_equal_len_def strings_len_report_def Let_def
      fail_and_bail_report test_pending_def)

interpretation equal_string_len: unity_assertion
  "\<lambda>(expected, actual, len, msg) line. UnityAssertEqualStringLen expected actual len msg line"
  "\<lambda>(expected, actual, len, msg) w. cstr_equal_len len expected actual"
  "\<lambda>(expected, actual, len, msg) w. strings_len_report expected actual len msg w"
  by unfold_locales
     (auto simp: UnityAssertEqualStringLen_cases split: prod.splits, simp_all add: UnityAssertEqualStringLen_def)

text \<open>String arrays.\<close>

definition expected_str where
  "expected_str str flags m expected j =
     str_ptr str (if flags = UNITY_ARRAY_TO_ARRAY then load_INT64 m (expected + 8 * word_of_nat j) else expected)"

definition actual_str where
  "actual_str str m actual j = str_ptr str (load_INT64 m (actual + 8 * word_of_nat j))"

definition string_elem_report where
  "string_elem_report num j expd act msg w =
     '':'' @
     (if num > (1 :: UNITY_UINT32) then UnityStrElement @ UnityPrintNumberUnsigned (word_of_nat j) else []) @
     UnityPrintExpectedAndActualStrings expd act @ msg_text msg w"

lemma str_ptr_equal:
  "cstr_equal (str_ptr str e) (str_ptr str a) \<longleftrightarrow>
     (if e \<noteq> NULL \<and> a \<noteq> NULL then \<not> strings_differ (str e) (str a) else e = a)"
  by (auto simp: cstr_equal_def str_ptr_def strings_differ_iff)

lemma str_ptr_update:
  "(if e \<noteq> NULL \<and> a \<noteq> NULL then (if strings_differ (str e) (str a) then w' else w)
    else if e \<noteq> a then w' else w) =
   (if cstr_equal (str_ptr str e) (str_ptr str a) then w else w')"
  by (simp add: str_ptr_equal)

lemma UnityAssertEqualStringArray_loop_find:
  assumes "\<not> test_pending w"
  shows "j + n \<le> unat num \<Longrightarrow>
   UnityAssertEqualStringArray_loop n (word_of_nat j) str e a num msg line flags w =
     verdict_outcome line
       (map_option (\<lambda>i. string_elem_report num i (expected_str str flags (memory w) e i)
                          (actual_str str (memory w) a i) msg w)
          (find (\<lambda>i. \<not> cstr_equal (expected_str str flags (memory w) e i) (actual_str str (memory w) a i))
             [j..<j + n])) w"
proof (induction n arbitrary: j)
  case 0
  show ?case by (simp add: verdict_outcome_def)
next
  case (Suc n)
  have "j < 2 ^ 32" using Suc.prems unat_less_2_32 [of num] by linarith
  then have uj: "ucast (word_of_nat j :: 32 word) = (word_of_nat j :: 64 word)"
    by (simp add: unsigned_of_nat take_bit_nat_eq_self)
  have IH: "UnityAssertEqualStringArray_loop n (word_of_nat j + 1) str e a num msg line flags w =
     verdict_outcome line
       (map_option (\<lambda>i. string_elem_report num i (expected_str str flags (memory w) e i)
                          (actual_str str (memory w) a i) msg w)
          (find (\<lambda>i. \<not> cstr_equal (expected_str str flags (memory w) e i) (actual_str str (memory w) a i))
             [Suc j..<j + Suc n])) w"
    using Suc.IH [of "Suc j"] Suc.prems by (simp add: add.commute)
  let ?act = "load_INT64 (memory w) (a + 8 * word_of_nat j)"
  let ?expd = "if flags = UNITY_ARRAY_TO_ARRAY then load_INT64 (memory w) (e + 8 * word_of_nat j) else e"
  have E: "expected_str str flags (memory w) e j = str_ptr str ?expd"
    and A: "actual_str str (memory w) a j = str_ptr str ?act"
    by (simp_all add: expected_str_def actual_str_def)
  have upd: "(if ?expd \<noteq> NULL \<and> ?act \<noteq> NULL then
                 (if strings_differ (str ?expd) (str ?act) then w\<lparr>CurrentTestFailed := 1\<rparr> else w)
               else if ?expd \<noteq> ?act then w\<lparr>CurrentTestFailed := 1\<rparr> else w) =
      (if cstr_equal (str_ptr str ?expd) (str_ptr str ?act) then w else w\<lparr>CurrentTestFailed := 1\<rparr>)"
    by (rule str_ptr_update)
  have upt: "[j..<j + Suc n] = j # [Suc j..<j + Suc n]" by (simp add: upt_conv_Cons del: upt_Suc)
  show ?case
  proof (cases "cstr_equal (str_ptr str ?expd) (str_ptr str ?act)")
    case True
    then have "UnityAssertEqualStringArray_loop (Suc n) (word_of_nat j) str e a num msg line flags w =
        UnityAssertEqualStringArray_loop n (word_of_nat j + 1) str e a num msg line flags w"
      using assms unfolding UnityAssertEqualStringArray_loop.simps Let_def uj upd
      by (simp add: test_pending_def)
    with True show ?thesis unfolding IH upt by (simp add: E A)
  next
    case False
    then show ?thesis
      unfolding UnityAssertEqualStringArray_loop.simps Let_def uj upd upt
      by (simp add: E A verdict_outcome_def fail_and_bail_report string_elem_report_def strings_report_def)
  qed
qed

definition string_array_verdict where
  "string_array_verdict str e a num msg flags w =
     array_verdict (num = (0 :: UNITY_UINT32)) e a msg
       (elements_verdict
          (\<lambda>i. cstr_equal (expected_str str flags (memory w) e i) (actual_str str (memory w) a i))
          (\<lambda>i. string_elem_report num i (expected_str str flags (memory w) e i)
                 (actual_str str (memory w) a i) msg w)
          (unat num)) w"

lemma UnityAssertEqualStringArray_verdict:
  "\<not> test_pending w \<Longrightarrow> UnityAssertEqualStringArray str e a num msg line flags w =
     verdict_outcome line (string_array_verdict str e a num msg flags w) w"
  unfolding UnityAssertEqualStringArray_def string_array_verdict_def
  using UnityAssertEqualStringArray_loop_find [of w 0 "unat num" num]
  by (simp add: array_prologue array_verdict_def elements_verdict_def) (simp add: verdict_outcome_def)

interpretation equal_string_array: unity_assertion
  "\<lambda>(str, e, a, num, msg, flags) line. UnityAssertEqualStringArray str e a num msg line flags"
  "\<lambda>p w. (case p of (str, e, a, num, msg, flags) \<Rightarrow> string_array_verdict str e a num msg flags) w = None"
  "\<lambda>p w. the ((case p of (str, e, a, num, msg, flags) \<Rightarrow> string_array_verdict str e a num msg flags) w)"
  by (rule unity_assertion_verdictI)
     (auto simp: UnityAssertEqualStringArray_verdict, simp add: UnityAssertEqualStringArray_def)

lemma string_array_verdict_None:
  "string_array_verdict str e a num msg flags w = None \<longleftrightarrow>
     num \<noteq> 0 \<and> (e = a \<or> e \<noteq> NULL \<and> a \<noteq> NULL \<and>
       (\<forall>i < unat num. cstr_equal (expected_str str flags (memory w) e i) (actual_str str (memory w) a i)))"
  by (auto simp: string_array_verdict_def array_verdict_def elements_verdict_None)

end
