(* ===== verification/Unity_Macros.thy ===== *)
theory Unity_Macros
  imports Unity_Numbers Unity_Arrays Unity_Strings Unity_Control
begin

text \<open>
  The assertion macros: the \<^verbatim>\<open>UNITY_TEST_ASSERT_*\<close> layer of \<^verbatim>\<open>src/unity/unity_internals.h\<close>, which casts
  the arguments and picks the display style, and the \<^verbatim>\<open>TEST_ASSERT_*\<close> layer of \<^verbatim>\<open>src/unity/unity.h\<close>, which
  adds the source line and the message.

  A family of macros that differ only in the type suffix is one definition whose first argument is
  the suffix. An integer argument of a macro is an \<open>int\<close>, the value of the C expression; the
  casts are the word conversions. The line is the \<^verbatim>\<open>__LINE__\<close> of the call.
\<close>

section \<open>Casts\<close>

definition as_INT8 :: "int \<Rightarrow> UNITY_INT" where "as_INT8 x = scast (word_of_int x :: 8 word)"
definition as_INT16 :: "int \<Rightarrow> UNITY_INT" where "as_INT16 x = scast (word_of_int x :: 16 word)"
definition as_INT32 :: "int \<Rightarrow> UNITY_INT" where "as_INT32 x = scast (word_of_int x :: 32 word)"
definition as_INT64 :: "int \<Rightarrow> UNITY_INT" where "as_INT64 x = word_of_int x"
definition as_UINT8 :: "int \<Rightarrow> UNITY_INT" where "as_UINT8 x = ucast (word_of_int x :: 8 word)"
definition as_UINT16 :: "int \<Rightarrow> UNITY_INT" where "as_UINT16 x = ucast (word_of_int x :: 16 word)"
definition as_UINT32 :: "int \<Rightarrow> UNITY_INT" where "as_UINT32 x = ucast (word_of_int x :: 32 word)"

text \<open>The casts of the \<^verbatim>\<open>EQUAL\<close> family: the hexadecimal macros go through the signed types.\<close>

fun equal_cast :: "UNITY_DISPLAY_STYLE_T \<Rightarrow> int \<Rightarrow> UNITY_INT" where
  "equal_cast UNITY_DISPLAY_STYLE_INT8 = as_INT8"
| "equal_cast UNITY_DISPLAY_STYLE_INT16 = as_INT16"
| "equal_cast UNITY_DISPLAY_STYLE_INT32 = as_INT32"
| "equal_cast UNITY_DISPLAY_STYLE_UINT8 = as_UINT8"
| "equal_cast UNITY_DISPLAY_STYLE_UINT16 = as_UINT16"
| "equal_cast UNITY_DISPLAY_STYLE_UINT32 = as_UINT32"
| "equal_cast UNITY_DISPLAY_STYLE_HEX8 = as_INT8"
| "equal_cast UNITY_DISPLAY_STYLE_HEX16 = as_INT16"
| "equal_cast UNITY_DISPLAY_STYLE_HEX32 = as_INT32"
| "equal_cast UNITY_DISPLAY_STYLE_CHAR = as_INT8"
| "equal_cast _ = as_INT64"

text \<open>The casts of the comparison and range families: there the hexadecimal macros go through the
  unsigned types.\<close>

fun compare_cast :: "UNITY_DISPLAY_STYLE_T \<Rightarrow> int \<Rightarrow> UNITY_INT" where
  "compare_cast UNITY_DISPLAY_STYLE_INT8 = as_INT8"
| "compare_cast UNITY_DISPLAY_STYLE_INT16 = as_INT16"
| "compare_cast UNITY_DISPLAY_STYLE_INT32 = as_INT32"
| "compare_cast UNITY_DISPLAY_STYLE_UINT8 = as_UINT8"
| "compare_cast UNITY_DISPLAY_STYLE_UINT16 = as_UINT16"
| "compare_cast UNITY_DISPLAY_STYLE_UINT32 = as_UINT32"
| "compare_cast UNITY_DISPLAY_STYLE_HEX8 = as_UINT8"
| "compare_cast UNITY_DISPLAY_STYLE_HEX16 = as_UINT16"
| "compare_cast UNITY_DISPLAY_STYLE_HEX32 = as_UINT32"
| "compare_cast UNITY_DISPLAY_STYLE_CHAR = as_INT8"
| "compare_cast _ = as_INT64"

fun delta_cast :: "UNITY_DISPLAY_STYLE_T \<Rightarrow> int \<Rightarrow> UNITY_UINT" where
  "delta_cast UNITY_DISPLAY_STYLE_INT8 = as_UINT8"
| "delta_cast UNITY_DISPLAY_STYLE_INT16 = as_UINT16"
| "delta_cast UNITY_DISPLAY_STYLE_INT32 = as_UINT32"
| "delta_cast UNITY_DISPLAY_STYLE_UINT8 = as_UINT8"
| "delta_cast UNITY_DISPLAY_STYLE_UINT16 = as_UINT16"
| "delta_cast UNITY_DISPLAY_STYLE_UINT32 = as_UINT32"
| "delta_cast UNITY_DISPLAY_STYLE_HEX8 = as_UINT8"
| "delta_cast UNITY_DISPLAY_STYLE_HEX16 = as_UINT16"
| "delta_cast UNITY_DISPLAY_STYLE_HEX32 = as_UINT32"
| "delta_cast UNITY_DISPLAY_STYLE_CHAR = as_UINT8"
| "delta_cast _ = as_INT64"

text \<open>\<^verbatim>\<open>UINT8_ARRAY_WITHIN\<close> is the one array macro whose delta keeps 16 bits.\<close>

fun array_delta_cast :: "UNITY_DISPLAY_STYLE_T \<Rightarrow> int \<Rightarrow> UNITY_UINT" where
  "array_delta_cast UNITY_DISPLAY_STYLE_UINT8 = as_UINT16"
| "array_delta_cast style = delta_cast style"

text \<open>The size that the \<^verbatim>\<open>EACH_EQUAL\<close> macros hand to \<^verbatim>\<open>UnityNumToPtr\<close>.\<close>

fun each_size :: "UNITY_DISPLAY_STYLE_T \<Rightarrow> UNITY_UINT8" where
  "each_size UNITY_DISPLAY_STYLE_INT8 = 1"
| "each_size UNITY_DISPLAY_STYLE_INT16 = 2"
| "each_size UNITY_DISPLAY_STYLE_INT64 = 8"
| "each_size UNITY_DISPLAY_STYLE_UINT8 = 1"
| "each_size UNITY_DISPLAY_STYLE_UINT16 = 2"
| "each_size UNITY_DISPLAY_STYLE_UINT64 = 8"
| "each_size UNITY_DISPLAY_STYLE_HEX8 = 1"
| "each_size UNITY_DISPLAY_STYLE_HEX16 = 2"
| "each_size UNITY_DISPLAY_STYLE_HEX64 = 8"
| "each_size UNITY_DISPLAY_STYLE_CHAR = 1"
| "each_size _ = 4"

section \<open>The \<^verbatim>\<open>UNITY_TEST_ASSERT_*\<close> layer\<close>

definition UNITY_TEST_ASSERT_NULL :: "ptr \<Rightarrow> UNITY_LINE_TYPE \<Rightarrow> cstr \<Rightarrow> 'a unity_act" where
  "UNITY_TEST_ASSERT_NULL pointer line message = UNITY_TEST_ASSERT (pointer = NULL) line message"

definition UNITY_TEST_ASSERT_NOT_NULL :: "ptr \<Rightarrow> UNITY_LINE_TYPE \<Rightarrow> cstr \<Rightarrow> 'a unity_act" where
  "UNITY_TEST_ASSERT_NOT_NULL pointer line message = UNITY_TEST_ASSERT (pointer \<noteq> NULL) line message"

definition UNITY_TEST_ASSERT_EMPTY :: "string \<Rightarrow> UNITY_LINE_TYPE \<Rightarrow> cstr \<Rightarrow> 'a unity_act" where
  "UNITY_TEST_ASSERT_EMPTY str line message = UNITY_TEST_ASSERT (c_chars str = []) line message"

definition UNITY_TEST_ASSERT_NOT_EMPTY :: "string \<Rightarrow> UNITY_LINE_TYPE \<Rightarrow> cstr \<Rightarrow> 'a unity_act" where
  "UNITY_TEST_ASSERT_NOT_EMPTY str line message = UNITY_TEST_ASSERT (c_chars str \<noteq> []) line message"

definition UNITY_TEST_ASSERT_EQUAL_num ::
  "UNITY_DISPLAY_STYLE_T \<Rightarrow> int \<Rightarrow> int \<Rightarrow> UNITY_LINE_TYPE \<Rightarrow> cstr \<Rightarrow> 'a unity_act" where
  "UNITY_TEST_ASSERT_EQUAL_num style expected actual line message =
     UnityAssertEqualNumber (equal_cast style expected) (equal_cast style actual) message line style"

definition UNITY_TEST_ASSERT_BITS ::
  "int \<Rightarrow> int \<Rightarrow> int \<Rightarrow> UNITY_LINE_TYPE \<Rightarrow> cstr \<Rightarrow> 'a unity_act" where
  "UNITY_TEST_ASSERT_BITS msk expected actual line message =
     UnityAssertBits (as_INT64 msk) (as_INT64 expected) (as_INT64 actual) message line"

text \<open>The five comparison families share one shape.\<close>

definition UNITY_TEST_ASSERT_compare ::
  "UNITY_COMPARISON_T \<Rightarrow> UNITY_DISPLAY_STYLE_T \<Rightarrow> int \<Rightarrow> int \<Rightarrow> UNITY_LINE_TYPE \<Rightarrow> cstr \<Rightarrow> 'a unity_act" where
  "UNITY_TEST_ASSERT_compare cmp style threshold actual line message =
     UnityAssertGreaterOrLessOrEqualNumber (compare_cast style threshold) (compare_cast style actual)
       cmp message line style"

definition UNITY_TEST_ASSERT_NOT_EQUAL where
  "UNITY_TEST_ASSERT_NOT_EQUAL = UNITY_TEST_ASSERT_compare UNITY_NOT_EQUAL"

definition UNITY_TEST_ASSERT_GREATER_THAN where
  "UNITY_TEST_ASSERT_GREATER_THAN = UNITY_TEST_ASSERT_compare UNITY_GREATER_THAN"

definition UNITY_TEST_ASSERT_SMALLER_THAN where
  "UNITY_TEST_ASSERT_SMALLER_THAN = UNITY_TEST_ASSERT_compare UNITY_SMALLER_THAN"

definition UNITY_TEST_ASSERT_GREATER_OR_EQUAL where
  "UNITY_TEST_ASSERT_GREATER_OR_EQUAL = UNITY_TEST_ASSERT_compare UNITY_GREATER_OR_EQUAL"

definition UNITY_TEST_ASSERT_SMALLER_OR_EQUAL where
  "UNITY_TEST_ASSERT_SMALLER_OR_EQUAL = UNITY_TEST_ASSERT_compare UNITY_SMALLER_OR_EQUAL"

definition UNITY_TEST_ASSERT_WITHIN ::
  "UNITY_DISPLAY_STYLE_T \<Rightarrow> int \<Rightarrow> int \<Rightarrow> int \<Rightarrow> UNITY_LINE_TYPE \<Rightarrow> cstr \<Rightarrow> 'a unity_act" where
  "UNITY_TEST_ASSERT_WITHIN style delta expected actual line message =
     UnityAssertNumbersWithin (delta_cast style delta) (compare_cast style expected)
       (compare_cast style actual) message line style"

definition UNITY_TEST_ASSERT_ARRAY_WITHIN ::
  "UNITY_DISPLAY_STYLE_T \<Rightarrow> int \<Rightarrow> ptr \<Rightarrow> ptr \<Rightarrow> UNITY_UINT32 \<Rightarrow> UNITY_LINE_TYPE \<Rightarrow> cstr \<Rightarrow> 'a unity_act" where
  "UNITY_TEST_ASSERT_ARRAY_WITHIN style delta expected actual num_elements line message =
     UnityAssertNumbersArrayWithin (array_delta_cast style delta) expected actual num_elements message line
       style UNITY_ARRAY_TO_ARRAY"

definition UNITY_TEST_ASSERT_EQUAL_PTR :: "ptr \<Rightarrow> ptr \<Rightarrow> UNITY_LINE_TYPE \<Rightarrow> cstr \<Rightarrow> 'a unity_act" where
  "UNITY_TEST_ASSERT_EQUAL_PTR expected actual line message =
     UnityAssertEqualNumber expected actual message line UNITY_DISPLAY_STYLE_HEX64"

definition UNITY_TEST_ASSERT_EQUAL_STRING :: "cstr \<Rightarrow> cstr \<Rightarrow> UNITY_LINE_TYPE \<Rightarrow> cstr \<Rightarrow> 'a unity_act" where
  "UNITY_TEST_ASSERT_EQUAL_STRING expected actual line message =
     UnityAssertEqualString expected actual message line"

definition UNITY_TEST_ASSERT_EQUAL_STRING_LEN ::
  "cstr \<Rightarrow> cstr \<Rightarrow> UNITY_UINT32 \<Rightarrow> UNITY_LINE_TYPE \<Rightarrow> cstr \<Rightarrow> 'a unity_act" where
  "UNITY_TEST_ASSERT_EQUAL_STRING_LEN expected actual len line message =
     UnityAssertEqualStringLen expected actual len message line"

definition UNITY_TEST_ASSERT_EQUAL_MEMORY ::
  "ptr \<Rightarrow> ptr \<Rightarrow> UNITY_UINT32 \<Rightarrow> UNITY_LINE_TYPE \<Rightarrow> cstr \<Rightarrow> 'a unity_act" where
  "UNITY_TEST_ASSERT_EQUAL_MEMORY expected actual len line message =
     UnityAssertEqualMemory expected actual len 1 message line UNITY_ARRAY_TO_ARRAY"

definition UNITY_TEST_ASSERT_EQUAL_ARRAY ::
  "UNITY_DISPLAY_STYLE_T \<Rightarrow> ptr \<Rightarrow> ptr \<Rightarrow> UNITY_UINT32 \<Rightarrow> UNITY_LINE_TYPE \<Rightarrow> cstr \<Rightarrow> 'a unity_act" where
  "UNITY_TEST_ASSERT_EQUAL_ARRAY style expected actual num_elements line message =
     UnityAssertEqualIntArray expected actual num_elements message line style UNITY_ARRAY_TO_ARRAY"

definition UNITY_TEST_ASSERT_EQUAL_STRING_ARRAY ::
  "(ptr \<Rightarrow> string) \<Rightarrow> ptr \<Rightarrow> ptr \<Rightarrow> UNITY_UINT32 \<Rightarrow> UNITY_LINE_TYPE \<Rightarrow> cstr \<Rightarrow> 'a unity_act" where
  "UNITY_TEST_ASSERT_EQUAL_STRING_ARRAY str expected actual num_elements line message =
     UnityAssertEqualStringArray str expected actual num_elements message line UNITY_ARRAY_TO_ARRAY"

definition UNITY_TEST_ASSERT_EQUAL_MEMORY_ARRAY ::
  "ptr \<Rightarrow> ptr \<Rightarrow> UNITY_UINT32 \<Rightarrow> UNITY_UINT32 \<Rightarrow> UNITY_LINE_TYPE \<Rightarrow> cstr \<Rightarrow> 'a unity_act" where
  "UNITY_TEST_ASSERT_EQUAL_MEMORY_ARRAY expected actual len num_elements line message =
     UnityAssertEqualMemory expected actual len num_elements message line UNITY_ARRAY_TO_ARRAY"

text \<open>The \<^verbatim>\<open>EACH_EQUAL\<close> macros store the value in the scratch object of \<^verbatim>\<open>UnityNumToPtr\<close> (at \<open>qc\<close>) first.\<close>

definition UNITY_TEST_ASSERT_EACH_EQUAL ::
  "ptr \<Rightarrow> UNITY_DISPLAY_STYLE_T \<Rightarrow> int \<Rightarrow> ptr \<Rightarrow> UNITY_UINT32 \<Rightarrow> UNITY_LINE_TYPE \<Rightarrow> cstr \<Rightarrow> 'a unity_act" where
  "UNITY_TEST_ASSERT_EACH_EQUAL qc style expected actual num_elements line message w =
     (let (p, w) = UnityNumToPtr qc (equal_cast style expected) (each_size style) w
      in UnityAssertEqualIntArray p actual num_elements message line style UNITY_ARRAY_TO_VAL w)"

definition UNITY_TEST_ASSERT_EACH_EQUAL_STRING ::
  "(ptr \<Rightarrow> string) \<Rightarrow> ptr \<Rightarrow> ptr \<Rightarrow> UNITY_UINT32 \<Rightarrow> UNITY_LINE_TYPE \<Rightarrow> cstr \<Rightarrow> 'a unity_act" where
  "UNITY_TEST_ASSERT_EACH_EQUAL_STRING str expected actual num_elements line message =
     UnityAssertEqualStringArray str expected actual num_elements message line UNITY_ARRAY_TO_VAL"

definition UNITY_TEST_ASSERT_EACH_EQUAL_MEMORY ::
  "ptr \<Rightarrow> ptr \<Rightarrow> UNITY_UINT32 \<Rightarrow> UNITY_UINT32 \<Rightarrow> UNITY_LINE_TYPE \<Rightarrow> cstr \<Rightarrow> 'a unity_act" where
  "UNITY_TEST_ASSERT_EACH_EQUAL_MEMORY expected actual len num_elements line message =
     UnityAssertEqualMemory expected actual len num_elements message line UNITY_ARRAY_TO_VAL"

section \<open>The \<^verbatim>\<open>TEST_ASSERT_*\<close> layer\<close>

text \<open>
  A suffix of this layer is a display style, or one of the spellings that stand for another suffix:
  \<^verbatim>\<open>_size_t\<close> for \<^verbatim>\<open>_UINT\<close>, \<^verbatim>\<open>_HEX\<close> for \<^verbatim>\<open>_HEX32\<close>, and no suffix for \<^verbatim>\<open>_INT\<close>.
\<close>

datatype macro_suffix = Style UNITY_DISPLAY_STYLE_T | Size_T | Hex | No_Suffix

fun suffix_style :: "macro_suffix \<Rightarrow> UNITY_DISPLAY_STYLE_T" where
  "suffix_style (Style style) = style"
| "suffix_style Size_T = UNITY_DISPLAY_STYLE_UINT"
| "suffix_style Hex = UNITY_DISPLAY_STYLE_HEX32"
| "suffix_style No_Suffix = UNITY_DISPLAY_STYLE_INT"

definition TEST_FAIL_MESSAGE :: "string \<Rightarrow> UNITY_LINE_TYPE \<Rightarrow> 'a unity_act" where
  "TEST_FAIL_MESSAGE message line = UnityFail (Some message) line"

definition TEST_FAIL :: "UNITY_LINE_TYPE \<Rightarrow> 'a unity_act" where
  "TEST_FAIL line = UnityFail None line"

definition TEST_IGNORE_MESSAGE :: "string \<Rightarrow> UNITY_LINE_TYPE \<Rightarrow> 'a unity_act" where
  "TEST_IGNORE_MESSAGE message line = UnityIgnore (Some message) line"

definition TEST_IGNORE :: "UNITY_LINE_TYPE \<Rightarrow> 'a unity_act" where
  "TEST_IGNORE line = UnityIgnore None line"

definition TEST_MESSAGE :: "string \<Rightarrow> UNITY_LINE_TYPE \<Rightarrow> 'a unity_act" where
  "TEST_MESSAGE message line w = (Returned, UnityMessage (Some message) line w)"

definition TEST_PASS :: "'a unity_act" where
  "TEST_PASS w = (Aborted, w)"

definition TEST_PASS_MESSAGE :: "string \<Rightarrow> UNITY_LINE_TYPE \<Rightarrow> 'a unity_act" where
  "TEST_PASS_MESSAGE message line w = (Aborted, UnityMessage (Some message) line w)"

subsection \<open>Without a message\<close>

definition TEST_ASSERT :: "bool \<Rightarrow> UNITY_LINE_TYPE \<Rightarrow> 'a unity_act" where
  "TEST_ASSERT condition line =
     UNITY_TEST_ASSERT condition line (Some '' Expression Evaluated To FALSE'')"

definition TEST_ASSERT_TRUE :: "bool \<Rightarrow> UNITY_LINE_TYPE \<Rightarrow> 'a unity_act" where
  "TEST_ASSERT_TRUE condition line =
     UNITY_TEST_ASSERT condition line (Some '' Expected TRUE Was FALSE'')"

definition TEST_ASSERT_UNLESS :: "bool \<Rightarrow> UNITY_LINE_TYPE \<Rightarrow> 'a unity_act" where
  "TEST_ASSERT_UNLESS condition line =
     UNITY_TEST_ASSERT (\<not> condition) line (Some '' Expression Evaluated To TRUE'')"

definition TEST_ASSERT_FALSE :: "bool \<Rightarrow> UNITY_LINE_TYPE \<Rightarrow> 'a unity_act" where
  "TEST_ASSERT_FALSE condition line =
     UNITY_TEST_ASSERT (\<not> condition) line (Some '' Expected FALSE Was TRUE'')"

definition TEST_ASSERT_NULL :: "ptr \<Rightarrow> UNITY_LINE_TYPE \<Rightarrow> 'a unity_act" where
  "TEST_ASSERT_NULL p line = UNITY_TEST_ASSERT_NULL p line (Some '' Expected NULL'')"

definition TEST_ASSERT_NOT_NULL :: "ptr \<Rightarrow> UNITY_LINE_TYPE \<Rightarrow> 'a unity_act" where
  "TEST_ASSERT_NOT_NULL p line =
     UNITY_TEST_ASSERT_NOT_NULL p line (Some '' Expected Non-NULL'')"

definition TEST_ASSERT_EMPTY :: "string \<Rightarrow> UNITY_LINE_TYPE \<Rightarrow> 'a unity_act" where
  "TEST_ASSERT_EMPTY p line = UNITY_TEST_ASSERT_EMPTY p line (Some '' Expected Empty'')"

definition TEST_ASSERT_NOT_EMPTY :: "string \<Rightarrow> UNITY_LINE_TYPE \<Rightarrow> 'a unity_act" where
  "TEST_ASSERT_NOT_EMPTY p line =
     UNITY_TEST_ASSERT_NOT_EMPTY p line (Some '' Expected Non-Empty'')"

definition TEST_ASSERT_EQUAL_num :: "macro_suffix \<Rightarrow> int \<Rightarrow> int \<Rightarrow> UNITY_LINE_TYPE \<Rightarrow> 'a unity_act" where
  "TEST_ASSERT_EQUAL_num sfx expected actual line =
     UNITY_TEST_ASSERT_EQUAL_num (suffix_style sfx) expected actual line None"

definition TEST_ASSERT_BITS :: "int \<Rightarrow> int \<Rightarrow> int \<Rightarrow> UNITY_LINE_TYPE \<Rightarrow> 'a unity_act" where
  "TEST_ASSERT_BITS msk expected actual line =
     UNITY_TEST_ASSERT_BITS msk expected actual line None"

definition TEST_ASSERT_BITS_HIGH :: "int \<Rightarrow> int \<Rightarrow> UNITY_LINE_TYPE \<Rightarrow> 'a unity_act" where
  "TEST_ASSERT_BITS_HIGH msk actual line =
     UNITY_TEST_ASSERT_BITS msk (uint (- 1 :: 64 word)) actual line None"

definition TEST_ASSERT_BITS_LOW :: "int \<Rightarrow> int \<Rightarrow> UNITY_LINE_TYPE \<Rightarrow> 'a unity_act" where
  "TEST_ASSERT_BITS_LOW msk actual line = UNITY_TEST_ASSERT_BITS msk 0 actual line None"

definition TEST_ASSERT_BIT_HIGH :: "nat \<Rightarrow> int \<Rightarrow> UNITY_LINE_TYPE \<Rightarrow> 'a unity_act" where
  "TEST_ASSERT_BIT_HIGH b actual line =
     UNITY_TEST_ASSERT_BITS (uint (push_bit b 1 :: 64 word)) (uint (- 1 :: 64 word)) actual line None"

definition TEST_ASSERT_BIT_LOW :: "nat \<Rightarrow> int \<Rightarrow> UNITY_LINE_TYPE \<Rightarrow> 'a unity_act" where
  "TEST_ASSERT_BIT_LOW b actual line =
     UNITY_TEST_ASSERT_BITS (uint (push_bit b 1 :: 64 word)) 0 actual line None"

definition TEST_ASSERT_NOT_EQUAL_num :: "macro_suffix \<Rightarrow> int \<Rightarrow> int \<Rightarrow> UNITY_LINE_TYPE \<Rightarrow> 'a unity_act" where
  "TEST_ASSERT_NOT_EQUAL_num sfx threshold actual line =
     UNITY_TEST_ASSERT_NOT_EQUAL (suffix_style sfx) threshold actual line None"

definition TEST_ASSERT_GREATER_THAN :: "macro_suffix \<Rightarrow> int \<Rightarrow> int \<Rightarrow> UNITY_LINE_TYPE \<Rightarrow> 'a unity_act" where
  "TEST_ASSERT_GREATER_THAN sfx threshold actual line =
     UNITY_TEST_ASSERT_GREATER_THAN (suffix_style sfx) threshold actual line None"

definition TEST_ASSERT_LESS_THAN :: "macro_suffix \<Rightarrow> int \<Rightarrow> int \<Rightarrow> UNITY_LINE_TYPE \<Rightarrow> 'a unity_act" where
  "TEST_ASSERT_LESS_THAN sfx threshold actual line =
     UNITY_TEST_ASSERT_SMALLER_THAN (suffix_style sfx) threshold actual line None"

definition TEST_ASSERT_GREATER_OR_EQUAL :: "macro_suffix \<Rightarrow> int \<Rightarrow> int \<Rightarrow> UNITY_LINE_TYPE \<Rightarrow> 'a unity_act" where
  "TEST_ASSERT_GREATER_OR_EQUAL sfx threshold actual line =
     UNITY_TEST_ASSERT_GREATER_OR_EQUAL (suffix_style sfx) threshold actual line None"

definition TEST_ASSERT_LESS_OR_EQUAL :: "macro_suffix \<Rightarrow> int \<Rightarrow> int \<Rightarrow> UNITY_LINE_TYPE \<Rightarrow> 'a unity_act" where
  "TEST_ASSERT_LESS_OR_EQUAL sfx threshold actual line =
     UNITY_TEST_ASSERT_SMALLER_OR_EQUAL (suffix_style sfx) threshold actual line None"

definition TEST_ASSERT_WITHIN :: "macro_suffix \<Rightarrow> int \<Rightarrow> int \<Rightarrow> int \<Rightarrow> UNITY_LINE_TYPE \<Rightarrow> 'a unity_act" where
  "TEST_ASSERT_WITHIN sfx delta expected actual line =
     UNITY_TEST_ASSERT_WITHIN (suffix_style sfx) delta expected actual line None"

definition TEST_ASSERT_ARRAY_WITHIN :: "macro_suffix \<Rightarrow> int \<Rightarrow> ptr \<Rightarrow> ptr \<Rightarrow> UNITY_UINT32 \<Rightarrow> UNITY_LINE_TYPE \<Rightarrow> 'a unity_act" where
  "TEST_ASSERT_ARRAY_WITHIN sfx delta expected actual num_elements line =
     UNITY_TEST_ASSERT_ARRAY_WITHIN (suffix_style sfx) delta expected actual num_elements line None"

definition TEST_ASSERT_EQUAL_PTR :: "ptr \<Rightarrow> ptr \<Rightarrow> UNITY_LINE_TYPE \<Rightarrow> 'a unity_act" where
  "TEST_ASSERT_EQUAL_PTR expected actual line =
     UNITY_TEST_ASSERT_EQUAL_PTR expected actual line None"

definition TEST_ASSERT_EQUAL_STRING :: "cstr \<Rightarrow> cstr \<Rightarrow> UNITY_LINE_TYPE \<Rightarrow> 'a unity_act" where
  "TEST_ASSERT_EQUAL_STRING expected actual line =
     UNITY_TEST_ASSERT_EQUAL_STRING expected actual line None"

definition TEST_ASSERT_EQUAL_STRING_LEN :: "cstr \<Rightarrow> cstr \<Rightarrow> UNITY_UINT32 \<Rightarrow> UNITY_LINE_TYPE \<Rightarrow> 'a unity_act" where
  "TEST_ASSERT_EQUAL_STRING_LEN expected actual len line =
     UNITY_TEST_ASSERT_EQUAL_STRING_LEN expected actual len line None"

definition TEST_ASSERT_EQUAL_MEMORY :: "ptr \<Rightarrow> ptr \<Rightarrow> UNITY_UINT32 \<Rightarrow> UNITY_LINE_TYPE \<Rightarrow> 'a unity_act" where
  "TEST_ASSERT_EQUAL_MEMORY expected actual len line =
     UNITY_TEST_ASSERT_EQUAL_MEMORY expected actual len line None"

definition TEST_ASSERT_EQUAL_ARRAY :: "macro_suffix \<Rightarrow> ptr \<Rightarrow> ptr \<Rightarrow> UNITY_UINT32 \<Rightarrow> UNITY_LINE_TYPE \<Rightarrow> 'a unity_act" where
  "TEST_ASSERT_EQUAL_ARRAY sfx expected actual num_elements line =
     UNITY_TEST_ASSERT_EQUAL_ARRAY (suffix_style sfx) expected actual num_elements line None"

definition TEST_ASSERT_EQUAL_PTR_ARRAY :: "ptr \<Rightarrow> ptr \<Rightarrow> UNITY_UINT32 \<Rightarrow> UNITY_LINE_TYPE \<Rightarrow> 'a unity_act" where
  "TEST_ASSERT_EQUAL_PTR_ARRAY expected actual num_elements line =
     UNITY_TEST_ASSERT_EQUAL_ARRAY UNITY_DISPLAY_STYLE_HEX64 expected actual num_elements line None"

definition TEST_ASSERT_EQUAL_STRING_ARRAY :: "(ptr \<Rightarrow> string) \<Rightarrow> ptr \<Rightarrow> ptr \<Rightarrow> UNITY_UINT32 \<Rightarrow> UNITY_LINE_TYPE \<Rightarrow> 'a unity_act" where
  "TEST_ASSERT_EQUAL_STRING_ARRAY str expected actual num_elements line =
     UNITY_TEST_ASSERT_EQUAL_STRING_ARRAY str expected actual num_elements line None"

definition TEST_ASSERT_EQUAL_MEMORY_ARRAY :: "ptr \<Rightarrow> ptr \<Rightarrow> UNITY_UINT32 \<Rightarrow> UNITY_UINT32 \<Rightarrow> UNITY_LINE_TYPE \<Rightarrow> 'a unity_act" where
  "TEST_ASSERT_EQUAL_MEMORY_ARRAY expected actual len num_elements line =
     UNITY_TEST_ASSERT_EQUAL_MEMORY_ARRAY expected actual len num_elements line None"

definition TEST_ASSERT_EACH_EQUAL :: "ptr \<Rightarrow> macro_suffix \<Rightarrow> int \<Rightarrow> ptr \<Rightarrow> UNITY_UINT32 \<Rightarrow> UNITY_LINE_TYPE \<Rightarrow> 'a unity_act" where
  "TEST_ASSERT_EACH_EQUAL qc sfx expected actual num_elements line =
     UNITY_TEST_ASSERT_EACH_EQUAL qc (suffix_style sfx) expected actual num_elements line None"

definition TEST_ASSERT_EACH_EQUAL_PTR :: "ptr \<Rightarrow> ptr \<Rightarrow> ptr \<Rightarrow> UNITY_UINT32 \<Rightarrow> UNITY_LINE_TYPE \<Rightarrow> 'a unity_act" where
  "TEST_ASSERT_EACH_EQUAL_PTR qc expected actual num_elements line =
     UNITY_TEST_ASSERT_EACH_EQUAL qc UNITY_DISPLAY_STYLE_HEX64 (uint expected) actual num_elements line None"

definition TEST_ASSERT_EACH_EQUAL_STRING :: "(ptr \<Rightarrow> string) \<Rightarrow> ptr \<Rightarrow> ptr \<Rightarrow> UNITY_UINT32 \<Rightarrow> UNITY_LINE_TYPE \<Rightarrow> 'a unity_act" where
  "TEST_ASSERT_EACH_EQUAL_STRING str expected actual num_elements line =
     UNITY_TEST_ASSERT_EACH_EQUAL_STRING str expected actual num_elements line None"

definition TEST_ASSERT_EACH_EQUAL_MEMORY :: "ptr \<Rightarrow> ptr \<Rightarrow> UNITY_UINT32 \<Rightarrow> UNITY_UINT32 \<Rightarrow> UNITY_LINE_TYPE \<Rightarrow> 'a unity_act" where
  "TEST_ASSERT_EACH_EQUAL_MEMORY expected actual len num_elements line =
     UNITY_TEST_ASSERT_EACH_EQUAL_MEMORY expected actual len num_elements line None"

definition TEST_ASSERT_NOT_EQUAL :: "int \<Rightarrow> int \<Rightarrow> UNITY_LINE_TYPE \<Rightarrow> 'a unity_act" where
  "TEST_ASSERT_NOT_EQUAL expected actual line =
     UNITY_TEST_ASSERT (expected \<noteq> actual) line (Some '' Expected Not-Equal'')"

subsection \<open>With a message\<close>

definition TEST_ASSERT_MESSAGE :: "bool \<Rightarrow> string \<Rightarrow> UNITY_LINE_TYPE \<Rightarrow> 'a unity_act" where
  "TEST_ASSERT_MESSAGE condition message line =
     UNITY_TEST_ASSERT condition line (Some message)"

definition TEST_ASSERT_TRUE_MESSAGE :: "bool \<Rightarrow> string \<Rightarrow> UNITY_LINE_TYPE \<Rightarrow> 'a unity_act" where
  "TEST_ASSERT_TRUE_MESSAGE condition message line =
     UNITY_TEST_ASSERT condition line (Some message)"

definition TEST_ASSERT_UNLESS_MESSAGE :: "bool \<Rightarrow> string \<Rightarrow> UNITY_LINE_TYPE \<Rightarrow> 'a unity_act" where
  "TEST_ASSERT_UNLESS_MESSAGE condition message line =
     UNITY_TEST_ASSERT (\<not> condition) line (Some message)"

definition TEST_ASSERT_FALSE_MESSAGE :: "bool \<Rightarrow> string \<Rightarrow> UNITY_LINE_TYPE \<Rightarrow> 'a unity_act" where
  "TEST_ASSERT_FALSE_MESSAGE condition message line =
     UNITY_TEST_ASSERT (\<not> condition) line (Some message)"

definition TEST_ASSERT_NULL_MESSAGE :: "ptr \<Rightarrow> string \<Rightarrow> UNITY_LINE_TYPE \<Rightarrow> 'a unity_act" where
  "TEST_ASSERT_NULL_MESSAGE p message line =
     UNITY_TEST_ASSERT_NULL p line (Some message)"

definition TEST_ASSERT_NOT_NULL_MESSAGE :: "ptr \<Rightarrow> string \<Rightarrow> UNITY_LINE_TYPE \<Rightarrow> 'a unity_act" where
  "TEST_ASSERT_NOT_NULL_MESSAGE p message line =
     UNITY_TEST_ASSERT_NOT_NULL p line (Some message)"

definition TEST_ASSERT_EMPTY_MESSAGE :: "string \<Rightarrow> string \<Rightarrow> UNITY_LINE_TYPE \<Rightarrow> 'a unity_act" where
  "TEST_ASSERT_EMPTY_MESSAGE p message line =
     UNITY_TEST_ASSERT_EMPTY p line (Some message)"

definition TEST_ASSERT_NOT_EMPTY_MESSAGE :: "string \<Rightarrow> string \<Rightarrow> UNITY_LINE_TYPE \<Rightarrow> 'a unity_act" where
  "TEST_ASSERT_NOT_EMPTY_MESSAGE p message line =
     UNITY_TEST_ASSERT_NOT_EMPTY p line (Some message)"

definition TEST_ASSERT_EQUAL_num_MESSAGE :: "macro_suffix \<Rightarrow> int \<Rightarrow> int \<Rightarrow> string \<Rightarrow> UNITY_LINE_TYPE \<Rightarrow> 'a unity_act" where
  "TEST_ASSERT_EQUAL_num_MESSAGE sfx expected actual message line =
     UNITY_TEST_ASSERT_EQUAL_num (suffix_style sfx) expected actual line (Some message)"

definition TEST_ASSERT_BITS_MESSAGE :: "int \<Rightarrow> int \<Rightarrow> int \<Rightarrow> string \<Rightarrow> UNITY_LINE_TYPE \<Rightarrow> 'a unity_act" where
  "TEST_ASSERT_BITS_MESSAGE msk expected actual message line =
     UNITY_TEST_ASSERT_BITS msk expected actual line (Some message)"

definition TEST_ASSERT_BITS_HIGH_MESSAGE :: "int \<Rightarrow> int \<Rightarrow> string \<Rightarrow> UNITY_LINE_TYPE \<Rightarrow> 'a unity_act" where
  "TEST_ASSERT_BITS_HIGH_MESSAGE msk actual message line =
     UNITY_TEST_ASSERT_BITS msk (uint (- 1 :: 32 word)) actual line (Some message)"

definition TEST_ASSERT_BITS_LOW_MESSAGE :: "int \<Rightarrow> int \<Rightarrow> string \<Rightarrow> UNITY_LINE_TYPE \<Rightarrow> 'a unity_act" where
  "TEST_ASSERT_BITS_LOW_MESSAGE msk actual message line =
     UNITY_TEST_ASSERT_BITS msk 0 actual line (Some message)"

definition TEST_ASSERT_BIT_HIGH_MESSAGE :: "nat \<Rightarrow> int \<Rightarrow> string \<Rightarrow> UNITY_LINE_TYPE \<Rightarrow> 'a unity_act" where
  "TEST_ASSERT_BIT_HIGH_MESSAGE b actual message line =
     UNITY_TEST_ASSERT_BITS (uint (push_bit b 1 :: 32 word)) (uint (- 1 :: 32 word)) actual line (Some message)"

definition TEST_ASSERT_BIT_LOW_MESSAGE :: "nat \<Rightarrow> int \<Rightarrow> string \<Rightarrow> UNITY_LINE_TYPE \<Rightarrow> 'a unity_act" where
  "TEST_ASSERT_BIT_LOW_MESSAGE b actual message line =
     UNITY_TEST_ASSERT_BITS (uint (push_bit b 1 :: 32 word)) 0 actual line (Some message)"

definition TEST_ASSERT_NOT_EQUAL_num_MESSAGE :: "macro_suffix \<Rightarrow> int \<Rightarrow> int \<Rightarrow> string \<Rightarrow> UNITY_LINE_TYPE \<Rightarrow> 'a unity_act" where
  "TEST_ASSERT_NOT_EQUAL_num_MESSAGE sfx threshold actual message line =
     UNITY_TEST_ASSERT_NOT_EQUAL (suffix_style sfx) threshold actual line (Some message)"

definition TEST_ASSERT_GREATER_THAN_MESSAGE :: "macro_suffix \<Rightarrow> int \<Rightarrow> int \<Rightarrow> string \<Rightarrow> UNITY_LINE_TYPE \<Rightarrow> 'a unity_act" where
  "TEST_ASSERT_GREATER_THAN_MESSAGE sfx threshold actual message line =
     UNITY_TEST_ASSERT_GREATER_THAN (suffix_style sfx) threshold actual line (Some message)"

definition TEST_ASSERT_LESS_THAN_MESSAGE :: "macro_suffix \<Rightarrow> int \<Rightarrow> int \<Rightarrow> string \<Rightarrow> UNITY_LINE_TYPE \<Rightarrow> 'a unity_act" where
  "TEST_ASSERT_LESS_THAN_MESSAGE sfx threshold actual message line =
     UNITY_TEST_ASSERT_SMALLER_THAN (suffix_style sfx) threshold actual line (Some message)"

definition TEST_ASSERT_GREATER_OR_EQUAL_MESSAGE :: "macro_suffix \<Rightarrow> int \<Rightarrow> int \<Rightarrow> string \<Rightarrow> UNITY_LINE_TYPE \<Rightarrow> 'a unity_act" where
  "TEST_ASSERT_GREATER_OR_EQUAL_MESSAGE sfx threshold actual message line =
     UNITY_TEST_ASSERT_GREATER_OR_EQUAL (suffix_style sfx) threshold actual line (Some message)"

definition TEST_ASSERT_LESS_OR_EQUAL_MESSAGE :: "macro_suffix \<Rightarrow> int \<Rightarrow> int \<Rightarrow> string \<Rightarrow> UNITY_LINE_TYPE \<Rightarrow> 'a unity_act" where
  "TEST_ASSERT_LESS_OR_EQUAL_MESSAGE sfx threshold actual message line =
     UNITY_TEST_ASSERT_SMALLER_OR_EQUAL (suffix_style sfx) threshold actual line (Some message)"

definition TEST_ASSERT_WITHIN_MESSAGE :: "macro_suffix \<Rightarrow> int \<Rightarrow> int \<Rightarrow> int \<Rightarrow> string \<Rightarrow> UNITY_LINE_TYPE \<Rightarrow> 'a unity_act" where
  "TEST_ASSERT_WITHIN_MESSAGE sfx delta expected actual message line =
     UNITY_TEST_ASSERT_WITHIN (suffix_style sfx) delta expected actual line (Some message)"

definition TEST_ASSERT_ARRAY_WITHIN_MESSAGE :: "macro_suffix \<Rightarrow> int \<Rightarrow> ptr \<Rightarrow> ptr \<Rightarrow> UNITY_UINT32 \<Rightarrow> string \<Rightarrow> UNITY_LINE_TYPE \<Rightarrow> 'a unity_act" where
  "TEST_ASSERT_ARRAY_WITHIN_MESSAGE sfx delta expected actual num_elements message line =
     UNITY_TEST_ASSERT_ARRAY_WITHIN (suffix_style sfx) delta expected actual num_elements line (Some message)"

definition TEST_ASSERT_EQUAL_PTR_MESSAGE :: "ptr \<Rightarrow> ptr \<Rightarrow> string \<Rightarrow> UNITY_LINE_TYPE \<Rightarrow> 'a unity_act" where
  "TEST_ASSERT_EQUAL_PTR_MESSAGE expected actual message line =
     UNITY_TEST_ASSERT_EQUAL_PTR expected actual line (Some message)"

definition TEST_ASSERT_EQUAL_STRING_MESSAGE :: "cstr \<Rightarrow> cstr \<Rightarrow> string \<Rightarrow> UNITY_LINE_TYPE \<Rightarrow> 'a unity_act" where
  "TEST_ASSERT_EQUAL_STRING_MESSAGE expected actual message line =
     UNITY_TEST_ASSERT_EQUAL_STRING expected actual line (Some message)"

definition TEST_ASSERT_EQUAL_STRING_LEN_MESSAGE :: "cstr \<Rightarrow> cstr \<Rightarrow> UNITY_UINT32 \<Rightarrow> string \<Rightarrow> UNITY_LINE_TYPE \<Rightarrow> 'a unity_act" where
  "TEST_ASSERT_EQUAL_STRING_LEN_MESSAGE expected actual len message line =
     UNITY_TEST_ASSERT_EQUAL_STRING_LEN expected actual len line (Some message)"

definition TEST_ASSERT_EQUAL_MEMORY_MESSAGE :: "ptr \<Rightarrow> ptr \<Rightarrow> UNITY_UINT32 \<Rightarrow> string \<Rightarrow> UNITY_LINE_TYPE \<Rightarrow> 'a unity_act" where
  "TEST_ASSERT_EQUAL_MEMORY_MESSAGE expected actual len message line =
     UNITY_TEST_ASSERT_EQUAL_MEMORY expected actual len line (Some message)"

definition TEST_ASSERT_EQUAL_ARRAY_MESSAGE :: "macro_suffix \<Rightarrow> ptr \<Rightarrow> ptr \<Rightarrow> UNITY_UINT32 \<Rightarrow> string \<Rightarrow> UNITY_LINE_TYPE \<Rightarrow> 'a unity_act" where
  "TEST_ASSERT_EQUAL_ARRAY_MESSAGE sfx expected actual num_elements message line =
     UNITY_TEST_ASSERT_EQUAL_ARRAY (suffix_style sfx) expected actual num_elements line (Some message)"

definition TEST_ASSERT_EQUAL_PTR_ARRAY_MESSAGE :: "ptr \<Rightarrow> ptr \<Rightarrow> UNITY_UINT32 \<Rightarrow> string \<Rightarrow> UNITY_LINE_TYPE \<Rightarrow> 'a unity_act" where
  "TEST_ASSERT_EQUAL_PTR_ARRAY_MESSAGE expected actual num_elements message line =
     UNITY_TEST_ASSERT_EQUAL_ARRAY UNITY_DISPLAY_STYLE_HEX64 expected actual num_elements line (Some message)"

definition TEST_ASSERT_EQUAL_STRING_ARRAY_MESSAGE :: "(ptr \<Rightarrow> string) \<Rightarrow> ptr \<Rightarrow> ptr \<Rightarrow> UNITY_UINT32 \<Rightarrow> string \<Rightarrow> UNITY_LINE_TYPE \<Rightarrow> 'a unity_act" where
  "TEST_ASSERT_EQUAL_STRING_ARRAY_MESSAGE str expected actual num_elements message line =
     UNITY_TEST_ASSERT_EQUAL_STRING_ARRAY str expected actual num_elements line (Some message)"

definition TEST_ASSERT_EQUAL_MEMORY_ARRAY_MESSAGE :: "ptr \<Rightarrow> ptr \<Rightarrow> UNITY_UINT32 \<Rightarrow> UNITY_UINT32 \<Rightarrow> string \<Rightarrow> UNITY_LINE_TYPE \<Rightarrow> 'a unity_act" where
  "TEST_ASSERT_EQUAL_MEMORY_ARRAY_MESSAGE expected actual len num_elements message line =
     UNITY_TEST_ASSERT_EQUAL_MEMORY_ARRAY expected actual len num_elements line (Some message)"

definition TEST_ASSERT_EACH_EQUAL_MESSAGE :: "ptr \<Rightarrow> macro_suffix \<Rightarrow> int \<Rightarrow> ptr \<Rightarrow> UNITY_UINT32 \<Rightarrow> string \<Rightarrow> UNITY_LINE_TYPE \<Rightarrow> 'a unity_act" where
  "TEST_ASSERT_EACH_EQUAL_MESSAGE qc sfx expected actual num_elements message line =
     UNITY_TEST_ASSERT_EACH_EQUAL qc (suffix_style sfx) expected actual num_elements line (Some message)"

definition TEST_ASSERT_EACH_EQUAL_PTR_MESSAGE :: "ptr \<Rightarrow> ptr \<Rightarrow> ptr \<Rightarrow> UNITY_UINT32 \<Rightarrow> string \<Rightarrow> UNITY_LINE_TYPE \<Rightarrow> 'a unity_act" where
  "TEST_ASSERT_EACH_EQUAL_PTR_MESSAGE qc expected actual num_elements message line =
     UNITY_TEST_ASSERT_EACH_EQUAL qc UNITY_DISPLAY_STYLE_HEX64 (uint expected) actual num_elements line (Some message)"

definition TEST_ASSERT_EACH_EQUAL_STRING_MESSAGE :: "(ptr \<Rightarrow> string) \<Rightarrow> ptr \<Rightarrow> ptr \<Rightarrow> UNITY_UINT32 \<Rightarrow> string \<Rightarrow> UNITY_LINE_TYPE \<Rightarrow> 'a unity_act" where
  "TEST_ASSERT_EACH_EQUAL_STRING_MESSAGE str expected actual num_elements message line =
     UNITY_TEST_ASSERT_EACH_EQUAL_STRING str expected actual num_elements line (Some message)"

definition TEST_ASSERT_EACH_EQUAL_MEMORY_MESSAGE :: "ptr \<Rightarrow> ptr \<Rightarrow> UNITY_UINT32 \<Rightarrow> UNITY_UINT32 \<Rightarrow> string \<Rightarrow> UNITY_LINE_TYPE \<Rightarrow> 'a unity_act" where
  "TEST_ASSERT_EACH_EQUAL_MEMORY_MESSAGE expected actual len num_elements message line =
     UNITY_TEST_ASSERT_EACH_EQUAL_MEMORY expected actual len num_elements line (Some message)"

definition TEST_ASSERT_NOT_EQUAL_MESSAGE :: "int \<Rightarrow> int \<Rightarrow> string \<Rightarrow> UNITY_LINE_TYPE \<Rightarrow> 'a unity_act" where
  "TEST_ASSERT_NOT_EQUAL_MESSAGE expected actual message line =
     UNITY_TEST_ASSERT (expected \<noteq> actual) line (Some message)"

section \<open>What the macros check\<close>

fun style_width :: "UNITY_DISPLAY_STYLE_T \<Rightarrow> nat" where
  "style_width UNITY_DISPLAY_STYLE_INT8 = 8"
| "style_width UNITY_DISPLAY_STYLE_INT16 = 16"
| "style_width UNITY_DISPLAY_STYLE_INT32 = 32"
| "style_width UNITY_DISPLAY_STYLE_UINT8 = 8"
| "style_width UNITY_DISPLAY_STYLE_UINT16 = 16"
| "style_width UNITY_DISPLAY_STYLE_UINT32 = 32"
| "style_width UNITY_DISPLAY_STYLE_HEX8 = 8"
| "style_width UNITY_DISPLAY_STYLE_HEX16 = 16"
| "style_width UNITY_DISPLAY_STYLE_HEX32 = 32"
| "style_width UNITY_DISPLAY_STYLE_CHAR = 8"
| "style_width _ = 64"

lemmas as_defs = as_INT8_def as_INT16_def as_INT32_def as_INT64_def as_UINT8_def as_UINT16_def as_UINT32_def

lemma equal_cast_eq_iff:
  "equal_cast style x = equal_cast style y \<longleftrightarrow> x mod 2 ^ style_width style = y mod 2 ^ style_width style"
  by (cases style) (simp_all add: as_defs scast_64_eq_iff ucast_64_eq_iff word_of_int_eq_mod)

text \<open>An argument within the range of the suffix's type keeps its value.\<close>

definition style_fits :: "UNITY_DISPLAY_STYLE_T \<Rightarrow> int \<Rightarrow> bool" where
  "style_fits style x \<longleftrightarrow>
     (if style_signed style then - (2 ^ (style_width style - 1)) \<le> x \<and> x < 2 ^ (style_width style - 1)
      else 0 \<le> x \<and> x < 2 ^ style_width style)"

lemma style_signed_simps [simp]:
  "style_signed UNITY_DISPLAY_STYLE_INT" "style_signed UNITY_DISPLAY_STYLE_INT8"
  "style_signed UNITY_DISPLAY_STYLE_INT16" "style_signed UNITY_DISPLAY_STYLE_INT32"
  "style_signed UNITY_DISPLAY_STYLE_INT64" "style_signed UNITY_DISPLAY_STYLE_CHAR"
  "\<not> style_signed UNITY_DISPLAY_STYLE_UINT" "\<not> style_signed UNITY_DISPLAY_STYLE_UINT8"
  "\<not> style_signed UNITY_DISPLAY_STYLE_UINT16" "\<not> style_signed UNITY_DISPLAY_STYLE_UINT32"
  "\<not> style_signed UNITY_DISPLAY_STYLE_UINT64" "\<not> style_signed UNITY_DISPLAY_STYLE_HEX8"
  "\<not> style_signed UNITY_DISPLAY_STYLE_HEX16" "\<not> style_signed UNITY_DISPLAY_STYLE_HEX32"
  "\<not> style_signed UNITY_DISPLAY_STYLE_HEX64" "style_signed UNITY_DISPLAY_STYLE_UNKNOWN"
  by code_simp+

lemma compare_cast_fits: "style_fits style x \<Longrightarrow> style_int style (compare_cast style x) = x"
  by (cases style)
     (simp_all add: style_fits_def style_int_def as_defs sint_scast_64 uint_ucast_64 sint_word_of_int_fits
        uint_word_of_int)

lemma unat_as_mod:
  "unat (as_INT8 x) mod 256 = nat (x mod 256)"
  "unat (as_INT16 x) mod 65536 = nat (x mod 65536)"
  "unat (as_INT32 x) mod 4294967296 = nat (x mod 4294967296)"
  "unat (as_UINT8 x) mod 256 = nat (x mod 256)"
  "unat (as_UINT16 x) mod 65536 = nat (x mod 65536)"
  "unat (as_UINT32 x) mod 4294967296 = nat (x mod 4294967296)"
  subgoal using low_bits_cast(1) [where ?'a = 8, of x] by (simp add: as_INT8_def)
  subgoal using low_bits_cast(1) [where ?'a = 16, of x] by (simp add: as_INT16_def)
  subgoal using low_bits_cast(1) [where ?'a = 32, of x] by (simp add: as_INT32_def)
  subgoal using low_bits_cast(2) [where ?'a = 8, of x] by (simp add: as_UINT8_def)
  subgoal using low_bits_cast(2) [where ?'a = 16, of x] by (simp add: as_UINT16_def)
  subgoal using low_bits_cast(2) [where ?'a = 32, of x] by (simp add: as_UINT32_def)
  done

lemma unat_as_INT64_mod32: "unat (as_INT64 x) mod 4294967296 = nat (x mod 4294967296)"
proof -
  have "unat (as_INT64 x) mod 4294967296 = nat (x mod 18446744073709551616 mod 4294967296)"
    by (simp add: as_INT64_def unat_word_of_int nat_mod_distrib)
  also have "x mod 18446744073709551616 mod 4294967296 = x mod 4294967296"
    by (rule mod_mod_cancel) simp
  finally show ?thesis .
qed

lemma unat_as_INT64_mod64: "unat (as_INT64 x) mod 18446744073709551616 = nat (x mod 18446744073709551616)"
  using unat_less_2_64 [of "as_INT64 x"] by (simp add: as_INT64_def unat_word_of_int)

lemma equal_cast_low_bytes:
  "style \<noteq> UNITY_DISPLAY_STYLE_UNKNOWN \<Longrightarrow>
   unat (equal_cast style x) mod 256 ^ style_bytes style = nat (x mod 256 ^ style_bytes style)"
  by (cases style) (simp_all add: unat_as_mod unat_as_INT64_mod32 unat_as_INT64_mod64)

lemma unat_each_size: "style \<noteq> UNITY_DISPLAY_STYLE_UNKNOWN \<Longrightarrow> unat (each_size style) = style_bytes style"
  by (cases style) simp_all

lemma UnityNumToPtr_store:
  "style \<noteq> UNITY_DISPLAY_STYLE_UNKNOWN \<Longrightarrow>
   UnityNumToPtr qc v (each_size style) w = (qc, w\<lparr>memory := store_le (style_bytes style) (unat v) qc (memory w)\<rparr>)"
  by (cases style) (simp_all add: UnityNumToPtr_def del: store_le.simps One_nat_def)

lemma EACH_EQUAL_iff:
  assumes run: "\<not> test_pending w" and style: "style \<noteq> UNITY_DISPLAY_STYLE_UNKNOWN"
    and args: "num \<noteq> 0" "actual \<noteq> NULL" "qc \<noteq> NULL"
    and apart: "\<forall>k < unat num * style_bytes style. unat (actual + word_of_nat k - qc) \<ge> 8"
  shows "fst (UNITY_TEST_ASSERT_EACH_EQUAL qc style expected actual num line msg w) = Returned \<longleftrightarrow>
    (\<forall>i < unat num. int (array_elem (memory w) style actual i) = expected mod 256 ^ style_bytes style)"
proof -
  let ?n = "style_bytes style"
  let ?m = "store_le ?n (unat (equal_cast style expected)) qc (memory w)"
  have n: "0 < ?n" "?n \<le> 8" using style by (cases style; simp)+
  have pos: "0 < unat num" using args by (simp add: unat_gt_0)
  have "8 \<le> unat (actual - qc)" using apart [rule_format, of 0] n pos by simp
  then have ne: "qc \<noteq> actual" by auto
  have big: "?n \<le> 2 ^ 64" using n by simp
  have qc0: "array_elem ?m style qc 0 = nat (expected mod 256 ^ ?n)"
    using load_le_store_le [OF big] by (simp add: array_elem_def equal_cast_low_bytes [OF style])
  have elem: "array_elem ?m style actual i = array_elem (memory w) style actual i" if "i < unat num" for i
    unfolding array_elem_def
  proof (rule load_le_cong)
    fix j assume "j < ?n"
    moreover have "Suc i * ?n \<le> unat num * ?n" using that by (intro mult_le_mono1) simp
    ultimately have "i * ?n + j < unat num * ?n" by simp
    with apart have "8 \<le> unat (actual + word_of_nat (i * ?n + j) - qc)" by blast
    then have "\<not> unat (actual + word_of_nat (i * ?n + j) - qc) < ?n" using n by linarith
    then have "?m (actual + word_of_nat (i * ?n + j)) = memory w (actual + word_of_nat (i * ?n + j))"
      by (simp only: store_le_apply [OF big] if_False)
    then show "?m (actual + word_of_nat (i * ?n) + word_of_nat j) =
        memory w (actual + word_of_nat (i * ?n) + word_of_nat j)"
      by (simp only: of_nat_add add.assoc)
  qed
  have "fst (UNITY_TEST_ASSERT_EACH_EQUAL qc style expected actual num line msg w) = Returned \<longleftrightarrow>
      int_array_verdict qc actual num msg style UNITY_ARRAY_TO_VAL (w\<lparr>memory := ?m\<rparr>) = None"
    using int_array.returns_iff [of "(qc, actual, num, msg, style, UNITY_ARRAY_TO_VAL)" line "w\<lparr>memory := ?m\<rparr>"] run
    by (simp add: UNITY_TEST_ASSERT_EACH_EQUAL_def UnityNumToPtr_store [OF style] test_pending_def)
  also have "\<dots> \<longleftrightarrow> (\<forall>i < unat num. array_elem ?m style qc 0 = array_elem ?m style actual i)"
    using args ne by (simp add: int_array_verdict_None array_elem_val_eq_iff)
  also have "\<dots> \<longleftrightarrow> (\<forall>i < unat num. int (array_elem (memory w) style actual i) = expected mod 256 ^ ?n)"
    by (auto simp: qc0 elem nat_eq_iff)
  finally show ?thesis .
qed

text \<open>A delta within the width of the suffix keeps its value.\<close>

lemma delta_cast_fits:
  "0 \<le> d \<Longrightarrow> d < 2 ^ style_width style \<Longrightarrow> uint (delta_cast style d) = d"
  by (cases style) (simp_all add: as_defs uint_ucast_64 uint_word_of_int)

section \<open>Every assertion as one call\<close>

text \<open>A test body is a sequence of calls of the assertion functions; a macro of either layer (the
  \<^verbatim>\<open>EACH_EQUAL\<close> family apart, which writes its scratch object first) expands to one of them.\<close>

datatype unity_call =
    Call_Assert bool cstr
  | Call_Bits UNITY_INT UNITY_INT UNITY_INT cstr
  | Call_EqualNumber UNITY_INT UNITY_INT cstr UNITY_DISPLAY_STYLE_T
  | Call_Compare UNITY_INT UNITY_INT UNITY_COMPARISON_T cstr UNITY_DISPLAY_STYLE_T
  | Call_NumbersWithin UNITY_UINT UNITY_INT UNITY_INT cstr UNITY_DISPLAY_STYLE_T
  | Call_EqualIntArray ptr ptr UNITY_UINT32 cstr UNITY_DISPLAY_STYLE_T UNITY_FLAGS_T
  | Call_NumbersArrayWithin UNITY_UINT ptr ptr UNITY_UINT32 cstr UNITY_DISPLAY_STYLE_T UNITY_FLAGS_T
  | Call_EqualString cstr cstr cstr
  | Call_EqualStringLen cstr cstr UNITY_UINT32 cstr
  | Call_EqualStringArray "ptr \<Rightarrow> string" ptr ptr UNITY_UINT32 cstr UNITY_FLAGS_T
  | Call_EqualMemory ptr ptr UNITY_UINT32 UNITY_UINT32 cstr UNITY_FLAGS_T
  | Call_Fail cstr

fun exec_call :: "unity_call \<Rightarrow> UNITY_LINE_TYPE \<Rightarrow> 'a unity_act" where
  "exec_call (Call_Assert c msg) line = UNITY_TEST_ASSERT c line msg"
| "exec_call (Call_Bits msk e a msg) line = UnityAssertBits msk e a msg line"
| "exec_call (Call_EqualNumber e a msg style) line = UnityAssertEqualNumber e a msg line style"
| "exec_call (Call_Compare t a cmp msg style) line = UnityAssertGreaterOrLessOrEqualNumber t a cmp msg line style"
| "exec_call (Call_NumbersWithin d e a msg style) line = UnityAssertNumbersWithin d e a msg line style"
| "exec_call (Call_EqualIntArray e a n msg style flags) line = UnityAssertEqualIntArray e a n msg line style flags"
| "exec_call (Call_NumbersArrayWithin d e a n msg style flags) line =
     UnityAssertNumbersArrayWithin d e a n msg line style flags"
| "exec_call (Call_EqualString e a msg) line = UnityAssertEqualString e a msg line"
| "exec_call (Call_EqualStringLen e a len msg) line = UnityAssertEqualStringLen e a len msg line"
| "exec_call (Call_EqualStringArray str e a n msg flags) line = UnityAssertEqualStringArray str e a n msg line flags"
| "exec_call (Call_EqualMemory e a len n msg flags) line = UnityAssertEqualMemory e a len n msg line flags"
| "exec_call (Call_Fail msg) line = UnityFail msg line"

text \<open>The condition a call checks, on the memory it reads.\<close>

fun call_holds :: "unity_call \<Rightarrow> mem \<Rightarrow> bool" where
  "call_holds (Call_Assert c msg) m \<longleftrightarrow> c"
| "call_holds (Call_Bits msk e a msg) m \<longleftrightarrow> msk AND e = msk AND a"
| "call_holds (Call_EqualNumber e a msg style) m \<longleftrightarrow> e = a"
| "call_holds (Call_Compare t a cmp msg style) m \<longleftrightarrow> compare_holds cmp (style_int style t) (style_int style a)"
| "call_holds (Call_NumbersWithin d e a msg style) m \<longleftrightarrow> style_within style d e a"
| "call_holds (Call_EqualIntArray e a n msg style flags) m \<longleftrightarrow>
     n \<noteq> 0 \<and> (e = a \<or> e \<noteq> NULL \<and> a \<noteq> NULL \<and>
       (\<forall>i < unat n. expected_elem style flags m e i = actual_elem style m a i))"
| "call_holds (Call_NumbersArrayWithin d e a n msg style flags) m \<longleftrightarrow>
     n \<noteq> 0 \<and> (e = a \<or> e \<noteq> NULL \<and> a \<noteq> NULL \<and>
       (\<forall>i < unat n. style_within style d (expected_elem style flags m e i) (actual_elem style m a i)))"
| "call_holds (Call_EqualString e a msg) m \<longleftrightarrow> cstr_equal e a"
| "call_holds (Call_EqualStringLen e a len msg) m \<longleftrightarrow> cstr_equal_len len e a"
| "call_holds (Call_EqualStringArray str e a n msg flags) m \<longleftrightarrow>
     n \<noteq> 0 \<and> (e = a \<or> e \<noteq> NULL \<and> a \<noteq> NULL \<and>
       (\<forall>j < unat n. cstr_equal (expected_str str flags m e j) (actual_str str m a j)))"
| "call_holds (Call_EqualMemory e a len n msg flags) m \<longleftrightarrow>
     n \<noteq> 0 \<and> len \<noteq> 0 \<and> (e = a \<or> e \<noteq> NULL \<and> a \<noteq> NULL \<and>
       (\<forall>k < unat n. \<forall>i < unat len.
          m (block_at (flags \<noteq> UNITY_ARRAY_TO_VAL) len e k + word_of_nat i) =
          m (block_at True len a k + word_of_nat i)))"
| "call_holds (Call_Fail msg) m \<longleftrightarrow> False"

fun call_report :: "unity_call \<Rightarrow> 'a unity_world_scheme \<Rightarrow> string" where
  "call_report (Call_Assert c msg) w = fail_report msg w"
| "call_report (Call_Bits msk e a msg) w = bits_report msk e a msg w"
| "call_report (Call_EqualNumber e a msg style) w = equal_report e a msg style w"
| "call_report (Call_Compare t a cmp msg style) w = compare_report t a cmp msg style w"
| "call_report (Call_NumbersWithin d e a msg style) w = within_report d e a msg style w"
| "call_report (Call_EqualIntArray e a n msg style flags) w = the (int_array_verdict e a n msg style flags w)"
| "call_report (Call_NumbersArrayWithin d e a n msg style flags) w =
     the (within_array_verdict d e a n msg style flags w)"
| "call_report (Call_EqualString e a msg) w = strings_report e a msg w"
| "call_report (Call_EqualStringLen e a len msg) w = strings_len_report e a len msg w"
| "call_report (Call_EqualStringArray str e a n msg flags) w = the (string_array_verdict str e a n msg flags w)"
| "call_report (Call_EqualMemory e a len n msg flags) w = the (memory_verdict e a len n msg flags w)"
| "call_report (Call_Fail msg) w = fail_report msg w"

lemmas assertion_defs =
  UNITY_TEST_ASSERT_def UnityFail_def UnityAssertBits_def UnityAssertEqualNumber_def
  UnityAssertGreaterOrLessOrEqualNumber_def UnityAssertNumbersWithin_def UnityAssertEqualIntArray_def
  UnityAssertNumbersArrayWithin_def UnityAssertEqualString_def UnityAssertEqualStringLen_def
  UnityAssertEqualStringArray_def UnityAssertEqualMemory_def

lemmas assertion_cases =
  UnityFail_outcome UnityAssertBits_cases UnityAssertEqualNumber_cases
  UnityAssertGreaterOrLessOrEqualNumber_cases UnityAssertNumbersWithin_cases
  UnityAssertEqualString_cases UnityAssertEqualStringLen_cases
  UnityAssertEqualIntArray_verdict UnityAssertNumbersArrayWithin_verdict
  UnityAssertEqualStringArray_verdict UnityAssertEqualMemory_verdict

lemma exec_call_pending: "test_pending w \<Longrightarrow> snd (exec_call p line w) = w"
  by (cases p) (simp_all add: assertion_defs)

lemma exec_call_outcome:
  "\<not> test_pending w \<Longrightarrow> exec_call p line w =
     (if call_holds p (memory w) then (Returned, w)
      else (Aborted, failed_with line (call_report p w) w))"
  by (cases p)
     (simp_all add: UNITY_TEST_ASSERT_def assertion_cases verdict_outcome_def option.case_eq_if
       int_array_verdict_None within_array_verdict_None string_array_verdict_None memory_verdict_None)

interpretation any_call: unity_check exec_call "\<lambda>p w. call_holds p (memory w)" call_report
  by unfold_locales (simp_all add: exec_call_pending exec_call_outcome)

section \<open>Properties\<close>

lemma load_le_const: "load_le n (\<lambda>_. c) p = load_le n (\<lambda>_. c) q"
  by (induction n arbitrary: p q) auto

lemma Unity_running [simp]: "\<not> test_pending Unity" "\<not> test_pending (Unity\<lparr>memory := m\<rparr>)"
  by (simp_all add: test_pending_def Unity_def)

text \<open>C5: The contract of every assertion function: it changes the state only when no failure is pending
  and its condition does not hold, and then it prints one \<^verbatim>\<open>ASSERTION\<close> line, records the line number and
  marks the test as failed; when no failure is pending it returns exactly when its condition holds.\<close>

theorem assertion_contract:
  "snd (exec_call p line w) =
     (if test_pending w \<or> call_holds p (memory w) then w else failed_with line (call_report p w) w) \<and>
   (test_pending w \<or> (fst (exec_call p line w) = Returned \<longleftrightarrow> call_holds p (memory w)))"
  by (cases "test_pending w") (simp_all add: exec_call_pending exec_call_outcome)

text \<open>C15: The \<^verbatim>\<open>TEST_ASSERT_EQUAL_<type>\<close> macros compare the two values modulo the width of the type:
  8, 16 or 32 bits for the sized suffixes and 64 bits for the others.\<close>

theorem TEST_ASSERT_EQUAL_modulo:
  "\<not> test_pending w \<Longrightarrow>
   fst (TEST_ASSERT_EQUAL_num sfx expected actual line w) = Returned \<longleftrightarrow>
     expected mod 2 ^ style_width (suffix_style sfx) = actual mod 2 ^ style_width (suffix_style sfx)"
  using equal_number.returns_iff [of "(equal_cast (suffix_style sfx) expected,
    equal_cast (suffix_style sfx) actual, None, suffix_style sfx)" line w]
  by (simp add: TEST_ASSERT_EQUAL_num_def UNITY_TEST_ASSERT_EQUAL_num_def equal_cast_eq_iff)

theorem TEST_ASSERT_EQUAL_modulo_witness:
  "fst (TEST_ASSERT_EQUAL_num (Style UNITY_DISPLAY_STYLE_UINT8) 511 (- 1) 12 Unity) = Returned \<and>
   fst (TEST_ASSERT_EQUAL_num No_Suffix 511 (- 1) 13 Unity) \<noteq> Returned"
  using TEST_ASSERT_EQUAL_modulo [of Unity "Style UNITY_DISPLAY_STYLE_UINT8" 511 "- 1" 12]
    TEST_ASSERT_EQUAL_modulo [of Unity No_Suffix 511 "- 1" 13]
  by simp

text \<open>C14: For arguments in the range of the suffix's type the ordering macros compare them as integers,
  signed or unsigned as the suffix says.\<close>

theorem TEST_ASSERT_ordering:
  assumes "\<not> test_pending w"
    and "style_fits (suffix_style sfx) threshold" and "style_fits (suffix_style sfx) actual"
  shows "(fst (TEST_ASSERT_GREATER_THAN sfx threshold actual line w) = Returned \<longleftrightarrow> actual > threshold) \<and>
    (fst (TEST_ASSERT_LESS_THAN sfx threshold actual line w) = Returned \<longleftrightarrow> actual < threshold) \<and>
    (fst (TEST_ASSERT_GREATER_OR_EQUAL sfx threshold actual line w) = Returned \<longleftrightarrow> actual \<ge> threshold) \<and>
    (fst (TEST_ASSERT_LESS_OR_EQUAL sfx threshold actual line w) = Returned \<longleftrightarrow> actual \<le> threshold) \<and>
    (fst (TEST_ASSERT_NOT_EQUAL_num sfx threshold actual line w) = Returned \<longleftrightarrow> actual \<noteq> threshold)"
proof -
  have "fst (UNITY_TEST_ASSERT_compare cmp (suffix_style sfx) threshold actual line None w) = Returned \<longleftrightarrow>
      compare_holds cmp threshold actual" for cmp
    using compare_number.returns_iff [of "(compare_cast (suffix_style sfx) threshold,
      compare_cast (suffix_style sfx) actual, cmp, None, suffix_style sfx)" line w] assms
    by (simp add: UNITY_TEST_ASSERT_compare_def compare_cast_fits)
  then show ?thesis
    by (auto simp: TEST_ASSERT_GREATER_THAN_def TEST_ASSERT_LESS_THAN_def TEST_ASSERT_GREATER_OR_EQUAL_def
      TEST_ASSERT_LESS_OR_EQUAL_def TEST_ASSERT_NOT_EQUAL_num_def UNITY_TEST_ASSERT_GREATER_THAN_def
      UNITY_TEST_ASSERT_SMALLER_THAN_def UNITY_TEST_ASSERT_GREATER_OR_EQUAL_def
      UNITY_TEST_ASSERT_SMALLER_OR_EQUAL_def UNITY_TEST_ASSERT_NOT_EQUAL_def)
qed

theorem TEST_ASSERT_ordering_witness:
  "style_fits UNITY_DISPLAY_STYLE_UINT8 3 \<and> style_fits UNITY_DISPLAY_STYLE_UINT8 200 \<and>
   fst (TEST_ASSERT_GREATER_THAN (Style UNITY_DISPLAY_STYLE_UINT8) 3 200 5 Unity) = Returned"
proof -
  have "style_fits UNITY_DISPLAY_STYLE_UINT8 3" "style_fits UNITY_DISPLAY_STYLE_UINT8 200"
    by (simp_all add: style_fits_def)
  then show ?thesis
    using TEST_ASSERT_ordering [of Unity "Style UNITY_DISPLAY_STYLE_UINT8" 3 200 5] by simp
qed

text \<open>C13: For arguments in the range of the suffix's type and a delta within its width, the range macros
  pass exactly when the distance of the two integers is at most the delta, although the subtraction
  they compute is modulo \<open>2 ^ 64\<close>.\<close>

theorem TEST_ASSERT_WITHIN_distance:
  assumes "\<not> test_pending w"
    and "style_fits (suffix_style sfx) expected" and "style_fits (suffix_style sfx) actual"
    and "0 \<le> delta" and "delta < 2 ^ style_width (suffix_style sfx)"
  shows "fst (TEST_ASSERT_WITHIN sfx delta expected actual line w) = Returned \<longleftrightarrow> \<bar>actual - expected\<bar> \<le> delta"
  using numbers_within.returns_iff [of "(delta_cast (suffix_style sfx) delta,
      compare_cast (suffix_style sfx) expected, compare_cast (suffix_style sfx) actual, None, suffix_style sfx)" line w]
    assms
  by (simp add: TEST_ASSERT_WITHIN_def UNITY_TEST_ASSERT_WITHIN_def style_within_def compare_cast_fits
    delta_cast_fits)

theorem TEST_ASSERT_WITHIN_distance_witness:
  "style_fits UNITY_DISPLAY_STYLE_INT64 (- (2 ^ 63)) \<and>
   fst (TEST_ASSERT_WITHIN (Style UNITY_DISPLAY_STYLE_INT64) (2 ^ 64 - 1) (- (2 ^ 63)) (2 ^ 63 - 1) 5 Unity) = Returned"
proof -
  have "style_fits UNITY_DISPLAY_STYLE_INT64 (- (2 ^ 63))" "style_fits UNITY_DISPLAY_STYLE_INT64 (2 ^ 63 - 1)"
    by (simp_all add: style_fits_def)
  then show ?thesis
    using TEST_ASSERT_WITHIN_distance [of Unity "Style UNITY_DISPLAY_STYLE_INT64" "- (2 ^ 63)" "2 ^ 63 - 1" "2 ^ 64 - 1" 5]
    by simp
qed

text \<open>C12: The array equality macros pass exactly when there is at least one element to compare and
  either both pointers are the same or neither is null and all elements, read at the width of the
  suffix, are equal.\<close>

theorem TEST_ASSERT_EQUAL_ARRAY_iff:
  "\<not> test_pending w \<Longrightarrow>
   fst (TEST_ASSERT_EQUAL_ARRAY sfx expected actual num_elements line w) = Returned \<longleftrightarrow>
     num_elements \<noteq> 0 \<and> (expected = actual \<or> expected \<noteq> NULL \<and> actual \<noteq> NULL \<and>
       (\<forall>i < unat num_elements. array_elem (memory w) (suffix_style sfx) expected i =
                                array_elem (memory w) (suffix_style sfx) actual i))"
proof -
  assume "\<not> test_pending w"
  then have "fst (TEST_ASSERT_EQUAL_ARRAY sfx expected actual num_elements line w) = Returned \<longleftrightarrow>
      int_array_verdict expected actual num_elements None (suffix_style sfx) UNITY_ARRAY_TO_ARRAY w = None"
    using int_array.returns_iff [of "(expected, actual, num_elements, None, suffix_style sfx, UNITY_ARRAY_TO_ARRAY)" line w]
    by (simp add: TEST_ASSERT_EQUAL_ARRAY_def UNITY_TEST_ASSERT_EQUAL_ARRAY_def)
  then show ?thesis unfolding int_array_verdict_None array_elem_eq_iff .
qed

theorem TEST_ASSERT_EQUAL_ARRAY_iff_witness:
  "fst (TEST_ASSERT_EQUAL_ARRAY (Style UNITY_DISPLAY_STYLE_UINT16) 64 128 3 5
     (Unity\<lparr>memory := (\<lambda>_. 7)\<rparr>)) = Returned"
proof -
  have "array_elem (\<lambda>_. 7) UNITY_DISPLAY_STYLE_UINT16 64 i = array_elem (\<lambda>_. 7) UNITY_DISPLAY_STYLE_UINT16 128 i" for i
    unfolding array_elem_def by (rule load_le_const)
  then show ?thesis
    using TEST_ASSERT_EQUAL_ARRAY_iff [of "Unity\<lparr>memory := (\<lambda>_. 7)\<rparr>" "Style UNITY_DISPLAY_STYLE_UINT16" 64 128 3 5]
    by simp
qed

text \<open>C11: \<^verbatim>\<open>TEST_ASSERT_EACH_EQUAL_<type>\<close> passes exactly when every element of the array equals the given
  value modulo the element width, provided the array does not overlap the scratch object in which
  the macro stores the value.\<close>

theorem TEST_ASSERT_EACH_EQUAL_iff:
  assumes "\<not> test_pending w" and "suffix_style sfx \<noteq> UNITY_DISPLAY_STYLE_UNKNOWN"
    and "num_elements \<noteq> 0" and "actual \<noteq> NULL" and "qc \<noteq> NULL"
    and "\<forall>k < unat num_elements * style_bytes (suffix_style sfx). unat (actual + word_of_nat k - qc) \<ge> 8"
  shows "fst (TEST_ASSERT_EACH_EQUAL qc sfx expected actual num_elements line w) = Returned \<longleftrightarrow>
    (\<forall>i < unat num_elements.
       int (array_elem (memory w) (suffix_style sfx) actual i) = expected mod 256 ^ style_bytes (suffix_style sfx))"
  using EACH_EQUAL_iff [OF assms] by (simp add: TEST_ASSERT_EACH_EQUAL_def)

theorem TEST_ASSERT_EACH_EQUAL_iff_witness:
  "fst (TEST_ASSERT_EACH_EQUAL 64 (Style UNITY_DISPLAY_STYLE_HEX8) (- 1) 128 1 5
     (Unity\<lparr>memory := (\<lambda>_. 255)\<rparr>)) = Returned"
  using TEST_ASSERT_EACH_EQUAL_iff [of "Unity\<lparr>memory := (\<lambda>_. 255)\<rparr>"
      "Style UNITY_DISPLAY_STYLE_HEX8" 1 128 64 "- 1" 5]
  by (simp add: array_elem_def)

text \<open>C18: \<^verbatim>\<open>TEST_ASSERT_EQUAL_MEMORY\<close> passes exactly when the length is positive and either both pointers are
  the same or neither is null and all bytes are equal.\<close>

theorem TEST_ASSERT_EQUAL_MEMORY_iff:
  "\<not> test_pending w \<Longrightarrow>
   fst (TEST_ASSERT_EQUAL_MEMORY expected actual len line w) = Returned \<longleftrightarrow>
     len \<noteq> 0 \<and> (expected = actual \<or> expected \<noteq> NULL \<and> actual \<noteq> NULL \<and>
       (\<forall>i < unat len. memory w (expected + word_of_nat i) = memory w (actual + word_of_nat i)))"
proof -
  assume "\<not> test_pending w"
  then have "fst (TEST_ASSERT_EQUAL_MEMORY expected actual len line w) = Returned \<longleftrightarrow>
      memory_verdict expected actual len 1 None UNITY_ARRAY_TO_ARRAY w = None"
    using equal_memory.returns_iff [of "(expected, actual, len, 1, None, UNITY_ARRAY_TO_ARRAY)" line w]
    by (simp add: TEST_ASSERT_EQUAL_MEMORY_def UNITY_TEST_ASSERT_EQUAL_MEMORY_def)
  then show ?thesis unfolding memory_verdict_None by (simp add: block_at_def)
qed

theorem TEST_ASSERT_EQUAL_MEMORY_iff_witness:
  "fst (TEST_ASSERT_EQUAL_MEMORY 16 32 4 5 (Unity\<lparr>memory := (\<lambda>_. 9)\<rparr>)) = Returned"
  using TEST_ASSERT_EQUAL_MEMORY_iff [of "Unity\<lparr>memory := (\<lambda>_. 9)\<rparr>" 16 32 4 5] by simp

definition cstr_size :: "cstr \<Rightarrow> nat" where
  "cstr_size s = (case s of None \<Rightarrow> 0 | Some cs \<Rightarrow> length cs)"

text \<open>C17: The string macros pass exactly when both strings are null, or neither is and they have the same
  characters up to the terminator; with a length, up to the terminator or the length, whichever
  comes first.\<close>

theorem TEST_ASSERT_EQUAL_STRING_iff:
  "\<not> test_pending w \<Longrightarrow> cstr_size expected < 2 ^ 32 \<Longrightarrow> cstr_size actual < 2 ^ 32 \<Longrightarrow>
   (fst (TEST_ASSERT_EQUAL_STRING expected actual line w) = Returned \<longleftrightarrow>
      map_option c_chars expected = map_option c_chars actual) \<and>
   (fst (TEST_ASSERT_EQUAL_STRING_LEN expected actual len line w) = Returned \<longleftrightarrow>
      map_option (take (unat len) \<circ> c_chars) expected = map_option (take (unat len) \<circ> c_chars) actual)"
  using equal_string.returns_iff [of "(expected, actual, None)" line w]
    equal_string_len.returns_iff [of "(expected, actual, len, None)" line w]
  by (cases expected; cases actual)
     (simp_all add: TEST_ASSERT_EQUAL_STRING_def UNITY_TEST_ASSERT_EQUAL_STRING_def
       TEST_ASSERT_EQUAL_STRING_LEN_def UNITY_TEST_ASSERT_EQUAL_STRING_LEN_def cstr_equal_def
       cstr_equal_len_def strings_differ_len_iff cstr_size_def)

theorem TEST_ASSERT_EQUAL_STRING_iff_witness:
  "fst (TEST_ASSERT_EQUAL_STRING (Some ''abc'') (Some ''abc'') 5 Unity) = Returned \<and>
   fst (TEST_ASSERT_EQUAL_STRING_LEN (Some ''abc'') (Some ''abd'') 2 5 Unity) = Returned \<and>
   fst (TEST_ASSERT_EQUAL_STRING (Some ''abc'') None 5 Unity) \<noteq> Returned"
  using TEST_ASSERT_EQUAL_STRING_iff [of Unity "Some ''abc''" "Some ''abc''" 5 2]
    TEST_ASSERT_EQUAL_STRING_iff [of Unity "Some ''abc''" "Some ''abd''" 5 2]
    TEST_ASSERT_EQUAL_STRING_iff [of Unity "Some ''abc''" None 5 2]
  by (simp add: c_chars_def cstr_size_def)

lemma BITS_returns_iff:
  "\<not> test_pending w \<Longrightarrow> fst (UNITY_TEST_ASSERT_BITS msk expected actual line msg w) = Returned \<longleftrightarrow>
     (word_of_int msk :: 64 word) AND word_of_int expected = word_of_int msk AND word_of_int actual"
  using bits.returns_iff [of "(as_INT64 msk, as_INT64 expected, as_INT64 actual, msg)" line w]
  by (simp add: UNITY_TEST_ASSERT_BITS_def as_INT64_def)

lemma exp_and_eq_iff: "b < 64 \<Longrightarrow> (2 ^ b :: 64 word) AND x = 2 ^ b AND y \<longleftrightarrow> bit x b = bit y b"
proof -
  assume b: "b < 64"
  have "(2 ^ b :: 64 word) AND z = (if bit z b then 2 ^ b else 0)" for z
    by (rule bit_word_eqI) (auto simp: bit_simps)
  with b show ?thesis by simp
qed

lemma word_of_int_uint_64: "(word_of_int (uint (u :: 'a::len word)) :: 64 word) = ucast u"
  by simp

lemma bit_all_ones_32: "bit (ucast (- 1 :: 32 word) :: 64 word) b \<longleftrightarrow> b < 32"
  by (auto simp: bit_simps)

text \<open>C25: The single-bit macros without a message test the given bit of the 64-bit value.
  \<^verbatim>\<open>TEST_ASSERT_BITS_HIGH_MESSAGE\<close> agrees with \<^verbatim>\<open>TEST_ASSERT_BITS_HIGH\<close> on the low 32 bits only: it builds its
  all-ones word with 32 bits, so for a mask bit above 31 it passes exactly when that bit is low.\<close>

theorem TEST_ASSERT_BIT_macros:
  assumes "\<not> test_pending w" and "b < 64"
  shows "(fst (TEST_ASSERT_BIT_HIGH b actual line w) = Returned \<longleftrightarrow> bit (word_of_int actual :: 64 word) b) \<and>
    (fst (TEST_ASSERT_BIT_LOW b actual line w) = Returned \<longleftrightarrow> \<not> bit (word_of_int actual :: 64 word) b) \<and>
    (fst (TEST_ASSERT_BITS_HIGH (2 ^ b) actual line w) = Returned \<longleftrightarrow> bit (word_of_int actual :: 64 word) b) \<and>
    (fst (TEST_ASSERT_BITS_HIGH_MESSAGE (2 ^ b) actual msg line w) = Returned \<longleftrightarrow>
       (bit (word_of_int actual :: 64 word) b \<longleftrightarrow> b < 32))"
proof -
  have one: "(word_of_int (uint (push_bit b 1 :: 64 word)) :: 64 word) = 2 ^ b" "(word_of_int (2 ^ b) :: 64 word) = 2 ^ b"
    by simp_all
  have ones: "bit (word_of_int (uint (- 1 :: 64 word)) :: 64 word) b"
    "bit (word_of_int (uint (- 1 :: 32 word)) :: 64 word) b \<longleftrightarrow> b < 32"
    using assms bit_all_ones_32 [of b] by (simp_all only: word_of_int_uint_64) simp_all
  note iff = BITS_returns_iff [OF assms(1)] one exp_and_eq_iff [OF assms(2)]
  show ?thesis
    by (simp only: TEST_ASSERT_BIT_HIGH_def TEST_ASSERT_BIT_LOW_def TEST_ASSERT_BITS_HIGH_def
      TEST_ASSERT_BITS_HIGH_MESSAGE_def iff ones) auto
qed

theorem TEST_ASSERT_BIT_macros_witness:
  "fst (TEST_ASSERT_BITS_HIGH (2 ^ 40) 0 5 Unity) \<noteq> Returned \<and>
   fst (TEST_ASSERT_BITS_HIGH_MESSAGE (2 ^ 40) 0 ''bit 40'' 5 Unity) = Returned"
  using TEST_ASSERT_BIT_macros [of Unity 40 0 5 "''bit 40''"] by simp

lemma load_INT8_scast: "load_INT8 m p = scast (m p)"
  by (simp add: load_INT8_def)

lemma UINT8_elem:
  "expected_elem UNITY_DISPLAY_STYLE_UINT8 UNITY_ARRAY_TO_ARRAY m e i = load_INT8 m (e + word_of_nat i)"
  "actual_elem UNITY_DISPLAY_STYLE_UINT8 m a i = load_INT8 m (a + word_of_nat i)"
  "array_elem m UNITY_DISPLAY_STYLE_UINT8 p i = unat (m (p + word_of_nat i))"
proof -
  have "style_val UNITY_DISPLAY_STYLE_UINT8 AND 0xF = 1" by code_simp
  then show "expected_elem UNITY_DISPLAY_STYLE_UINT8 UNITY_ARRAY_TO_ARRAY m e i = load_INT8 m (e + word_of_nat i)"
    "actual_elem UNITY_DISPLAY_STYLE_UINT8 m a i = load_INT8 m (a + word_of_nat i)"
    by (simp_all add: expected_elem_def actual_elem_def load_element_def elem_at_def element_length_def)
qed (simp add: array_elem_def)

text \<open>C26: \<^verbatim>\<open>TEST_ASSERT_UINT8_ARRAY_WITHIN\<close> reads its elements through signed pointers and compares the
  sign-extended values as unsigned numbers, so an expected element below 128 and an actual one of
  128 or more are never within any delta, 127 and 128 with a delta of 1 included.\<close>

theorem UINT8_ARRAY_WITHIN_sign_boundary:
  assumes "\<not> test_pending w" and "expected \<noteq> actual" and "i < unat num_elements"
    and "array_elem (memory w) UNITY_DISPLAY_STYLE_UINT8 expected i < 128"
    and "128 \<le> array_elem (memory w) UNITY_DISPLAY_STYLE_UINT8 actual i"
  shows "fst (TEST_ASSERT_ARRAY_WITHIN (Style UNITY_DISPLAY_STYLE_UINT8) delta expected actual num_elements line w)
    \<noteq> Returned"
proof
  let ?e = "load_INT8 (memory w) (expected + word_of_nat i)" and ?a = "load_INT8 (memory w) (actual + word_of_nat i)"
  assume "fst (TEST_ASSERT_ARRAY_WITHIN (Style UNITY_DISPLAY_STYLE_UINT8) delta expected actual num_elements line w) = Returned"
  then have "within_array_verdict (as_UINT16 delta) expected actual num_elements None
      UNITY_DISPLAY_STYLE_UINT8 UNITY_ARRAY_TO_ARRAY w = None"
    using numbers_array_within.returns_iff [of "(as_UINT16 delta, expected, actual, num_elements, None,
      UNITY_DISPLAY_STYLE_UINT8, UNITY_ARRAY_TO_ARRAY)" line w]
    by (simp add: TEST_ASSERT_ARRAY_WITHIN_def UNITY_TEST_ASSERT_ARRAY_WITHIN_def)
  then have "style_within UNITY_DISPLAY_STYLE_UINT8 (as_UINT16 delta) ?e ?a"
    using assms(2,3) by (auto simp: within_array_verdict_None UINT8_elem)
  then have "\<bar>uint ?a - uint ?e\<bar> \<le> uint (as_UINT16 delta)"
    by (simp add: style_within_def style_int_def)
  moreover have "uint (as_UINT16 delta) < 65536"
    using uint_bounded [of "word_of_int delta :: 16 word"] by (simp add: as_UINT16_def uint_ucast_64)
  moreover have "uint (memory w (expected + word_of_nat i)) < 128" "128 \<le> uint (memory w (actual + word_of_nat i))"
    using assms(4,5) uint_nat [of "memory w (expected + word_of_nat i)"]
      uint_nat [of "memory w (actual + word_of_nat i)"]
    unfolding UINT8_elem by linarith+
  ultimately show False
    unfolding load_INT8_scast uint_scast_8 by simp
qed

theorem UINT8_ARRAY_WITHIN_sign_boundary_witness:
  "fst (TEST_ASSERT_ARRAY_WITHIN (Style UNITY_DISPLAY_STYLE_UINT8) 1 16 32 1 5
     (Unity\<lparr>memory := (\<lambda>_. 127)(32 := 128)\<rparr>)) \<noteq> Returned"
  using UINT8_ARRAY_WITHIN_sign_boundary [of "Unity\<lparr>memory := (\<lambda>_. 127)(32 := 128)\<rparr>" 16 32 0 1 1 5]
  by (simp add: UINT8_elem)

text \<open>How the unsigned array macros print an element.\<close>

definition unsigned_style :: "UNITY_DISPLAY_STYLE_T \<Rightarrow> bool" where
  "unsigned_style style \<longleftrightarrow> style \<in> {UNITY_DISPLAY_STYLE_UINT, UNITY_DISPLAY_STYLE_UINT8, UNITY_DISPLAY_STYLE_UINT16,
     UNITY_DISPLAY_STYLE_UINT32, UNITY_DISPLAY_STYLE_UINT64}"

definition printed_elem :: "UNITY_DISPLAY_STYLE_T \<Rightarrow> nat \<Rightarrow> nat" where
  "printed_elem style v = (if style_bytes style = 4 \<and> 2 ^ 31 \<le> v then v + (2 ^ 64 - 2 ^ 32) else v)"

lemma unsigned_style_digits:
  "style_val UNITY_DISPLAY_STYLE_UINT AND 0xF = 4" "style_val UNITY_DISPLAY_STYLE_UINT8 AND 0xF = 1"
  "style_val UNITY_DISPLAY_STYLE_UINT16 AND 0xF = 2" "style_val UNITY_DISPLAY_STYLE_UINT32 AND 0xF = 4"
  "style_val UNITY_DISPLAY_STYLE_UINT64 AND 0xF = 8"
  "style_val UNITY_DISPLAY_STYLE_UINT8 AND UNITY_DISPLAY_RANGE_UINT \<noteq> 0"
  "style_val UNITY_DISPLAY_STYLE_UINT16 AND UNITY_DISPLAY_RANGE_UINT \<noteq> 0"
  by code_simp+

lemma unsigned_style_range:
  assumes "unsigned_style style"
  shows "style_val style AND UNITY_DISPLAY_RANGE_INT \<noteq> UNITY_DISPLAY_RANGE_INT"
    and "style_val style AND UNITY_DISPLAY_RANGE_UINT = UNITY_DISPLAY_RANGE_UINT"
  subgoal using assms by (cases style; (simp only: unsigned_style_def)?; code_simp)
  subgoal using assms by (cases style; (simp only: unsigned_style_def)?; code_simp)
  done

lemma UnityPrintNumberByStyle_unsigned:
  "unsigned_style style \<Longrightarrow> UnityPrintNumberByStyle n style = dec_string (unat n)"
  using unsigned_style_range [of style]
  by (simp only: UnityPrintNumberByStyle_def if_False if_True simp_thms UnityPrintNumberUnsigned_dec)

lemma strip_sign_extension_simps:
  "strip_sign_extension UNITY_DISPLAY_STYLE_UINT8 1 v = v AND 255"
  "strip_sign_extension UNITY_DISPLAY_STYLE_UINT16 2 v = v AND 65535"
  "strip_sign_extension style 4 v = v"
  "strip_sign_extension style 8 v = v"
  using unsigned_style_digits(6,7) by (simp_all add: strip_sign_extension_def UNITY_INT_WIDTH_def)

lemma load_INT8_stripped: "unat (load_INT8 m p AND 255) = load_le 1 m p"
proof -
  have "unat (word_of_nat (load_le 1 m p) :: 8 word) = load_le 1 m p"
    using load_le_less [of 1 m p] by (simp add: unat_of_nat del: load_le.simps One_nat_def)
  then show ?thesis using unat_scast_masked [of "word_of_nat (load_le 1 m p) :: 8 word"]
    by (simp only: load_INT8_def) simp
qed

lemma load_INT16_stripped: "unat (load_INT16 m p AND 65535) = load_le 2 m p"
proof -
  have "unat (word_of_nat (load_le 2 m p) :: 16 word) = load_le 2 m p"
    using load_le_less [of 2 m p] by (simp add: unat_of_nat)
  then show ?thesis using unat_scast_masked [of "word_of_nat (load_le 2 m p) :: 16 word"]
    by (simp only: load_INT16_def) simp
qed

lemma load_INT64_printed: "unat (load_INT64 m p) = load_le 8 m p"
    using load_le_less [of 8 m p] by (simp add: load_INT64_def unat_of_nat)

lemma load_INT32_printed: "unat (load_INT32 m p) = printed_elem UNITY_DISPLAY_STYLE_UINT (load_le 4 m p)"
  using load_le_less [of 4 m p] unat_scast_32 [of "load_le 4 m p"] by (simp add: load_INT32_def printed_elem_def)

lemma unsigned_elem_printed:
  assumes "unsigned_style style"
  shows "unat (strip_sign_extension style (element_length (style_val style AND 0xF))
      (load_element (style_val style AND 0xF) m p)) = printed_elem style (load_le (style_bytes style) m p)"
    using assms by (auto simp: unsigned_style_def unsigned_style_digits load_element_def element_length_def
        strip_sign_extension_simps load_INT8_stripped load_INT16_stripped load_INT64_printed load_INT32_printed
        printed_elem_def
        simp del: load_le.simps One_nat_def style_val.simps)

text \<open>C27: When the arrays given to an unsigned array macro first differ at index \<open>i\<close>, the failure line
  names that index and shows both elements in decimal, each as its own value, except that an element
  of a four-byte suffix (\<^verbatim>\<open>UINT\<close>, \<^verbatim>\<open>UINT32\<close>) whose top bit is set is shown with \<open>2^64 - 2^32\<close> added to its
  value: the step that should undo the sign extension skips elements as wide as an \<^verbatim>\<open>int\<close>.\<close>

theorem UNSIGNED_ARRAY_report:
  assumes "\<not> test_pending w" "unsigned_style (suffix_style sfx)" "expected \<noteq> NULL" "actual \<noteq> NULL"
    and "i < unat num_elements"
    and "array_elem (memory w) (suffix_style sfx) expected i \<noteq> array_elem (memory w) (suffix_style sfx) actual i"
    and "\<forall>j < i. array_elem (memory w) (suffix_style sfx) expected j = array_elem (memory w) (suffix_style sfx) actual j"
  shows "TEST_ASSERT_EQUAL_ARRAY sfx expected actual num_elements line w =
    (Aborted, failed_with line
      ('': Element '' @ dec_string i
        @ '' Expected '' @ dec_string (printed_elem (suffix_style sfx) (array_elem (memory w) (suffix_style sfx) expected i))
        @ '' Was '' @ dec_string (printed_elem (suffix_style sfx) (array_elem (memory w) (suffix_style sfx) actual i))) w)"
proof -
  let ?style = "suffix_style sfx"
  let ?ok = "\<lambda>i. expected_elem ?style UNITY_ARRAY_TO_ARRAY (memory w) expected i = actual_elem ?style (memory w) actual i"
  have "find (\<lambda>j. \<not> ?ok j) [0..<unat num_elements] = Some i"
    using assms(5-7) by (intro find_upt_first) (simp_all add: array_elem_eq_iff)
  moreover have "expected \<noteq> actual" using assms(6) by auto
  moreover have "num_elements \<noteq> 0" using assms(5) by auto
  ultimately have v: "int_array_verdict expected actual num_elements None ?style UNITY_ARRAY_TO_ARRAY w =
      Some (array_elem_report (style_val ?style AND 0xF) (word_of_nat i)
        (expected_elem ?style UNITY_ARRAY_TO_ARRAY (memory w) expected i) (actual_elem ?style (memory w) actual i)
        None ?style w)"
    using assms(3,4) by (simp add: int_array_verdict_def array_verdict_def elements_verdict_def)
  have idx: "unat (ucast (word_of_nat i :: UNITY_UINT32) :: 64 word) = i"
  proof -
    have "unat num_elements < 2 ^ LENGTH(32)" by (rule unsigned_less)
    with assms(5) have "i < 4294967296" by simp
    then show ?thesis by (simp add: unsigned_ucast_eq unat_of_nat take_bit_nat_eq_self)
  qed
  have "array_elem_report (style_val ?style AND 0xF) (word_of_nat i)
        (expected_elem ?style UNITY_ARRAY_TO_ARRAY (memory w) expected i) (actual_elem ?style (memory w) actual i)
        None ?style w = '': Element '' @ dec_string i
        @ '' Expected '' @ dec_string (printed_elem ?style (array_elem (memory w) ?style expected i))
        @ '' Was '' @ dec_string (printed_elem ?style (array_elem (memory w) ?style actual i))"
    using unsigned_elem_printed [OF assms(2), of "memory w"]
    by (simp add: array_elem_report_def array_elem_text_def UnityPrintNumberByStyle_unsigned [OF assms(2)]
        UnityPrintNumberUnsigned_dec idx expected_elem_def actual_elem_def elem_at_def style_bytes_word array_elem_def
        UnityStrElement_def UnityStrExpected_def UnityStrWas_def msg_text_def)
  then show ?thesis
    using UnityAssertEqualIntArray_verdict [OF assms(1)] v
    by (simp add: TEST_ASSERT_EQUAL_ARRAY_def UNITY_TEST_ASSERT_EQUAL_ARRAY_def verdict_outcome_def)
qed


theorem UNSIGNED_ARRAY_report_witness:
  "TEST_ASSERT_EQUAL_ARRAY (Style UNITY_DISPLAY_STYLE_UINT32) 64 128 2 5 (Unity\<lparr>memory := (\<lambda>_. 255)(128 := 0)\<rparr>) =
    (Aborted, failed_with 5 '': Element 0 Expected 18446744073709551615 Was 18446744073709551360''
       (Unity\<lparr>memory := (\<lambda>_. 255)(128 := 0)\<rparr>))"
proof -
  let ?m = "(\<lambda>_. 255)(128 := 0) :: mem"
  have "(4 :: nat) = Suc (Suc (Suc (Suc 0)))" by simp
  moreover have "load_le (Suc (Suc (Suc (Suc 0)))) ?m 64 = 4294967295" "load_le (Suc (Suc (Suc (Suc 0)))) ?m 128 = 4294967040"
    by simp_all
  ultimately have "array_elem ?m UNITY_DISPLAY_STYLE_UINT32 64 0 = 4294967295"
    "array_elem ?m UNITY_DISPLAY_STYLE_UINT32 128 0 = 4294967040"
    by (simp_all only: array_elem_def style_bytes.simps) simp_all
  moreover have "dec_string 0 = ''0''" "dec_string 18446744073709551615 = ''18446744073709551615''"
      "dec_string 18446744073709551360 = ''18446744073709551360''"
    by (simp_all add: dec_string.simps) code_simp+
  ultimately show ?thesis
    using UNSIGNED_ARRAY_report [of "Unity\<lparr>memory := ?m\<rparr>" "Style UNITY_DISPLAY_STYLE_UINT32" 64 128 0 2 5]
    by (simp add: unsigned_style_def printed_elem_def)
qed

end
