(* ===== verification/Unity_Suite.thy ===== *)
theory Unity_Suite
  imports Unity_Fixture Unity_Macros
begin

text \<open>
  Test suites: the \<^verbatim>\<open>TEST\<close>, \<^verbatim>\<open>IGNORE_TEST\<close>, \<^verbatim>\<open>RUN_TEST_CASE\<close> and \<^verbatim>\<open>RUN_TEST_GROUP\<close> macros of
  \<^verbatim>\<open>src/unity/unity_fixture.h\<close> for tests whose set-up, body and tear-down are sequences of assertion
  calls, an abstract specification of what such a suite reports, and the refinement of that
  specification by the fixture runner and \<^verbatim>\<open>UnityMain\<close>.
\<close>

section \<open>Suites\<close>

type_synonym calls = "(unity_call \<times> UNITY_LINE_TYPE) list"

definition do_calls :: "calls \<Rightarrow> 'a unity_act" where
  "do_calls cs = run_calls (map (\<lambda>(p, line). exec_call p line) cs)"

datatype test_case =
    Test (case_group: string) (case_name: string) cstr "32 word" calls calls calls
  | Ignore_Test (case_group: string) (case_name: string)

text \<open>The name the \<^verbatim>\<open>TEST\<close> macro builds with the preprocessor.\<close>

definition printable_name :: "string \<Rightarrow> string \<Rightarrow> string" where
  "printable_name grp name = ''TEST('' @ grp @ '', '' @ name @ '')''"

fun RUN_TEST_CASE :: "test_case \<Rightarrow> 'a fixture_state \<Rightarrow> 'a fixture_state" where
  "RUN_TEST_CASE (Test grp name fname line setUp body tearDown) =
     UnityTestRunner (do_calls setUp) (do_calls body) (do_calls tearDown)
       (printable_name grp name) grp name fname line"
| "RUN_TEST_CASE (Ignore_Test grp name) = UnityIgnoreTest (printable_name grp name) grp name"

definition RUN_TEST_GROUP :: "test_case list \<Rightarrow> 'a fixture_state \<Rightarrow> 'a fixture_state" where
  "RUN_TEST_GROUP cases = fold RUN_TEST_CASE cases"

section \<open>Specification\<close>

definition calls_outcome :: "mem \<Rightarrow> calls \<Rightarrow> test_outcome" where
  "calls_outcome m cs =
     (case find (\<lambda>(p, line). \<not> call_holds p m) cs of None \<Rightarrow> Passed | Some (p, line) \<Rightarrow> Failed line)"

fun case_outcome :: "mem \<Rightarrow> test_case \<Rightarrow> test_outcome" where
  "case_outcome m (Test grp name fname line setUp body tearDown) = calls_outcome m (setUp @ body @ tearDown)"
| "case_outcome m (Ignore_Test grp name) = Ignored"

definition case_failed :: "mem \<Rightarrow> test_case \<Rightarrow> bool" where
  "case_failed m c \<longleftrightarrow> (case case_outcome m c of Failed line \<Rightarrow> True | _ \<Rightarrow> False)"

definition case_ignored :: "test_case \<Rightarrow> bool" where
  "case_ignored c \<longleftrightarrow> (case c of Ignore_Test _ _ \<Rightarrow> True | _ \<Rightarrow> False)"

definition case_selected :: "cstr \<Rightarrow> cstr \<Rightarrow> test_case \<Rightarrow> bool" where
  "case_selected nf gf c \<longleftrightarrow> selected nf (case_name c) \<and> selected gf (case_group c)"

text \<open>The characters one test adds to the output: the report of its first failing assertion, if any,
  and its result line. The reports read the memory and the two detail strings of the world \<open>v\<close>.\<close>

definition calls_text :: "cstr \<Rightarrow> 'a unity_world_scheme \<Rightarrow> calls \<Rightarrow> string" where
  "calls_text fname v cs =
     (case find (\<lambda>(p, line). \<not> call_holds p (memory v)) cs of None \<Rightarrow> []
      | Some (p, line) \<Rightarrow> fail_line line (call_report p v) (v\<lparr>TestFile := fname\<rparr>))"

fun case_text :: "'a unity_world_scheme \<Rightarrow> test_case \<Rightarrow> string" where
  "case_text v (Test grp name fname line setUp body tearDown) =
     calls_text fname v (setUp @ body @ tearDown) @ UnityPrint (Some (printable_name grp name)) @ '' '' @
     outcome_text fname True (calls_outcome (memory v) (setUp @ body @ tearDown)) @ [CHR 0x0A]"
| "case_text v (Ignore_Test grp name) =
     UnityPrint (Some (printable_name grp name)) @ '' '' @ ''IGNORE'' @ [CHR 0x0A]"

section \<open>Reports depend on the memory and the details only\<close>

definition report_view :: "'a unity_world_scheme \<Rightarrow> unity_world" where
  "report_view w =
     \<lparr>TestFile = None, CurrentTestName = None, CurrentDetail1 = CurrentDetail1 w,
      CurrentDetail2 = CurrentDetail2 w, CurrentTestLineNumber = 0, CurrentAssertionLineNumber = 0,
      NumberOfTests = 0, TestFailures = 0, TestIgnores = 0, CurrentTestFailed = 0,
      CurrentTestIgnored = 0, stdout = [], memory = memory w\<rparr>"

lemma report_view_simps [simp]:
  "memory (report_view w) = memory w" "msg_text msg (report_view w) = msg_text msg w"
  "details_text (report_view w) = details_text w"
  by (simp_all add: report_view_def msg_text_def details_text_def cong: option.case_cong)

lemma call_report_view: "call_report p (report_view w) = call_report p w"
  by (cases p)
     (simp_all add: fail_report_def bits_report_def equal_report_def compare_report_def within_report_def
       int_array_verdict_def within_array_verdict_def strings_report_def strings_len_report_def
       string_array_verdict_def memory_verdict_def array_verdict_def array_elem_report_def
       array_elem_text_def within_elem_report_def string_elem_report_def block_report_def [abs_def]
       memory_report_def cong: option.case_cong)

section \<open>Checks are well-behaved test code\<close>

lemma fixture_code_check:
  fixes call :: "'p \<Rightarrow> UNITY_LINE_TYPE \<Rightarrow> 'a fixture_act"
  assumes "unity_check call holds report"
  shows "fixture_code (call p line)"
proof
  fix w :: "'a fixture_state"
  assume ok: "pointers_ok w"
  from unity_check.call_state [OF assms, of p line w]
  show "same_run w (snd (call p line w))"
    using ok by (elim disjE) (simp_all add: same_run_refl,
      simp add: same_run_def failed_with_def pointers_ok_def restored_memory_def)
qed

lemma fixture_code_do_calls: "fixture_code (do_calls cs)"
  unfolding do_calls_def
  by (rule fixture_code_run_calls) (auto intro: fixture_code_check any_call.unity_check_axioms)

interpretation check_test: fixture_test "do_calls setUp" "do_calls body" "do_calls tearDown"
  for setUp body tearDown
  by unfold_locales (rule fixture_code.code_same_run [OF fixture_code_do_calls], assumption)+

lemma do_calls_running:
  "\<not> test_pending w \<Longrightarrow> do_calls cs w =
     (case find (\<lambda>(p, line). \<not> call_holds p (memory w)) cs of
        None \<Rightarrow> (Returned, w)
      | Some (p, line) \<Rightarrow> (Aborted, failed_with line (call_report p w) w))"
  unfolding do_calls_def by (rule any_call.run_calls_find)

lemma do_calls_pending: "test_pending w \<Longrightarrow> snd (do_calls cs w) = w"
  unfolding do_calls_def by (rule any_call.run_calls_pending_frame)

text \<open>Set-up, body and tear-down together stop at the first check that does not hold.\<close>

lemma find_append: "find P (xs @ ys) = (case find P xs of None \<Rightarrow> find P ys | Some x \<Rightarrow> Some x)"
  by (induction xs) auto

lemma test_end_checks:
  assumes "\<not> test_pending w"
  shows "test_end (do_calls setUp) (do_calls body) (do_calls tearDown) w =
    (case find (\<lambda>(p, line). \<not> call_holds p (memory w)) (setUp @ body @ tearDown) of
       None \<Rightarrow> w
     | Some (p, line) \<Rightarrow> failed_with line (call_report p w) w)"
proof (cases "find (\<lambda>(p, line). \<not> call_holds p (memory w)) (setUp @ body)")
  case None
  then have "find (\<lambda>(p, line). \<not> call_holds p (memory w)) setUp = None"
    "find (\<lambda>(p, line). \<not> call_holds p (memory w)) body = None"
    by (auto simp: find_append split: option.splits)
  then show ?thesis
    using assms by (auto simp: test_end_def do_calls_running find_append split: option.split)
next
  case (Some pl)
  obtain p line where pl: "pl = (p, line)" by (cases pl)
  have "snd (run_calls [do_calls setUp, do_calls body] w) = failed_with line (call_report p w) w"
    using Some assms by (auto simp: do_calls_running find_append pl split: option.splits)
  then show ?thesis
    using Some by (simp add: test_end_def do_calls_pending find_append pl split: option.splits)
qed

section \<open>One test of a suite\<close>

text \<open>What every test keeps, and what it needs to start.\<close>

definition ready :: "'a fixture_state \<Rightarrow> bool" where
  "ready w \<longleftrightarrow> pointers_ok w \<and> \<not> test_pending w \<and> Verbose w \<noteq> 0"

definition suite_frame :: "'a fixture_state \<Rightarrow> 'a fixture_state \<Rightarrow> bool" where
  "suite_frame w w' \<longleftrightarrow> ready w' \<and> report_view w' = report_view w \<and> NameFilter w' = NameFilter w \<and>
     GroupFilter w' = GroupFilter w \<and> RepeatCount w' = RepeatCount w"

text \<open>The abstract run: the three counters and the output.\<close>

type_synonym run_state = "UNITY_COUNTER_TYPE \<times> UNITY_COUNTER_TYPE \<times> UNITY_COUNTER_TYPE \<times> string"

definition run_abs :: "'a fixture_state \<Rightarrow> run_state" where
  "run_abs w = (NumberOfTests w, TestFailures w, TestIgnores w, stdout w)"

fun spec_case :: "unity_world \<Rightarrow> test_case \<Rightarrow> run_state \<Rightarrow> run_state" where
  "spec_case v c (tests, failures, ignores, out) =
     (tests + 1, failures + (if case_failed (memory v) c then 1 else 0),
      ignores + (if case_ignored c then 1 else 0), out @ case_text v c)"

definition spec_suite :: "unity_world \<Rightarrow> cstr \<Rightarrow> cstr \<Rightarrow> test_case list \<Rightarrow> run_state \<Rightarrow> run_state" where
  "spec_suite v nf gf cases = fold (spec_case v) (filter (case_selected nf gf) cases)"

lemma RUN_TEST_CASE_skipped:
  "\<not> case_selected (NameFilter w) (GroupFilter w) c \<Longrightarrow> RUN_TEST_CASE c w = w"
  by (cases c) (auto simp: case_selected_def UnityTestRunner_def UnityIgnoreTest_def testSelected_def
    groupSelected_def)

lemma RUN_TEST_CASE_ignored:
  assumes "ready w" and "case_selected (NameFilter w) (GroupFilter w) (Ignore_Test grp name)"
  defines "w' \<equiv> RUN_TEST_CASE (Ignore_Test grp name) w"
  shows "suite_frame w w' \<and> run_abs w' = spec_case (report_view w) (Ignore_Test grp name) (run_abs w)"
  using assms
  by (simp add: w'_def case_selected_def UnityIgnoreTest_def testSelected_def groupSelected_def Let_def
      ready_def suite_frame_def report_view_def run_abs_def case_failed_def case_ignored_def puts_def
      UNITY_PRINT_EOL_def pointers_ok_def test_pending_def)
     (simp add: UnityStr_defs)

lemma test_start_view [simp]:
  "report_view (test_start pn fname line w) = report_view w" "memory (test_start pn fname line w) = memory w"
  "stdout (test_start pn fname line w) = stdout w" "TestFile (test_start pn fname line w) = fname"
  "test_pending (test_start pn fname line w) \<longleftrightarrow> test_pending w"
  by (simp_all add: test_start_def report_view_def test_pending_def)

lemma RUN_TEST_CASE_test:
  assumes r: "ready w"
    and sel: "case_selected (NameFilter w) (GroupFilter w) (Test grp name fname line setUp body tearDown)"
  defines "w' \<equiv> RUN_TEST_CASE (Test grp name fname line setUp body tearDown) w"
  shows "suite_frame w w' \<and>
    run_abs w' = spec_case (report_view w) (Test grp name fname line setUp body tearDown) (run_abs w)"
proof -
  let ?pn = "printable_name grp name" and ?cs = "setUp @ body @ tearDown"
  let ?s = "test_start ?pn fname line w"
  define fin where "fin = test_end (do_calls setUp) (do_calls body) (do_calls tearDown) ?s"
  have w': "w' = fin\<lparr>memory := memory w, pointer_index := 0,
      stdout := stdout fin @ UnityPrint (Some ?pn) @ '' '' @
        outcome_text fname True (outcome_of fin) @ [CHR 0x0A],
      TestFailures := TestFailures w + (case outcome_of fin of Failed _ \<Rightarrow> 1 | _ \<Rightarrow> 0),
      TestIgnores := TestIgnores w + (if outcome_of fin = Ignored then 1 else 0),
      CurrentTestFailed := 0, CurrentTestIgnored := 0\<rparr>"
    using check_test.runner_effect [of w name grp setUp body tearDown ?pn fname line] r sel
    by (simp add: w'_def fin_def ready_def case_selected_def testSelected_def groupSelected_def)
  have fin: "fin = (case find (\<lambda>(p, line). \<not> call_holds p (memory w)) ?cs of
       None \<Rightarrow> ?s | Some (p, line) \<Rightarrow> failed_with line (call_report p ?s) ?s)"
    using r by (simp add: fin_def test_end_checks ready_def)
  show ?thesis
  proof (cases "find (\<lambda>(p, line). \<not> call_holds p (memory w)) ?cs")
    case None
    then show ?thesis
      using fin r by (simp add: w' suite_frame_def ready_def run_abs_def calls_text_def calls_outcome_def
        outcome_of_def test_start_def report_view_def case_failed_def case_ignored_def test_pending_def
        pointers_ok_def UNITY_MAX_POINTERS_def)
  next
    case (Some pl)
    obtain p l where "pl = (p, l)" by (cases pl)
    moreover have "call_report p ?s = call_report p (report_view w)"
      using call_report_view [of p ?s] by simp
    ultimately show ?thesis
      using Some fin r by (simp add: w' suite_frame_def ready_def run_abs_def calls_text_def calls_outcome_def
        outcome_of_def test_start_def report_view_def case_failed_def case_ignored_def test_pending_def
        pointers_ok_def UNITY_MAX_POINTERS_def failed_with_def fail_line_def)
  qed
qed

lemma RUN_TEST_CASE_refines:
  assumes "ready w" and "case_selected (NameFilter w) (GroupFilter w) c"
  shows "suite_frame w (RUN_TEST_CASE c w)"
    and "run_abs (RUN_TEST_CASE c w) = spec_case (report_view w) c (run_abs w)"
  using RUN_TEST_CASE_ignored [OF assms(1)] RUN_TEST_CASE_test [OF assms(1)] assms(2)
  by (cases c; simp)+

section \<open>A whole suite\<close>

lemma suite_frame_refl: "ready w \<Longrightarrow> suite_frame w w"
  by (simp add: suite_frame_def)

lemma suite_frame_trans: "suite_frame w w' \<Longrightarrow> suite_frame w' w'' \<Longrightarrow> suite_frame w w''"
  by (simp add: suite_frame_def)

lemma RUN_TEST_GROUP_refines:
  assumes "ready w"
  shows "suite_frame w (RUN_TEST_GROUP cases w) \<and>
    run_abs (RUN_TEST_GROUP cases w) =
      spec_suite (report_view w) (NameFilter w) (GroupFilter w) cases (run_abs w)"
  using assms
proof (induction cases arbitrary: w)
  case Nil
  then show ?case by (simp add: RUN_TEST_GROUP_def spec_suite_def suite_frame_refl)
next
  case (Cons c cases)
  let ?w = "RUN_TEST_CASE c w"
  have step: "suite_frame w ?w \<and> run_abs ?w =
      (if case_selected (NameFilter w) (GroupFilter w) c then spec_case (report_view w) c (run_abs w)
       else run_abs w)"
    using Cons.prems by (auto simp: RUN_TEST_CASE_skipped RUN_TEST_CASE_refines suite_frame_refl)
  then have "ready ?w" by (simp add: suite_frame_def)
  from Cons.IH [OF this] step show ?case
    by (auto simp: RUN_TEST_GROUP_def spec_suite_def suite_frame_def)
qed

lemma spec_cases_fold:
  "fold (spec_case v) cs (tests, failures, ignores, out) =
     (tests + word_of_nat (length cs),
      failures + word_of_nat (length (filter (case_failed (memory v)) cs)),
      ignores + word_of_nat (length (filter case_ignored cs)),
      out @ concat (map (case_text v) cs))"
  by (induction cs arbitrary: tests failures ignores out) simp_all

section \<open>The main program\<close>

definition suite_failures :: "mem \<Rightarrow> cstr \<Rightarrow> cstr \<Rightarrow> test_case list \<Rightarrow> nat" where
  "suite_failures m nf gf cases =
     length (filter (case_failed m) (filter (case_selected nf gf) cases))"

lemma ready_round_start:
  "pointers_ok w \<Longrightarrow> Verbose w \<noteq> 0 \<Longrightarrow> ready (announceTestRun r (UnityBegin prog w))"
  by (simp add: ready_def announceTestRun_def UnityBegin_def UNITY_CLR_DETAILS_def puts_def
      UNITY_PRINT_EOL_def Let_def test_pending_def pointers_ok_def)

lemma round_start_frame [simp]:
  "memory (announceTestRun r (UnityBegin prog w)) = memory w"
  "NameFilter (announceTestRun r (UnityBegin prog w)) = NameFilter w"
  "GroupFilter (announceTestRun r (UnityBegin prog w)) = GroupFilter w"
  "RepeatCount (announceTestRun r (UnityBegin prog w)) = RepeatCount w"
  "TestFailures (announceTestRun r (UnityBegin prog w)) = 0"
  by (simp_all add: announceTestRun_def UnityBegin_def UNITY_CLR_DETAILS_def puts_def
      UNITY_PRINT_EOL_def Let_def)

definition main_round :: "cstr \<Rightarrow> test_case list \<Rightarrow> 32 word \<Rightarrow> 'a fixture_state \<Rightarrow> 'a fixture_state" where
  "main_round prog cases r w =
     snd (UnityEnd (RUN_TEST_GROUP cases (announceTestRun r (UnityBegin prog w))))"

lemma main_round_effect:
  assumes "pointers_ok w" "Verbose w \<noteq> 0"
  shows "ready (main_round prog cases r w)" "memory (main_round prog cases r w) = memory w"
    and "NameFilter (main_round prog cases r w) = NameFilter w"
    and "GroupFilter (main_round prog cases r w) = GroupFilter w"
    and "RepeatCount (main_round prog cases r w) = RepeatCount w"
    and "TestFailures (main_round prog cases r w) =
           word_of_nat (suite_failures (memory w) (NameFilter w) (GroupFilter w) cases)"
proof -
  let ?s = "announceTestRun r (UnityBegin prog w)"
  have s: "ready ?s" using assms by (rule ready_round_start)
  note g = RUN_TEST_GROUP_refines [OF s, of cases]
  have e: "main_round prog cases r w =
      (RUN_TEST_GROUP cases ?s)\<lparr>stdout := stdout (RUN_TEST_GROUP cases ?s) @ end_text (RUN_TEST_GROUP cases ?s)\<rparr>"
    by (simp add: main_round_def UnityEnd_eq)
  show "ready (main_round prog cases r w)"
    using g by (simp add: e suite_frame_def ready_def pointers_ok_def test_pending_def)
  have "memory (RUN_TEST_GROUP cases ?s) = memory ?s"
    using g report_view_simps(1) [of "RUN_TEST_GROUP cases ?s"] report_view_simps(1) [of ?s]
    by (simp add: suite_frame_def)
  then show "memory (main_round prog cases r w) = memory w" by (simp add: e)
  show "NameFilter (main_round prog cases r w) = NameFilter w"
    "GroupFilter (main_round prog cases r w) = GroupFilter w"
    "RepeatCount (main_round prog cases r w) = RepeatCount w"
    using g by (simp_all add: e suite_frame_def)
  show "TestFailures (main_round prog cases r w) =
      word_of_nat (suite_failures (memory w) (NameFilter w) (GroupFilter w) cases)"
    using g by (simp add: e run_abs_def spec_suite_def spec_cases_fold suite_failures_def)
qed

lemma UnityMain_loop_failures:
  assumes "pointers_ok w" "Verbose w \<noteq> 0"
  shows "TestFailures (UnityMain_loop prog (RUN_TEST_GROUP cases) r w) =
    (if r < RepeatCount w
     then word_of_nat (suite_failures (memory w) (NameFilter w) (GroupFilter w) cases)
     else TestFailures w)"
  using assms
proof (induction prog "RUN_TEST_GROUP cases :: 'a fixture_state \<Rightarrow> 'a fixture_state" r w
    rule: UnityMain_loop.induct)
  case (1 prog r w)
  show ?case
  proof (cases "r < RepeatCount w")
    case True
    let ?w = "main_round prog cases r w"
    have ok: "pointers_ok ?w" "Verbose ?w \<noteq> 0"
      using main_round_effect(1) [OF 1(2,3), of prog cases r] by (simp_all add: ready_def)
    have "TestFailures (UnityMain_loop prog (RUN_TEST_GROUP cases) (r + 1) ?w) =
        word_of_nat (suite_failures (memory w) (NameFilter w) (GroupFilter w) cases)"
      using 1(1) [OF True] ok main_round_effect [OF 1(2,3), of prog cases r]
      by (simp add: main_round_def [symmetric])
    with True show ?thesis
      by (subst UnityMain_loop.simps) (simp add: main_round_def)
  next
    case False
    then show ?thesis by (subst UnityMain_loop.simps) simp
  qed
qed

lemma UnityGetCommandLineOptions_loop_frame:
  "pointers_ok w \<Longrightarrow> pointers_ok (snd (UnityGetCommandLineOptions_loop args w))"
  "memory (snd (UnityGetCommandLineOptions_loop args w)) = memory w"
  "TestFailures (snd (UnityGetCommandLineOptions_loop args w)) = TestFailures w"
  by (induction args w rule: UnityGetCommandLineOptions_loop.induct)
     (auto simp: print_usage_def usage_lines_def puts_def UNITY_PRINT_EOL_def pointers_ok_def
       split: list.split)

section \<open>The output of one run\<close>

lemma UnityPrint_run [simp]:
  "UnityPrint (Some ''Unity test run '') = ''Unity test run ''" "UnityPrint (Some '' of '') = '' of ''"
  by code_simp+

lemma round_start_abs:
  "RepeatCount w = 1 \<Longrightarrow> run_abs (announceTestRun 0 (UnityBegin prog w)) =
     (0, 0, 0, stdout w @ ''Unity test run 1 of 1'' @ [CHR 0x0A])"
  "report_view (announceTestRun r (UnityBegin prog w)) =
     (report_view w)\<lparr>CurrentDetail1 := None, CurrentDetail2 := None\<rparr>"
proof -
  have one: "UnityPrintNumberUnsigned 1 = ''1''" by code_simp
  show "RepeatCount w = 1 \<Longrightarrow> run_abs (announceTestRun 0 (UnityBegin prog w)) =
     (0, 0, 0, stdout w @ ''Unity test run 1 of 1'' @ [CHR 0x0A])"
    by (simp add: run_abs_def announceTestRun_def UnityBegin_def UNITY_CLR_DETAILS_def puts_def
      UNITY_PRINT_EOL_def Let_def one)
  show "report_view (announceTestRun r (UnityBegin prog w)) =
     (report_view w)\<lparr>CurrentDetail1 := None, CurrentDetail2 := None\<rparr>"
    by (simp add: report_view_def announceTestRun_def UnityBegin_def UNITY_CLR_DETAILS_def puts_def
      UNITY_PRINT_EOL_def Let_def)
qed

lemma main_output:
  assumes "pointers_ok w"
    and "UnityGetCommandLineOptions argv w = (0, (default_options w)\<lparr>Silent := silent\<rparr>)"
  shows "stdout (snd (UnityMain argv (RUN_TEST_GROUP cases) w)) =
    stdout w @ ''Unity test run 1 of 1'' @ [CHR 0x0A] @
    concat (map (case_text ((report_view w)\<lparr>CurrentDetail1 := None, CurrentDetail2 := None\<rparr>)) cases) @
    summary_text (word_of_nat (length cases))
      (word_of_nat (length (filter (case_failed (memory w)) cases)))
      (word_of_nat (length (filter case_ignored cases)))"
    and "fst (UnityMain argv (RUN_TEST_GROUP cases) w) = word_of_nat (suite_failures (memory w) None None cases)"
proof -
  let ?o = "(default_options w)\<lparr>Silent := silent, Verbose := 1\<rparr>"
  let ?p = "argv_at argv 0"
  let ?s = "announceTestRun 0 (UnityBegin ?p ?o)"
  let ?g = "RUN_TEST_GROUP cases ?s"
  have ok: "pointers_ok ?o" "Verbose ?o \<noteq> 0" using assms(1) by (simp_all add: default_options_def pointers_ok_def)
  have "ready ?s" using ok by (rule ready_round_start)
  then have g: "run_abs ?g = spec_suite (report_view ?s) None None cases (run_abs ?s)"
    using RUN_TEST_GROUP_refines [of ?s cases] by (simp add: default_options_def)
  have v: "report_view ?s = (report_view w)\<lparr>CurrentDetail1 := None, CurrentDetail2 := None\<rparr>"
    by (simp add: round_start_abs) (simp add: report_view_def default_options_def)
  have "filter (case_selected None None) cases = cases"
    by (simp add: case_selected_def selected_def)
  then have g': "run_abs ?g = (word_of_nat (length cases),
      word_of_nat (length (filter (case_failed (memory w)) cases)), word_of_nat (length (filter case_ignored cases)),
      stdout w @ ''Unity test run 1 of 1'' @ [CHR 0x0A] @
      concat (map (case_text ((report_view w)\<lparr>CurrentDetail1 := None, CurrentDetail2 := None\<rparr>)) cases))"
    unfolding g v by (simp add: spec_suite_def round_start_abs spec_cases_fold default_options_def)
  have "UnityMain_loop ?p (RUN_TEST_GROUP cases) 0 ?o = main_round ?p cases 0 ?o"
    using main_round_effect(5) [OF ok, of ?p cases 0]
    by (subst UnityMain_loop.simps) (simp add: default_options_def main_round_def UnityMain_loop.simps [of _ _ 1])
  moreover have "main_round ?p cases 0 ?o = ?g\<lparr>stdout := stdout ?g @ end_text ?g\<rparr>"
    by (simp add: main_round_def UnityEnd_eq)
  ultimately have m: "UnityMain argv (RUN_TEST_GROUP cases) w = (ucast (TestFailures ?g), ?g\<lparr>stdout := stdout ?g @ end_text ?g\<rparr>)"
    using assms(2) by (simp add: UnityMain_def Let_def)
  show "stdout (snd (UnityMain argv (RUN_TEST_GROUP cases) w)) =
    stdout w @ ''Unity test run 1 of 1'' @ [CHR 0x0A] @
    concat (map (case_text ((report_view w)\<lparr>CurrentDetail1 := None, CurrentDetail2 := None\<rparr>)) cases) @
    summary_text (word_of_nat (length cases))
      (word_of_nat (length (filter (case_failed (memory w)) cases)))
      (word_of_nat (length (filter case_ignored cases)))"
    using g' by (simp add: m run_abs_def end_text_def)
  show "fst (UnityMain argv (RUN_TEST_GROUP cases) w) = word_of_nat (suite_failures (memory w) None None cases)"
    using g' by (simp add: m run_abs_def suite_failures_def case_selected_def selected_def)
qed

section \<open>Properties\<close>

text \<open>C1: The fixture runner refines the abstract specification of a suite: running any list of tests from
  a state in which no test is pending has on counters and output exactly the effect of the
  specification, which skips the unselected tests and reports of each other one the first check
  among set-up, body and tear-down that does not hold; and it leaves memory and options as they
  were, ready for the next group.\<close>

theorem suite_refines_specification:
  assumes "ready w"
  shows "run_abs (RUN_TEST_GROUP cases w) =
      spec_suite (report_view w) (NameFilter w) (GroupFilter w) cases (run_abs w) \<and>
    suite_frame w (RUN_TEST_GROUP cases w)"
  using RUN_TEST_GROUP_refines [OF assms] by simp

definition example_suite :: "test_case list" where
  "example_suite =
     [Test ''string'' ''strlen'' (Some ''string.c'') 10 []
        [(Call_EqualNumber 3 3 None UNITY_DISPLAY_STYLE_INT, 12), (Call_EqualNumber 3 4 None UNITY_DISPLAY_STYLE_INT, 13)] [],
      Ignore_Test ''string'' ''strcpy'',
      Test ''math'' ''abs'' (Some ''math.c'') 20 [] [(Call_Assert True None, 21)] []]"

lemma ready_Fixture [simp]: "ready Fixture"
  by (simp add: ready_def)

lemma case_failed_example:
  "map (case_failed m) example_suite = [True, False, False]"
  by (simp add: example_suite_def case_failed_def calls_outcome_def)

theorem suite_refines_specification_witness:
  "ready Fixture \<and> (let w = RUN_TEST_GROUP example_suite Fixture in
     NumberOfTests w = 3 \<and> TestFailures w = 1 \<and> TestIgnores w = 1)"
proof -
  have "run_abs (RUN_TEST_GROUP example_suite Fixture) =
      spec_suite (report_view Fixture) None None example_suite (run_abs Fixture)"
    using suite_refines_specification [of Fixture example_suite] by simp
  also have "run_abs Fixture = (0, 0, 0, [])"
    by (simp add: run_abs_def Fixture_def Unity_def unity_world.defs unity_fixture_world.defs)
  finally show ?thesis
    by (simp add: spec_suite_def spec_cases_fold case_selected_def selected_def run_abs_def Let_def
      example_suite_def case_failed_def calls_outcome_def case_ignored_def)
qed

section \<open>The program around the suite\<close>

text \<open>The \<^verbatim>\<open>main\<close> of a test program, as \<^verbatim>\<open>src/libc/string/main.c\<close> and most others write it, over its group
  runner.\<close>

definition EXIT_SUCCESS :: "32 word" where "EXIT_SUCCESS = 0"

definition EXIT_FAILURE :: "32 word" where "EXIT_FAILURE = 1"

definition main :: "string list \<Rightarrow> ('a fixture_state \<Rightarrow> 'a fixture_state) \<Rightarrow> 'a fixture_state \<Rightarrow> 32 word \<times> 'a fixture_state" where
  "main argv runner w =
     (let (failures, w) = UnityMain argv runner w in (if failures = 0 then EXIT_SUCCESS else EXIT_FAILURE, w))"

text \<open>C2: \<^verbatim>\<open>UnityMain\<close> returns the number of selected tests with a check that does not hold, modulo \<open>2 ^ 32\<close>,
  whatever options the command line has, as long as they ask for at least one run. A program whose
  \<^verbatim>\<open>main\<close> compares that value with 0 exits with status 0 when the number of such tests is a multiple of
  \<open>2 ^ 32\<close>, in particular when there is none, and with status 1 otherwise.\<close>

theorem UnityMain_counts_failures:
  fixes w :: "'a fixture_state"
  assumes "pointers_ok w" and "opts = fold apply_option os (default_options w)" and "RepeatCount opts \<noteq> 0"
    and "failures = suite_failures (memory w) (NameFilter opts) (GroupFilter opts) cases"
  shows "fst (UnityMain (prog # concat (map option_args os)) (RUN_TEST_GROUP cases) w) = word_of_nat failures \<and>
    fst (main (prog # concat (map option_args os)) (RUN_TEST_GROUP cases) w) =
      (if 2 ^ 32 dvd failures then 0 else 1)"
proof -
  note opts_def = assms(2)
  have frame: "pointers_ok (fold apply_option os v) = pointers_ok v \<and> memory (fold apply_option os v) = memory v"
    for v :: "'a fixture_state"
  proof (induction os arbitrary: v)
    case (Cons opt os)
    then show ?case by (cases opt) (simp_all add: pointers_ok_def)
  qed simp
  have "pointers_ok (opts\<lparr>Verbose := 1\<rparr>)" "memory opts = memory w"
    using assms(1) frame [of "default_options w"] by (simp_all add: opts_def default_options_def pointers_ok_def)
  moreover have "0 < RepeatCount opts" using assms(3) by (simp add: word_gt_0)
  ultimately have "TestFailures (UnityMain_loop (Some prog) (RUN_TEST_GROUP cases) 0 (opts\<lparr>Verbose := 1\<rparr>)) =
      word_of_nat (suite_failures (memory w) (NameFilter opts) (GroupFilter opts) cases)"
    using UnityMain_loop_failures [of "opts\<lparr>Verbose := 1\<rparr>" "Some prog" cases 0] by simp
  moreover have "UnityGetCommandLineOptions (prog # concat (map option_args os)) w = (0, opts)"
    unfolding opts_def by (cases os) (simp_all add: UnityGetCommandLineOptions_def default_options_def Let_def
      options_loop_render [of "_ # _", simplified])
  ultimately have "fst (UnityMain (prog # concat (map option_args os)) (RUN_TEST_GROUP cases) w) = word_of_nat failures"
    by (simp add: UnityMain_def argv_at_def Let_def assms(4))
  then show ?thesis
    by (simp add: main_def split_beta EXIT_SUCCESS_def EXIT_FAILURE_def word_of_nat_eq_0_iff)
qed

theorem UnityMain_counts_failures_witness:
  "RepeatCount (fold apply_option [Opt_Repeat 3, Opt_Group ''string''] (default_options Fixture)) \<noteq> 0 \<and>
   fst (UnityMain [''prog'', ''-r'', ''3'', ''-g'', ''string''] (RUN_TEST_GROUP example_suite) Fixture) = 1 \<and>
   fst (main [''prog'', ''-r'', ''3'', ''-g'', ''string''] (RUN_TEST_GROUP example_suite) Fixture) = 1"
proof -
  have "dec_string 3 = ''3''" by code_simp
  moreover have "selected (Some ''string'') ''string''" "\<not> selected (Some ''string'') ''math''" by code_simp+
  ultimately show ?thesis
    using UnityMain_counts_failures [of Fixture _ "[Opt_Repeat 3, Opt_Group ''string'']" _ example_suite "''prog''", OF _ refl _ refl]
    by (simp add: suite_failures_def case_selected_def selected_def [of None] example_suite_def case_failed_def
      calls_outcome_def default_options_def)
qed

text \<open>C3: The complete output of a test program run without options: the announcement of the run, then
  for each test the report of its first failing check, if any, and its result line, then the
  summary with the number of tests, of failing tests and of ignored tests.\<close>

theorem UnityMain_output:
  assumes "pointers_ok w"
  shows "stdout (snd (UnityMain [prog] (RUN_TEST_GROUP cases) w)) =
    stdout w @ ''Unity test run 1 of 1'' @ [CHR 0x0A] @
    concat (map (case_text ((report_view w)\<lparr>CurrentDetail1 := None, CurrentDetail2 := None\<rparr>)) cases) @
    summary_text (word_of_nat (length cases))
      (word_of_nat (length (filter (case_failed (memory w)) cases)))
      (word_of_nat (length (filter case_ignored cases)))"
  using main_output [OF assms, of "[prog]" 0 cases] by (simp add: UnityGetCommandLineOptions_def default_options_def Let_def)

theorem UnityMain_output_witness:
  "stdout (snd (UnityMain [''prog''] (RUN_TEST_GROUP [Ignore_Test ''g'' ''n'']) Fixture)) =
     ''Unity test run 1 of 1'' @ [CHR 0x0A] @ ''TEST(g, n) IGNORE'' @ [CHR 0x0A] @ [CHR 0x0A] @
     ''-----------------------'' @ [CHR 0x0A] @ ''1 Tests 0 Failures 1 Ignored '' @ [CHR 0x0A] @ ''OK'' @ [CHR 0x0A]"
proof -
  have "UnityPrint (Some (printable_name ''g'' ''n'')) = ''TEST(g, n)''" "summary_text 1 0 1 =
      [CHR 0x0A] @ ''-----------------------'' @ [CHR 0x0A] @ ''1 Tests 0 Failures 1 Ignored '' @ [CHR 0x0A] @
      ''OK'' @ [CHR 0x0A]"
    by code_simp+
  then show ?thesis
    using UnityMain_output [of Fixture "''prog''" "[Ignore_Test ''g'' ''n'']"]
    by (simp add: case_failed_def case_ignored_def)
qed

text \<open>C29: The silent mode that the help text promises has no effect: with \<^verbatim>\<open>-s\<close> the program returns the same
  code and prints the same characters, because \<^verbatim>\<open>UnityMain\<close> turns the verbose mode on after it has read
  the options.\<close>

theorem UnityMain_silent_option_ignored:
  assumes "pointers_ok w"
  shows "stdout (snd (UnityMain [prog, ''-s''] (RUN_TEST_GROUP cases) w)) =
      stdout (snd (UnityMain [prog] (RUN_TEST_GROUP cases) w)) \<and>
    fst (UnityMain [prog, ''-s''] (RUN_TEST_GROUP cases) w) = fst (UnityMain [prog] (RUN_TEST_GROUP cases) w)"
proof -
  have s: "UnityGetCommandLineOptions [prog, ''-s''] w = (0, (default_options w)\<lparr>Silent := 1\<rparr>)"
    by (simp add: UnityGetCommandLineOptions_def default_options_def Let_def)
  have d: "UnityGetCommandLineOptions [prog] w = (0, default_options w)"
    by (simp add: UnityGetCommandLineOptions_def default_options_def Let_def)
  show ?thesis
    using main_output [OF assms, of "[prog]" 0 cases] main_output [OF assms, of "[prog, ''-s'']" 1 cases]
    by (simp add: s d default_options_def)
qed

theorem UnityMain_silent_option_ignored_witness:
  "stdout (snd (UnityMain [''prog'', ''-s''] (RUN_TEST_GROUP example_suite) Fixture)) =
   stdout (snd (UnityMain [''prog''] (RUN_TEST_GROUP example_suite) Fixture))"
  using UnityMain_silent_option_ignored [of Fixture "''prog''" example_suite] by simp

end
