(* ===== verification/Libc_Script.thy ===== *)
theory Libc_Script
  imports Unity_Suite
begin

text \<open>
  Test bodies that call the C library: the steps of such a body, what happens when a called function
  reads memory that is not there, and groups of tests run by the fixture. The buffers of the tests
  are character lists: the bytes of an object from the pointer that is passed on to the end of the
  object. The header-documented test data of \<^verbatim>\<open>src/libc/testdata.c\<close> is modelled here too.
\<close>

section \<open>Steps\<close>

text \<open>A step is one assertion macro of a test body with the results of the calls in its arguments already
  filled in. \<^term>\<open>None\<close> stands for a call that reads outside the readable bytes: the kernel stops the
  program there with a data abort.\<close>

type_synonym c_int = "32 word"
type_synonym steps = "(unity_call option \<times> UNITY_LINE_TYPE) list"

fun script_calls :: "steps \<Rightarrow> calls" where
  "script_calls [] = []"
| "script_calls ((Some p, line) # ss) = (p, line) # script_calls ss"
| "script_calls ((None, line) # ss) = []"

fun script_aborts :: "mem \<Rightarrow> steps \<Rightarrow> bool" where
  "script_aborts m [] \<longleftrightarrow> False"
| "script_aborts m ((Some p, line) # ss) \<longleftrightarrow> call_holds p m \<and> script_aborts m ss"
| "script_aborts m ((None, line) # ss) \<longleftrightarrow> True"

definition step_holds :: "mem \<Rightarrow> unity_call option \<times> UNITY_LINE_TYPE \<Rightarrow> bool" where
  "step_holds m s \<longleftrightarrow> (case fst s of None \<Rightarrow> False | Some p \<Rightarrow> call_holds p m)"

definition script_passes :: "mem \<Rightarrow> steps \<Rightarrow> bool" where
  "script_passes m ss \<longleftrightarrow> list_all (step_holds m) ss"

text \<open>A script passes exactly when no call stops the program and every check holds.\<close>

lemma script_passes_iff:
  "script_passes m ss \<longleftrightarrow> \<not> script_aborts m ss \<and> calls_outcome m (script_calls ss) = Passed"
  by (induction ss rule: script_calls.induct)
     (auto simp: script_passes_def step_holds_def calls_outcome_def split: option.splits)

lemma script_passes_simps [simp]:
  "script_passes m []"
  "script_passes m (s # ss) \<longleftrightarrow> step_holds m s \<and> script_passes m ss"
  "script_passes m (ss @ ss') \<longleftrightarrow> script_passes m ss \<and> script_passes m ss'"
  by (simp_all add: script_passes_def)

lemma script_aborts_Cons: "script_aborts m (s # ss) \<longleftrightarrow> fst s = None \<or> step_holds m s \<and> script_aborts m ss"
  by (cases s; cases "fst s") (auto simp: step_holds_def)

lemma script_passes_map [simp]: "script_passes m (map f xs) \<longleftrightarrow> (\<forall>x\<in>set xs. step_holds m (f x))"
  by (simp add: script_passes_def list_all_iff)

lemma script_passes_concat [simp]:
  "script_passes m (concat (map f xs)) \<longleftrightarrow> (\<forall>x\<in>set xs. script_passes m (f x))"
  by (induction xs) auto

section \<open>The assertion macros as steps\<close>

definition check_EQUAL_INT :: "int \<Rightarrow> int option \<Rightarrow> UNITY_LINE_TYPE \<Rightarrow> unity_call option \<times> UNITY_LINE_TYPE" where
  "check_EQUAL_INT expected actual line =
     (map_option (\<lambda>a. Call_EqualNumber (equal_cast UNITY_DISPLAY_STYLE_INT expected)
        (equal_cast UNITY_DISPLAY_STYLE_INT a) None UNITY_DISPLAY_STYLE_INT) actual, line)"

definition check_compare_INT ::
  "UNITY_COMPARISON_T \<Rightarrow> int \<Rightarrow> int option \<Rightarrow> UNITY_LINE_TYPE \<Rightarrow> unity_call option \<times> UNITY_LINE_TYPE" where
  "check_compare_INT cmp threshold actual line =
     (map_option (\<lambda>a. Call_Compare (compare_cast UNITY_DISPLAY_STYLE_INT threshold)
        (compare_cast UNITY_DISPLAY_STYLE_INT a) cmp None UNITY_DISPLAY_STYLE_INT) actual, line)"

definition check_LESS_THAN_INT where
  "check_LESS_THAN_INT = check_compare_INT UNITY_SMALLER_THAN"

definition check_GREATER_THAN_INT where
  "check_GREATER_THAN_INT = check_compare_INT UNITY_GREATER_THAN"

definition check_NOT_EQUAL_INT where
  "check_NOT_EQUAL_INT = check_compare_INT UNITY_NOT_EQUAL"

definition check_EQUAL_PTR :: "ptr \<Rightarrow> ptr option \<Rightarrow> UNITY_LINE_TYPE \<Rightarrow> unity_call option \<times> UNITY_LINE_TYPE" where
  "check_EQUAL_PTR expected actual line =
     (map_option (\<lambda>a. Call_EqualNumber expected a None UNITY_DISPLAY_STYLE_HEX64) actual, line)"

definition check_EQUAL_STRING :: "cstr \<Rightarrow> cstr option \<Rightarrow> UNITY_LINE_TYPE \<Rightarrow> unity_call option \<times> UNITY_LINE_TYPE" where
  "check_EQUAL_STRING expected actual line =
     (map_option (\<lambda>a. Call_EqualString expected a None) actual, line)"

definition check_NOT_NULL :: "'b option \<Rightarrow> UNITY_LINE_TYPE \<Rightarrow> unity_call option \<times> UNITY_LINE_TYPE" where
  "check_NOT_NULL p line = (Some (Call_Assert (p \<noteq> None) (Some '' Expected Non-NULL'')), line)"

definition check_ASSERT_MESSAGE :: "bool \<Rightarrow> string \<Rightarrow> UNITY_LINE_TYPE \<Rightarrow> unity_call option \<times> UNITY_LINE_TYPE" where
  "check_ASSERT_MESSAGE c msg line = (Some (Call_Assert c (Some msg)), line)"

text \<open>Each step runs the macro it is named after.\<close>

lemma check_runs_macro:
  "exec_call (the (fst (check_EQUAL_INT e (Some a) line))) line =
     TEST_ASSERT_EQUAL_num (Style UNITY_DISPLAY_STYLE_INT) e a line"
  "exec_call (the (fst (check_LESS_THAN_INT e (Some a) line))) line =
     TEST_ASSERT_LESS_THAN (Style UNITY_DISPLAY_STYLE_INT) e a line"
  "exec_call (the (fst (check_GREATER_THAN_INT e (Some a) line))) line =
     TEST_ASSERT_GREATER_THAN (Style UNITY_DISPLAY_STYLE_INT) e a line"
  "exec_call (the (fst (check_NOT_EQUAL_INT e (Some a) line))) line =
     TEST_ASSERT_NOT_EQUAL_num (Style UNITY_DISPLAY_STYLE_INT) e a line"
  "exec_call (the (fst (check_EQUAL_PTR p (Some q) line))) line = TEST_ASSERT_EQUAL_PTR p q line"
  "exec_call (the (fst (check_EQUAL_STRING s (Some t) line))) line = TEST_ASSERT_EQUAL_STRING s t line"
  by (simp_all add: check_EQUAL_INT_def check_LESS_THAN_INT_def check_GREATER_THAN_INT_def
    check_NOT_EQUAL_INT_def check_compare_INT_def check_EQUAL_PTR_def check_EQUAL_STRING_def
    TEST_ASSERT_EQUAL_num_def UNITY_TEST_ASSERT_EQUAL_num_def TEST_ASSERT_LESS_THAN_def
    UNITY_TEST_ASSERT_SMALLER_THAN_def TEST_ASSERT_GREATER_THAN_def UNITY_TEST_ASSERT_GREATER_THAN_def
    TEST_ASSERT_NOT_EQUAL_num_def UNITY_TEST_ASSERT_NOT_EQUAL_def UNITY_TEST_ASSERT_compare_def
    TEST_ASSERT_EQUAL_PTR_def UNITY_TEST_ASSERT_EQUAL_PTR_def TEST_ASSERT_EQUAL_STRING_def
    UNITY_TEST_ASSERT_EQUAL_STRING_def)

lemma fst_check [simp]:
  "fst (check_EQUAL_INT e r line) = None \<longleftrightarrow> r = None"
  "fst (check_LESS_THAN_INT e r line) = None \<longleftrightarrow> r = None"
  "fst (check_GREATER_THAN_INT e r line) = None \<longleftrightarrow> r = None"
  "fst (check_NOT_EQUAL_INT e r line) = None \<longleftrightarrow> r = None"
  by (simp_all add: check_EQUAL_INT_def check_LESS_THAN_INT_def check_GREATER_THAN_INT_def
    check_NOT_EQUAL_INT_def check_compare_INT_def)

text \<open>The result of a comparison function is a C \<^verbatim>\<open>int\<close> of which the tests read the sign.\<close>

definition result_sign :: "c_int option \<Rightarrow> int \<Rightarrow> bool" where
  "result_sign r v \<longleftrightarrow> (\<exists>x. r = Some x \<and> sgn (sint x) = v)"

lemma c_int_fits: "style_fits UNITY_DISPLAY_STYLE_INT (sint (x :: c_int))"
  using sint_greater_eq [of x] sint_lt [of x] by (simp add: style_fits_def)

lemma zero_fits: "style_fits UNITY_DISPLAY_STYLE_INT 0"
  by (simp add: style_fits_def)

lemma sint_mod_64_eq_0: "0 = sint (x :: c_int) mod 18446744073709551616 \<longleftrightarrow> sint x = 0"
proof
  assume "0 = sint x mod 18446744073709551616"
  then have "18446744073709551616 dvd sint x" by (metis dvd_eq_mod_eq_0)
  then obtain k where k: "sint x = 18446744073709551616 * k" ..
  have "- 2147483648 \<le> sint x" "sint x < 2147483648"
    using sint_greater_eq [of x] sint_lt [of x] by simp_all
  with k have "k = 0" by linarith
  with k show "sint x = 0" by simp
qed simp

lemma step_holds_sign [simp]:
  "step_holds m (check_EQUAL_INT 0 (map_option sint r) line) \<longleftrightarrow> result_sign r 0"
  "step_holds m (check_LESS_THAN_INT 0 (map_option sint r) line) \<longleftrightarrow> result_sign r (- 1)"
  "step_holds m (check_GREATER_THAN_INT 0 (map_option sint r) line) \<longleftrightarrow> result_sign r 1"
  "step_holds m (check_NOT_EQUAL_INT 0 (map_option sint r) line) \<longleftrightarrow> result_sign r 1 \<or> result_sign r (- 1)"
proof -
  have c: "style_int UNITY_DISPLAY_STYLE_INT (compare_cast UNITY_DISPLAY_STYLE_INT (sint x)) = sint x"
    "style_int UNITY_DISPLAY_STYLE_INT (compare_cast UNITY_DISPLAY_STYLE_INT 0) = 0" for x :: c_int
    by (rule compare_cast_fits [OF c_int_fits], rule compare_cast_fits [OF zero_fits])
  show "step_holds m (check_EQUAL_INT 0 (map_option sint r) line) \<longleftrightarrow> result_sign r 0"
    by (cases r) (simp_all add: step_holds_def check_EQUAL_INT_def result_sign_def equal_cast_eq_iff
      sint_mod_64_eq_0 sgn_eq_0_iff del: equal_cast.simps)
  show "step_holds m (check_LESS_THAN_INT 0 (map_option sint r) line) \<longleftrightarrow> result_sign r (- 1)"
    by (cases r) (simp_all add: step_holds_def check_LESS_THAN_INT_def check_compare_INT_def
      result_sign_def c sgn_if del: compare_cast.simps)
  show "step_holds m (check_GREATER_THAN_INT 0 (map_option sint r) line) \<longleftrightarrow> result_sign r 1"
    by (cases r) (simp_all add: step_holds_def check_GREATER_THAN_INT_def check_compare_INT_def
      result_sign_def c sgn_if del: compare_cast.simps)
  show "step_holds m (check_NOT_EQUAL_INT 0 (map_option sint r) line) \<longleftrightarrow> result_sign r 1 \<or> result_sign r (- 1)"
    by (cases r) (auto simp: step_holds_def check_NOT_EQUAL_INT_def check_compare_INT_def
      result_sign_def c sgn_if simp del: compare_cast.simps)
qed

lemma step_holds_EQUAL [simp]:
  "step_holds m (check_EQUAL_INT e (Some e) line)"
  "step_holds m (check_EQUAL_PTR p (Some p') line) \<longleftrightarrow> p = p'" "\<not> step_holds m (check_EQUAL_PTR p None line)"
  "step_holds m (check_EQUAL_STRING s (Some t) line) \<longleftrightarrow> cstr_equal s t"
  "step_holds m (check_NOT_NULL q line) \<longleftrightarrow> q \<noteq> None"
  "step_holds m (check_ASSERT_MESSAGE c msg line) \<longleftrightarrow> c"
  by (simp_all add: step_holds_def check_EQUAL_INT_def check_EQUAL_PTR_def check_EQUAL_STRING_def
    check_NOT_NULL_def check_ASSERT_MESSAGE_def)

lemma check_EQUAL_INT_eq: "e = a \<Longrightarrow> step_holds m (check_EQUAL_INT e (Some a) line)"
  by simp

section \<open>Groups\<close>

text \<open>A test group whose set-up and tear-down are empty: the name, the source line and the steps of each
  test, in the order of the group runner.\<close>

type_synonym test_script = "string \<times> 32 word \<times> steps"

definition group_cases :: "string \<Rightarrow> cstr \<Rightarrow> test_script list \<Rightarrow> test_case list" where
  "group_cases grp fname tests =
     map (\<lambda>(name, line, ss). Test grp name fname line [] (script_calls ss) []) tests"

definition group_passes :: "mem \<Rightarrow> test_script list \<Rightarrow> bool" where
  "group_passes m tests \<longleftrightarrow> list_all (\<lambda>(name, line, ss). script_passes m ss) tests"

lemma group_passes_simps [simp]:
  "group_passes m []"
  "group_passes m ((name, line, ss) # tests) \<longleftrightarrow> script_passes m ss \<and> group_passes m tests"
  by (simp_all add: group_passes_def)

definition pass_line :: "test_case \<Rightarrow> string" where
  "pass_line c = UnityPrint (Some (printable_name (case_group c) (case_name c))) @ '' PASS'' @ [CHR 0x0A]"

lemma passing_case:
  assumes "group_passes (memory v) tests" and "c \<in> set (group_cases grp fname tests)"
  shows "\<not> case_failed (memory v) c" "\<not> case_ignored c" "case_text v c = pass_line c"
proof -
  from assms obtain name line ss where c: "c = Test grp name fname line [] (script_calls ss) []"
    and "script_passes (memory v) ss"
    by (auto simp: group_cases_def group_passes_def list_all_iff)
  then have out: "calls_outcome (memory v) (script_calls ss) = Passed" by (simp add: script_passes_iff)
  then have "find (\<lambda>(p, line). \<not> call_holds p (memory v)) (script_calls ss) = None"
    by (auto simp: calls_outcome_def split: option.splits)
  with out show "\<not> case_failed (memory v) c" "\<not> case_ignored c" "case_text v c = pass_line c"
    by (simp_all add: c case_failed_def case_ignored_def calls_text_def outcome_text_def pass_line_def)
qed

text \<open>Several groups run one after the other, as a program's \<^verbatim>\<open>runner\<close> does.\<close>

type_synonym test_groups = "(string \<times> test_script list) list"

definition groups_cases :: "cstr \<Rightarrow> test_groups \<Rightarrow> test_case list" where
  "groups_cases fname gs = concat (map (\<lambda>(grp, tests). group_cases grp fname tests) gs)"

definition groups_pass :: "mem \<Rightarrow> test_groups \<Rightarrow> bool" where
  "groups_pass m gs \<longleftrightarrow> list_all (\<lambda>(grp, tests). group_passes m tests) gs"

lemma RUN_TEST_GROUP_append: "RUN_TEST_GROUP (cs @ cs') w = RUN_TEST_GROUP cs' (RUN_TEST_GROUP cs w)"
  by (simp add: RUN_TEST_GROUP_def)

lemma passing_groups_case:
  assumes "groups_pass (memory v) gs" and "c \<in> set (groups_cases fname gs)"
  shows "\<not> case_failed (memory v) c" "\<not> case_ignored c" "case_text v c = pass_line c"
proof -
  from assms obtain grp tests where "group_passes (memory v) tests" "c \<in> set (group_cases grp fname tests)"
    by (auto simp: groups_cases_def groups_pass_def list_all_iff)
  then show "\<not> case_failed (memory v) c" "\<not> case_ignored c" "case_text v c = pass_line c"
    by (rule passing_case)+
qed

text \<open>The result of a run in which every selected test passes.\<close>

definition selected_cases :: "'a fixture_state \<Rightarrow> test_case list \<Rightarrow> test_case list" where
  "selected_cases w cases = filter (case_selected (NameFilter w) (GroupFilter w)) cases"

definition all_passed :: "test_case list \<Rightarrow> 'a fixture_state \<Rightarrow> run_state" where
  "all_passed cases w =
     (NumberOfTests w + word_of_nat (length (selected_cases w cases)), TestFailures w, TestIgnores w,
      stdout w @ concat (map pass_line (selected_cases w cases)))"

lemma groups_run:
  assumes "ready w" and "groups_pass (memory w) gs"
  shows "run_abs (RUN_TEST_GROUP (groups_cases fname gs) w) = all_passed (groups_cases fname gs) w"
proof -
  define cs where "cs = filter (case_selected (NameFilter w) (GroupFilter w)) (groups_cases fname gs)"
  have pass: "\<not> case_failed (memory w) c" "\<not> case_ignored c" "case_text (report_view w) c = pass_line c"
    if "c \<in> set cs" for c
    using passing_groups_case [of "report_view w" gs c fname] assms(2) that by (simp_all add: cs_def)
  then have "filter (case_failed (memory w)) cs = []" "filter case_ignored cs = []"
    by (auto simp: filter_empty_conv)
  moreover have "concat (map (case_text (report_view w)) cs) = concat (map pass_line cs)"
    by (rule arg_cong [of _ _ concat], rule map_cong [OF refl pass(3)])
  ultimately show ?thesis
    using RUN_TEST_GROUP_refines [OF assms(1), of "groups_cases fname gs"]
    by (simp add: spec_suite_def spec_cases_fold run_abs_def all_passed_def selected_cases_def flip: cs_def)
qed

section \<open>Buffers\<close>

text \<open>The array a string literal of the source denotes, terminator included.\<close>

definition lit :: "string \<Rightarrow> string" where
  "lit s = s @ [NUL]"

text \<open>The loops that fill a buffer from its start, \<^verbatim>\<open>for (i = 0; i < n; i++) buf[i] = f(i)\<close>, of which
  \<^verbatim>\<open>memset\<close> is the constant case.\<close>

definition fill_loop :: "(nat \<Rightarrow> char) \<Rightarrow> nat \<Rightarrow> string \<Rightarrow> string" where
  "fill_loop f n buf = fold (\<lambda>i b. b[i := f i]) [0..<n] buf"

lemma fill_loop_eq: "n \<le> length buf \<Longrightarrow> fill_loop f n buf = map f [0..<n] @ drop n buf"
proof (induction n)
  case (Suc n)
  then have "drop n buf = buf ! n # drop (Suc n) buf" by (simp add: Cons_nth_drop_Suc)
  with Suc show ?case by (simp add: fill_loop_def list_update_append)
qed (simp add: fill_loop_def)

section \<open>Test data\<close>

text \<open>\<^verbatim>\<open>calloc\<close> is a parameter: it returns the zeroed block, or nothing when there is no memory.\<close>

definition testdata_createCharStr :: "(nat \<Rightarrow> string option) \<Rightarrow> nat \<Rightarrow> string option" where
  "testdata_createCharStr calloc sz =
     (case calloc sz of None \<Rightarrow> None
      | Some dataStr \<Rightarrow> Some (fold (\<lambda>i d.
          let d = d[i := char_of (i mod 256)]
          in if d ! i = NUL then d[i := CHR 0x01] else d) [0..<sz - 1] dataStr))"

definition calloc_serves :: "(nat \<Rightarrow> string option) \<Rightarrow> bool" where
  "calloc_serves calloc \<longleftrightarrow> (\<forall>n \<le> 4096. calloc n = Some (replicate n NUL))"

definition char_str_at :: "nat \<Rightarrow> char" where
  "char_str_at i = (if i mod 256 = 0 then CHR 0x01 else char_of i)"

definition char_str :: "nat \<Rightarrow> string" where
  "char_str sz = map char_str_at [0..<sz - 1] @ replicate (sz - (sz - 1)) NUL"

lemma char_of_NUL_iff: "char_of (i :: nat) = NUL \<longleftrightarrow> i mod 256 = 0"
  by (simp add: char_of_eq_iff take_bit_eq_mod)

lemma createCharStr_eq:
  assumes "calloc sz = Some (replicate sz NUL)"
  shows "testdata_createCharStr calloc sz = Some (char_str sz)"
proof -
  have "fold (\<lambda>i d. let d = d[i := char_of (i mod 256)] in if d ! i = NUL then d[i := CHR 0x01] else d)
      [0..<n] buf = fill_loop char_str_at n buf" if "n \<le> length buf" for n and buf :: string
    using that
  proof (induction n)
    case (Suc n)
    then have "n < length (fill_loop char_str_at n buf)" by (simp add: fill_loop_eq)
    with Suc show ?case
      by (simp add: fill_loop_def Let_def char_str_at_def char_of_NUL_iff)
  qed (simp add: fill_loop_def)
  from this [of "sz - 1" "replicate sz NUL"] show ?thesis
    using assms by (simp add: testdata_createCharStr_def fill_loop_eq char_str_def)
qed

lemma of_char_str_at: "(of_char (char_str_at i) :: nat) = (if i mod 256 = 0 then 1 else i mod 256)"
  by (simp add: char_str_at_def)

lemma char_str_at_not_NUL [simp]: "char_str_at i \<noteq> NUL"
  by (simp add: char_str_at_def char_of_NUL_iff)

lemma char_str_nth [simp]:
  "0 < n \<Longrightarrow> length (char_str n) = n"
  "i < n - 1 \<Longrightarrow> char_str n ! i = char_str_at i"
  "0 < n \<Longrightarrow> char_str n ! (n - 1) = NUL"
  "0 < n \<Longrightarrow> NUL \<in> set (char_str n)"
  by (auto simp: char_str_def nth_append)

text \<open>A test that starts with an allocated string and \<^verbatim>\<open>TEST_ASSERT_NOT_NULL\<close> of it. The rest of the test
  works with the pointer whether or not it is null; \<open>with_result\<close> at the first statement that accesses
  the string turns an access through the null pointer into a data abort.\<close>

definition allocated :: "string option \<Rightarrow> UNITY_LINE_TYPE \<Rightarrow> (string option \<Rightarrow> steps) \<Rightarrow> steps" where
  "allocated p line rest = check_NOT_NULL p line # rest p"

lemma allocated_passes:
  assumes "calloc_serves calloc" "sz \<le> 4096"
  shows "script_passes m (allocated (testdata_createCharStr calloc sz) line rest) \<longleftrightarrow> script_passes m (rest (Some (char_str sz)))"
proof -
  have "testdata_createCharStr calloc sz = Some (char_str sz)"
    using assms by (intro createCharStr_eq) (simp add: calloc_serves_def)
  then show ?thesis by (simp add: allocated_def)
qed

lemma allocated_fails:
  assumes "calloc sz = None"
  shows "calls_outcome m (script_calls (allocated (testdata_createCharStr calloc sz) line rest)) = Failed line"
    "\<not> script_aborts m (allocated (testdata_createCharStr calloc sz) line rest)"
  using assms by (simp_all add: testdata_createCharStr_def allocated_def check_NOT_NULL_def calls_outcome_def)

definition example_calloc :: "nat \<Rightarrow> string option" where
  "example_calloc n = Some (replicate n NUL)"

lemma example_calloc_serves: "calloc_serves example_calloc"
  by (simp add: calloc_serves_def example_calloc_def)

section \<open>Loops and calls outside assertions\<close>

text \<open>A loop that changes its buffers and then runs some checks, and a call whose result the following
  statements use.\<close>

fun loop_steps :: "(nat \<Rightarrow> 's \<Rightarrow> 's) \<Rightarrow> (nat \<Rightarrow> 's \<Rightarrow> steps) \<Rightarrow> nat list \<Rightarrow> 's \<Rightarrow> steps" where
  "loop_steps upd body [] s = []"
| "loop_steps upd body (i # is) s = body i (upd i s) @ loop_steps upd body is (upd i s)"

definition with_result :: "'r option \<Rightarrow> UNITY_LINE_TYPE \<Rightarrow> ('r \<Rightarrow> steps) \<Rightarrow> steps" where
  "with_result r line rest = (case r of None \<Rightarrow> [(None, line)] | Some x \<Rightarrow> rest x)"

lemma with_result_Some [simp]: "with_result (Some x) line rest = rest x"
  by (simp add: with_result_def)

definition char_at :: "string \<Rightarrow> nat \<Rightarrow> char option" where
  "char_at s i = (if i < length s then Some (s ! i) else None)"

lemma interval_split: "a < b \<Longrightarrow> (\<forall>i. a \<le> i \<and> i < b \<longrightarrow> P i) \<longleftrightarrow> P a \<and> (\<forall>i. Suc a \<le> i \<and> i < b \<longrightarrow> P i)"
  for a b :: nat
  by (metis Suc_leD Suc_leI le_eq_less_or_eq)

lemma loop_steps_passes:
  "script_passes m (loop_steps upd body [a..<b] s) \<longleftrightarrow>
     (\<forall>i. a \<le> i \<and> i < b \<longrightarrow> script_passes m (body i (fold upd [a..<Suc i] s)))"
proof (induction "b - a" arbitrary: a s)
  case (Suc n)
  then have ab: "a < b" and n: "n = b - Suc a" by simp_all
  have eq: "fold upd [Suc a..<Suc i] (upd a s) = fold upd [a..<Suc i] s" if "a \<le> i" for i
    using that by (simp add: upt_conv_Cons del: upt_Suc)
  have "script_passes m (loop_steps upd body [a..<b] s) \<longleftrightarrow> script_passes m (body a (upd a s)) \<and>
      (\<forall>i. Suc a \<le> i \<and> i < b \<longrightarrow> script_passes m (body i (fold upd [a..<Suc i] s)))"
    using Suc.hyps(1) [OF n] eq by (simp add: upt_conv_Cons [OF ab] del: upt_Suc)
  also have "script_passes m (body a (upd a s)) \<longleftrightarrow> script_passes m (body a (fold upd [a..<Suc a] s))" by simp
  finally show ?case using interval_split [OF ab] by simp
qed auto

section \<open>Properties\<close>

text \<open>C30: The documented contents of the test strings: when the allocation succeeds, the string has exactly
  one terminator, at its end; up to 257 bytes it is 1, 1, 2, and so on, and from 257 bytes on it
  contains every character.\<close>

theorem testdata_createCharStr_contents:
  assumes "calloc sz = Some (replicate sz NUL)" and "2 \<le> sz"
  shows "\<exists>s. testdata_createCharStr calloc sz = Some s \<and> length s = sz \<and> length (c_chars s) = sz - 1 \<and>
    (sz \<le> 257 \<longrightarrow> s = CHR 0x01 # map char_of [1..<sz - 1] @ [NUL]) \<and> (257 \<le> sz \<longrightarrow> set s = UNIV)"
proof (intro exI conjI impI)
  show "testdata_createCharStr calloc sz = Some (char_str sz)" by (rule createCharStr_eq [of calloc, OF assms(1)])
  show "length (char_str sz) = sz" using assms(2) by simp
  have s: "char_str sz = map char_str_at [0..<sz - 1] @ [NUL]"
    using assms(2) by (simp add: char_str_def)
  show "length (c_chars (char_str sz)) = sz - 1"
    by (simp add: s c_chars_def takeWhile_append)
  show "char_str sz = CHR 0x01 # map char_of [1..<sz - 1] @ [NUL]" if "sz \<le> 257"
  proof -
    have "[0..<sz - 1] = 0 # [1..<sz - 1]" using assms(2) by (simp add: upt_conv_Cons)
    moreover have "char_str_at i = char_of i" if "i \<in> set [1..<sz - 1]" for i
      using that \<open>sz \<le> 257\<close> by (auto simp: char_str_at_def)
    then have "map char_str_at [1..<sz - 1] = map char_of [1..<sz - 1]" by (rule map_cong [OF refl])
    ultimately show ?thesis by (simp add: s char_str_at_def)
  qed
  show "set (char_str sz) = UNIV" if "257 \<le> sz"
  proof -
    have "c \<in> set (char_str sz)" for c
    proof (cases "c = NUL")
      case False
      define n where "n = (of_char c :: nat)"
      have "n < 256" unfolding n_def by (rule nat_of_char_less_256)
      moreover have c: "c = char_of n" by (simp add: n_def)
      ultimately have "c = char_str_at n" "n < sz - 1"
        using False that by (auto simp: char_str_at_def char_of_NUL_iff)
      then show ?thesis by (auto simp: s)
    qed (simp add: s)
    then show ?thesis by auto
  qed
qed

theorem testdata_createCharStr_contents_witness:
  "testdata_createCharStr (\<lambda>n. Some (replicate n NUL)) 5 = Some [CHR 0x01, CHR 0x01, CHR 0x02, CHR 0x03, NUL]"
proof -
  have "CHR 0x01 # map char_of [1..<5 - 1 :: nat] @ [NUL] = [CHR 0x01, CHR 0x01, CHR 0x02, CHR 0x03, NUL]"
    by code_simp
  then show ?thesis
    using testdata_createCharStr_contents [of "\<lambda>n. Some (replicate n NUL)" 5] by auto
qed

end
