(* ===== verification/Libc_String_Cmp.thy ===== *)
theory Libc_String_Cmp
  imports Libc_Script
begin

text \<open>
  The comparison tests of \<^verbatim>\<open>src/libc/string/string_cmp.c\<close>: the groups \<^verbatim>\<open>string_memcmp\<close>,
  \<^verbatim>\<open>string_strncmp\<close>, \<^verbatim>\<open>string_strcmp\<close> and \<^verbatim>\<open>string_strcoll\<close>, with the C library under test as a
  parameter. The comparison contract of the C standard is stated for valid arguments only: arrays
  with enough readable bytes, terminated strings, and \<^verbatim>\<open>strcoll\<close> in the startup locale. Reading past the
  bytes of an array is an observable failure.
\<close>

section \<open>The functions under test\<close>

text \<open>Each function receives the readable bytes from its pointer arguments on and returns a C \<^verbatim>\<open>int\<close>, or
  nothing when it reads a byte that is not there. \<^verbatim>\<open>strcoll\<close> also depends on the current locale, its
  first argument here.\<close>

record libc_compare =
  memcmp :: "string \<Rightarrow> string \<Rightarrow> nat \<Rightarrow> c_int option"
  strncmp :: "string \<Rightarrow> string \<Rightarrow> nat \<Rightarrow> c_int option"
  strcmp :: "string \<Rightarrow> string \<Rightarrow> c_int option"
  strcoll :: "string \<Rightarrow> string \<Rightarrow> string \<Rightarrow> c_int option"
  strncasecmp :: "string \<Rightarrow> string \<Rightarrow> nat \<Rightarrow> c_int option"

text \<open>A program starts in the locale \<^verbatim>\<open>"C"\<close>, and the program of these tests never calls \<^verbatim>\<open>setlocale\<close>.\<close>

definition startup_locale :: string where "startup_locale = ''C''"

text \<open>What the page-edge test gets from the system: the page size, the address of the mapping, the results
  of the two \<^verbatim>\<open>munmap\<close> calls, and the bytes that can still be read from \<^verbatim>\<open>region + pagesz\<close> on after the first
  of them.\<close>

record page_env =
  pagesz :: int
  region :: ptr
  munmap_second :: c_int
  guard :: string
  munmap_first :: c_int

abbreviation ret :: "c_int option \<Rightarrow> int option" where
  "ret r \<equiv> map_option sint r"

definition MAP_FAILED :: ptr where "MAP_FAILED = - 1"

section \<open>Data of the tests\<close>

definition BUFF_SIZE :: nat where "BUFF_SIZE = 129"
definition BIG_SIZE :: nat where "BIG_SIZE = 1024"
definition SET_SIZE :: nat where "SET_SIZE = 4000"

definition empty :: string where "empty = replicate BUFF_SIZE NUL"

definition separated :: string where "separated = lit (replicate 5 NUL @ ''TEST'' @ replicate 2 NUL)"

text \<open>The three nested loops of the \<^verbatim>\<open>offsets\<close> tests.\<close>

definition offset_loops :: "(nat \<Rightarrow> nat \<Rightarrow> nat \<Rightarrow> steps) \<Rightarrow> steps" where
  "offset_loops body =
     concat (map (\<lambda>s1Offs. concat (map (\<lambda>s2Offs. concat (map (\<lambda>szOffset.
       body s1Offs s2Offs szOffset) [0..<8])) [0..<8])) [0..<8])"

text \<open>The loop of the \<^verbatim>\<open>various_sizes\<close> tests changes one character of the copy, compares and restores it.\<close>

fun various_sizes_loop ::
  "(string \<Rightarrow> string \<Rightarrow> nat \<Rightarrow> c_int option) \<Rightarrow> UNITY_LINE_TYPE \<Rightarrow> string \<Rightarrow> string \<Rightarrow> nat list \<Rightarrow> steps" where
  "various_sizes_loop cmp line asciiStr asciiStr2 [] = []"
| "various_sizes_loop cmp line asciiStr asciiStr2 (i # is) =
     (let asciiStr2 = asciiStr2[i := char_of (of_char (asciiStr ! i) - 1 :: int)]
      in [check_EQUAL_INT 0 (ret (cmp asciiStr asciiStr2 i)) line,
          check_GREATER_THAN_INT 0 (ret (cmp asciiStr asciiStr2 (i + 1))) (line + 1)] @
         various_sizes_loop cmp line asciiStr (asciiStr2[i := asciiStr ! i]) is)"

section \<open>Group \<^verbatim>\<open>string_memcmp\<close>\<close>

definition string_memcmp_basic :: "libc_compare \<Rightarrow> steps" where
  "string_memcmp_basic lc = (let basicStr = lit ''Test'' in
     [check_EQUAL_INT 0 (ret (memcmp lc basicStr basicStr 5)) 64,
      check_LESS_THAN_INT 0 (ret (memcmp lc basicStr (lit ''Tests'') 5)) 65,
      check_GREATER_THAN_INT 0 (ret (memcmp lc (lit ''Tests'') basicStr 5)) 66])"

definition string_memcmp_unsigned_char_cast :: "libc_compare \<Rightarrow> steps" where
  "string_memcmp_unsigned_char_cast lc = (let charEdgeValue = [CHR 0x80] in
     [check_GREATER_THAN_INT 0 (ret (memcmp lc charEdgeValue (lit [NUL]) 1)) 74,
      check_LESS_THAN_INT 0 (ret (memcmp lc (lit [NUL]) charEdgeValue 1)) 75])"

definition string_memcmp_emptyInput :: "libc_compare \<Rightarrow> (nat \<Rightarrow> string option) \<Rightarrow> steps" where
  "string_memcmp_emptyInput lc calloc =
     allocated (testdata_createCharStr calloc BUFF_SIZE) 84 (\<lambda>asciiSet. with_result asciiSet 86 (\<lambda>asciiSet.
       let asciiSet = asciiSet[0 := NUL] in
       [check_LESS_THAN_INT 0 (ret (memcmp lc empty asciiSet (length empty))) 88,
        check_GREATER_THAN_INT 0 (ret (memcmp lc asciiSet empty (length empty))) 89,
        check_EQUAL_INT 0 (ret (memcmp lc empty empty (length empty))) 90,
        check_NOT_EQUAL_INT 0 (ret (memcmp lc empty separated (length separated))) 93]))"

definition string_memcmp_big :: "libc_compare \<Rightarrow> (nat \<Rightarrow> string option) \<Rightarrow> steps" where
  "string_memcmp_big lc calloc =
     allocated (testdata_createCharStr calloc BIG_SIZE) 104 (\<lambda>hugeStr. with_result hugeStr 106 (\<lambda>hugeStr.
       let hugeStr2 = take BIG_SIZE hugeStr;
           hugeStr' = hugeStr[BIG_SIZE - 2 := CHR 0x01];
           hugeStr2' = hugeStr2[BIG_SIZE - 2 := CHR 0x02]
       in [check_EQUAL_INT 0 (ret (memcmp lc hugeStr hugeStr BIG_SIZE)) 108,
           check_EQUAL_INT 0 (ret (memcmp lc hugeStr hugeStr2 BIG_SIZE)) 110,
           check_LESS_THAN_INT 0 (ret (memcmp lc hugeStr' hugeStr2' BIG_SIZE)) 115,
           check_GREATER_THAN_INT 0 (ret (memcmp lc hugeStr2' hugeStr' BIG_SIZE)) 116]))"

definition string_memcmp_various_sizes :: "libc_compare \<Rightarrow> (nat \<Rightarrow> string option) \<Rightarrow> steps" where
  "string_memcmp_various_sizes lc calloc =
     allocated (testdata_createCharStr calloc BUFF_SIZE) 129 (\<lambda>asciiStr. with_result asciiStr 131 (\<lambda>asciiStr.
       various_sizes_loop (memcmp lc) 134 asciiStr (take BUFF_SIZE asciiStr) [1..<BUFF_SIZE - 1]))"

definition string_memcmp_offsets :: "libc_compare \<Rightarrow> steps" where
  "string_memcmp_offsets lc = (let sz = SET_SIZE;
     dataSet = fill_loop char_of sz (replicate SET_SIZE NUL);
     supportSet = fill_loop char_of sz (replicate SET_SIZE NUL)
   in offset_loops (\<lambda>s1Offs s2Offs szOffset.
     if s2Offs < s1Offs then
       [check_GREATER_THAN_INT 0 (ret (memcmp lc (drop s1Offs dataSet) (drop s2Offs dataSet) (sz - (s1Offs + szOffset)))) 161,
        check_GREATER_THAN_INT 0 (ret (memcmp lc (drop s1Offs dataSet) (drop s2Offs supportSet) (sz - (s1Offs + szOffset)))) 162]
     else if s2Offs = s1Offs then
       [check_EQUAL_INT 0 (ret (memcmp lc (drop s1Offs dataSet) (drop s2Offs dataSet) (sz - (s1Offs + s2Offs + szOffset)))) 165,
        check_EQUAL_INT 0 (ret (memcmp lc (drop s1Offs dataSet) (drop s2Offs supportSet) (sz - (s1Offs + s2Offs + szOffset)))) 166]
     else
       [check_LESS_THAN_INT 0 (ret (memcmp lc (drop s1Offs dataSet) (drop s2Offs dataSet) (sz - (s2Offs + szOffset)))) 169,
        check_LESS_THAN_INT 0 (ret (memcmp lc (drop s1Offs dataSet) (drop s2Offs supportSet) (sz - (s2Offs + szOffset)))) 170]))"

definition string_memcmp :: "libc_compare \<Rightarrow> (nat \<Rightarrow> string option) \<Rightarrow> test_script list" where
  "string_memcmp lc calloc =
     [(''basic'', 60, string_memcmp_basic lc),
      (''unsigned_char_cast'', 70, string_memcmp_unsigned_char_cast lc),
      (''emptyInput'', 79, string_memcmp_emptyInput lc calloc),
      (''big'', 99, string_memcmp_big lc calloc),
      (''various_sizes'', 122, string_memcmp_various_sizes lc calloc),
      (''offsets'', 143, string_memcmp_offsets lc)]"

section \<open>Group \<^verbatim>\<open>string_strncmp\<close>\<close>

definition string_strncmp_basic :: "libc_compare \<Rightarrow> steps" where
  "string_strncmp_basic lc = (let basicStr = lit ''Test'' in
     [check_EQUAL_INT 0 (ret (strncmp lc basicStr basicStr 6)) 197,
      check_LESS_THAN_INT 0 (ret (strncmp lc basicStr (lit ''Tests'') 6)) 198,
      check_GREATER_THAN_INT 0 (ret (strncmp lc (lit ''Tests'') basicStr 6)) 199])"

definition string_strncmp_unsigned_char_cast :: "libc_compare \<Rightarrow> steps" where
  "string_strncmp_unsigned_char_cast lc = (let charEdgeValue = [CHR 0x80] in
     [check_GREATER_THAN_INT 0 (ret (strncmp lc charEdgeValue (lit [NUL]) 1)) 207,
      check_LESS_THAN_INT 0 (ret (strncmp lc (lit [NUL]) charEdgeValue 1)) 208])"

definition string_strncmp_emptyInput :: "libc_compare \<Rightarrow> (nat \<Rightarrow> string option) \<Rightarrow> steps" where
  "string_strncmp_emptyInput lc calloc =
     allocated (testdata_createCharStr calloc BUFF_SIZE) 217 (\<lambda>asciiStr.
       [check_EQUAL_INT 0 (ret (strncmp lc empty empty BUFF_SIZE)) 219] @
       with_result asciiStr 220 (\<lambda>asciiStr.
       [check_LESS_THAN_INT 0 (ret (strncmp lc empty asciiStr BUFF_SIZE)) 220,
        check_GREATER_THAN_INT 0 (ret (strncmp lc asciiStr empty BUFF_SIZE)) 221,
        check_EQUAL_INT 0 (ret (strncmp lc empty separated BUFF_SIZE)) 224]))"

definition string_strncmp_big :: "libc_compare \<Rightarrow> (nat \<Rightarrow> string option) \<Rightarrow> steps" where
  "string_strncmp_big lc calloc =
     allocated (testdata_createCharStr calloc BIG_SIZE) 235 (\<lambda>hugeStr. with_result hugeStr 237 (\<lambda>hugeStr.
       let hugeStr2 = take BIG_SIZE hugeStr;
           hugeStr' = hugeStr[BIG_SIZE - 2 := CHR 0x01];
           hugeStr2' = hugeStr2[BIG_SIZE - 2 := CHR 0x02]
       in [check_EQUAL_INT 0 (ret (strncmp lc hugeStr hugeStr BIG_SIZE)) 239,
           check_EQUAL_INT 0 (ret (strncmp lc hugeStr hugeStr2 BIG_SIZE)) 241,
           check_LESS_THAN_INT 0 (ret (strncmp lc hugeStr' hugeStr2' BIG_SIZE)) 246,
           check_GREATER_THAN_INT 0 (ret (strncmp lc hugeStr2' hugeStr' BIG_SIZE)) 247]))"

definition string_strncmp_various_sizes :: "libc_compare \<Rightarrow> (nat \<Rightarrow> string option) \<Rightarrow> steps" where
  "string_strncmp_various_sizes lc calloc =
     allocated (testdata_createCharStr calloc BUFF_SIZE) 260 (\<lambda>asciiStr. with_result asciiStr 262 (\<lambda>asciiStr.
       various_sizes_loop (strncmp lc) 265 asciiStr (take BUFF_SIZE asciiStr) [1..<BUFF_SIZE - 1]))"

definition string_strncmp_offsets :: "libc_compare \<Rightarrow> steps" where
  "string_strncmp_offsets lc = (let sz = SET_SIZE;
     dataSet = fill_loop char_of sz (fill_loop (\<lambda>_. CHR 0x01) SET_SIZE (replicate SET_SIZE NUL));
     supportSet = fill_loop char_of sz (fill_loop (\<lambda>_. CHR 0x01) SET_SIZE (replicate SET_SIZE NUL))
   in offset_loops (\<lambda>s1Offs s2Offs szOffset.
     if s2Offs < s1Offs then
       [check_GREATER_THAN_INT 0 (ret (strncmp lc (drop s1Offs dataSet) (drop s2Offs dataSet) (sz - (s1Offs + szOffset)))) 294,
        check_GREATER_THAN_INT 0 (ret (strncmp lc (drop s1Offs dataSet) (drop s2Offs supportSet) (sz - (s1Offs + szOffset)))) 295]
     else if s2Offs = s1Offs then
       [check_EQUAL_INT 0 (ret (strncmp lc (drop s1Offs dataSet) (drop s2Offs dataSet) (sz - (s1Offs + s2Offs + szOffset)))) 298,
        check_EQUAL_INT 0 (ret (strncmp lc (drop s1Offs dataSet) (drop s2Offs supportSet) (sz - (s1Offs + s2Offs + szOffset)))) 299]
     else
       [check_LESS_THAN_INT 0 (ret (strncmp lc (drop s1Offs dataSet) (drop s2Offs dataSet) (sz - (s2Offs + szOffset)))) 302,
        check_LESS_THAN_INT 0 (ret (strncmp lc (drop s1Offs dataSet) (drop s2Offs supportSet) (sz - (s2Offs + szOffset)))) 303]))"

text \<open>In the page-edge test the first page is filled with \<^verbatim>\<open>x\<close>; what follows it is what \<^verbatim>\<open>munmap\<close> left
  readable.\<close>

definition string_strncmp_no_read_past_n_at_page_edge :: "libc_compare \<Rightarrow> page_env \<Rightarrow> steps" where
  "string_strncmp_no_read_past_n_at_page_edge lc env =
     (let mapped = replicate (nat (pagesz env)) (CHR ''x'') @ guard env;
          edge = drop (nat (pagesz env) - 1) mapped;
          past = drop (nat (pagesz env)) mapped
      in [check_GREATER_THAN_INT 0 (Some (pagesz env)) 569,
          check_ASSERT_MESSAGE (MAP_FAILED \<noteq> region env) ''cannot map the guard region'' 573,
          check_EQUAL_INT 0 (ret (Some (munmap_second env))) 576,
          check_EQUAL_INT 0 (ret (strncmp lc edge (lit ''x'') 1)) 583,
          check_EQUAL_INT 0 (ret (strncasecmp lc edge (lit ''X'') 1)) 584,
          check_LESS_THAN_INT 0 (ret (strncmp lc edge (lit ''y'') 1)) 587,
          check_GREATER_THAN_INT 0 (ret (strncmp lc edge (lit ''w'') 1)) 588,
          check_EQUAL_INT 0 (ret (strncmp lc past (lit ''x'') 0)) 591,
          check_EQUAL_INT 0 (ret (strncasecmp lc past (lit ''x'') 0)) 592,
          check_EQUAL_INT 0 (ret (Some (munmap_first env))) 594])"

definition string_strncmp :: "libc_compare \<Rightarrow> (nat \<Rightarrow> string option) \<Rightarrow> page_env \<Rightarrow> test_script list" where
  "string_strncmp lc calloc env =
     [(''basic'', 193, string_strncmp_basic lc),
      (''unsigned_char_cast'', 203, string_strncmp_unsigned_char_cast lc),
      (''emptyInput'', 212, string_strncmp_emptyInput lc calloc),
      (''big'', 230, string_strncmp_big lc calloc),
      (''various_sizes'', 253, string_strncmp_various_sizes lc calloc),
      (''offsets'', 274, string_strncmp_offsets lc),
      (''no_read_past_n_at_page_edge'', 564, string_strncmp_no_read_past_n_at_page_edge lc env)]"

section \<open>Group \<^verbatim>\<open>string_strcmp\<close>\<close>

definition string_strcmp_basic :: "libc_compare \<Rightarrow> steps" where
  "string_strcmp_basic lc = (let basicStr = lit ''Test'' in
     [check_EQUAL_INT 0 (ret (strcmp lc basicStr basicStr)) 330,
      check_LESS_THAN_INT 0 (ret (strcmp lc basicStr (lit ''Tests''))) 331,
      check_GREATER_THAN_INT 0 (ret (strcmp lc (lit ''Tests'') basicStr)) 332])"

definition string_strcmp_unsigned_char_cast :: "libc_compare \<Rightarrow> steps" where
  "string_strcmp_unsigned_char_cast lc = (let charEdgeValue = [CHR 0x80] in
     [check_GREATER_THAN_INT 0 (ret (strcmp lc charEdgeValue (lit [NUL]))) 340,
      check_LESS_THAN_INT 0 (ret (strcmp lc (lit [NUL]) charEdgeValue)) 341])"

definition string_strcmp_emptyInput :: "libc_compare \<Rightarrow> (nat \<Rightarrow> string option) \<Rightarrow> steps" where
  "string_strcmp_emptyInput lc calloc =
     allocated (testdata_createCharStr calloc BUFF_SIZE) 350 (\<lambda>asciiStr. with_result asciiStr 352 (\<lambda>asciiStr.
       [check_LESS_THAN_INT 0 (ret (strcmp lc empty asciiStr)) 352,
        check_GREATER_THAN_INT 0 (ret (strcmp lc asciiStr empty)) 353,
        check_EQUAL_INT 0 (ret (strcmp lc empty empty)) 354,
        check_EQUAL_INT 0 (ret (strcmp lc empty separated)) 357]))"

definition string_strcmp_big :: "libc_compare \<Rightarrow> (nat \<Rightarrow> string option) \<Rightarrow> steps" where
  "string_strcmp_big lc calloc =
     allocated (testdata_createCharStr calloc BIG_SIZE) 368 (\<lambda>hugeStr. with_result hugeStr 370 (\<lambda>hugeStr.
       let hugeStr2 = take BIG_SIZE hugeStr;
           hugeStr' = hugeStr[BIG_SIZE - 2 := CHR 0x01];
           hugeStr2' = hugeStr2[BIG_SIZE - 2 := CHR 0x02]
       in [check_EQUAL_INT 0 (ret (strcmp lc hugeStr hugeStr)) 372,
           check_EQUAL_INT 0 (ret (strcmp lc hugeStr hugeStr2)) 374,
           check_LESS_THAN_INT 0 (ret (strcmp lc hugeStr' hugeStr2')) 379,
           check_GREATER_THAN_INT 0 (ret (strcmp lc hugeStr2' hugeStr')) 380]))"

definition string_strcmp_offsets :: "libc_compare \<Rightarrow> steps" where
  "string_strcmp_offsets lc = (let sz = SET_SIZE;
     dataSet = fill_loop char_of sz (fill_loop (\<lambda>_. CHR 0x01) SET_SIZE (replicate SET_SIZE NUL));
     supportSet = fill_loop char_of sz (fill_loop (\<lambda>_. CHR 0x01) SET_SIZE (replicate SET_SIZE NUL))
   in offset_loops (\<lambda>s1Offs s2Offs szOffset.
     if s2Offs < s1Offs then
       [check_GREATER_THAN_INT 0 (ret (strcmp lc (drop s1Offs dataSet) (drop s2Offs dataSet))) 406,
        check_GREATER_THAN_INT 0 (ret (strcmp lc (drop s1Offs dataSet) (drop s2Offs supportSet))) 407]
     else if s2Offs = s1Offs then
       [check_EQUAL_INT 0 (ret (strcmp lc (drop s1Offs dataSet) (drop s2Offs dataSet))) 410,
        check_EQUAL_INT 0 (ret (strcmp lc (drop s1Offs dataSet) (drop s2Offs supportSet))) 411]
     else
       [check_LESS_THAN_INT 0 (ret (strcmp lc (drop s1Offs dataSet) (drop s2Offs dataSet))) 414,
        check_LESS_THAN_INT 0 (ret (strcmp lc (drop s1Offs dataSet) (drop s2Offs supportSet))) 415]))"

definition string_strcmp :: "libc_compare \<Rightarrow> (nat \<Rightarrow> string option) \<Rightarrow> test_script list" where
  "string_strcmp lc calloc =
     [(''basic'', 326, string_strcmp_basic lc),
      (''unsigned_char_cast'', 336, string_strcmp_unsigned_char_cast lc),
      (''emptyInput'', 345, string_strcmp_emptyInput lc calloc),
      (''big'', 363, string_strcmp_big lc calloc),
      (''offsets'', 386, string_strcmp_offsets lc)]"

section \<open>Group \<^verbatim>\<open>string_strcoll\<close>\<close>

definition string_strcoll_basic :: "libc_compare \<Rightarrow> steps" where
  "string_strcoll_basic lc = (let basicStr = lit ''Test'' in
     [check_EQUAL_INT 0 (ret (strcmp lc basicStr basicStr)) 442,
      check_LESS_THAN_INT 0 (ret (strcmp lc basicStr (lit ''Tests''))) 443,
      check_GREATER_THAN_INT 0 (ret (strcmp lc (lit ''Tests'') basicStr)) 444])"

definition string_strcoll_emptyInput :: "libc_compare \<Rightarrow> (nat \<Rightarrow> string option) \<Rightarrow> steps" where
  "string_strcoll_emptyInput lc calloc =
     allocated (testdata_createCharStr calloc BUFF_SIZE) 453 (\<lambda>asciiStr.
       [check_EQUAL_INT 0 (ret (strcoll lc startup_locale empty empty)) 455] @
       with_result asciiStr 456 (\<lambda>asciiStr.
       [check_LESS_THAN_INT 0 (ret (strcoll lc startup_locale empty asciiStr)) 456,
        check_GREATER_THAN_INT 0 (ret (strcoll lc startup_locale asciiStr empty)) 457,
        check_EQUAL_INT 0 (ret (strcoll lc startup_locale empty separated)) 460]))"

definition string_strcoll_big :: "libc_compare \<Rightarrow> (nat \<Rightarrow> string option) \<Rightarrow> steps" where
  "string_strcoll_big lc calloc =
     allocated (testdata_createCharStr calloc BIG_SIZE) 471 (\<lambda>hugeStr. with_result hugeStr 473 (\<lambda>hugeStr.
       let hugeStr2 = take BIG_SIZE hugeStr;
           hugeStr' = hugeStr[BIG_SIZE - 2 := CHR 0x01];
           hugeStr2' = hugeStr2[BIG_SIZE - 2 := CHR 0x02]
       in [check_EQUAL_INT 0 (ret (strcoll lc startup_locale hugeStr hugeStr)) 475,
           check_EQUAL_INT 0 (ret (strcoll lc startup_locale hugeStr hugeStr2)) 477,
           check_LESS_THAN_INT 0 (ret (strcoll lc startup_locale hugeStr' hugeStr2')) 480,
           check_GREATER_THAN_INT 0 (ret (strcoll lc startup_locale hugeStr2' hugeStr')) 481]))"

definition string_strcoll_offsets :: "libc_compare \<Rightarrow> steps" where
  "string_strcoll_offsets lc = (let sz = SET_SIZE;
     dataSet = fill_loop char_of sz (fill_loop (\<lambda>_. CHR 0x01) SET_SIZE (replicate SET_SIZE NUL));
     supportSet = fill_loop char_of sz (fill_loop (\<lambda>_. CHR 0x01) SET_SIZE (replicate SET_SIZE NUL))
   in offset_loops (\<lambda>s1Offs s2Offs szOffset.
     if s2Offs < s1Offs then
       [check_GREATER_THAN_INT 0 (ret (strcoll lc startup_locale (drop s1Offs dataSet) (drop s2Offs dataSet))) 507,
        check_GREATER_THAN_INT 0 (ret (strcoll lc startup_locale (drop s1Offs dataSet) (drop s2Offs supportSet))) 508]
     else if s2Offs = s1Offs then
       [check_EQUAL_INT 0 (ret (strcoll lc startup_locale (drop s1Offs dataSet) (drop s2Offs dataSet))) 511,
        check_EQUAL_INT 0 (ret (strcoll lc startup_locale (drop s1Offs dataSet) (drop s2Offs supportSet))) 512]
     else
       [check_LESS_THAN_INT 0 (ret (strcoll lc startup_locale (drop s1Offs dataSet) (drop s2Offs dataSet))) 515,
        check_LESS_THAN_INT 0 (ret (strcoll lc startup_locale (drop s1Offs dataSet) (drop s2Offs supportSet))) 516]))"

definition string_strcoll :: "libc_compare \<Rightarrow> (nat \<Rightarrow> string option) \<Rightarrow> test_script list" where
  "string_strcoll lc calloc =
     [(''basic'', 438, string_strcoll_basic lc),
      (''emptyInput'', 448, string_strcoll_emptyInput lc calloc),
      (''big'', 466, string_strcoll_big lc calloc),
      (''offsets'', 487, string_strcoll_offsets lc)]"

section \<open>The contract of the C standard\<close>

text \<open>The sign of a comparison is the sign of the difference of the first pair of bytes that differ, read
  as unsigned characters. \<open>mem_sign\<close> compares whole blocks; \<open>str_sign n\<close> compares at most \<open>n\<close>
  characters and stops after a NUL, and is undefined when it would have to read past the end of a
  block before the comparison is decided.\<close>

definition byte_sign :: "char \<Rightarrow> char \<Rightarrow> int" where
  "byte_sign x y = sgn (of_char x - of_char y)"

fun mem_sign :: "string \<Rightarrow> string \<Rightarrow> int" where
  "mem_sign (x # s) (y # t) = (if x = y then mem_sign s t else byte_sign x y)"
| "mem_sign _ _ = 0"

fun str_sign :: "nat \<Rightarrow> string \<Rightarrow> string \<Rightarrow> int option" where
  "str_sign 0 s t = Some 0"
| "str_sign (Suc n) (x # s) (y # t) =
     (if x \<noteq> y then Some (byte_sign x y) else if x = NUL then Some 0 else str_sign n s t)"
| "str_sign (Suc n) _ _ = None"

definition unbounded_sign :: "string \<Rightarrow> string \<Rightarrow> int option" where
  "unbounded_sign s t = str_sign (Suc (length s)) s t"

definition to_lower :: "char \<Rightarrow> char" where
  "to_lower c = (if 65 \<le> (of_char c :: nat) \<and> (of_char c :: nat) \<le> 90 then char_of (of_char c + 32 :: nat) else c)"

text \<open>An array argument of a bounded function has \<open>n\<close> readable bytes or is terminated.\<close>

definition bounded_arg :: "nat \<Rightarrow> string \<Rightarrow> bool" where
  "bounded_arg n s \<longleftrightarrow> n \<le> length s \<or> NUL \<in> set s"

text \<open>The contract promises nothing about \<^verbatim>\<open>strcmp\<close> and \<^verbatim>\<open>strcoll\<close> on an array that is not a string, nor about
  \<^verbatim>\<open>strcoll\<close> in any locale but \<^verbatim>\<open>"C"\<close>, in which it compares bytes.\<close>

definition compare_conforms :: "libc_compare \<Rightarrow> bool" where
  "compare_conforms lc \<longleftrightarrow>
     (\<forall>s t n. n \<le> length s \<longrightarrow> n \<le> length t \<longrightarrow>
        result_sign (memcmp lc s t n) (mem_sign (take n s) (take n t))) \<and>
     (\<forall>s t n v. bounded_arg n s \<longrightarrow> bounded_arg n t \<longrightarrow> str_sign n s t = Some v \<longrightarrow>
        result_sign (strncmp lc s t n) v) \<and>
     (\<forall>s t v. NUL \<in> set s \<longrightarrow> NUL \<in> set t \<longrightarrow> unbounded_sign s t = Some v \<longrightarrow> result_sign (strcmp lc s t) v) \<and>
     (\<forall>s t v. NUL \<in> set s \<longrightarrow> NUL \<in> set t \<longrightarrow> unbounded_sign s t = Some v \<longrightarrow>
        result_sign (strcoll lc ''C'' s t) v) \<and>
     (\<forall>s t n v. bounded_arg n s \<longrightarrow> bounded_arg n t \<longrightarrow> str_sign n (map to_lower s) (map to_lower t) = Some v \<longrightarrow>
        result_sign (strncasecmp lc s t n) v)"

text \<open>On valid arguments the prescribed sign is always defined.\<close>

lemma str_sign_defined: "bounded_arg n s \<Longrightarrow> bounded_arg n t \<Longrightarrow> \<exists>v. str_sign n s t = Some v"
  by (induction n s t rule: str_sign.induct) (auto simp: bounded_arg_def)

text \<open>Beyond the contract: \<^verbatim>\<open>strcmp\<close> reads no further than the first difference.\<close>

definition strcmp_stops_at_difference :: "libc_compare \<Rightarrow> bool" where
  "strcmp_stops_at_difference lc \<longleftrightarrow>
     (\<forall>s t v. unbounded_sign s t = Some v \<longrightarrow> result_sign (strcmp lc s t) v)"

text \<open>The system serves the page-edge test; \<open>guard_gone\<close> is the documented effect of \<^verbatim>\<open>munmap\<close>.\<close>

definition pages_served :: "page_env \<Rightarrow> bool" where
  "pages_served env \<longleftrightarrow> 0 < pagesz env \<and> pagesz env < 2 ^ 31 \<and> region env \<noteq> MAP_FAILED \<and>
     munmap_second env = 0 \<and> munmap_first env = 0"

definition guard_gone :: "page_env \<Rightarrow> bool" where
  "guard_gone env \<longleftrightarrow> guard env = []"

text \<open>A library that computes the contract.\<close>

definition ref_compare :: libc_compare where
  "ref_compare =
     \<lparr>memcmp = (\<lambda>s t n. if n \<le> length s \<and> n \<le> length t
        then Some (word_of_int (mem_sign (take n s) (take n t))) else None),
      strncmp = (\<lambda>s t n. map_option word_of_int (str_sign n s t)),
      strcmp = (\<lambda>s t. map_option word_of_int (unbounded_sign s t)),
      strcoll = (\<lambda>loc s t. map_option word_of_int (unbounded_sign s t)),
      strncasecmp = (\<lambda>s t n. map_option word_of_int (str_sign n (map to_lower s) (map to_lower t)))\<rparr>"

lemma byte_sign_range: "byte_sign x y \<in> {-1, 0, 1}"
  by (simp add: byte_sign_def sgn_if)

lemma mem_sign_range: "mem_sign s t \<in> {-1, 0, 1}"
  by (induction s t rule: mem_sign.induct) (use byte_sign_range in auto)

lemma str_sign_range: "str_sign n s t = Some v \<Longrightarrow> v \<in> {-1, 0, 1}"
  by (induction n s t rule: str_sign.induct) (use byte_sign_range in \<open>auto split: if_splits\<close>)

lemma result_sign_word: "v \<in> {-1, 0, 1} \<Longrightarrow> result_sign (Some (word_of_int v)) v"
  by (auto simp: result_sign_def)

lemma ref_compare_conforms: "compare_conforms ref_compare"
  by (auto simp: compare_conforms_def ref_compare_def unbounded_sign_def
    intro!: result_sign_word mem_sign_range dest: str_sign_range)

section \<open>Deciding a comparison\<close>

lemma byte_sign_simps [simp]:
  "(of_char x :: nat) < of_char y \<Longrightarrow> byte_sign x y = - 1"
  "(of_char y :: nat) < of_char x \<Longrightarrow> byte_sign x y = 1"
proof -
  have e: "(of_char c :: int) = int (of_char c)" for c by (rule of_nat_of_char [symmetric])
  show "(of_char x :: nat) < of_char y \<Longrightarrow> byte_sign x y = - 1"
    "(of_char y :: nat) < of_char x \<Longrightarrow> byte_sign x y = 1"
    unfolding byte_sign_def e by simp_all
qed

lemma of_char_less_neq: "(of_char x :: nat) < of_char y \<Longrightarrow> x \<noteq> y \<and> y \<noteq> x"
  by auto

lemma mem_sign_same [simp]: "mem_sign s s = 0"
  by (induction s) auto

lemma mem_sign_at:
  assumes "k < n" "n \<le> length s" "n \<le> length t" "\<And>i. i < k \<Longrightarrow> s ! i = t ! i" "s ! k \<noteq> t ! k"
  shows "mem_sign (take n s) (take n t) = byte_sign (s ! k) (t ! k)"
  using assms
proof (induction k arbitrary: n s t)
  case 0
  then show ?case by (cases n; cases s; cases t) auto
next
  case (Suc k)
  then obtain x y s' t' n' where [simp]: "s = x # s'" "t = y # t'" "n = Suc n'"
    by (cases n; cases s; cases t) auto
  from Suc.prems(4) [of 0] have "x = y" by simp
  moreover have "mem_sign (take n' s') (take n' t') = byte_sign (s' ! k) (t' ! k)"
    using Suc.prems Suc.prems(4) [of "Suc _"] by (intro Suc.IH) auto
  ultimately show ?case by simp
qed

lemma str_sign_same: "n \<le> length s \<or> NUL \<in> set s \<Longrightarrow> str_sign n s s = Some 0"
proof (induction s arbitrary: n)
  case Nil
  then show ?case by simp
next
  case (Cons x s)
  then show ?case by (cases n) auto
qed

lemma unbounded_sign_same: "NUL \<in> set s \<Longrightarrow> unbounded_sign s s = Some 0"
  by (simp add: unbounded_sign_def str_sign_same del: str_sign.simps)

lemma str_sign_at:
  assumes "k < n" "k < length s" "k < length t" "\<And>i. i < k \<Longrightarrow> s ! i = t ! i \<and> t ! i \<noteq> NUL" "s ! k \<noteq> t ! k"
  shows "str_sign n s t = Some (byte_sign (s ! k) (t ! k))"
  using assms
proof (induction k arbitrary: n s t)
  case 0
  then show ?case by (cases n; cases s; cases t) auto
next
  case (Suc k)
  then obtain x y s' t' n' where [simp]: "s = x # s'" "t = y # t'" "n = Suc n'"
    by (cases n; cases s; cases t) auto
  from Suc.prems(4) [of 0] have "x = y" "x \<noteq> NUL" by auto
  moreover have "str_sign n' s' t' = Some (byte_sign (s' ! k) (t' ! k))"
    using Suc.prems Suc.prems(4) [of "Suc _"] by (intro Suc.IH) auto
  ultimately show ?case by simp
qed

lemma unbounded_sign_at:
  assumes "k < length s" "k < length t" "\<And>i. i < k \<Longrightarrow> s ! i = t ! i \<and> t ! i \<noteq> NUL" "s ! k \<noteq> t ! k"
  shows "unbounded_sign s t = Some (byte_sign (s ! k) (t ! k))"
  unfolding unbounded_sign_def by (rule str_sign_at) (use assms in auto)

section \<open>Interfaces of the comparison functions\<close>

locale block_compare =
  fixes cmp :: "string \<Rightarrow> string \<Rightarrow> nat \<Rightarrow> c_int option"
  assumes sign: "n \<le> length s \<Longrightarrow> n \<le> length t \<Longrightarrow> result_sign (cmp s t n) (mem_sign (take n s) (take n t))"
begin

lemma equal: "n \<le> length s \<Longrightarrow> result_sign (cmp s s n) 0"
  using sign [of n s s] by simp

lemma less:
  assumes "k < n" "n \<le> length s" "n \<le> length t" "\<And>i. i < k \<Longrightarrow> s ! i = t ! i"
    "(of_char (s ! k) :: nat) < of_char (t ! k)"
  shows "result_sign (cmp s t n) (- 1)"
proof -
  have "s ! k \<noteq> t ! k" using assms(5) by auto
  with assms have "mem_sign (take n s) (take n t) = - 1" by (simp add: mem_sign_at)
  then show ?thesis using sign [of n s t] assms by simp
qed

lemma greater:
  assumes "k < n" "n \<le> length s" "n \<le> length t" "\<And>i. i < k \<Longrightarrow> s ! i = t ! i"
    "(of_char (t ! k) :: nat) < of_char (s ! k)"
  shows "result_sign (cmp s t n) 1"
proof -
  have "s ! k \<noteq> t ! k" using assms(5) by auto
  with assms have "mem_sign (take n s) (take n t) = 1" by (simp add: mem_sign_at)
  then show ?thesis using sign [of n s t] assms by simp
qed

end

locale bounded_compare =
  fixes cmp :: "string \<Rightarrow> string \<Rightarrow> nat \<Rightarrow> c_int option"
  assumes sign: "bounded_arg n s \<Longrightarrow> bounded_arg n t \<Longrightarrow> str_sign n s t = Some v \<Longrightarrow> result_sign (cmp s t n) v"
begin

lemma equal: "bounded_arg n s \<Longrightarrow> result_sign (cmp s s n) 0"
  by (rule sign) (simp_all add: str_sign_same bounded_arg_def)

lemma less:
  assumes "k < n" "k < length s" "k < length t" "\<And>i. i < k \<Longrightarrow> s ! i = t ! i \<and> t ! i \<noteq> NUL"
    "(of_char (s ! k) :: nat) < of_char (t ! k)" "bounded_arg n s" "bounded_arg n t"
  shows "result_sign (cmp s t n) (- 1)"
  using str_sign_at [of k n s t] assms of_char_less_neq by (intro sign) auto

lemma greater:
  assumes "k < n" "k < length s" "k < length t" "\<And>i. i < k \<Longrightarrow> s ! i = t ! i \<and> t ! i \<noteq> NUL"
    "(of_char (t ! k) :: nat) < of_char (s ! k)" "bounded_arg n s" "bounded_arg n t"
  shows "result_sign (cmp s t n) 1"
  using str_sign_at [of k n s t] assms of_char_less_neq by (intro sign) auto

end

locale string_compare =
  fixes cmp :: "string \<Rightarrow> string \<Rightarrow> c_int option"
  assumes sign: "NUL \<in> set s \<Longrightarrow> NUL \<in> set t \<Longrightarrow> unbounded_sign s t = Some v \<Longrightarrow> result_sign (cmp s t) v"
begin

lemma equal: "NUL \<in> set s \<Longrightarrow> result_sign (cmp s s) 0"
  by (rule sign) (simp_all add: unbounded_sign_same)

lemma less:
  assumes "k < length s" "k < length t" "\<And>i. i < k \<Longrightarrow> s ! i = t ! i \<and> t ! i \<noteq> NUL"
    "(of_char (s ! k) :: nat) < of_char (t ! k)" "NUL \<in> set s" "NUL \<in> set t"
  shows "result_sign (cmp s t) (- 1)"
  using unbounded_sign_at [of k s t] assms of_char_less_neq by (intro sign) auto

lemma greater:
  assumes "k < length s" "k < length t" "\<And>i. i < k \<Longrightarrow> s ! i = t ! i \<and> t ! i \<noteq> NUL"
    "(of_char (t ! k) :: nat) < of_char (s ! k)" "NUL \<in> set s" "NUL \<in> set t"
  shows "result_sign (cmp s t) 1"
  using unbounded_sign_at [of k s t] assms of_char_less_neq by (intro sign) auto

end

lemma conforming_interfaces:
  assumes "compare_conforms lc"
  shows "block_compare (memcmp lc)" "bounded_compare (strncmp lc)" "string_compare (strcmp lc)"
    "string_compare (strcoll lc startup_locale)"
  using assms by (auto simp: compare_conforms_def block_compare_def bounded_compare_def string_compare_def startup_locale_def)

interpretation ref_memcmp: block_compare "memcmp ref_compare"
  by (rule conforming_interfaces [OF ref_compare_conforms])

interpretation ref_strncmp: bounded_compare "strncmp ref_compare"
  by (rule conforming_interfaces [OF ref_compare_conforms])

interpretation ref_strcmp: string_compare "strcmp ref_compare"
  by (rule conforming_interfaces [OF ref_compare_conforms])

interpretation ref_strcoll: string_compare "strcoll ref_compare startup_locale"
  by (rule conforming_interfaces [OF ref_compare_conforms])

section \<open>The data of the tests, byte by byte\<close>

lemma sizes: "0 < BUFF_SIZE" "1 < BUFF_SIZE" "2 < BUFF_SIZE" "BUFF_SIZE \<le> 4096" "1 < BIG_SIZE" "2 < BIG_SIZE" "0 < BIG_SIZE"
  "BIG_SIZE \<le> 4096" "SET_SIZE = 4000" "BUFF_SIZE = 129"
  by (simp_all add: BUFF_SIZE_def BIG_SIZE_def SET_SIZE_def)

lemma offset_loops_passes:
  "script_passes m (offset_loops body) \<longleftrightarrow>
     (\<forall>s1Offs < 8. \<forall>s2Offs < 8. \<forall>szOffset < 8. script_passes m (body s1Offs s2Offs szOffset))"
  by (auto simp: offset_loops_def)

lemma empty_nth [simp]: "i < BUFF_SIZE \<Longrightarrow> empty ! i = NUL" "length empty = BUFF_SIZE" "NUL \<in> set empty"
  by (simp_all add: empty_def sizes)

lemma data_set [simp]:
  "fill_loop char_of SET_SIZE (replicate SET_SIZE NUL) = map char_of [0..<SET_SIZE]"
  "fill_loop char_of SET_SIZE (fill_loop (\<lambda>_. CHR 0x01) SET_SIZE (replicate SET_SIZE NUL)) = map char_of [0..<SET_SIZE]"
  by (simp_all add: fill_loop_eq)

lemma data_set_drop:
  assumes "k < 8"
  shows "length (drop k (map char_of [0..<SET_SIZE])) = SET_SIZE - k"
    "(of_char (drop k (map char_of [0..<SET_SIZE]) ! 0 :: char) :: nat) = k"
    "NUL \<in> set (drop k (map char_of [0..<SET_SIZE]))"
proof -
  show "length (drop k (map char_of [0..<SET_SIZE])) = SET_SIZE - k" by simp
  show "(of_char (drop k (map char_of [0..<SET_SIZE]) ! 0 :: char) :: nat) = k"
    using assms by (simp add: sizes)
  have "drop k (map char_of [0..<SET_SIZE]) ! (256 - k) = NUL"
    using assms by (simp add: sizes char_of_NUL_iff)
  moreover have "256 - k < length (drop k (map char_of [0..<SET_SIZE]) :: string)"
    using assms by (simp add: sizes)
  ultimately show "NUL \<in> set (drop k (map char_of [0..<SET_SIZE]))" by (metis nth_mem)
qed

lemma big_strings:
  "take BIG_SIZE (char_str BIG_SIZE) = char_str BIG_SIZE"
  "i < BIG_SIZE - 2 \<Longrightarrow> (char_str BIG_SIZE)[BIG_SIZE - 2 := x] ! i = (char_str BIG_SIZE)[BIG_SIZE - 2 := y] ! i \<and>
     (char_str BIG_SIZE)[BIG_SIZE - 2 := y] ! i \<noteq> NUL"
  "(char_str BIG_SIZE)[BIG_SIZE - 2 := x] ! (BIG_SIZE - 2) = x"
  "BIG_SIZE - 2 < BIG_SIZE" "length (char_str BIG_SIZE) = BIG_SIZE"
  "NUL \<in> set ((char_str BIG_SIZE)[BIG_SIZE - 2 := x])"
proof -
  have "(char_str BIG_SIZE)[BIG_SIZE - 2 := x] ! (BIG_SIZE - 1) = NUL"
    using char_str_nth(3) [OF sizes(7)] by (subst nth_list_update_neq) (simp_all add: BIG_SIZE_def)
  then show "NUL \<in> set ((char_str BIG_SIZE)[BIG_SIZE - 2 := x])"
    by (metis nth_mem length_list_update char_str_nth(1) sizes(7) diff_less zero_less_one)
qed (simp_all add: sizes)

lemma separated_eq: "separated = replicate 5 NUL @ ''TEST'' @ replicate 3 NUL"
  by (simp add: separated_def lit_def numeral_eq_Suc)

lemma basic_signs:
  "mem_sign (take 5 (lit ''Test'')) (take 5 (lit ''Tests'')) = - 1"
  "mem_sign (take 5 (lit ''Tests'')) (take 5 (lit ''Test'')) = 1"
  "str_sign 6 (lit ''Test'') (lit ''Test'') = Some 0"
  "str_sign 6 (lit ''Test'') (lit ''Tests'') = Some (- 1)"
  "str_sign 6 (lit ''Tests'') (lit ''Test'') = Some 1"
  "unbounded_sign (lit ''Test'') (lit ''Test'') = Some 0"
  "unbounded_sign (lit ''Test'') (lit ''Tests'') = Some (- 1)"
  "unbounded_sign (lit ''Tests'') (lit ''Test'') = Some 1"
  by code_simp+

lemma edge_signs:
  "mem_sign (take 1 [CHR 0x80]) (take 1 (lit [NUL])) = 1" "mem_sign (take 1 (lit [NUL])) (take 1 [CHR 0x80]) = - 1"
  "str_sign 1 [CHR 0x80] (lit [NUL]) = Some 1" "str_sign 1 (lit [NUL]) [CHR 0x80] = Some (- 1)"
  "unbounded_sign [CHR 0x80] (lit [NUL]) = Some 1" "unbounded_sign (lit [NUL]) [CHR 0x80] = Some (- 1)"
  by code_simp+

lemma string_memcmp_basic_passes:
  assumes "compare_conforms lc"
  shows "script_passes m (string_memcmp_basic lc)"
  using block_compare.sign [OF conforming_interfaces(1) [OF assms], of 5 "lit ''Test''" "lit ''Test''"]
    block_compare.sign [OF conforming_interfaces(1) [OF assms], of 5 "lit ''Test''" "lit ''Tests''"]
    block_compare.sign [OF conforming_interfaces(1) [OF assms], of 5 "lit ''Tests''" "lit ''Test''"]
  by (simp add: string_memcmp_basic_def Let_def basic_signs) (simp add: lit_def)

lemma string_memcmp_unsigned_char_cast_passes:
  assumes "compare_conforms lc"
  shows "script_passes m (string_memcmp_unsigned_char_cast lc)"
  using block_compare.sign [OF conforming_interfaces(1) [OF assms], of 1 "lit [NUL]" "[CHR 0x80]", unfolded edge_signs]
    block_compare.sign [OF conforming_interfaces(1) [OF assms], of 1 "[CHR 0x80]" "lit [NUL]", unfolded edge_signs]
  by (simp add: string_memcmp_unsigned_char_cast_def Let_def lit_def)

lemma string_memcmp_emptyInput_passes:
  assumes lc: "compare_conforms lc" and alloc: "calloc_serves calloc"
  shows "script_passes m (string_memcmp_emptyInput lc calloc)"
proof -
  note c = conforming_interfaces(1) [OF lc]
  define s where "s = (char_str BUFF_SIZE)[0 := NUL]"
  have s: "length s = BUFF_SIZE" "s ! 0 = NUL" "(of_char (s ! 1) :: nat) = 1"
    by (simp_all add: s_def sizes of_char_str_at)
  have "result_sign (memcmp lc empty s BUFF_SIZE) (- 1)"
    by (rule block_compare.less [OF c, of 1]) (use s in \<open>simp_all add: sizes\<close>)
  moreover have "result_sign (memcmp lc s empty BUFF_SIZE) 1"
    by (rule block_compare.greater [OF c, of 1]) (use s in \<open>simp_all add: sizes\<close>)
  moreover have "result_sign (memcmp lc empty empty BUFF_SIZE) 0"
    by (rule block_compare.equal [OF c]) simp
  moreover have "result_sign (memcmp lc empty separated (length separated)) (- 1)"
    by (rule block_compare.less [OF c, of 5]) (simp_all add: separated_eq sizes nth_append)
  ultimately show ?thesis
    by (simp add: string_memcmp_emptyInput_def Let_def allocated_passes [OF alloc] sizes s_def)
qed

lemma string_memcmp_big_passes:
  assumes lc: "compare_conforms lc" and alloc: "calloc_serves calloc"
  shows "script_passes m (string_memcmp_big lc calloc)"
proof -
  note c = conforming_interfaces(1) [OF lc] and at = big_strings
  let ?a = "(char_str BIG_SIZE)[BIG_SIZE - 2 := CHR 0x01]" and ?b = "(char_str BIG_SIZE)[BIG_SIZE - 2 := CHR 0x02]"
  have "result_sign (memcmp lc (char_str BIG_SIZE) (char_str BIG_SIZE) BIG_SIZE) 0"
    by (rule block_compare.equal [OF c]) (simp add: at)
  moreover have "result_sign (memcmp lc ?a ?b BIG_SIZE) (- 1)"
    by (rule block_compare.less [OF c, of "BIG_SIZE - 2"]) (use at in \<open>auto simp del: nth_list_update_neq\<close>)
  moreover have "result_sign (memcmp lc ?b ?a BIG_SIZE) 1"
    by (rule block_compare.greater [OF c, of "BIG_SIZE - 2"]) (use at in \<open>auto simp del: nth_list_update_neq\<close>)
  ultimately show ?thesis
    by (simp add: string_memcmp_big_def Let_def allocated_passes [OF alloc] sizes big_strings)
qed

lemma string_memcmp_offsets_passes:
  assumes lc: "compare_conforms lc"
  shows "script_passes m (string_memcmp_offsets lc)"
proof -
  note c = conforming_interfaces(1) [OF lc]
  let ?d = "\<lambda>k. drop k (map char_of [0..<SET_SIZE]) :: string"
  have "result_sign (memcmp lc (?d s1) (?d s2) (SET_SIZE - (s1 + z))) 1" if "s2 < s1" "s1 < 8" "s2 < 8" "z < 8" for s1 s2 z
    by (rule block_compare.greater [OF c, of 0]) (use that data_set_drop in \<open>simp_all add: sizes\<close>)
  moreover have "result_sign (memcmp lc (?d s1) (?d s1) (SET_SIZE - (s1 + s1 + z))) 0" if "s1 < 8" "z < 8" for s1 z
    by (rule block_compare.equal [OF c]) (use that in \<open>simp add: sizes\<close>)
  moreover have "result_sign (memcmp lc (?d s1) (?d s2) (SET_SIZE - (s2 + z))) (- 1)" if "s1 < s2" "s1 < 8" "s2 < 8" "z < 8" for s1 s2 z
    by (rule block_compare.less [OF c, of 0]) (use that data_set_drop in \<open>simp_all add: sizes\<close>)
  ultimately show ?thesis
    by (simp add: string_memcmp_offsets_def Let_def offset_loops_passes)
qed

text \<open>The character that the \<^verbatim>\<open>various_sizes\<close> loop decrements is not NUL, so it gets smaller.\<close>

lemma of_char_pred: "c \<noteq> NUL \<Longrightarrow> (of_char (char_of (of_char c - 1 :: int) :: char) :: nat) < of_char c"
proof -
  assume c: "c \<noteq> NUL"
  define n where "n = (of_char c :: nat)"
  have "c = char_of n" by (simp add: n_def)
  with c have "n \<noteq> 0" by (auto simp: char_of_NUL_iff)
  moreover have "n < 256" unfolding n_def by (rule nat_of_char_less_256)
  moreover have "(of_char c - 1 :: int) = of_nat (n - 1)"
    using \<open>n \<noteq> 0\<close> of_nat_of_char [of c, where ?'a=int] by (simp add: n_def of_nat_diff)
  ultimately show ?thesis by (simp add: char_of_nat n_def [symmetric] del: of_nat_diff)
qed

lemma various_sizes_loop_passes:
  assumes eq: "\<And>i x. 0 < i \<Longrightarrow> i < length s - 1 \<Longrightarrow> result_sign (cmp s (s[i := x]) i) 0"
    and gt: "\<And>i x. 0 < i \<Longrightarrow> i < length s - 1 \<Longrightarrow> (of_char x :: nat) < of_char (s ! i) \<Longrightarrow> result_sign (cmp s (s[i := x]) (i + 1)) 1"
    and nz: "\<And>i. i < length s - 1 \<Longrightarrow> s ! i \<noteq> NUL" and "\<forall>i\<in>set is. 0 < i \<and> i < length s - 1"
  shows "script_passes m (various_sizes_loop cmp line s s is)"
  using assms(4)
proof (induction "is")
  case (Cons i "is")
  then have "0 < i" "i < length s - 1" by auto
  with Cons nz [of i] show ?case
    using eq [of i] gt [of i] of_char_pred [of "s ! i"] by (simp add: Let_def)
qed simp

lemma string_memcmp_various_sizes_passes:
  assumes lc: "compare_conforms lc" and alloc: "calloc_serves calloc"
  shows "script_passes m (string_memcmp_various_sizes lc calloc)"
proof -
  note c = conforming_interfaces(1) [OF lc]
  let ?s = "char_str BUFF_SIZE"
  have len: "length ?s = BUFF_SIZE" by (simp add: sizes)
  have "script_passes m (various_sizes_loop (memcmp lc) 134 ?s ?s [1..<BUFF_SIZE - 1])"
  proof (rule various_sizes_loop_passes)
    fix i x assume i: "0 < i" "i < length ?s - 1"
    have "mem_sign (take i ?s) (take i (?s[i := x])) = 0" by simp
    then show "result_sign (memcmp lc ?s (?s[i := x]) i) 0"
      using block_compare.sign [OF c, of i ?s "?s[i := x]"] i by simp
  next
    fix i x assume "0 < i" "i < length ?s - 1" "(of_char x :: nat) < of_char (?s ! i)"
    then show "result_sign (memcmp lc ?s (?s[i := x]) (i + 1)) 1"
      by (intro block_compare.greater [OF c, of i]) simp_all
  qed (simp_all add: len)
  then show ?thesis
    by (simp add: string_memcmp_various_sizes_def allocated_passes [OF alloc] sizes(4) len)
qed

text \<open>The comparisons of the string functions on the data of their tests.\<close>

context bounded_compare
begin

lemma empty_signs:
  "result_sign (cmp empty empty BUFF_SIZE) 0"
  "result_sign (cmp empty (char_str BUFF_SIZE) BUFF_SIZE) (- 1)"
  "result_sign (cmp (char_str BUFF_SIZE) empty BUFF_SIZE) 1"
  "result_sign (cmp empty separated BUFF_SIZE) 0"
proof -
  show "result_sign (cmp empty empty BUFF_SIZE) 0" by (rule equal) (simp add: bounded_arg_def)
  show "result_sign (cmp empty (char_str BUFF_SIZE) BUFF_SIZE) (- 1)"
    by (rule less [of 0]) (simp_all add: sizes of_char_str_at bounded_arg_def)
  show "result_sign (cmp (char_str BUFF_SIZE) empty BUFF_SIZE) 1"
    by (rule greater [of 0]) (simp_all add: sizes of_char_str_at bounded_arg_def)
  show "result_sign (cmp empty separated BUFF_SIZE) 0"
    by (rule sign) (simp_all add: bounded_arg_def, simp_all add: empty_def separated_eq BUFF_SIZE_def numeral_eq_Suc)
qed

lemma big_signs:
  defines "a \<equiv> (char_str BIG_SIZE)[BIG_SIZE - 2 := CHR 0x01]" and "b \<equiv> (char_str BIG_SIZE)[BIG_SIZE - 2 := CHR 0x02]"
  shows "result_sign (cmp (char_str BIG_SIZE) (char_str BIG_SIZE) BIG_SIZE) 0"
    "result_sign (cmp a b BIG_SIZE) (- 1)" "result_sign (cmp b a BIG_SIZE) 1"
proof -
  note at = big_strings
  show "result_sign (cmp (char_str BIG_SIZE) (char_str BIG_SIZE) BIG_SIZE) 0"
    by (rule equal) (simp add: at bounded_arg_def)
  show "result_sign (cmp a b BIG_SIZE) (- 1)" unfolding a_def b_def
    by (rule less [of "BIG_SIZE - 2"]) (use at in \<open>auto simp: bounded_arg_def simp del: nth_list_update_neq\<close>)
  show "result_sign (cmp b a BIG_SIZE) 1" unfolding a_def b_def
    by (rule greater [of "BIG_SIZE - 2"]) (use at in \<open>auto simp: bounded_arg_def simp del: nth_list_update_neq\<close>)
qed

lemma offset_signs:
  defines "d \<equiv> \<lambda>k. drop k (map char_of [0..<SET_SIZE]) :: string"
  assumes "s1 < 8" "s2 < 8" "z < 8"
  shows "s2 < s1 \<Longrightarrow> result_sign (cmp (d s1) (d s2) (SET_SIZE - (s1 + z))) 1"
    "result_sign (cmp (d s1) (d s1) n) 0"
    "s1 < s2 \<Longrightarrow> result_sign (cmp (d s1) (d s2) (SET_SIZE - (s2 + z))) (- 1)"
proof -
  show "result_sign (cmp (d s1) (d s1) n) 0"
    unfolding d_def by (rule equal) (use data_set_drop(3) [OF assms(2)] in \<open>simp add: bounded_arg_def\<close>)
  show "result_sign (cmp (d s1) (d s2) (SET_SIZE - (s1 + z))) 1" if "s2 < s1"
    unfolding d_def by (rule greater [of 0]) (use that assms(2-) data_set_drop in \<open>simp_all add: sizes bounded_arg_def\<close>)
  show "result_sign (cmp (d s1) (d s2) (SET_SIZE - (s2 + z))) (- 1)" if "s1 < s2"
    unfolding d_def by (rule less [of 0]) (use that assms(2-) data_set_drop in \<open>simp_all add: sizes bounded_arg_def\<close>)
qed

end

context string_compare
begin

lemma empty_signs:
  "result_sign (cmp empty empty) 0"
  "result_sign (cmp empty (char_str BUFF_SIZE)) (- 1)"
  "result_sign (cmp (char_str BUFF_SIZE) empty) 1"
  "result_sign (cmp empty separated) 0"
proof -
  show "result_sign (cmp empty empty) 0" by (rule equal) simp
  show "result_sign (cmp empty (char_str BUFF_SIZE)) (- 1)"
    by (rule less [of 0]) (simp_all add: sizes of_char_str_at)
  show "result_sign (cmp (char_str BUFF_SIZE) empty) 1"
    by (rule greater [of 0]) (simp_all add: sizes of_char_str_at)
  show "result_sign (cmp empty separated) 0"
    by (rule sign) (simp, simp add: separated_eq, simp add: unbounded_sign_def empty_def separated_eq BUFF_SIZE_def numeral_eq_Suc)
qed

lemma big_signs:
  defines "a \<equiv> (char_str BIG_SIZE)[BIG_SIZE - 2 := CHR 0x01]" and "b \<equiv> (char_str BIG_SIZE)[BIG_SIZE - 2 := CHR 0x02]"
  shows "result_sign (cmp (char_str BIG_SIZE) (char_str BIG_SIZE)) 0"
    "result_sign (cmp a b) (- 1)" "result_sign (cmp b a) 1"
proof -
  note at = big_strings
  show "result_sign (cmp (char_str BIG_SIZE) (char_str BIG_SIZE)) 0"
    by (rule equal) (simp add: sizes)
  show "result_sign (cmp a b) (- 1)" unfolding a_def b_def
    by (rule less [of "BIG_SIZE - 2"]) (use at in \<open>auto simp del: nth_list_update_neq\<close>)
  show "result_sign (cmp b a) 1" unfolding a_def b_def
    by (rule greater [of "BIG_SIZE - 2"]) (use at in \<open>auto simp del: nth_list_update_neq\<close>)
qed

lemma offset_signs:
  defines "d \<equiv> \<lambda>k. drop k (map char_of [0..<SET_SIZE]) :: string"
  assumes "s1 < 8" "s2 < 8"
  shows "s2 < s1 \<Longrightarrow> result_sign (cmp (d s1) (d s2)) 1" "result_sign (cmp (d s1) (d s1)) 0"
    "s1 < s2 \<Longrightarrow> result_sign (cmp (d s1) (d s2)) (- 1)"
proof -
  show "result_sign (cmp (d s1) (d s1)) 0"
    unfolding d_def by (rule equal) (rule data_set_drop(3) [OF assms(2)])
  show "result_sign (cmp (d s1) (d s2)) 1" if "s2 < s1"
    unfolding d_def by (rule greater [of 0]) (use that assms(2-) data_set_drop in \<open>simp_all add: sizes\<close>)
  show "result_sign (cmp (d s1) (d s2)) (- 1)" if "s1 < s2"
    unfolding d_def by (rule less [of 0]) (use that assms(2-) data_set_drop in \<open>simp_all add: sizes\<close>)
qed

end

section \<open>The string groups pass on a conforming library\<close>

lemma string_strncmp_various_sizes_passes:
  assumes lc: "compare_conforms lc" and alloc: "calloc_serves calloc"
  shows "script_passes m (string_strncmp_various_sizes lc calloc)"
proof -
  note c = conforming_interfaces(2) [OF lc]
  let ?s = "char_str BUFF_SIZE"
  have len: "length ?s = BUFF_SIZE" by (simp add: sizes)
  have nz: "?s ! j \<noteq> NUL" if "j < BUFF_SIZE - 1" for j using that by simp
  have eq: "str_sign n s t = Some 0" if "n \<le> length s" "n \<le> length t" "\<forall>j<n. s ! j = t ! j" for n s t
    using that
  proof (induction n s t rule: str_sign.induct)
    case (2 n x s y t)
    from 2(4) [rule_format, of 0] 2(4) [rule_format, of "Suc _"] 2 show ?case by auto
  qed auto
  have "script_passes m (various_sizes_loop (strncmp lc) 265 ?s ?s [1..<BUFF_SIZE - 1])"
  proof (rule various_sizes_loop_passes)
    fix i x assume "0 < i" "i < length ?s - 1"
    then show "result_sign (strncmp lc ?s (?s[i := x]) i) 0"
      by (intro bounded_compare.sign [OF c] eq) (auto simp: bounded_arg_def)
  next
    fix i x assume "0 < i" "i < length ?s - 1" "(of_char x :: nat) < of_char (?s ! i)"
    then show "result_sign (strncmp lc ?s (?s[i := x]) (i + 1)) 1"
      by (intro bounded_compare.greater [OF c, of i]) (auto simp: len bounded_arg_def)
  qed (simp_all add: len)
  then show ?thesis
    by (simp add: string_strncmp_various_sizes_def allocated_passes [OF alloc] sizes(4) len)
qed

lemma page_steps:
  assumes env: "pages_served env"
  shows "step_holds m (check_GREATER_THAN_INT 0 (Some (pagesz env)) line)"
    "drop (nat (pagesz env) - 1) (replicate (nat (pagesz env)) x @ rest) = x # rest"
    "drop (nat (pagesz env)) (replicate (nat (pagesz env)) x @ rest) = rest" "MAP_FAILED \<noteq> region env"
    "munmap_second env = 0" "munmap_first env = 0" "result_sign (Some 0) 0"
proof -
  have "pagesz env = sint (word_of_int (pagesz env) :: c_int)"
    using env by (simp add: pages_served_def sint_word_of_int_fits)
  then show "step_holds m (check_GREATER_THAN_INT 0 (Some (pagesz env)) line)"
    using env step_holds_sign(3) [of m "Some (word_of_int (pagesz env))" line]
    by (simp add: result_sign_def pages_served_def)
  have "0 < nat (pagesz env)" using env by (simp add: pages_served_def)
  then have "nat (pagesz env) - (nat (pagesz env) - 1) = 1" by linarith
  then show "drop (nat (pagesz env) - 1) (replicate (nat (pagesz env)) x @ rest) = x # rest" by simp
qed (use env in \<open>auto simp: pages_served_def result_sign_def\<close>)

text \<open>The calls of the page-edge test, for whatever follows the last byte of the page.\<close>

lemma page_edge_signs:
  assumes lc: "compare_conforms lc"
  shows "result_sign (strncmp lc (CHR ''x'' # rest) (lit ''x'') 1) 0"
    "result_sign (strncasecmp lc (CHR ''x'' # rest) (lit ''X'') 1) 0"
    "result_sign (strncmp lc (CHR ''x'' # rest) (lit ''y'') 1) (- 1)"
    "result_sign (strncmp lc (CHR ''x'' # rest) (lit ''w'') 1) 1"
    "result_sign (strncmp lc rest (lit ''x'') 0) 0" "result_sign (strncasecmp lc rest (lit ''x'') 0) 0"
proof -
  note c = bounded_compare.sign [OF conforming_interfaces(2) [OF lc]]
  have cc: "bounded_arg n s \<Longrightarrow> bounded_arg n t \<Longrightarrow> str_sign n (map to_lower s) (map to_lower t) = Some v \<Longrightarrow>
      result_sign (strncasecmp lc s t n) v" for s t n v
    using lc by (auto simp: compare_conforms_def)
  have b: "bounded_arg 1 (x # s)" "bounded_arg 0 s" for x s by (simp_all add: bounded_arg_def)
  have "to_lower (CHR ''x'') = CHR ''x''" "to_lower (CHR ''X'') = CHR ''x''"
    "byte_sign (CHR ''x'') (CHR ''y'') = - 1" "byte_sign (CHR ''x'') (CHR ''w'') = 1"
    by code_simp+
  then have "str_sign 1 (CHR ''x'' # rest) (lit ''x'') = Some 0"
    "str_sign 1 (map to_lower (CHR ''x'' # rest)) (map to_lower (lit ''X'')) = Some 0"
    "str_sign 1 (CHR ''x'' # rest) (lit ''y'') = Some (- 1)" "str_sign 1 (CHR ''x'' # rest) (lit ''w'') = Some 1"
    by (simp_all add: lit_def)
  then show "result_sign (strncmp lc (CHR ''x'' # rest) (lit ''x'') 1) 0"
    "result_sign (strncasecmp lc (CHR ''x'' # rest) (lit ''X'') 1) 0"
    "result_sign (strncmp lc (CHR ''x'' # rest) (lit ''y'') 1) (- 1)"
    "result_sign (strncmp lc (CHR ''x'' # rest) (lit ''w'') 1) 1"
    "result_sign (strncmp lc rest (lit ''x'') 0) 0" "result_sign (strncasecmp lc rest (lit ''x'') 0) 0"
    by (auto intro!: c cc b simp: lit_def simp del: One_nat_def)
qed

lemma page_edge_passes:
  assumes lc: "compare_conforms lc" and env: "pages_served env"
  shows "script_passes m (string_strncmp_no_read_past_n_at_page_edge lc env)"
  unfolding string_strncmp_no_read_past_n_at_page_edge_def Let_def page_steps(2,3) [OF env]
  using page_steps(1,4-7) [OF env] page_edge_signs [OF lc] by (simp del: One_nat_def)

lemma terminated_texts: "NUL \<in> set (lit s)" "bounded_arg n (lit s)"
  by (simp_all add: lit_def bounded_arg_def)

lemma plain_strncmp_passes:
  assumes lc: "compare_conforms lc"
  shows "script_passes m (string_strncmp_basic lc)" "script_passes m (string_strncmp_unsigned_char_cast lc)"
    "script_passes m (string_strncmp_offsets lc)"
proof -
  note c = conforming_interfaces(2) [OF lc]
  note s = bounded_compare.sign [OF c]
  have "bounded_arg 1 [CHR 0x80]" by (simp add: bounded_arg_def)
  then show "script_passes m (string_strncmp_unsigned_char_cast lc)"
    using edge_signs s terminated_texts by (simp add: string_strncmp_unsigned_char_cast_def Let_def del: One_nat_def)
  show "script_passes m (string_strncmp_basic lc)"
    using basic_signs s terminated_texts by (simp add: string_strncmp_basic_def Let_def)
  show "script_passes m (string_strncmp_offsets lc)"
    by (simp add: string_strncmp_offsets_def Let_def offset_loops_passes bounded_compare.offset_signs [OF c])
qed

lemma allocating_strncmp_passes:
  assumes lc: "compare_conforms lc" and alloc: "calloc_serves calloc"
  shows "script_passes m (string_strncmp_emptyInput lc calloc)" "script_passes m (string_strncmp_big lc calloc)"
proof -
  note c = conforming_interfaces(2) [OF lc] and a = allocated_passes [OF alloc]
  show "script_passes m (string_strncmp_emptyInput lc calloc)"
    by (simp add: string_strncmp_emptyInput_def a sizes(4) bounded_compare.empty_signs [OF c])
  show "script_passes m (string_strncmp_big lc calloc)"
    by (simp add: string_strncmp_big_def Let_def a sizes(8) big_strings(1) bounded_compare.big_signs [OF c])
qed

lemma plain_strcmp_passes:
  assumes lc: "compare_conforms lc"
  shows "script_passes m (string_strcmp_basic lc)" "script_passes m (string_strcmp_offsets lc)"
    "script_passes m (string_strcoll_basic lc)" "script_passes m (string_strcoll_offsets lc)"
proof -
  note c = conforming_interfaces(3) [OF lc] and c' = conforming_interfaces(4) [OF lc]
  show "script_passes m (string_strcmp_basic lc)" "script_passes m (string_strcoll_basic lc)"
    using basic_signs string_compare.sign [OF c] terminated_texts(1)
    by (simp_all add: string_strcmp_basic_def string_strcoll_basic_def Let_def)
  show "script_passes m (string_strcmp_offsets lc)"
    by (simp add: string_strcmp_offsets_def Let_def offset_loops_passes string_compare.offset_signs [OF c])
  show "script_passes m (string_strcoll_offsets lc)"
    by (simp add: string_strcoll_offsets_def Let_def offset_loops_passes string_compare.offset_signs [OF c'])
qed

lemma allocating_strcmp_passes:
  assumes lc: "compare_conforms lc" and alloc: "calloc_serves calloc"
  shows "script_passes m (string_strcmp_emptyInput lc calloc)" "script_passes m (string_strcmp_big lc calloc)"
    "script_passes m (string_strcoll_emptyInput lc calloc)" "script_passes m (string_strcoll_big lc calloc)"
proof -
  note c = conforming_interfaces(3) [OF lc] and c' = conforming_interfaces(4) [OF lc]
    and a = allocated_passes [OF alloc]
  show "script_passes m (string_strcmp_emptyInput lc calloc)"
    by (simp add: string_strcmp_emptyInput_def a sizes(4) string_compare.empty_signs [OF c])
  show "script_passes m (string_strcmp_big lc calloc)"
    by (simp add: string_strcmp_big_def Let_def a sizes(8) big_strings(1) string_compare.big_signs [OF c])
  show "script_passes m (string_strcoll_emptyInput lc calloc)"
    by (simp add: string_strcoll_emptyInput_def a sizes(4) string_compare.empty_signs [OF c'])
  show "script_passes m (string_strcoll_big lc calloc)"
    by (simp add: string_strcoll_big_def Let_def a sizes(8) big_strings(1) string_compare.big_signs [OF c'])
qed

lemma strcmp_unsigned_char_cast_passes:
  "strcmp_stops_at_difference lc \<Longrightarrow> script_passes m (string_strcmp_unsigned_char_cast lc)"
  using edge_signs by (simp add: string_strcmp_unsigned_char_cast_def Let_def strcmp_stops_at_difference_def)

lemmas plain_passes = string_memcmp_basic_passes string_memcmp_unsigned_char_cast_passes string_memcmp_offsets_passes
  plain_strncmp_passes plain_strcmp_passes

lemmas allocating_passes = string_memcmp_emptyInput_passes string_memcmp_big_passes string_memcmp_various_sizes_passes
  allocating_strncmp_passes string_strncmp_various_sizes_passes allocating_strcmp_passes

section \<open>Properties\<close>

text \<open>The consecutive part of \<^verbatim>\<open>runner\<close> in \<^verbatim>\<open>src/libc/string/main.c\<close> that runs the four groups.\<close>

definition string_cmp_groups :: "libc_compare \<Rightarrow> (nat \<Rightarrow> string option) \<Rightarrow> page_env \<Rightarrow> test_groups" where
  "string_cmp_groups lc calloc env =
     [(''string_memcmp'', string_memcmp lc calloc), (''string_strncmp'', string_strncmp lc calloc env),
      (''string_strcmp'', string_strcmp lc calloc), (''string_strcoll'', string_strcoll lc calloc)]"

lemmas string_cmp_tests = string_cmp_groups_def string_memcmp_def string_strncmp_def string_strcmp_def string_strcoll_def

text \<open>C6: The comparison tests raise no false alarm, with one exception. With every C library whose comparison
  functions return the sign the C standard prescribes on valid arguments, with memory for the test
  strings and served page mappings, every test of the four groups but \<^verbatim>\<open>TEST(string_strcmp,
  unsigned_char_cast)\<close> runs to its end with every check holding. When moreover \<^verbatim>\<open>strcmp\<close> reads no further
  than the first difference, which the standard does not ask for, that test does too, and running the
  groups adds one \<^verbatim>\<open>PASS\<close> line per selected test and no failure.\<close>

theorem string_cmp_no_false_alarm:
  assumes "compare_conforms lc" and "calloc_serves calloc" and "pages_served env" and "ready w"
  shows "(\<forall>(grp, tests) \<in> set (string_cmp_groups lc calloc env). \<forall>(name, line, ss) \<in> set tests.
      (grp, name) \<noteq> (''string_strcmp'', ''unsigned_char_cast'') \<longrightarrow> script_passes (memory w) ss) \<and>
    (strcmp_stops_at_difference lc \<longrightarrow>
      groups_pass (memory w) (string_cmp_groups lc calloc env) \<and>
      run_abs (RUN_TEST_GROUP (groups_cases fname (string_cmp_groups lc calloc env)) w) =
        all_passed (groups_cases fname (string_cmp_groups lc calloc env)) w)"
proof -
  note passes = plain_passes [OF assms(1)] allocating_passes [OF assms(1,2)] page_edge_passes [OF assms(1,3)]
  have "groups_pass (memory w) (string_cmp_groups lc calloc env)" if "strcmp_stops_at_difference lc"
    using passes strcmp_unsigned_char_cast_passes [OF that] by (simp add: groups_pass_def string_cmp_tests)
  then show ?thesis using passes groups_run [OF assms(4)] by (auto simp: string_cmp_tests)
qed

definition example_pages :: page_env where
  "example_pages = \<lparr>pagesz = 4096, region = 65536, munmap_second = 0, guard = [], munmap_first = 0\<rparr>"

lemma example_env: "calloc_serves example_calloc" "pages_served example_pages"
  by (simp_all add: example_calloc_serves pages_served_def example_pages_def MAP_FAILED_def)

lemma ref_compare_stops: "strcmp_stops_at_difference ref_compare"
  by (auto simp: strcmp_stops_at_difference_def ref_compare_def unbounded_sign_def
    intro!: result_sign_word dest: str_sign_range)

theorem string_cmp_no_false_alarm_witness:
  "compare_conforms ref_compare \<and> calloc_serves example_calloc \<and> pages_served example_pages \<and> ready Fixture \<and>
   groups_pass (memory Fixture) (string_cmp_groups ref_compare example_calloc example_pages) \<and>
   TestFailures (RUN_TEST_GROUP (groups_cases None (string_cmp_groups ref_compare example_calloc example_pages)) Fixture) = 0"
  using string_cmp_no_false_alarm [OF ref_compare_conforms example_env ready_Fixture, of None]
    ref_compare_conforms example_env ref_compare_stops
  by (simp add: run_abs_def all_passed_def) (simp add: Fixture_def Unity_def unity_world.defs unity_fixture_world.defs)




text \<open>A bounded comparison that returns the same results but touches the byte after the bound of its first
  argument.\<close>

definition touches_bound :: "(string \<Rightarrow> string \<Rightarrow> nat \<Rightarrow> c_int option) \<Rightarrow> string \<Rightarrow> string \<Rightarrow> nat \<Rightarrow> c_int option" where
  "touches_bound cmp s t n = (if n < length s then cmp s t n else None)"

text \<open>C8: The page-edge test detects a read of the byte after the bound. When a conforming library is changed so
  that \<^verbatim>\<open>strncmp\<close>, or \<^verbatim>\<open>strncasecmp\<close>, needs the byte after the bound of its first argument to be readable and is otherwise
  the same, the test stops with a data abort if the kernel removed the second page, and it passes if
  the kernel left bytes of that page readable.\<close>

theorem page_edge_detects_overread:
  assumes "compare_conforms lc" and "pages_served env"
    and "lc' \<in> {lc\<lparr>strncmp := touches_bound (strncmp lc)\<rparr>, lc\<lparr>strncasecmp := touches_bound (strncasecmp lc)\<rparr>}"
  shows "(guard_gone env \<longrightarrow> script_aborts m (string_strncmp_no_read_past_n_at_page_edge lc' env)) \<and>
    (\<not> guard_gone env \<longrightarrow> script_passes m (string_strncmp_no_read_past_n_at_page_edge lc' env))"
proof -
  note signs = page_edge_signs [OF assms(1)] and steps = page_steps(1,4-7) [OF assms(2)]
  note defs = guard_gone_def touches_bound_def script_aborts_Cons
  show ?thesis
    using assms(3) unfolding string_strncmp_no_read_past_n_at_page_edge_def Let_def page_steps(2,3) [OF assms(2)]
    by (elim insertE emptyE) (simp_all add: defs signs steps del: One_nat_def)
qed

theorem page_edge_detects_overread_witness:
  "script_aborts (memory Unity) (string_strncmp_no_read_past_n_at_page_edge
     (ref_compare\<lparr>strncmp := touches_bound (strncmp ref_compare)\<rparr>) example_pages)"
  using page_edge_detects_overread [OF ref_compare_conforms example_env(2), of _ "memory Unity"]
  by (simp add: guard_gone_def example_pages_def)

text \<open>C31: Running out of memory: when no test string can be allocated, no test of the four groups goes on to
  use the null pointer. With a conforming library, with a \<^verbatim>\<open>strcmp\<close> that reads no further than the first
  difference and with served page mappings, each of the ten tests that allocate a string fails at its
  \<^verbatim>\<open>TEST_ASSERT_NOT_NULL\<close>, the other tests pass, and none stops with a data abort.\<close>

theorem string_cmp_out_of_memory:
  assumes "compare_conforms lc" and "strcmp_stops_at_difference lc" and "pages_served env"
    and "calloc BUFF_SIZE = None" and "calloc BIG_SIZE = None"
  shows "map (\<lambda>(name, line, ss). (script_aborts m ss, calls_outcome m (script_calls ss)))
      (concat (map snd (string_cmp_groups lc calloc env))) =
    map (Pair False)
      [Passed, Passed, Failed 84, Failed 104, Failed 129, Passed,
       Passed, Passed, Failed 217, Failed 235, Failed 260, Passed, Passed,
       Passed, Passed, Failed 350, Failed 368, Passed,
       Passed, Failed 453, Failed 471, Passed]"
  using plain_passes [OF assms(1)] page_edge_passes [OF assms(1,3)] strcmp_unsigned_char_cast_passes [OF assms(2)]
  by (simp add: string_cmp_tests script_passes_iff allocated_fails [of calloc, OF assms(4)]
    allocated_fails [of calloc, OF assms(5)] string_memcmp_emptyInput_def string_memcmp_big_def
    string_memcmp_various_sizes_def string_strncmp_emptyInput_def string_strncmp_big_def
    string_strncmp_various_sizes_def string_strcmp_emptyInput_def string_strcmp_big_def
    string_strcoll_emptyInput_def string_strcoll_big_def)

theorem string_cmp_out_of_memory_witness:
  "length (filter (\<lambda>(name, line, ss). calls_outcome (memory Unity) (script_calls ss) \<noteq> Passed)
     (concat (map snd (string_cmp_groups ref_compare (\<lambda>_. None) example_pages)))) = 10"
proof -
  let ?tests = "concat (map snd (string_cmp_groups ref_compare (\<lambda>_. None) example_pages))"
  let ?f = "\<lambda>(name, line, ss). (script_aborts (memory Unity) ss, calls_outcome (memory Unity) (script_calls ss))"
  have "length (filter (\<lambda>(name, line, ss). calls_outcome (memory Unity) (script_calls ss) \<noteq> Passed) ?tests) =
      length (filter (\<lambda>r. snd r \<noteq> Passed) (map ?f ?tests))"
    by (simp add: filter_map o_def case_prod_unfold)
  also have "\<dots> = 10"
    using string_cmp_out_of_memory [OF ref_compare_conforms ref_compare_stops example_env(2), of "\<lambda>_. None" "memory Unity"]
    by simp
  finally show ?thesis .
qed

end
