(* ===== verification/Libc_String_Lenchr.thy ===== *)
theory Libc_String_Lenchr
  imports Libc_Script
begin

text \<open>
  The length, span and search tests of \<^verbatim>\<open>src/libc/string/string_lenchr.c\<close>: the groups \<^verbatim>\<open>string_len\<close>,
  \<^verbatim>\<open>string_spn\<close> and \<^verbatim>\<open>string_chr\<close>, with the C library under test as a parameter.
\<close>

section \<open>The functions under test\<close>

text \<open>A search function returns the offset of the character it finds from its argument, or the null
  pointer; the outer \<^term>\<open>None\<close> is a read outside the readable bytes. The searched character is a C
  \<^verbatim>\<open>int\<close> and is converted to a character by the function.\<close>

record libc_search =
  strlen :: "string \<Rightarrow> nat option"
  strnlen :: "string \<Rightarrow> nat \<Rightarrow> nat option"
  strspn :: "string \<Rightarrow> string \<Rightarrow> nat option"
  strcspn :: "string \<Rightarrow> string \<Rightarrow> nat option"
  strchr :: "string \<Rightarrow> int \<Rightarrow> nat option option"
  strrchr :: "string \<Rightarrow> int \<Rightarrow> nat option option"
  memchr :: "string \<Rightarrow> int \<Rightarrow> nat \<Rightarrow> nat option option"

definition LENCHR_SIZE :: nat where "LENCHR_SIZE = 128"

abbreviation size_ret :: "nat option \<Rightarrow> int option" where
  "size_ret r \<equiv> map_option int r"

text \<open>The pointer and the C string that a search result denotes in a buffer at address \<open>b\<close>.\<close>

fun addr :: "ptr \<Rightarrow> nat option \<Rightarrow> ptr" where
  "addr b None = NULL"
| "addr b (Some k) = b + word_of_nat k"

abbreviation ptr_ret :: "ptr \<Rightarrow> nat option option \<Rightarrow> ptr option" where
  "ptr_ret b r \<equiv> map_option (addr b) r"

abbreviation str_ret :: "string \<Rightarrow> nat option option \<Rightarrow> cstr option" where
  "str_ret s r \<equiv> map_option (map_option (\<lambda>k. drop k s)) r"

section \<open>Texts of the tests\<close>

definition specials :: string where
  "specials = lit (map char_of ([33..<48] @ [58..<65] @ [91..<97] @ [123..<127 :: nat]))"

definition pangram :: string where
  "pangram = lit ''The quick brown fox jumps over the lazy dog''"

definition torn :: string where
  "torn = lit (''foo'' @ [NUL] @ ''bar'')"

section \<open>Group \<^verbatim>\<open>string_len\<close>\<close>

text \<open>The four checks around the length of a string.\<close>

definition length_checks :: "libc_search \<Rightarrow> string \<Rightarrow> nat \<Rightarrow> UNITY_LINE_TYPE \<Rightarrow> steps" where
  "length_checks ls s len line =
     [check_EQUAL_INT (int len) (size_ret (strlen ls s)) line,
      check_EQUAL_INT (int len - 1) (size_ret (strnlen ls s (len - 1))) (line + 1),
      check_EQUAL_INT (int len) (size_ret (strnlen ls s len)) (line + 2),
      check_EQUAL_INT (int len) (size_ret (strnlen ls s (len + 1))) (line + 3)]"

definition string_len_ascii :: "libc_search \<Rightarrow> (nat \<Rightarrow> string option) \<Rightarrow> steps" where
  "string_len_ascii ls calloc =
     (let empty = lit []; doubleNul = lit ([NUL, NUL] @ ''abc'');
          whites = lit [CHR 0x20, CHR 0x0B, CHR 0x09, CHR 0x0D, CHR 0x0A, CHR 0x0C, CHR 0x20]
      in [check_EQUAL_INT 0 (size_ret (strlen ls (lit []))) 61] @
         allocated (testdata_createCharStr calloc (LENCHR_SIZE + 1)) 64 (\<lambda>asciiSet.
           length_checks ls pangram (length pangram - 1) 68 @
           (let len = length torn div 2 - 1 in
            [check_EQUAL_INT (int len) (size_ret (strlen ls torn)) 75,
             check_EQUAL_INT (int len - 1) (size_ret (strnlen ls torn (3 - 1))) 76,
             check_EQUAL_INT (int len) (size_ret (strnlen ls torn 3)) 77,
             check_EQUAL_INT (int len) (size_ret (strnlen ls torn (3 + 1))) 78]) @
           [check_EQUAL_INT 0 (size_ret (strlen ls doubleNul)) 82,
            check_EQUAL_INT 0 (size_ret (strnlen ls doubleNul 0)) 83,
            check_EQUAL_INT 0 (size_ret (strnlen ls doubleNul 1)) 84,
            check_EQUAL_INT 0 (size_ret (strlen ls doubleNul)) 85,
            check_EQUAL_INT 0 (size_ret (strnlen ls empty 0)) 86,
            check_EQUAL_INT 0 (size_ret (strnlen ls empty 1)) 87] @
           length_checks ls specials (length specials - 1) 91 @
           length_checks ls whites (length whites - 1) 98 @
           with_result asciiSet 105 (\<lambda>asciiSet. length_checks ls asciiSet LENCHR_SIZE 105)))"

definition string_len_not_ascii :: "libc_search \<Rightarrow> steps" where
  "string_len_not_ascii ls =
     (let charSet = fill_loop (\<lambda>i. char_of (i + LENCHR_SIZE)) (LENCHR_SIZE - 1) (replicate LENCHR_SIZE NUL)
      in length_checks ls charSet (length charSet - 1) 125)"

definition string_len_big :: "libc_search \<Rightarrow> nat \<Rightarrow> steps" where
  "string_len_big ls PATH_MAX =
     (let bigStr = fill_loop (\<lambda>_. CHR 0x01) (PATH_MAX - 1) (replicate PATH_MAX NUL)
      in length_checks ls bigStr (length bigStr - 1) 141)"

definition string_len :: "libc_search \<Rightarrow> (nat \<Rightarrow> string option) \<Rightarrow> nat \<Rightarrow> test_script list" where
  "string_len ls calloc PATH_MAX =
     [(''ascii'', 50, string_len_ascii ls calloc), (''not_ascii'', 114, string_len_not_ascii ls),
      (''big'', 132, string_len_big ls PATH_MAX)]"

section \<open>Group \<^verbatim>\<open>string_spn\<close>\<close>

definition string_spn_basic :: "libc_search \<Rightarrow> steps" where
  "string_spn_basic ls =
     (let pangram = lit '' The quick brown fox jumps over the lazy dog'';
          len = length pangram - 1;
          holder = take (len + 1) pangram @ drop (len + 1) (replicate 45 NUL)
      in [check_EQUAL_INT 0 (size_ret (strcspn ls pangram holder)) 173,
          check_EQUAL_INT (int len) (size_ret (strspn ls pangram holder)) 174,
          check_EQUAL_INT 0 (size_ret (strcspn ls pangram (drop (len div 2) holder))) 176,
          check_EQUAL_INT 1 (size_ret (strspn ls pangram (drop (len div 2) holder))) 178,
          check_EQUAL_INT (int len) (size_ret (strcspn ls pangram (drop len holder))) 180])"

definition string_spn_ascii :: "libc_search \<Rightarrow> (nat \<Rightarrow> string option) \<Rightarrow> steps" where
  "string_spn_ascii ls calloc =
     allocated (testdata_createCharStr calloc (LENCHR_SIZE + 1)) 193 (\<lambda>asciiStr. with_result asciiStr 204 (\<lambda>asciiStr.
       loop_steps (\<lambda>i (supportCharSet, reversCharSet).
           (supportCharSet[i - 1 := char_of i], reversCharSet[i - 1 := char_of (LENCHR_SIZE - i)]))
         (\<lambda>i (supportCharSet, reversCharSet).
           [check_EQUAL_INT (int i - 1) (size_ret (strcspn ls (drop 1 asciiStr) (drop i asciiStr))) 204,
            check_EQUAL_INT (int i) (size_ret (strspn ls (drop 1 asciiStr) supportCharSet)) 205,
            check_EQUAL_INT (int LENCHR_SIZE - 1) (size_ret (strcspn ls (drop 1 asciiStr) (drop i reversCharSet))) 208,
            if i = 127
            then check_EQUAL_INT (int LENCHR_SIZE - 1) (size_ret (strspn ls (drop 1 asciiStr) reversCharSet)) 211
            else check_EQUAL_INT 0 (size_ret (strspn ls (drop 1 asciiStr) reversCharSet)) 214])
         [1..<LENCHR_SIZE] (replicate LENCHR_SIZE NUL, replicate LENCHR_SIZE NUL)))"

definition string_spn_not_ascii :: "libc_search \<Rightarrow> steps" where
  "string_spn_not_ascii ls =
     (let charSet = fill_loop (\<lambda>i. char_of (i + LENCHR_SIZE)) (LENCHR_SIZE - 1) (replicate LENCHR_SIZE NUL);
          len = length charSet - 1
      in [check_EQUAL_INT (int len) (size_ret (strcspn ls charSet (lit []))) 233,
          check_EQUAL_INT (int len) (size_ret (strspn ls charSet charSet)) 234])"

definition string_spn_big :: "libc_search \<Rightarrow> nat \<Rightarrow> steps" where
  "string_spn_big ls PATH_MAX =
     (let len = PATH_MAX - 1;
          bigstr = fill_loop (\<lambda>_. CHR ''a'') len (replicate PATH_MAX NUL);
          bigstr' = bigstr[len - 3 := CHR ''b'']
      in [check_EQUAL_INT (int len) (size_ret (strcspn ls bigstr (lit []))) 254,
          check_EQUAL_INT 0 (size_ret (strcspn ls bigstr (lit ''a''))) 255,
          check_EQUAL_INT (int len) (size_ret (strcspn ls bigstr (lit ''b''))) 256,
          check_EQUAL_INT 0 (size_ret (strcspn ls bigstr (lit ''ab''))) 257,
          check_EQUAL_INT (int len) (size_ret (strspn ls bigstr (lit ''a''))) 259,
          check_EQUAL_INT 0 (size_ret (strspn ls bigstr (lit []))) 260,
          check_EQUAL_INT 0 (size_ret (strspn ls bigstr (lit ''b''))) 261,
          check_EQUAL_INT (int len) (size_ret (strspn ls bigstr (lit ''ab''))) 262,
          check_EQUAL_INT (int len) (size_ret (strcspn ls bigstr' (lit []))) 266,
          check_EQUAL_INT 0 (size_ret (strcspn ls bigstr' (lit ''a''))) 267,
          check_EQUAL_INT (int len - 3) (size_ret (strcspn ls bigstr' (lit ''b''))) 268,
          check_EQUAL_INT 0 (size_ret (strcspn ls bigstr' (lit ''ab''))) 269,
          check_EQUAL_INT (int len - 3) (size_ret (strspn ls bigstr' (lit ''a''))) 271,
          check_EQUAL_INT 0 (size_ret (strspn ls bigstr' (lit []))) 272,
          check_EQUAL_INT 0 (size_ret (strspn ls bigstr' (lit ''b''))) 273,
          check_EQUAL_INT (int len) (size_ret (strspn ls bigstr' (lit ''ab''))) 274])"

definition string_spn_empty_args :: "libc_search \<Rightarrow> steps" where
  "string_spn_empty_args ls =
     [check_EQUAL_INT 0 (size_ret (strcspn ls (lit []) (lit ''abc''))) 280,
      check_EQUAL_INT 0 (size_ret (strspn ls (lit []) (lit ''abc''))) 281,
      check_EQUAL_INT 0 (size_ret (strcspn ls (lit []) (lit []))) 283,
      check_EQUAL_INT 0 (size_ret (strspn ls (lit []) (lit []))) 284,
      check_EQUAL_INT 3 (size_ret (strcspn ls (lit ''abc'') (lit []))) 286,
      check_EQUAL_INT 0 (size_ret (strspn ls (lit ''abc'') (lit []))) 287]"

definition string_spn_first_byte :: "libc_search \<Rightarrow> steps" where
  "string_spn_first_byte ls =
     [check_EQUAL_INT 0 (size_ret (strspn ls (lit ''abc'') (lit ''bc''))) 294,
      check_EQUAL_INT 0 (size_ret (strspn ls (lit ''abc'') (lit ''c''))) 295,
      check_EQUAL_INT 0 (size_ret (strspn ls (lit ''aaaabc'') (lit ''bc''))) 296,
      check_EQUAL_INT 0 (size_ret (strspn ls (lit ''aaaabc'') (lit ''c''))) 297,
      check_EQUAL_INT 0 (size_ret (strcspn ls (lit ''abc'') (lit ''abc''))) 300,
      check_EQUAL_INT 0 (size_ret (strcspn ls (lit ''abc'') (lit ''abc''))) 301,
      check_EQUAL_INT 0 (size_ret (strcspn ls (lit ''abc'') (lit ''ab''))) 302,
      check_EQUAL_INT 0 (size_ret (strcspn ls (lit ''abc'') (lit ''a''))) 303,
      check_EQUAL_INT 0 (size_ret (strcspn ls (lit ''aaaabc'') (lit ''ab''))) 304,
      check_EQUAL_INT 0 (size_ret (strcspn ls (lit ''aaaabc'') (lit ''a''))) 305]"

definition string_spn_mixed_order :: "libc_search \<Rightarrow> (nat \<Rightarrow> string option) \<Rightarrow> steps" where
  "string_spn_mixed_order ls calloc =
     allocated (testdata_createCharStr calloc LENCHR_SIZE) 317 (\<lambda>testStr.
       check_NOT_NULL (Some ()) 319 #
       with_result testStr 322 (\<lambda>testStr.
       let reversStr = (fill_loop (\<lambda>i. testStr ! (LENCHR_SIZE - i - 2)) (LENCHR_SIZE - 1)
             (replicate LENCHR_SIZE NUL))[LENCHR_SIZE - 1 := NUL]
       in [check_EQUAL_INT 0 (size_ret (strcspn ls (lit ''abc'') (lit ''cba''))) 326,
           check_EQUAL_INT 3 (size_ret (strspn ls (lit ''abc'') (lit ''cba''))) 327,
           check_EQUAL_INT 0 (size_ret (strcspn ls (lit ''abc'') (lit ''bac''))) 329,
           check_EQUAL_INT 3 (size_ret (strspn ls (lit ''abc'') (lit ''bac''))) 330,
           check_EQUAL_INT 0 (size_ret (strcspn ls (lit ''abc'') (lit ''bca''))) 332,
           check_EQUAL_INT 3 (size_ret (strspn ls (lit ''abc'') (lit ''bca''))) 333,
           check_EQUAL_INT 0 (size_ret (strcspn ls testStr reversStr)) 335,
           check_EQUAL_INT (int LENCHR_SIZE - 1) (size_ret (strspn ls testStr reversStr)) 336,
           check_EQUAL_INT 0 (size_ret (strcspn ls (lit ''abc'') (lit ''aa''))) 338,
           check_EQUAL_INT 1 (size_ret (strcspn ls (lit ''abc'') (lit ''bb''))) 339,
           check_EQUAL_INT 2 (size_ret (strcspn ls (lit ''abc'') (lit ''cc''))) 340,
           check_EQUAL_INT 0 (size_ret (strcspn ls (lit ''abc'') (lit ''aabbcc''))) 341,
           check_EQUAL_INT 0 (size_ret (strcspn ls (lit ''abc'') (lit ''aaaaaa''))) 342,
           check_EQUAL_INT 1 (size_ret (strcspn ls (lit ''abc'') (lit ''bbbbbb''))) 343,
           check_EQUAL_INT 2 (size_ret (strcspn ls (lit ''abc'') (lit ''cccccc''))) 344,
           check_EQUAL_INT 0 (size_ret (strcspn ls (lit ''abc'') (lit ''ccaabb''))) 345,
           check_EQUAL_INT 0 (size_ret (strcspn ls (lit ''abc'') (lit ''bbaacc''))) 346,
           check_EQUAL_INT 1 (size_ret (strspn ls (lit ''abc'') (lit ''aa''))) 349,
           check_EQUAL_INT 0 (size_ret (strspn ls (lit ''abc'') (lit ''bb''))) 350,
           check_EQUAL_INT 0 (size_ret (strspn ls (lit ''abc'') (lit ''cc''))) 351,
           check_EQUAL_INT 3 (size_ret (strspn ls (lit ''abc'') (lit ''aabbcc''))) 352,
           check_EQUAL_INT 1 (size_ret (strspn ls (lit ''abc'') (lit ''aaaaaa''))) 353,
           check_EQUAL_INT 0 (size_ret (strspn ls (lit ''abc'') (lit ''bbbbbb''))) 354,
           check_EQUAL_INT 0 (size_ret (strspn ls (lit ''abc'') (lit ''cccccc''))) 355,
           check_EQUAL_INT 3 (size_ret (strspn ls (lit ''abc'') (lit ''ccaabb''))) 356,
           check_EQUAL_INT 3 (size_ret (strspn ls (lit ''abc'') (lit ''bbaacc''))) 357]))"

definition string_spn :: "libc_search \<Rightarrow> (nat \<Rightarrow> string option) \<Rightarrow> nat \<Rightarrow> test_script list" where
  "string_spn ls calloc PATH_MAX =
     [(''basic'', 161, string_spn_basic ls), (''ascii'', 184, string_spn_ascii ls calloc),
      (''not_ascii'', 222, string_spn_not_ascii ls), (''empty_args'', 278, string_spn_empty_args ls),
      (''first_byte'', 292, string_spn_first_byte ls), (''mixed_order'', 309, string_spn_mixed_order ls calloc),
      (''big'', 238, string_spn_big ls PATH_MAX)]"

section \<open>Group \<^verbatim>\<open>string_chr\<close>\<close>

text \<open>The tests of this group get the address \<open>b\<close> of the buffer they search. A plain \<^verbatim>\<open>char\<close> is unsigned on
  the target, so a character argument is the \<^verbatim>\<open>int\<close> of its code.\<close>

definition code :: "char \<Rightarrow> int" where
  "code c = of_char c"

definition string_chr_basic :: "libc_search \<Rightarrow> ptr \<Rightarrow> steps" where
  "string_chr_basic ls b =
     (let lorem = lit ''Lorem ipsum dolor sit amet, consectetur adipiscing elit y'' in
      with_result (strlen ls lorem) 383 (\<lambda>len.
        [check_EQUAL_PTR (addr b (Some 0)) (ptr_ret b (strchr ls lorem (code (CHR ''L'')))) 386,
         check_EQUAL_PTR (addr b (Some 0)) (ptr_ret b (strrchr ls lorem (code (CHR ''L'')))) 387,
         check_EQUAL_PTR (addr b (Some 0)) (ptr_ret b (memchr ls lorem (code (CHR ''L'')) len)) 388,
         check_EQUAL_PTR (addr b (Some 14)) (ptr_ret b (strchr ls lorem (code (CHR ''l'')))) 390,
         check_EQUAL_PTR (addr b (Some 52)) (ptr_ret b (strrchr ls lorem (code (CHR ''l'')))) 391,
         check_EQUAL_PTR (addr b (Some 14)) (ptr_ret b (memchr ls lorem (code (CHR ''l'')) len)) 392,
         check_EQUAL_PTR NULL (ptr_ret b (strchr ls lorem (code (CHR ''x'')))) 394,
         check_EQUAL_PTR NULL (ptr_ret b (strrchr ls lorem (code (CHR ''x'')))) 395,
         check_EQUAL_PTR NULL (ptr_ret b (memchr ls lorem (code (CHR ''x'')) len)) 396] @
        with_result (char_at lorem len) 398 (\<lambda>c.
          [check_EQUAL_PTR (addr b (Some len)) (ptr_ret b (strchr ls lorem (code c))) 398,
           check_EQUAL_PTR (addr b (Some len)) (ptr_ret b (strrchr ls lorem (code c))) 399,
           check_EQUAL_PTR (addr b (Some len)) (ptr_ret b (memchr ls lorem (code c) (len + 1))) 400])))"

definition string_chr_big :: "libc_search \<Rightarrow> nat \<Rightarrow> ptr \<Rightarrow> steps" where
  "string_chr_big ls PATH_MAX b =
     (let str = (fill_loop (\<lambda>_. CHR ''a'') (PATH_MAX - 1) (replicate PATH_MAX NUL))[PATH_MAX - 5 := CHR ''b''];
          str' = str[PATH_MAX - 5 := CHR ''a'', 5 := CHR ''b'']
      in [check_EQUAL_PTR (addr b (Some (PATH_MAX - 5))) (ptr_ret b (strchr ls str (code (CHR ''b'')))) 412,
          check_EQUAL_PTR (addr b (Some (PATH_MAX - 5))) (ptr_ret b (strrchr ls str (code (CHR ''b'')))) 413,
          check_EQUAL_PTR (addr b (Some (PATH_MAX - 5))) (ptr_ret b (memchr ls str (code (CHR ''b'')) PATH_MAX)) 414,
          check_EQUAL_PTR (addr b (Some 5)) (ptr_ret b (strchr ls str' (code (CHR ''b'')))) 419,
          check_EQUAL_PTR (addr b (Some 5)) (ptr_ret b (strrchr ls str' (code (CHR ''b'')))) 420,
          check_EQUAL_PTR (addr b (Some 5)) (ptr_ret b (memchr ls str' (code (CHR ''b'')) PATH_MAX)) 421,
          check_EQUAL_PTR (addr b (Some 0)) (ptr_ret b (strchr ls str' (code (CHR ''a'')))) 423,
          check_EQUAL_PTR (addr b (Some (PATH_MAX - 2))) (ptr_ret b (strrchr ls str' (code (CHR ''a'')))) 430,
          check_EQUAL_PTR (addr b (Some 0)) (ptr_ret b (memchr ls str' (code (CHR ''a'')) PATH_MAX)) 431,
          check_EQUAL_PTR NULL (ptr_ret b (strchr ls str' (code (CHR ''x'')))) 433,
          check_EQUAL_PTR NULL (ptr_ret b (strrchr ls str' (code (CHR ''x'')))) 434,
          check_EQUAL_PTR NULL (ptr_ret b (memchr ls str' (code (CHR ''x'')) PATH_MAX)) 435])"

definition string_chr_special :: "libc_search \<Rightarrow> ptr \<Rightarrow> steps" where
  "string_chr_special ls b =
     with_result (strlen ls specials) 449 (\<lambda>len.
       [check_EQUAL_PTR (addr b (Some 0)) (ptr_ret b (strchr ls specials (code (specials ! 0)))) 451,
        check_EQUAL_PTR (addr b (Some 0)) (ptr_ret b (strrchr ls specials (code (specials ! 0)))) 452] @
       with_result (strlen ls specials) 453 (\<lambda>n.
         [check_EQUAL_PTR (addr b (Some 0)) (ptr_ret b (memchr ls specials (code (specials ! 0)) n)) 453]) @
       with_result (char_at specials len) 456 (\<lambda>c.
         [check_EQUAL_PTR (addr b (Some len)) (ptr_ret b (strchr ls specials (code c))) 456,
          check_EQUAL_PTR (addr b (Some len)) (ptr_ret b (strrchr ls specials (code c))) 457,
          check_EQUAL_PTR (addr b (Some len)) (ptr_ret b (memchr ls specials (code c) (len + 1))) 458]) @
       with_result (char_at specials (len div 2)) 461 (\<lambda>c.
         [check_EQUAL_PTR (addr b (Some (len div 2))) (ptr_ret b (strchr ls specials (code c))) 461,
          check_EQUAL_PTR (addr b (Some (len div 2))) (ptr_ret b (strrchr ls specials (code c))) 462,
          check_EQUAL_PTR (addr b (Some (len div 2))) (ptr_ret b (memchr ls specials (code c) (len + 1))) 463]) @
       [check_EQUAL_PTR NULL (ptr_ret b (strchr ls specials (code (CHR ''I'')))) 466,
        check_EQUAL_PTR NULL (ptr_ret b (strrchr ls specials (code (CHR ''I'')))) 467,
        check_EQUAL_PTR NULL (ptr_ret b (memchr ls specials (code (CHR ''I'')) len)) 468])"

definition string_chr_ascii :: "libc_search \<Rightarrow> (nat \<Rightarrow> string option) \<Rightarrow> ptr \<Rightarrow> steps" where
  "string_chr_ascii ls calloc b =
     allocated (testdata_createCharStr calloc (127 + 1)) 479 (\<lambda>asciiStr. with_result asciiStr 484 (\<lambda>asciiStr. let len = 127 in
       [check_EQUAL_PTR (addr b (Some 0)) (ptr_ret b (strchr ls asciiStr (code (asciiStr ! 0)))) 484,
        check_EQUAL_PTR (addr b (Some 1)) (ptr_ret b (strrchr ls asciiStr (code (asciiStr ! 0)))) 486,
        check_EQUAL_PTR (addr b (Some 0)) (ptr_ret b (memchr ls asciiStr (code (asciiStr ! 0)) (len + 1))) 487,
        check_EQUAL_PTR (addr b (Some (len div 2))) (ptr_ret b (strchr ls asciiStr (code (asciiStr ! (len div 2))))) 489,
        check_EQUAL_PTR (addr b (Some (len div 2))) (ptr_ret b (strrchr ls asciiStr (code (asciiStr ! (len div 2))))) 490,
        check_EQUAL_PTR (addr b (Some (len div 2))) (ptr_ret b (memchr ls asciiStr (code (asciiStr ! (len div 2))) (len + 1))) 491,
        check_EQUAL_PTR (addr b (Some len)) (ptr_ret b (strchr ls asciiStr (code (asciiStr ! len)))) 493,
        check_EQUAL_PTR (addr b (Some len)) (ptr_ret b (strrchr ls asciiStr (code (asciiStr ! len)))) 494,
        check_EQUAL_PTR (addr b (Some len)) (ptr_ret b (memchr ls asciiStr (code (asciiStr ! len)) (len + 1))) 495]))"

definition string_chr_not_ascii_chars :: "libc_search \<Rightarrow> steps" where
  "string_chr_not_ascii_chars ls = (let sz = 129 in
     loop_steps (\<lambda>i notAsciiStr. notAsciiStr[i := char_of (i + 128)])
       (\<lambda>i notAsciiStr.
         [check_EQUAL_STRING (Some (drop i notAsciiStr)) (str_ret notAsciiStr (strchr ls notAsciiStr (code (notAsciiStr ! i)))) 516,
          check_EQUAL_STRING (Some (drop i notAsciiStr)) (str_ret notAsciiStr (strrchr ls notAsciiStr (code (notAsciiStr ! i)))) 517,
          check_EQUAL_STRING (Some (drop i notAsciiStr)) (str_ret notAsciiStr (memchr ls notAsciiStr (code (notAsciiStr ! i)) sz)) 518])
       [0..<128] ((replicate 129 NUL)[128 := NUL]))"

definition int_vals :: "int list" where
  "int_vals = [- 2147483648, - 715827882, - 514, - 256, - 129, 129, 256, 514, 715827882, 2147483647]"

definition string_chr_int_to_char_cast :: "libc_search \<Rightarrow> ptr \<Rightarrow> steps" where
  "string_chr_int_to_char_cast ls b =
     concat (map (\<lambda>intVal. let str = [char_of intVal, NUL] in
       [check_EQUAL_PTR (addr b (Some 0)) (ptr_ret b (strrchr ls str intVal)) 545]) int_vals)"

definition string_chr_torn :: "libc_search \<Rightarrow> ptr \<Rightarrow> steps" where
  "string_chr_torn ls b =
     with_result (strlen ls torn) 556 (\<lambda>n. let len = n + 1 in
       [check_EQUAL_STRING (Some (lit [])) (str_ret torn (strchr ls torn (code NUL))) 557,
        check_EQUAL_STRING (Some (lit [])) (str_ret torn (strrchr ls torn (code NUL))) 558,
        check_EQUAL_STRING (Some (lit [])) (str_ret torn (memchr ls torn (code NUL) len)) 559,
        check_EQUAL_STRING (Some (lit ''foo'')) (str_ret torn (strchr ls torn (code (CHR ''f'')))) 561,
        check_EQUAL_STRING (Some (lit ''foo'')) (str_ret torn (strrchr ls torn (code (CHR ''f'')))) 562,
        check_EQUAL_STRING (Some (lit ''foo'')) (str_ret torn (memchr ls torn (code (CHR ''f'')) len)) 563,
        check_EQUAL_PTR NULL (ptr_ret b (strchr ls torn (code (CHR ''b'')))) 565,
        check_EQUAL_PTR NULL (ptr_ret b (strrchr ls torn (code (CHR ''b'')))) 566,
        check_EQUAL_PTR NULL (ptr_ret b (memchr ls torn (code (CHR ''b'')) len)) 567])"

definition chr_whites :: string where
  "chr_whites = [CHR 0x20, CHR 0x0A, CHR 0x09, CHR 0x1B, CHR 0x0D, CHR 0x08, CHR 0x0B, CHR 0x0C, CHR 0x5C]"

definition string_chr_whitespaces :: "libc_search \<Rightarrow> ptr \<Rightarrow> steps" where
  "string_chr_whitespaces ls b =
     (let exp = lit ''Ipsum''; strWhites = lit (''Lorem'' @ chr_whites @ '' Ipsum'');
          whites = lit chr_whites; len = length whites - 1
      in concat (map (\<lambda>i.
           [check_EQUAL_PTR (addr b (Some i)) (ptr_ret b (strchr ls whites (code (whites ! i)))) 582,
            check_EQUAL_PTR (addr b (Some i)) (ptr_ret b (strrchr ls whites (code (whites ! i)))) 583,
            check_EQUAL_PTR (addr b (Some i)) (ptr_ret b (memchr ls whites (code (whites ! i)) (i + 1))) 584]) [0..<len]) @
         [check_EQUAL_PTR NULL (ptr_ret b (strchr ls whites (code (CHR ''x'')))) 587,
          check_EQUAL_PTR NULL (ptr_ret b (strrchr ls whites (code (CHR ''x'')))) 588,
          check_EQUAL_PTR NULL (ptr_ret b (memchr ls whites (code (CHR ''x'')) len)) 589] @
         with_result (strlen ls strWhites) 591 (\<lambda>len.
           [check_EQUAL_STRING (Some exp) (str_ret strWhites (strchr ls strWhites (code (CHR ''I'')))) 593,
            check_EQUAL_STRING (Some exp) (str_ret strWhites (strrchr ls strWhites (code (CHR ''I'')))) 594,
            check_EQUAL_STRING (Some exp) (str_ret strWhites (memchr ls strWhites (code (CHR ''I'')) len)) 595]))"

definition string_chr_empty :: "libc_search \<Rightarrow> steps" where
  "string_chr_empty ls =
     [check_EQUAL_STRING (Some (lit [])) (str_ret (lit []) (strchr ls (lit []) (code NUL))) 602,
      check_EQUAL_STRING (Some (lit [])) (str_ret (lit []) (strrchr ls (lit []) (code NUL))) 603,
      check_EQUAL_STRING (Some (lit [])) (str_ret (lit []) (memchr ls (lit []) (code NUL) 1)) 604]"

definition string_chr_memchr_size :: "libc_search \<Rightarrow> ptr \<Rightarrow> steps" where
  "string_chr_memchr_size ls b =
     loop_steps (\<lambda>i charSet. charSet[i := char_of i])
       (\<lambda>i charSet.
         [check_EQUAL_PTR (addr b (Some i)) (ptr_ret b (memchr ls charSet (code (charSet ! i)) (i + 1))) 622,
          check_EQUAL_PTR NULL (ptr_ret b (memchr ls charSet (code (charSet ! i)) i)) 628])
       [0..<LENCHR_SIZE] (replicate LENCHR_SIZE NUL)"

definition string_chr :: "libc_search \<Rightarrow> (nat \<Rightarrow> string option) \<Rightarrow> nat \<Rightarrow> ptr \<Rightarrow> test_script list" where
  "string_chr ls calloc PATH_MAX b =
     [(''basic'', 378, string_chr_basic ls b), (''big'', 404, string_chr_big ls PATH_MAX b),
      (''memchr_size'', 608, string_chr_memchr_size ls b), (''special'', 439, string_chr_special ls b),
      (''whitespaces'', 571, string_chr_whitespaces ls b), (''empty'', 599, string_chr_empty ls),
      (''ascii'', 472, string_chr_ascii ls calloc b), (''not_ascii_chars'', 501, string_chr_not_ascii_chars ls),
      (''int_to_char_cast'', 522, string_chr_int_to_char_cast ls b), (''torn'', 550, string_chr_torn ls b)]"

section \<open>The contract of the C standard\<close>

definition ref_strnlen :: "string \<Rightarrow> nat \<Rightarrow> nat" where
  "ref_strnlen s n = min n (length (c_chars s))"

definition ref_strspn :: "string \<Rightarrow> string \<Rightarrow> nat" where
  "ref_strspn s accept = length (takeWhile (\<lambda>c. c \<in> set (c_chars accept)) (c_chars s))"

definition ref_strcspn :: "string \<Rightarrow> string \<Rightarrow> nat" where
  "ref_strcspn s reject = length (takeWhile (\<lambda>c. c \<notin> set (c_chars reject)) (c_chars s))"

fun first_index :: "char \<Rightarrow> string \<Rightarrow> nat option" where
  "first_index c [] = None"
| "first_index c (x # s) = (if x = c then Some 0 else map_option Suc (first_index c s))"

definition last_index :: "char \<Rightarrow> string \<Rightarrow> nat option" where
  "last_index c s = map_option (\<lambda>k. length s - Suc k) (first_index c (rev s))"

definition search_conforms :: "libc_search \<Rightarrow> bool" where
  "search_conforms ls \<longleftrightarrow>
     (\<forall>s. NUL \<in> set s \<longrightarrow> strlen ls s = Some (length (c_chars s))) \<and>
     (\<forall>s n. n \<le> length s \<or> NUL \<in> set s \<longrightarrow> strnlen ls s n = Some (ref_strnlen s n)) \<and>
     (\<forall>s t. NUL \<in> set s \<longrightarrow> NUL \<in> set t \<longrightarrow> strspn ls s t = Some (ref_strspn s t)) \<and>
     (\<forall>s t. NUL \<in> set s \<longrightarrow> NUL \<in> set t \<longrightarrow> strcspn ls s t = Some (ref_strcspn s t)) \<and>
     (\<forall>s c. NUL \<in> set s \<longrightarrow> strchr ls s c = Some (first_index (char_of c) (c_chars s @ [NUL]))) \<and>
     (\<forall>s c. NUL \<in> set s \<longrightarrow> strrchr ls s c = Some (last_index (char_of c) (c_chars s @ [NUL]))) \<and>
     (\<forall>s c n. n \<le> length s \<or> char_of c \<in> set s \<longrightarrow> memchr ls s c n = Some (first_index (char_of c) (take n s)))"

text \<open>A library that computes the contract.\<close>

definition ref_search :: libc_search where
  "ref_search =
     \<lparr>strlen = (\<lambda>s. if NUL \<in> set s then Some (length (c_chars s)) else None),
      strnlen = (\<lambda>s n. if n \<le> length s \<or> NUL \<in> set s then Some (ref_strnlen s n) else None),
      strspn = (\<lambda>s t. if NUL \<in> set s \<and> NUL \<in> set t then Some (ref_strspn s t) else None),
      strcspn = (\<lambda>s t. if NUL \<in> set s \<and> NUL \<in> set t then Some (ref_strcspn s t) else None),
      strchr = (\<lambda>s c. if NUL \<in> set s then Some (first_index (char_of c) (c_chars s @ [NUL])) else None),
      strrchr = (\<lambda>s c. if NUL \<in> set s then Some (last_index (char_of c) (c_chars s @ [NUL])) else None),
      memchr = (\<lambda>s c n. if n \<le> length s \<or> char_of c \<in> set s then Some (first_index (char_of c) (take n s)) else None)\<rparr>"

lemma ref_search_conforms: "search_conforms ref_search"
  by (simp add: search_conforms_def ref_search_def)

text \<open>What the tests rely on: POSIX guarantees at least 256 bytes for a path.\<close>

definition path_max_ok :: "nat \<Rightarrow> bool" where
  "path_max_ok PATH_MAX \<longleftrightarrow> 256 \<le> PATH_MAX \<and> PATH_MAX < 2 ^ 31"

section \<open>Texts and loops\<close>

lemma conforming_search:
  assumes "search_conforms ls"
  shows "NUL \<in> set s \<Longrightarrow> strlen ls s = Some (length (c_chars s))"
    "n \<le> length s \<or> NUL \<in> set s \<Longrightarrow> strnlen ls s n = Some (ref_strnlen s n)"
    "NUL \<in> set s \<Longrightarrow> NUL \<in> set t \<Longrightarrow> strspn ls s t = Some (ref_strspn s t)"
    "NUL \<in> set s \<Longrightarrow> NUL \<in> set t \<Longrightarrow> strcspn ls s t = Some (ref_strcspn s t)"
    "NUL \<in> set s \<Longrightarrow> strchr ls s c = Some (first_index (char_of c) (c_chars s @ [NUL]))"
    "NUL \<in> set s \<Longrightarrow> strrchr ls s c = Some (last_index (char_of c) (c_chars s @ [NUL]))"
    "n \<le> length s \<or> char_of c \<in> set s \<Longrightarrow> memchr ls s c n = Some (first_index (char_of c) (take n s))"
  using assms unfolding search_conforms_def by blast+

lemma NUL_in_lit [simp]: "NUL \<in> set (lit s)" "length (lit s) = Suc (length s)"
  by (simp_all add: lit_def)

lemma c_chars_append_NUL [simp]: "NUL \<notin> set s \<Longrightarrow> c_chars (s @ NUL # t) = s"
  by (simp add: c_chars_def takeWhile_append)

lemma c_chars_lit: "NUL \<notin> set s \<Longrightarrow> c_chars (lit s) = s"
  by (simp add: lit_def)

lemma length_checks_passes:
  assumes ls: "search_conforms ls" and s: "NUL \<in> set s" "length (c_chars s) = len" "0 < len"
  shows "script_passes m (length_checks ls s len line)"
  using s by (simp add: length_checks_def conforming_search [OF ls] ref_strnlen_def check_EQUAL_INT_eq of_nat_diff)

lemma filled_string:
  assumes "0 < n" "\<And>i. i < n - 1 \<Longrightarrow> f i \<noteq> NUL"
  shows "fill_loop f (n - 1) (replicate n NUL) = map f [0..<n - 1] @ [NUL]"
    "c_chars (map f [0..<n - 1] @ [NUL]) = map f [0..<n - 1]" "length (map f [0..<n - 1] @ [NUL]) = n"
proof -
  show "fill_loop f (n - 1) (replicate n NUL) = map f [0..<n - 1] @ [NUL]"
    using assms(1) by (simp add: fill_loop_eq)
  have "NUL \<notin> set (map f [0..<n - 1])" using assms(2) by (auto dest!: sym [of NUL])
  then show "c_chars (map f [0..<n - 1] @ [NUL]) = map f [0..<n - 1]" by simp
qed (use assms in simp)

lemma char_str_chars: "0 < n \<Longrightarrow> c_chars (char_str n) = map char_str_at [0..<n - 1]"
  "0 < n \<Longrightarrow> char_str n = map char_str_at [0..<n - 1] @ [NUL]"
proof -
  assume n: "0 < n"
  then show s: "char_str n = map char_str_at [0..<n - 1] @ [NUL]" by (simp add: char_str_def)
  have "NUL \<notin> set (map char_str_at [0..<n - 1])" by (auto dest!: sym [of NUL])
  then show "c_chars (char_str n) = map char_str_at [0..<n - 1]" unfolding s by simp
qed

lemma high_string:
  "fill_loop (\<lambda>i. char_of (i + LENCHR_SIZE)) (LENCHR_SIZE - 1) (replicate LENCHR_SIZE NUL) =
     map (\<lambda>i. char_of (i + LENCHR_SIZE)) [0..<LENCHR_SIZE - 1] @ [NUL]"
  "c_chars (map (\<lambda>i. char_of (i + LENCHR_SIZE)) [0..<LENCHR_SIZE - 1] @ [NUL]) =
     map (\<lambda>i. char_of (i + LENCHR_SIZE)) [0..<LENCHR_SIZE - 1]"
  by (rule filled_string; simp add: LENCHR_SIZE_def char_of_NUL_iff)+

lemma path_string:
  assumes "path_max_ok PATH_MAX"
  shows "fill_loop (\<lambda>_. c) (PATH_MAX - 1) (replicate PATH_MAX NUL) = replicate (PATH_MAX - 1) c @ [NUL]"
  using assms by (simp add: fill_loop_eq path_max_ok_def map_replicate_const)

section \<open>The length group\<close>

lemma text_chars:
  "c_chars pangram = ''The quick brown fox jumps over the lazy dog''" "NUL \<in> set pangram"
  "length (c_chars specials) = 32" "length specials = 33" "NUL \<in> set specials"
  "c_chars torn = ''foo''" "length torn = 8" "NUL \<in> set torn" "length pangram = 44"
  by code_simp+

lemma string_len_ascii_passes:
  assumes ls: "search_conforms ls" and alloc: "calloc_serves calloc"
  shows "script_passes m (string_len_ascii ls calloc)"
proof -
  note c = conforming_search [OF ls] and len = length_checks_passes [OF ls]
  let ?whites = "[CHR 0x20, CHR 0x0B, CHR 0x09, CHR 0x0D, CHR 0x0A, CHR 0x0C, CHR 0x20]"
  have "script_passes m (length_checks ls pangram (length pangram - 1) line)"
    "script_passes m (length_checks ls specials (length specials - 1) line)"
    "script_passes m (length_checks ls (lit ?whites) (length (lit ?whites) - 1) line)"
    "script_passes m (length_checks ls (char_str (LENCHR_SIZE + 1)) LENCHR_SIZE line)" for line
    by (rule len; simp add: text_chars c_chars_lit char_str_chars(1) LENCHR_SIZE_def)+
  moreover have "c_chars (lit ([NUL, NUL] @ ''abc'')) = []" "c_chars (lit []) = []" by code_simp+
  ultimately show ?thesis
    by (simp add: string_len_ascii_def Let_def allocated_passes [OF alloc] LENCHR_SIZE_def c ref_strnlen_def
      text_chars check_EQUAL_INT_eq)
qed

lemma string_len_passes:
  assumes ls: "search_conforms ls" and alloc: "calloc_serves calloc" and path: "path_max_ok PATH_MAX"
  shows "group_passes m (string_len ls calloc PATH_MAX)"
proof -
  note len = length_checks_passes [OF ls]
  have "script_passes m (string_len_not_ascii ls)"
    unfolding string_len_not_ascii_def Let_def high_string
    by (rule len) (simp_all add: high_string del: One_nat_def, simp add: LENCHR_SIZE_def)
  moreover have "script_passes m (string_len_big ls PATH_MAX)"
    unfolding string_len_big_def Let_def path_string [OF path]
    by (rule len) (use path in \<open>simp_all add: path_max_ok_def\<close>)
  ultimately show ?thesis
    using string_len_ascii_passes [OF ls alloc] by (simp add: string_len_def)
qed

section \<open>The span group\<close>

lemmas takeWhile_all = takeWhile_eq_all_conv [THEN iffD2]

lemma takeWhile_map_upt:
  assumes "a \<le> k" "k \<le> b" "\<And>j. a \<le> j \<Longrightarrow> j < k \<Longrightarrow> P (f j)" "k < b \<Longrightarrow> \<not> P (f k)"
  shows "length (takeWhile P (map f [a..<b])) = k - a"
proof -
  have "[a..<b] = [a..<k] @ [k..<b]" using assms(1,2) by (metis le_add_diff_inverse upt_add_eq_append)
  moreover have "takeWhile P (map f [k..<b]) = []"
    using assms(4) by (cases "k < b") (simp_all add: upt_conv_Cons)
  moreover have "takeWhile P (map f [a..<k] @ xs) = map f [a..<k] @ takeWhile P xs" for xs
    using assms(3) by (intro takeWhile_append2) auto
  ultimately show ?thesis by simp
qed

lemma char_of_eq [simp]: "m < 256 \<Longrightarrow> n < 256 \<Longrightarrow> (char_of m :: char) = char_of n \<longleftrightarrow> m = n" for m n :: nat
  by (metis mod_less of_char_of)

lemma c_chars_codes: "0 < a \<Longrightarrow> b \<le> 256 \<Longrightarrow> c_chars (map char_of [a..<b] @ NUL # t) = map char_of [a..<b]"
  by (rule c_chars_append_NUL) (auto simp: char_of_NUL_iff dest!: sym [of NUL])

lemma char_of_mem: "j < 256 \<Longrightarrow> b \<le> 256 \<Longrightarrow> (char_of j :: char) \<in> set (map char_of [a..<b]) \<longleftrightarrow> a \<le> j \<and> j < b" for j :: nat
  by (auto simp: image_iff)

lemma spn_ascii_buffers:
  assumes "i \<le> N"
  shows "fold (\<lambda>i (s, r). (s[i - 1 := char_of i], r[i - 1 := char_of (N - i)])) [1..<Suc i]
      (replicate N NUL, replicate N NUL) =
    (map char_of [1..<Suc i] @ replicate (N - i) NUL, map (\<lambda>j. char_of (N - j)) [1..<Suc i] @ replicate (N - i) NUL)"
  using assms
proof (induction i)
  case (Suc i)
  have "replicate (N - i) NUL = NUL # replicate (N - Suc i) NUL"
    using Suc.prems by (metis Suc_diff_Suc Suc_le_lessD replicate_Suc)
  with Suc show ?case by (simp add: list_update_append)
qed simp

lemma spn_ascii_checks:
  assumes "0 < i" "i < N" "N \<le> 128"
  defines "A \<equiv> map char_of [1..<N] @ [NUL]"
    and "r \<equiv> map (\<lambda>j. char_of (N - j)) [1..<Suc i] @ replicate (N - i) NUL"
  shows "ref_strcspn A (map char_of [i..<N] @ [NUL]) = i - 1"
    "ref_strspn A (map char_of [1..<Suc i] @ replicate (N - i) NUL) = i"
    "ref_strcspn A (drop i r) = N - 1"
    "ref_strspn A r = (if i = N - 1 then N - 1 else 0)"
proof -
  have A: "c_chars A = map char_of [1..<N]"
    unfolding A_def using assms(3) by (intro c_chars_codes) auto
  have nul: "replicate (N - i) NUL = NUL # replicate (N - Suc i) NUL"
    using assms(2) by (metis Suc_diff_Suc replicate_Suc)
  have "c_chars (map char_of [i..<N] @ [NUL]) = map char_of [i..<N]"
    using assms by (intro c_chars_codes) auto
  then show "ref_strcspn A (map char_of [i..<N] @ [NUL]) = i - 1"
    unfolding ref_strcspn_def A using assms by (intro takeWhile_map_upt) (auto simp: char_of_mem simp del: set_map)
  have "c_chars (map char_of [1..<Suc i] @ replicate (N - i) NUL) = map char_of [1..<Suc i]"
    unfolding nul using assms by (intro c_chars_codes) auto
  then have "ref_strspn A (map char_of [1..<Suc i] @ replicate (N - i) NUL) = Suc i - 1"
    unfolding ref_strspn_def A using assms
    by (intro takeWhile_map_upt) (auto simp: char_of_mem simp del: set_map upt_Suc)
  then show "ref_strspn A (map char_of [1..<Suc i] @ replicate (N - i) NUL) = i" by simp
  have "drop i r = replicate (N - i) NUL" by (simp add: r_def)
  then have "c_chars (drop i r) = []" by (simp add: nul c_chars_def)
  then show "ref_strcspn A (drop i r) = N - 1"
    unfolding ref_strcspn_def A using assms by (intro takeWhile_map_upt) auto
  have "NUL \<notin> set (map (\<lambda>j. char_of (N - j)) [1..<Suc i])"
    using assms by (auto simp: char_of_NUL_iff dest!: sym [of NUL])
  then have r: "c_chars r = map (\<lambda>j. char_of (N - j)) [1..<Suc i]" unfolding r_def nul by (rule c_chars_append_NUL)
  have mem: "char_of j \<in> set (c_chars r) \<longleftrightarrow> N - i \<le> j" if "0 < j" "j < N" for j :: nat
  proof -
    have "char_of j \<in> set (c_chars r) \<longleftrightarrow> (\<exists>k\<in>{1..<Suc i}. char_of j = (char_of (N - k) :: char))"
      unfolding r by (auto simp del: upt_Suc)
    also have "\<dots> \<longleftrightarrow> (\<exists>k\<in>{1..<Suc i}. j = N - k)"
      using that assms(2,3) by (intro bex_cong refl char_of_eq) auto
    also have "\<dots> \<longleftrightarrow> N - i \<le> j"
      using that assms(2) by (auto intro!: bexI [of _ "N - j"])
    finally show ?thesis .
  qed
  show "ref_strspn A r = (if i = N - 1 then N - 1 else 0)"
  proof (cases "i = N - 1")
    case True
    have "ref_strspn A r = N - 1"
      unfolding ref_strspn_def A using assms(1,2) True by (intro takeWhile_map_upt) (auto simp: mem)
    with True show ?thesis by simp
  next
    case False
    have "ref_strspn A r = 1 - 1"
      unfolding ref_strspn_def A using assms(1,2) False by (intro takeWhile_map_upt) (auto simp: mem)
    with False show ?thesis by simp
  qed
qed

lemma char_str_drop:
  assumes "0 < i" "i < N" "N \<le> 256"
  shows "drop i (char_str (N + 1)) = map char_of [i..<N] @ [NUL]"
proof -
  have "drop i (char_str (N + 1)) = map char_str_at [i..<N] @ [NUL]"
    using assms by (simp add: char_str_chars(2) drop_map)
  also have "map char_str_at [i..<N] = map char_of [i..<N]"
    using assms by (intro map_cong refl) (auto simp: char_str_at_def)
  finally show ?thesis .
qed

lemma string_spn_ascii_passes:
  assumes ls: "search_conforms ls" and alloc: "calloc_serves calloc"
  shows "script_passes m (string_spn_ascii ls calloc)"
proof -
  let ?N = LENCHR_SIZE
  have N: "?N \<le> 128" "?N + 1 \<le> 4096" "1 < ?N" "i = 127 \<longleftrightarrow> i = ?N - 1" for i by (simp_all add: LENCHR_SIZE_def)
  have "script_passes m
      [check_EQUAL_INT (int i - 1) (size_ret (strcspn ls (drop 1 (char_str (?N + 1))) (drop i (char_str (?N + 1))))) 204,
       check_EQUAL_INT (int i) (size_ret (strspn ls (drop 1 (char_str (?N + 1))) s)) 205,
       check_EQUAL_INT (int ?N - 1) (size_ret (strcspn ls (drop 1 (char_str (?N + 1))) (drop i r))) 208,
       if i = 127
       then check_EQUAL_INT (int ?N - 1) (size_ret (strspn ls (drop 1 (char_str (?N + 1))) r)) 211
       else check_EQUAL_INT 0 (size_ret (strspn ls (drop 1 (char_str (?N + 1))) r)) 214]"
    if i: "1 \<le> i" "i < ?N" and
      s: "s = map char_of [1..<Suc i] @ replicate (?N - i) NUL" and
      r: "r = map (\<lambda>j. char_of (?N - j)) [1..<Suc i] @ replicate (?N - i) NUL" for i s r
  proof -
    have d: "drop 1 (char_str (?N + 1)) = map char_of [1..<?N] @ [NUL]"
      "drop i (char_str (?N + 1)) = map char_of [i..<?N] @ [NUL]"
      using i N(1,3) by (auto intro!: char_str_drop simp del: One_nat_def)
    have "replicate (?N - i) NUL = NUL # replicate (?N - Suc i) NUL"
      using i by (metis Suc_diff_Suc replicate_Suc)
    then have z: "NUL \<in> set s" "NUL \<in> set r" "NUL \<in> set (drop i r)" using i by (simp_all add: s r)
    note k = spn_ascii_checks [OF _ i(2) N(1), folded s r]
    show ?thesis
      unfolding d using z k i N(4) [of i]
      by (simp add: conforming_search [OF ls] check_EQUAL_INT_eq of_nat_diff del: One_nat_def)
  qed
  then show ?thesis
    unfolding string_spn_ascii_def
    by (subst allocated_passes [OF alloc]) (use N(2) in \<open>simp_all add: loop_steps_passes spn_ascii_buffers del: upt_Suc One_nat_def\<close>)
qed

lemma string_spn_basic_passes:
  assumes ls: "search_conforms ls"
  shows "script_passes m (string_spn_basic ls)"
proof -
  define p where "p = lit '' The quick brown fox jumps over the lazy dog''"
  have p: "length p = 45" "NUL \<in> set p" "ref_strcspn p p = 0" "ref_strspn p p = 44"
    "ref_strcspn p (drop 22 p) = 0" "ref_strspn p (drop 22 p) = 1" "ref_strcspn p (drop 44 p) = 44"
    "NUL \<in> set (drop 22 p)" "NUL \<in> set (drop 44 p)"
    unfolding p_def by code_simp+
  then show ?thesis
    by (simp add: string_spn_basic_def Let_def conforming_search [OF ls] check_EQUAL_INT_eq flip: p_def)
qed

lemma string_spn_texts_pass:
  assumes ls: "search_conforms ls"
  shows "script_passes m (string_spn_empty_args ls)" "script_passes m (string_spn_first_byte ls)"
  by (simp_all add: string_spn_empty_args_def string_spn_first_byte_def conforming_search [OF ls]
    ref_strspn_def ref_strcspn_def c_chars_lit check_EQUAL_INT_eq)

lemma string_spn_not_ascii_passes:
  assumes ls: "search_conforms ls"
  shows "script_passes m (string_spn_not_ascii ls)"
proof -
  define s where "s = map (\<lambda>i. char_of (i + LENCHR_SIZE) :: char) [0..<LENCHR_SIZE - 1] @ [NUL]"
  have s: "NUL \<in> set s" "length (c_chars s) = length s - 1" by (simp_all add: s_def high_string del: One_nat_def)
  have "ref_strcspn s (lit []) = length s - 1" "ref_strspn s s = length s - 1"
    using s(2) by (simp_all add: ref_strcspn_def ref_strspn_def c_chars_lit takeWhile_all)
  with s(1) show ?thesis
    unfolding string_spn_not_ascii_def Let_def high_string s_def [symmetric]
    by (simp add: conforming_search [OF ls] check_EQUAL_INT_eq)
qed

lemma string_spn_mixed_order_passes:
  assumes ls: "search_conforms ls" and alloc: "calloc_serves calloc"
  shows "script_passes m (string_spn_mixed_order ls calloc)"
proof -
  let ?N = LENCHR_SIZE
  define t where "t = char_str ?N"
  define r where "r = (fill_loop (\<lambda>i. t ! (?N - i - 2)) (?N - 1) (replicate ?N NUL))[?N - 1 := NUL]"
  have N: "1 < ?N" "?N \<le> 4096" by (simp_all add: LENCHR_SIZE_def)
  have nth: "t ! (?N - i - 2) = char_str_at (?N - i - 2)" if "i < ?N - 1" for i
    using that by (simp add: t_def)
  have "r = map (\<lambda>i. char_str_at (?N - i - 2)) [0..<?N - 1] @ [NUL]"
    using N nth by (simp add: r_def fill_loop_eq list_update_append)
  also have "map (\<lambda>i. char_str_at (?N - i - 2)) [0..<?N - 1] = rev (map char_str_at [0..<?N - 1])"
    using N by (intro nth_equalityI) (auto simp: rev_nth intro!: arg_cong [of _ _ char_str_at])
  finally have r: "r = rev (map char_str_at [0..<?N - 1]) @ [NUL]" .
  have "NUL \<notin> set (rev (map char_str_at [0..<?N - 1]))" by (auto dest!: sym [of NUL])
  then have c: "c_chars r = rev (c_chars t)" unfolding r t_def using N by (simp add: char_str_chars(1))
  have z: "NUL \<in> set t" "NUL \<in> set r" using N by (simp_all add: t_def r)
  have len: "length (c_chars t) = ?N - 1" "c_chars t \<noteq> []" using N by (simp_all add: t_def char_str_chars(1))
  have none: "takeWhile (\<lambda>c. c \<notin> set xs) xs = []" for xs :: string by (cases xs) simp_all
  have "ref_strspn t r = ?N - 1" "ref_strcspn t r = 0"
    using len none by (simp_all add: ref_strspn_def ref_strcspn_def c takeWhile_all)
  then show ?thesis
    unfolding string_spn_mixed_order_def allocated_passes [OF alloc N(2)] with_result_Some Let_def t_def [symmetric] r_def [symmetric]
    using z N by (simp add: conforming_search [OF ls] check_EQUAL_INT_eq of_nat_diff)
      (simp add: ref_strspn_def ref_strcspn_def c_chars_lit check_EQUAL_INT_eq)
qed

lemma string_spn_big_passes:
  assumes ls: "search_conforms ls" and path: "path_max_ok PATH_MAX"
  shows "script_passes m (string_spn_big ls PATH_MAX)"
proof -
  define len where "len = PATH_MAX - 1"
  define n where "n = len - 3"
  have n: "len = n + 3" using path by (simp add: n_def len_def path_max_ok_def)
  let ?s = "replicate len (CHR ''a'') @ [NUL]"
  have "replicate len (CHR ''a'') = replicate n (CHR ''a'') @ ''aaa''" "len - 3 = n"
    unfolding n replicate_add by (simp_all add: numeral_3_eq_3)
  then have upd: "?s[len - 3 := CHR ''b''] = replicate n (CHR ''a'') @ ''baa'' @ [NUL]"
    by (simp add: list_update_append del: replicate_append_same)
  have s: "c_chars ?s = replicate len (CHR ''a'')" by simp
  have s': "c_chars (replicate n (CHR ''a'') @ [CHR ''b'', CHR ''a'', CHR ''a'', NUL]) = replicate n (CHR ''a'') @ ''baa''"
    by (simp add: c_chars_def takeWhile_append)
  have "0 < n" using path by (simp add: n_def len_def path_max_ok_def)
  then show ?thesis
    unfolding string_spn_big_def Let_def len_def [symmetric] path_string [OF path, folded len_def] upd
    using n by (simp add: conforming_search [OF ls] ref_strspn_def ref_strcspn_def s s' c_chars_lit
      takeWhile_append takeWhile_replicate check_EQUAL_INT_eq)
qed

lemma string_spn_passes:
  assumes "search_conforms ls" and "calloc_serves calloc" and "path_max_ok PATH_MAX"
  shows "group_passes m (string_spn ls calloc PATH_MAX)"
  using assms by (simp add: string_spn_def string_spn_basic_passes string_spn_ascii_passes string_spn_not_ascii_passes
    string_spn_texts_pass string_spn_mixed_order_passes string_spn_big_passes)

section \<open>The search group\<close>

lemma first_index_at: "c \<notin> set xs \<Longrightarrow> first_index c (xs @ c # ys) = Some (length xs)"
  by (induction xs) auto

lemma first_index_None: "c \<notin> set xs \<Longrightarrow> first_index c xs = None"
  by (induction xs) auto

lemma last_index_at: "c \<notin> set ys \<Longrightarrow> last_index c (xs @ c # ys) = Some (length xs)"
  using first_index_at [of c "rev ys" "rev xs"] by (simp add: last_index_def)

lemma last_index_None: "c \<notin> set xs \<Longrightarrow> last_index c xs = None"
  by (simp add: last_index_def first_index_None)

lemma char_of_code [simp]: "char_of (code c) = c"
  by (simp add: code_def)

lemma string_chr_big_passes:
  assumes ls: "search_conforms ls" and path: "path_max_ok PATH_MAX"
  shows "script_passes m (string_chr_big ls PATH_MAX b)"
proof -
  define n where "n = PATH_MAX - 5"
  define k where "k = n - 6"
  have P: "PATH_MAX = n + 5" "n = 6 + k" using path by (simp_all add: n_def k_def path_max_ok_def)
  have "PATH_MAX - 1 = n + 4" "PATH_MAX - 5 = n" by (simp_all add: P(1))
  moreover have "replicate (n + 4) (CHR ''a'') = replicate n (CHR ''a'') @ ''aaaa''"
    unfolding replicate_add by (simp add: numeral_eq_Suc)
  moreover have "replicate n (CHR ''a'') = ''aaaaaa'' @ replicate k (CHR ''a'')"
    unfolding P(2) replicate_add by (simp add: numeral_eq_Suc)
  ultimately have s: "(replicate (PATH_MAX - 1) (CHR ''a'') @ [NUL])[PATH_MAX - 5 := CHR ''b''] =
      replicate n (CHR ''a'') @ ''baaa'' @ [NUL]"
    and s': "(replicate n (CHR ''a'') @ ''baaa'' @ [NUL])[PATH_MAX - 5 := CHR ''a'', 5 := CHR ''b''] =
      ''aaaaab'' @ replicate k (CHR ''a'') @ ''aaaa'' @ [NUL]"
    by (simp_all add: list_update_append P(2) del: replicate_append_same)
  define s1 s2 where "s1 = replicate n (CHR ''a'') @ ''baaa'' @ [NUL]"
    and "s2 = ''aaaaab'' @ replicate k (CHR ''a'') @ ''aaaa'' @ [NUL]"
  have c: "c_chars s1 @ [NUL] = s1" "c_chars s2 @ [NUL] = s2"
    by (simp_all add: s1_def s2_def c_chars_def takeWhile_append)
  have l: "length s1 = PATH_MAX" "length s2 = PATH_MAX" "NUL \<in> set s1" "NUL \<in> set s2"
    by (simp_all add: s1_def s2_def P)
  have "first_index (CHR ''b'') s1 = Some n" "last_index (CHR ''b'') s1 = Some n"
    using first_index_at [of "CHR ''b''" "replicate n (CHR ''a'')" "''aaa'' @ [NUL]"]
      last_index_at [of "CHR ''b''" "''aaa'' @ [NUL]" "replicate n (CHR ''a'')"]
    by (simp_all add: s1_def)
  moreover have "first_index (CHR ''b'') s2 = Some 5" "last_index (CHR ''b'') s2 = Some 5"
    using last_index_at [of "CHR ''b''" "replicate k (CHR ''a'') @ ''aaaa'' @ [NUL]" "''aaaaa''"]
    by (simp_all add: s2_def)
  moreover have "first_index (CHR ''a'') s2 = Some 0" "last_index (CHR ''a'') s2 = Some (PATH_MAX - 2)"
    using last_index_at [of "CHR ''a''" "[NUL]" "''aaaaab'' @ replicate k (CHR ''a'') @ ''aaa''"] P
    by (simp_all add: s2_def)
  moreover have "first_index (CHR ''x'') s2 = None" "last_index (CHR ''x'') s2 = None"
    by (simp_all add: first_index_None last_index_None s2_def)
  ultimately show ?thesis
    unfolding string_chr_big_def Let_def path_string [OF path] s [folded s1_def] s' [folded s1_def s2_def]
    using l P(1) by (simp add: conforming_search [OF ls] c)
qed

lemma first_index_nth:
  assumes "i < length s" "\<And>j. j < i \<Longrightarrow> s ! j \<noteq> s ! i"
  shows "first_index (s ! i) s = Some i"
proof -
  have "s ! i \<notin> set (take i s)"
    using assms by (auto simp: in_set_conv_nth)
  then show ?thesis
    using first_index_at [of "s ! i" "take i s" "drop (Suc i) s"] assms(1) by (simp add: id_take_nth_drop [symmetric])
qed

lemma last_index_nth:
  assumes "i < length s" "\<And>j. i < j \<Longrightarrow> j < length s \<Longrightarrow> s ! j \<noteq> s ! i"
  shows "last_index (s ! i) s = Some i"
proof -
  have "s ! i \<notin> set (drop (Suc i) s)"
    using assms by (auto simp: in_set_conv_nth)
  then show ?thesis
    using last_index_at [of "s ! i" "drop (Suc i) s" "take i s"] assms(1) by (simp add: id_take_nth_drop [symmetric])
qed

lemma index_distinct:
  assumes "distinct s" "i < length s"
  shows "first_index (s ! i) s = Some i" "last_index (s ! i) s = Some i"
    "i < n \<Longrightarrow> first_index (s ! i) (take n s) = Some i"
proof -
  show "first_index (s ! i) s = Some i" "last_index (s ! i) s = Some i"
    using assms by (auto intro!: first_index_nth last_index_nth simp: nth_eq_iff_index_eq)
  show "first_index (s ! i) (take n s) = Some i" if "i < n"
    using assms that first_index_nth [of i "take n s"] by (simp add: nth_eq_iff_index_eq)
qed

text \<open>A string without repeated characters, its terminator included: every search finds the position it
  was given.\<close>

lemma distinct_string_searches:
  assumes ls: "search_conforms ls" and s: "NUL \<notin> set t" "distinct t" "i \<le> length t"
  defines "s \<equiv> lit t"
  shows "strchr ls s (code (s ! i)) = Some (Some i)" "strrchr ls s (code (s ! i)) = Some (Some i)"
    "i < n \<Longrightarrow> n \<le> length s \<Longrightarrow> memchr ls s (code (s ! i)) n = Some (Some i)"
proof -
  have "distinct s" "c_chars s @ [NUL] = s" "i < length s" "NUL \<in> set s"
    using s by (simp_all add: s_def c_chars_lit) (simp_all add: lit_def)
  then show "strchr ls s (code (s ! i)) = Some (Some i)" "strrchr ls s (code (s ! i)) = Some (Some i)"
    "i < n \<Longrightarrow> n \<le> length s \<Longrightarrow> memchr ls s (code (s ! i)) n = Some (Some i)"
    using index_distinct [of s i] by (simp_all add: conforming_search [OF ls])
qed

definition special_chars :: string where
  "special_chars = map char_of ([33..<48] @ [58..<65] @ [91..<97] @ [123..<127 :: nat])"

lemma special_chars_facts:
  "specials = lit special_chars" "NUL \<notin> set special_chars" "distinct special_chars" "length special_chars = 32"
  "CHR ''I'' \<notin> set special_chars"
  by (simp add: specials_def special_chars_def, code_simp+)

lemma string_chr_special_passes:
  assumes ls: "search_conforms ls"
  shows "script_passes m (string_chr_special ls b)"
proof -
  note f = special_chars_facts and c = conforming_search [OF ls]
  have len: "strlen ls specials = Some 32" unfolding f(1) using f(2-) by (simp add: c c_chars_lit)
  have at: "char_at specials i = Some (specials ! i)" if "i \<le> 32" for i
    using that f(2-) by (simp add: char_at_def f(1))
  have none: "strchr ls specials (code (CHR ''I'')) = Some None" "strrchr ls specials (code (CHR ''I'')) = Some None"
    "memchr ls specials (code (CHR ''I'')) 32 = Some None"
    unfolding f(1) using f(2-) by (simp_all add: c c_chars_lit first_index_None last_index_None) (simp add: lit_def first_index_None)
  note s = distinct_string_searches [OF ls f(2,3), folded f(1), unfolded f(4)]
  have "length specials = 33" using f(4) by (simp add: f(1))
  then show ?thesis
    unfolding string_chr_special_def len with_result_Some
    using s [of 0] s [of 16] s [of 32] none at [of 32] at [of 16] by simp
qed

lemma string_chr_whitespaces_passes:
  assumes ls: "search_conforms ls"
  shows "script_passes m (string_chr_whitespaces ls b)"
proof -
  note c = conforming_search [OF ls]
  have w: "NUL \<notin> set chr_whites" "distinct chr_whites" "length chr_whites = 9" "CHR ''x'' \<notin> set chr_whites"
    by code_simp+
  note s = distinct_string_searches [OF ls w(1,2), unfolded w(3)]
  let ?t = "lit (''Lorem'' @ chr_whites @ '' Ipsum'')"
  have "NUL \<notin> set (''Lorem'' @ chr_whites @ '' Ipsum'')" "length (''Lorem'' @ chr_whites @ '' Ipsum'') = 20"
    by code_simp+
  then have t: "c_chars ?t = ''Lorem'' @ chr_whites @ '' Ipsum''" "strlen ls ?t = Some 20"
    by (simp_all add: c_chars_lit c)
  have "first_index (CHR ''I'') (''Lorem'' @ chr_whites @ '' Ipsum'' @ [NUL]) = Some 15"
    "last_index (CHR ''I'') (''Lorem'' @ chr_whites @ '' Ipsum'' @ [NUL]) = Some 15"
    "first_index (CHR ''I'') (take 20 ?t) = Some 15" "drop 15 ?t = lit ''Ipsum''" "20 \<le> length ?t"
    by code_simp+
  then have i: "strchr ls ?t (code (CHR ''I'')) = Some (Some 15)" "strrchr ls ?t (code (CHR ''I'')) = Some (Some 15)"
    "memchr ls ?t (code (CHR ''I'')) 20 = Some (Some 15)" "drop 15 ?t = lit ''Ipsum''"
    using t by (simp_all add: c)
  have x: "strchr ls (lit chr_whites) (code (CHR ''x'')) = Some None" "strrchr ls (lit chr_whites) (code (CHR ''x'')) = Some None"
    "memchr ls (lit chr_whites) (code (CHR ''x'')) 9 = Some None"
    using w by (simp_all add: c c_chars_lit first_index_None last_index_None lit_def)
  show ?thesis
    unfolding string_chr_whitespaces_def Let_def t(2) with_result_Some
    using i x s w(3) by (simp add: cstr_equal_def)
qed

lemma string_chr_texts_pass:
  assumes ls: "search_conforms ls"
  shows "script_passes m (string_chr_torn ls b)" "script_passes m (string_chr_empty ls)"
proof -
  note c = conforming_search [OF ls]
  have t: "c_chars torn @ [NUL] = lit ''foo''" "NUL \<in> set torn" "length (c_chars torn) + 1 = 4" "4 \<le> length torn"
    "take 4 torn = lit ''foo''" "c_chars torn = ''foo''" "drop 3 torn = NUL # ''bar'' @ [NUL]" "drop 0 torn = ''foo'' @ NUL # ''bar'' @ [NUL]"
    by code_simp+
  have i: "first_index NUL (lit ''foo'') = Some 3" "last_index NUL (lit ''foo'') = Some 3"
    "first_index (CHR ''f'') (lit ''foo'') = Some 0" "last_index (CHR ''f'') (lit ''foo'') = Some 0"
    "first_index (CHR ''b'') (lit ''foo'') = None" "last_index (CHR ''b'') (lit ''foo'') = None"
    by code_simp+
  have e: "c_chars (lit []) = []" "c_chars (NUL # s) = []" "c_chars (lit ''foo'') = ''foo''"
    "c_chars (''foo'' @ NUL # s) = ''foo''" for s
    by (simp_all add: c_chars_def lit_def)
  show "script_passes m (string_chr_torn ls b)"
    unfolding string_chr_torn_def c(1) [OF t(2)] with_result_Some Let_def t(3)
    using t i e by (simp add: c cstr_equal_def del: append_Cons drop_0)
  show "script_passes m (string_chr_empty ls)"
    by (simp add: string_chr_empty_def c e cstr_equal_def last_index_def) (simp add: lit_def c_chars_def)
qed

lemma string_chr_int_to_char_cast_passes:
  assumes ls: "search_conforms ls"
  shows "script_passes m (string_chr_int_to_char_cast ls b)"
proof -
  have "strrchr ls [char_of v, NUL] v = Some (Some 0)" for v :: int
    by (simp add: conforming_search [OF ls] c_chars_def last_index_def)
  then show ?thesis by (simp add: string_chr_int_to_char_cast_def Let_def)
qed

lemma string_chr_basic_passes:
  assumes ls: "search_conforms ls"
  shows "script_passes m (string_chr_basic ls b)"
proof -
  note c = conforming_search [OF ls]
  define t where "t = ''Lorem ipsum dolor sit amet, consectetur adipiscing elit y''"
  have t: "NUL \<notin> set t" "length t = 57" "first_index (CHR ''L'') (lit t) = Some 0" "last_index (CHR ''L'') (lit t) = Some 0"
    "first_index (CHR ''l'') (lit t) = Some 14" "last_index (CHR ''l'') (lit t) = Some 52"
    "first_index (CHR ''x'') (lit t) = None" "last_index (CHR ''x'') (lit t) = None"
    "first_index NUL (lit t) = Some 57" "last_index NUL (lit t) = Some 57"
    "first_index (CHR ''L'') (take 57 (lit t)) = Some 0" "first_index (CHR ''l'') (take 57 (lit t)) = Some 14"
    "first_index (CHR ''x'') (take 57 (lit t)) = None" "char_at (lit t) 57 = Some NUL"
    unfolding t_def by code_simp+
  have s: "c_chars (lit t) @ [NUL] = lit t" using t(1) by (simp add: c_chars_lit) (simp add: lit_def)
  have l: "strlen ls (lit t) = Some 57" using t(1,2) by (simp add: c c_chars_lit)
  have len: "length (lit t) = 58" using t(2) by simp
  show ?thesis
    unfolding string_chr_basic_def t_def [symmetric] Let_def l with_result_Some t(14)
    using t(3-13) s len by (simp add: c)
qed

lemma string_chr_ascii_passes:
  assumes ls: "search_conforms ls" and alloc: "calloc_serves calloc"
  shows "script_passes m (string_chr_ascii ls calloc b)"
proof -
  note c = conforming_search [OF ls]
  define n where "n = (127 :: nat)"
  define t where "t = char_str (n + 1)"
  have s: "c_chars t @ [NUL] = t" "NUL \<in> set t" "length t = n + 1"
    using char_str_chars [of "n + 1"] by (simp_all add: t_def)
  have at: "(of_char (t ! i) :: nat) = (if i = 0 then 1 else if i = n then 0 else i)" if "i \<le> n" for i
  proof (cases "i < n")
    case True
    then show ?thesis using that by (simp add: t_def of_char_str_at n_def)
  next
    case False
    then have "i = n" using that by simp
    then show ?thesis using char_str_nth(3) [of "n + 1"] by (simp add: t_def n_def)
  qed
  have eq: "t ! i = t ! j \<longleftrightarrow> (of_char (t ! i) :: nat) = of_char (t ! j)" for i j by simp
  have f: "first_index (t ! i) t = Some i" if "i = 0 \<or> i = 63 \<or> i = n" for i
    by (rule first_index_nth) (use that in \<open>auto simp: s eq at n_def simp del: of_char_eq_iff split: if_splits\<close>)
  have l: "last_index (t ! i) t = Some i" if "i = 63 \<or> i = n" for i
    by (rule last_index_nth) (use that in \<open>auto simp: s eq at n_def simp del: of_char_eq_iff split: if_splits\<close>)
  have "t ! 0 = t ! 1" by (simp add: eq at n_def del: of_char_eq_iff)
  moreover have "last_index (t ! 1) t = Some 1"
    by (rule last_index_nth) (auto simp: s eq at n_def simp del: of_char_eq_iff split: if_splits)
  ultimately have l0: "last_index (t ! 0) t = Some 1" by simp
  have n: "n + 1 \<le> 4096" "n div 2 = 63" by (simp_all add: n_def)
  show ?thesis
    unfolding string_chr_ascii_def n_def [symmetric] Let_def allocated_passes [OF alloc n(1)] with_result_Some t_def [symmetric] n(2)
    using f [of 0] f [of 63] f [of n] l [of 63] l [of n] l0 s by (simp add: c)
qed

lemma string_chr_not_ascii_chars_passes:
  assumes ls: "search_conforms ls"
  shows "script_passes m (string_chr_not_ascii_chars ls)"
proof -
  note c = conforming_search [OF ls]
  let ?f = "\<lambda>i. char_of (i + 128) :: char"
  have buf: "fold (\<lambda>i s. s[i := ?f i]) [0..<Suc i] (replicate 129 NUL) =
      map ?f [0..<i] @ ?f i # NUL # replicate (127 - i) NUL" if "i < 128" for i
  proof -
    have "drop (Suc i) (replicate 129 NUL) = NUL # replicate (127 - i) NUL"
      using that by (simp add: Suc_diff_le flip: replicate_Suc)
    then show ?thesis
      using that fill_loop_eq [of "Suc i" "replicate 129 NUL" ?f] by (simp add: fill_loop_def)
  qed
  have "strchr ls s (code (s ! i)) = Some (Some i) \<and> strrchr ls s (code (s ! i)) = Some (Some i) \<and>
      memchr ls s (code (s ! i)) 129 = Some (Some i)"
    if "i < 128" and s: "s = map ?f [0..<i] @ ?f i # NUL # replicate (127 - i) NUL" for i s
  proof -
    have i: "s ! i = ?f i" "length s = 129" "NUL \<in> set s" using that by (simp_all add: nth_append)
    have "NUL \<notin> set (map ?f [0..<Suc i])" using \<open>i < 128\<close> by (auto simp: char_of_NUL_iff dest!: sym [of NUL])
    then have u: "c_chars s @ [NUL] = map ?f [0..<i] @ ?f i # [NUL]"
      using c_chars_append_NUL [of "map ?f [0..<Suc i]" "replicate (127 - i) NUL"] by (simp add: s)
    have "?f i \<notin> set (map ?f [0..<i])" "?f i \<noteq> NUL" using \<open>i < 128\<close> by (auto simp: char_of_NUL_iff)
    then have "first_index (?f i) (c_chars s @ [NUL]) = Some i" "last_index (?f i) (c_chars s @ [NUL]) = Some i"
      "first_index (?f i) s = Some i"
      unfolding u using first_index_at [of "?f i" "map ?f [0..<i]"] last_index_at [of "?f i" "[NUL]" "map ?f [0..<i]"]
      by (simp_all add: s)
    with i show ?thesis by (simp add: c)
  qed
  moreover have "(replicate 129 NUL)[128 := NUL] = replicate 129 NUL"
    by (intro nth_equalityI) (simp_all add: nth_list_update)
  ultimately show ?thesis
    by (simp add: string_chr_not_ascii_chars_def Let_def loop_steps_passes buf cstr_equal_def del: upt_Suc)
qed

lemma string_chr_memchr_size_passes:
  assumes ls: "search_conforms ls"
  shows "script_passes m (string_chr_memchr_size ls b)"
proof -
  note c = conforming_search [OF ls]
  let ?N = LENCHR_SIZE
  have buf: "fold (\<lambda>i s. s[i := char_of i]) [0..<Suc i] (replicate ?N NUL) =
      map char_of [0..<Suc i] @ replicate (?N - Suc i) NUL" if "i < ?N" for i
    using that fill_loop_eq [of "Suc i" "replicate ?N NUL" char_of] by (simp add: fill_loop_def)
  have "memchr ls s (code (s ! i)) (i + 1) = Some (Some i) \<and> memchr ls s (code (s ! i)) i = Some None"
    if i: "i < ?N" and s: "s = map char_of [0..<Suc i] @ replicate (?N - Suc i) NUL" for i s
  proof -
    have f: "s ! i = char_of i" "take (Suc i) s = map char_of [0..<i] @ [char_of i]" "take i s = map char_of [0..<i]"
      "length s = ?N"
      using i by (simp_all add: s nth_append)
    have "char_of i \<notin> set (map char_of [0..<i] :: string)" using i by (auto simp: LENCHR_SIZE_def)
    then show ?thesis
      using i first_index_at [of "char_of i" "map char_of [0..<i]" "[]"] by (simp add: c f first_index_None)
  qed
  then show ?thesis
    by (simp add: string_chr_memchr_size_def loop_steps_passes buf del: upt_Suc)
qed

lemma string_chr_passes:
  assumes "search_conforms ls" and "calloc_serves calloc" and "path_max_ok PATH_MAX"
  shows "group_passes m (string_chr ls calloc PATH_MAX b)"
  using assms by (simp add: string_chr_def string_chr_basic_passes string_chr_big_passes string_chr_memchr_size_passes
    string_chr_special_passes string_chr_whitespaces_passes string_chr_texts_pass string_chr_ascii_passes
    string_chr_not_ascii_chars_passes string_chr_int_to_char_cast_passes)

section \<open>Properties\<close>

text \<open>The groups of \<^verbatim>\<open>src/libc/string/main.c\<close> from this file, in the order in which its \<^verbatim>\<open>runner\<close> runs them.\<close>

definition string_lenchr_groups :: "libc_search \<Rightarrow> (nat \<Rightarrow> string option) \<Rightarrow> nat \<Rightarrow> ptr \<Rightarrow> test_groups" where
  "string_lenchr_groups ls calloc PATH_MAX b =
     [(''string_len'', string_len ls calloc PATH_MAX), (''string_chr'', string_chr ls calloc PATH_MAX b),
      (''string_spn'', string_spn ls calloc PATH_MAX)]"

text \<open>C7: The length, search and span tests raise no false alarm: with every C library that computes the
  lengths, positions and spans of the C standard on readable arguments, with memory for the test
  strings, with a path limit of at least 256 bytes and whatever the address of the buffers, all tests
  of the three groups run to their end, and running the groups adds one \<^verbatim>\<open>PASS\<close> line per selected test
  and no failure.\<close>

theorem string_lenchr_no_false_alarm:
  assumes "search_conforms ls" and "calloc_serves calloc" and "path_max_ok PATH_MAX" and "ready w"
  shows "groups_pass (memory w) (string_lenchr_groups ls calloc PATH_MAX b) \<and>
    run_abs (RUN_TEST_GROUP (groups_cases fname (string_lenchr_groups ls calloc PATH_MAX b)) w) =
      all_passed (groups_cases fname (string_lenchr_groups ls calloc PATH_MAX b)) w"
proof -
  have "groups_pass (memory w) (string_lenchr_groups ls calloc PATH_MAX b)"
    using assms(1-3) by (simp add: groups_pass_def string_lenchr_groups_def string_len_passes string_chr_passes
      string_spn_passes)
  then show ?thesis using groups_run [OF assms(4)] by simp
qed

theorem string_lenchr_no_false_alarm_witness:
  "search_conforms ref_search \<and> calloc_serves example_calloc \<and> path_max_ok 1024 \<and> ready Fixture \<and>
   groups_pass (memory Fixture) (string_lenchr_groups ref_search example_calloc 1024 4096) \<and>
   TestFailures (RUN_TEST_GROUP (groups_cases None (string_lenchr_groups ref_search example_calloc 1024 4096)) Fixture) = 0"
proof -
  have p: "path_max_ok 1024" by (simp add: path_max_ok_def)
  show ?thesis
    using string_lenchr_no_false_alarm [OF ref_search_conforms example_calloc_serves p ready_Fixture, of 4096 None]
      ref_search_conforms example_calloc_serves p
    by (simp add: run_abs_def all_passed_def) (simp add: Fixture_def Unity_def unity_world.defs unity_fixture_world.defs)
qed

end
