(* ===== verification/Spec2Isabelle.thy ===== *)
theory Spec2Isabelle
  imports Unity_Options Libc_String_Cmp Libc_String_Lenchr
begin

text \<open>
  A verification library for phoenix-rtos-tests.
\<close>

end
